(* ===== verification/Prelude.thy ===== *)
theory Prelude
  imports Main "HOL-Library.Char_ord" "HOL-Library.List_Lexorder" "HOL-Library.Sublist"
begin

text \<open>
  Shared vocabulary of the development: Go's \<open>error\<close> values, results with an error branch, and
  the generic list facts the component theories use.

  A Go string is a sequence of bytes, and so is a HOL \<open>string\<close> (a list of 8-bit characters); the
  order on strings is the bytewise lexicographic one of \<open>HOL-Library.List_Lexorder\<close>, which is
  what Go's \<open><\<close> on strings compares.
\<close>

named_theorems go_simps \<open>equations of the modelled Go standard library\<close>

section \<open>Errors\<close>

text \<open>
  The sentinels of \<open>internal/persistence/repositories.go\<close> and \<open>cmd/bobberd/main.go\<close>, a failure
  reported by the database driver, a \<open>strconv.NumError\<close> (function, input, reason), a \<open>time.ParseError\<close>
  (input), a plain \<open>errors.New\<close>/\<open>fmt.Errorf\<close> message, a message that wraps another error with
  \<open>%w\<close>, and a run-time panic, which ends the call and is no error value. A message is the literal
  text followed by its operands as they are: the quoting that \<open>%q\<close> adds for display is not reproduced.
\<close>

datatype go_error =
    ErrNotFound
  | ErrAlreadyExists
  | ErrInvalidInput
  | ErrConflict
  | ErrRateLimited
  | ErrNoRows
  | ErrDriver string
  | NumError string string string
  | TimeParseError string
  | Err string
  | Panic string
  | Wrap string go_error

text \<open>The model of \<open>errors.Is\<close>: the target is found along the chain of wrapped errors.\<close>

fun errors_Is :: "go_error \<Rightarrow> go_error \<Rightarrow> bool" where
  "errors_Is (Wrap m e) t = (Wrap m e = t \<or> errors_Is e t)"
| "errors_Is e t = (e = t)"

type_synonym 'a res = "go_error + 'a"

abbreviation Fail :: "go_error \<Rightarrow> 'a res" where
  "Fail \<equiv> Inl"

abbreviation Ok :: "'a \<Rightarrow> 'a res" where
  "Ok \<equiv> Inr"

definition is_ok :: "'a res \<Rightarrow> bool" where
  "is_ok r = (case r of Inl _ \<Rightarrow> False | Inr _ \<Rightarrow> True)"

lemma is_ok_simps [simp]: "is_ok (Inr x)" "\<not> is_ok (Inl e)"
  by (simp_all add: is_ok_def)

lemma is_ok_iff: "is_ok r \<longleftrightarrow> (\<exists>x. r = Inr x)"
  by (cases r) auto

section \<open>Lists\<close>

lemma prefix_drop_length: "prefix p s \<Longrightarrow> s = p @ drop (length p) s"
  by (auto simp: prefix_def)

lemma suffix_take_length: "suffix p s \<Longrightarrow> s = take (length s - length p) s @ p"
  by (auto simp: suffix_def)

lemma find_Some_prop: "find P xs = Some x \<Longrightarrow> x \<in> set xs \<and> P x"
  by (auto simp: find_Some_iff)

lemma those_cong: "(\<And>x. x \<in> set xs \<Longrightarrow> g x = Some (f x)) \<Longrightarrow> those (map g xs) = Some (map f xs)"
  by (induction xs) simp_all

lemma those_total: "those (map (\<lambda>x. Some (f x)) xs) = Some (map f xs)"
  by (rule those_cong) simp

end
