(* ===== verification/GoStrings.thy ===== *)
theory GoStrings
  imports Prelude
begin

text \<open>
  The functions of Go's \<open>strings\<close> and \<open>strconv\<close> packages that the sources call, on byte strings,
  with the laws the components rely on.
\<close>

section \<open>\<open>strings.TrimSpace\<close>\<close>

text \<open>
  The UTF-8 encodings of the runes for which \<open>unicode.IsSpace\<close> holds: the ASCII ones, U+0085,
  U+00A0, U+1680, U+2000 to U+200A, U+2028, U+2029, U+202F, U+205F and U+3000. UTF-8 is
  self-synchronising, so the first (last) rune of a string is one of them iff the string starts
  (ends) with its encoding.
\<close>

definition space_encodings :: "string list" where
  "space_encodings =
     [[CHR 0x09], [CHR 0x0A], [CHR 0x0B], [CHR 0x0C], [CHR 0x0D], [CHR 0x20],
      [CHR 0xC2, CHR 0x85], [CHR 0xC2, CHR 0xA0], [CHR 0xE1, CHR 0x9A, CHR 0x80],
      [CHR 0xE2, CHR 0x80, CHR 0x80], [CHR 0xE2, CHR 0x80, CHR 0x81],
      [CHR 0xE2, CHR 0x80, CHR 0x82], [CHR 0xE2, CHR 0x80, CHR 0x83],
      [CHR 0xE2, CHR 0x80, CHR 0x84], [CHR 0xE2, CHR 0x80, CHR 0x85],
      [CHR 0xE2, CHR 0x80, CHR 0x86], [CHR 0xE2, CHR 0x80, CHR 0x87],
      [CHR 0xE2, CHR 0x80, CHR 0x88], [CHR 0xE2, CHR 0x80, CHR 0x89],
      [CHR 0xE2, CHR 0x80, CHR 0x8A], [CHR 0xE2, CHR 0x80, CHR 0xA8],
      [CHR 0xE2, CHR 0x80, CHR 0xA9], [CHR 0xE2, CHR 0x80, CHR 0xAF],
      [CHR 0xE2, CHR 0x81, CHR 0x9F], [CHR 0xE3, CHR 0x80, CHR 0x80]]"

lemma space_encodings_nonempty: "p \<in> set space_encodings \<Longrightarrow> p \<noteq> []"
  by (auto simp: space_encodings_def)

function trim_left :: "string \<Rightarrow> string" where
  "trim_left s =
     (case find (\<lambda>p. prefix p s) space_encodings of
        None \<Rightarrow> s
      | Some p \<Rightarrow> trim_left (drop (length p) s))"
  by pat_completeness auto
termination
proof (relation "measure length")
  fix s p
  assume "find (\<lambda>p. prefix p s) space_encodings = Some p"
  then have "p \<in> set space_encodings" and "prefix p s"
    by (auto dest: find_Some_prop)
  then have "p \<noteq> []" and "prefix p s"
    using space_encodings_nonempty by blast+
  then show "(drop (length p) s, s) \<in> measure length"
    by (cases p; cases s) auto
qed simp

function trim_right :: "string \<Rightarrow> string" where
  "trim_right s =
     (case find (\<lambda>p. suffix p s) space_encodings of
        None \<Rightarrow> s
      | Some p \<Rightarrow> trim_right (take (length s - length p) s))"
  by pat_completeness auto
termination
proof (relation "measure length")
  fix s p
  assume "find (\<lambda>p. suffix p s) space_encodings = Some p"
  then have "p \<in> set space_encodings" and "suffix p s"
    by (auto dest: find_Some_prop)
  then have "p \<noteq> []" and "suffix p s"
    using space_encodings_nonempty by blast+
  then show "(take (length s - length p) s, s) \<in> measure length"
    by (cases p) (auto simp: suffix_def)
qed simp

declare trim_left.simps [simp del] trim_right.simps [simp del]

definition TrimSpace :: "string \<Rightarrow> string" where
  "TrimSpace s = trim_right (trim_left s)"

text \<open>A string is trimmed when no space rune stands at either end.\<close>

definition starts_space :: "string \<Rightarrow> bool" where
  "starts_space s \<longleftrightarrow> (\<exists>p \<in> set space_encodings. prefix p s)"

definition ends_space :: "string \<Rightarrow> bool" where
  "ends_space s \<longleftrightarrow> (\<exists>p \<in> set space_encodings. suffix p s)"

lemma trim_left_id: "\<not> starts_space s \<Longrightarrow> trim_left s = s"
  by (subst trim_left.simps) (auto simp: starts_space_def find_None_iff split: option.splits
      dest: find_Some_prop)

lemma trim_right_id: "\<not> ends_space s \<Longrightarrow> trim_right s = s"
  by (subst trim_right.simps) (auto simp: ends_space_def find_None_iff split: option.splits
      dest: find_Some_prop)

lemma trim_left_not_starts: "\<not> starts_space (trim_left s)"
proof (induction s rule: trim_left.induct)
  case (1 s)
  show ?case
  proof (cases "find (\<lambda>p. prefix p s) space_encodings")
    case None
    then have "\<not> starts_space s" by (auto simp: starts_space_def find_None_iff)
    then show ?thesis by (simp add: trim_left_id)
  next
    case (Some p)
    with 1 show ?thesis by (subst trim_left.simps) simp
  qed
qed

lemma trim_right_not_ends: "\<not> ends_space (trim_right s)"
proof (induction s rule: trim_right.induct)
  case (1 s)
  show ?case
  proof (cases "find (\<lambda>p. suffix p s) space_encodings")
    case None
    then have "\<not> ends_space s" by (auto simp: ends_space_def find_None_iff)
    then show ?thesis by (simp add: trim_right_id)
  next
    case (Some p)
    with 1 show ?thesis by (subst trim_right.simps) simp
  qed
qed

lemma trim_right_prefix: "prefix (trim_right s) s"
proof (induction s rule: trim_right.induct)
  case (1 s)
  show ?case
  proof (cases "find (\<lambda>p. suffix p s) space_encodings")
    case None
    then show ?thesis by (subst trim_right.simps) simp
  next
    case (Some p)
    with 1 have "prefix (trim_right (take (length s - length p) s)) (take (length s - length p) s)"
      by simp
    then have "prefix (trim_right (take (length s - length p) s)) s"
      by (rule prefix_order.trans) (rule take_is_prefix)
    with Some show ?thesis by (subst trim_right.simps) simp
  qed
qed

lemma TrimSpace_trimmed:
  "\<not> starts_space (TrimSpace s)" "\<not> ends_space (TrimSpace s)"
proof -
  have "prefix (TrimSpace s) (trim_left s)"
    by (simp add: TrimSpace_def trim_right_prefix)
  then show "\<not> starts_space (TrimSpace s)"
    using trim_left_not_starts [of s] by (auto simp: starts_space_def intro: prefix_order.trans)
  show "\<not> ends_space (TrimSpace s)"
    by (simp add: TrimSpace_def trim_right_not_ends)
qed

lemma TrimSpace_id: "\<not> starts_space s \<Longrightarrow> \<not> ends_space s \<Longrightarrow> TrimSpace s = s"
  by (simp add: TrimSpace_def trim_left_id trim_right_id)

lemma TrimSpace_idem [simp]: "TrimSpace (TrimSpace s) = TrimSpace s"
  by (rule TrimSpace_id) (rule TrimSpace_trimmed)+

lemma TrimSpace_eq_iff: "TrimSpace s = s \<longleftrightarrow> \<not> starts_space s \<and> \<not> ends_space s"
  using TrimSpace_trimmed [of s] TrimSpace_id by fastforce

text \<open>The executable test of a concrete string: its ends carry no byte of a space rune.\<close>

definition space_bytes :: "char list" where
  "space_bytes = concat space_encodings"

lemma hd_in_space_bytes: "starts_space s \<Longrightarrow> s \<noteq> [] \<and> hd s \<in> set space_bytes"
proof -
  assume "starts_space s"
  then obtain p where p: "p \<in> set space_encodings" "prefix p s" by (auto simp: starts_space_def)
  then have "p \<noteq> []" by (auto dest: space_encodings_nonempty)
  with p have "hd s \<in> set p" and "s \<noteq> []" by (auto simp: prefix_def)
  with p(1) show ?thesis by (auto simp: space_bytes_def)
qed

lemma last_in_space_bytes: "ends_space s \<Longrightarrow> s \<noteq> [] \<and> last s \<in> set space_bytes"
proof -
  assume "ends_space s"
  then obtain p where p: "p \<in> set space_encodings" "suffix p s" by (auto simp: ends_space_def)
  then have "p \<noteq> []" by (auto dest: space_encodings_nonempty)
  with p have "last s \<in> set p" and "s \<noteq> []" by (auto simp: suffix_def)
  with p(1) show ?thesis by (auto simp: space_bytes_def)
qed

lemma TrimSpace_plain:
  "s = [] \<or> (hd s \<notin> set space_bytes \<and> last s \<notin> set space_bytes) \<Longrightarrow> TrimSpace s = s"
  using hd_in_space_bytes last_in_space_bytes by (blast intro: TrimSpace_id)

lemma trim_right_drops: "set (drop (length (trim_right s)) s) \<subseteq> set space_bytes"
proof (induction s rule: trim_right.induct)
  case (1 s)
  show ?case
  proof (cases "find (\<lambda>p. suffix p s) space_encodings")
    case None
    then show ?thesis by (subst trim_right.simps) simp
  next
    case (Some p)
    then have p: "p \<in> set space_encodings" "suffix p s" by (auto dest: find_Some_prop)
    define a where "a = take (length s - length p) s"
    have s: "s = a @ p" using suffix_take_length [OF p(2)] by (simp add: a_def)
    have "trim_right s = trim_right a" using Some by (subst trim_right.simps) (simp add: a_def)
    moreover have "length (trim_right a) \<le> length a" using trim_right_prefix by (rule prefix_length_le)
    moreover have "set p \<subseteq> set space_bytes" using p(1) by (auto simp: space_bytes_def)
    ultimately show ?thesis using 1 [OF Some] by (simp add: s a_def [symmetric])
  qed
qed

lemma TrimSpace_nonempty: "s \<noteq> [] \<Longrightarrow> hd s \<notin> set space_bytes \<Longrightarrow> TrimSpace s \<noteq> []"
proof -
  assume s: "s \<noteq> []" "hd s \<notin> set space_bytes"
  then have "trim_left s = s" using trim_left_id hd_in_space_bytes by blast
  moreover have "trim_right s \<noteq> []" using trim_right_drops [of s] s by (cases s) auto
  ultimately show ?thesis by (simp add: TrimSpace_def)
qed

lemma TrimSpace_Nil [simp]: "TrimSpace [] = []"
  by (simp add: TrimSpace_plain)

section \<open>Splitting, joining, prefixes\<close>

text \<open>\<open>strings.Split\<close> with a one-byte separator; the result is never empty.\<close>

fun Split :: "string \<Rightarrow> char \<Rightarrow> string list" where
  "Split [] c = [[]]"
| "Split (x # xs) c =
     (if x = c then [] # Split xs c
      else (case Split xs c of [] \<Rightarrow> [[x]] | h # t \<Rightarrow> (x # h) # t))"

fun Join :: "string list \<Rightarrow> string \<Rightarrow> string" where
  "Join [] sep = []"
| "Join [x] sep = x"
| "Join (x # y # xs) sep = x @ sep @ Join (y # xs) sep"

text \<open>\<open>strings.Cut\<close>: the text before and after the first separator, and whether it was found.\<close>

fun Cut :: "string \<Rightarrow> char \<Rightarrow> string \<times> string \<times> bool" where
  "Cut [] c = ([], [], False)"
| "Cut (x # xs) c =
     (if x = c then ([], xs, True)
      else (case Cut xs c of (b, a, f) \<Rightarrow> (x # b, a, f)))"

definition HasPrefix :: "string \<Rightarrow> string \<Rightarrow> bool" where
  "HasPrefix s p = prefix p s"

definition HasSuffix :: "string \<Rightarrow> string \<Rightarrow> bool" where
  "HasSuffix s p = suffix p s"

definition TrimPrefix :: "string \<Rightarrow> string \<Rightarrow> string" where
  "TrimPrefix s p = (if prefix p s then drop (length p) s else s)"

fun Contains :: "string \<Rightarrow> string \<Rightarrow> bool" where
  "Contains [] t = (t = [])"
| "Contains (x # xs) t = (prefix t (x # xs) \<or> Contains xs t)"

lemma Split_nonempty [simp]: "Split s c \<noteq> []"
  by (induction s) (auto split: list.splits)

lemma Join_Cons: "xs \<noteq> [] \<Longrightarrow> Join (x # xs) sep = x @ sep @ Join xs sep"
  by (cases xs) auto

lemma Join_Split: "Join (Split s c) [c] = s"
proof (induction s)
  case Nil
  then show ?case by simp
next
  case (Cons x xs)
  obtain h t where ht: "Split xs c = h # t" by (cases "Split xs c") simp_all
  with Cons show ?case by (cases t) (auto simp: Join_Cons)
qed

lemma Split_no_sep: "c \<notin> set s \<Longrightarrow> Split s c = [s]"
  by (induction s) auto

lemma Split_append_sep: "c \<notin> set a \<Longrightarrow> Split (a @ c # b) c = a # Split b c"
  by (induction a) auto

lemma Split_Join:
  "ps \<noteq> [] \<Longrightarrow> \<forall>p \<in> set ps. c \<notin> set p \<Longrightarrow> Split (Join ps [c]) c = ps"
proof (induction ps rule: list_nonempty_induct)
  case (single x)
  then show ?case by (simp add: Split_no_sep)
next
  case (cons x xs)
  then show ?case by (simp add: Join_Cons Split_append_sep)
qed

lemma Split_parts: "p \<in> set (Split s c) \<Longrightarrow> c \<notin> set p \<and> set p \<subseteq> set s"
proof (induction s arbitrary: p)
  case (Cons x xs)
  obtain h t where ht: "Split xs c = h # t" by (cases "Split xs c") simp_all
  with Cons show ?case by (fastforce split: if_splits)
qed simp

lemma set_concat_Split: "set s \<subseteq> insert c (\<Union> (set ` set (Split s c)))"
proof (induction s)
  case (Cons x xs)
  obtain h t where ht: "Split xs c = h # t" by (cases "Split xs c") simp_all
  with Cons show ?case by auto
qed simp

lemma Cut_not_found: "c \<notin> set s \<Longrightarrow> Cut s c = (s, [], False)"
  by (induction s) auto

lemma Cut_found: "c \<notin> set a \<Longrightarrow> Cut (a @ c # b) c = (a, b, True)"
  by (induction a) auto

lemma Cut_True: "Cut s c = (a, b, True) \<Longrightarrow> s = a @ c # b \<and> c \<notin> set a"
  by (induction s arbitrary: a) (auto split: if_splits prod.splits)

lemma Cut_False: "Cut s c = (a, b, False) \<Longrightarrow> a = s \<and> b = [] \<and> c \<notin> set s"
  by (induction s arbitrary: a) (auto split: if_splits prod.splits)

lemma Contains_iff: "Contains s t \<longleftrightarrow> (\<exists>a b. s = a @ t @ b)"
proof (induction s)
  case (Cons x xs)
  show ?case
  proof
    assume "Contains (x # xs) t"
    then consider "prefix t (x # xs)" | "Contains xs t" by auto
    then show "\<exists>a b. x # xs = a @ t @ b"
    proof cases
      case 1
      then show ?thesis by (metis append_Nil prefix_def)
    next
      case 2
      then show ?thesis by (metis Cons.IH append_Cons)
    qed
  next
    assume "\<exists>a b. x # xs = a @ t @ b"
    then obtain a b where "x # xs = a @ t @ b" by blast
    then consider "x # xs = t @ b" | "xs = tl a @ t @ b" by (cases a) auto
    then show "Contains (x # xs) t"
    proof cases
      case 1
      then have "prefix t (x # xs)" by (rule prefixI)
      then show ?thesis by simp
    next
      case 2
      then show ?thesis using Cons.IH by auto
    qed
  qed
qed auto

section \<open>Letter case\<close>

text \<open>
  \<open>strings.ToLower\<close> maps an all-ASCII string bytewise; on other strings it consults the Unicode
  tables, which are the parameter \<open>ulower\<close>. \<open>strings.EqualFold\<close> is used on ASCII constants
  without the letters k and s, for which folding is ASCII folding.
\<close>

definition is_upper :: "char \<Rightarrow> bool" where
  "is_upper c \<longleftrightarrow> CHR ''A'' \<le> c \<and> c \<le> CHR ''Z''"

definition char_lower :: "char \<Rightarrow> char" where
  "char_lower c = (if is_upper c then char_of (of_char c + 32 :: nat) else c)"

definition is_ascii :: "string \<Rightarrow> bool" where
  "is_ascii s = list_all (\<lambda>c. c \<le> CHR 0x7F) s"

definition ToLower :: "(string \<Rightarrow> string) \<Rightarrow> string \<Rightarrow> string" where
  "ToLower ulower s = (if is_ascii s then map char_lower s else ulower s)"

definition EqualFold :: "string \<Rightarrow> string \<Rightarrow> bool" where
  "EqualFold s t \<longleftrightarrow> map char_lower s = map char_lower t"

section \<open>Decimal integers: \<open>strconv.Itoa\<close>, \<open>strconv.Atoi\<close>, \<open>strconv.ParseUint\<close>\<close>

definition is_digit :: "char \<Rightarrow> bool" where
  "is_digit c \<longleftrightarrow> CHR ''0'' \<le> c \<and> c \<le> CHR ''9''"

definition digit_val :: "char \<Rightarrow> nat" where
  "digit_val c = of_char c - 48"

definition digit_char :: "nat \<Rightarrow> char" where
  "digit_char d = char_of (48 + d)"

definition dec_value :: "string \<Rightarrow> nat" where
  "dec_value s = foldl (\<lambda>a c. 10 * a + digit_val c) 0 s"

fun dec_digits :: "nat \<Rightarrow> string" where
  "dec_digits n =
     (if n < 10 then [digit_char n] else dec_digits (n div 10) @ [digit_char (n mod 10)])"

declare dec_digits.simps [simp del]

definition Itoa :: "int \<Rightarrow> string" where
  "Itoa i = (if i < 0 then CHR ''-'' # dec_digits (nat (- i)) else dec_digits (nat i))"

definition int64_min :: int where "int64_min = - (2 ^ 63)"
definition int64_max :: int where "int64_max = 2 ^ 63 - 1"

definition all_digits :: "string \<Rightarrow> bool" where
  "all_digits s \<longleftrightarrow> s \<noteq> [] \<and> list_all is_digit s"

text \<open>The optional sign of \<open>strconv.ParseInt\<close>: the sign and the remaining text.\<close>

fun sign_split :: "string \<Rightarrow> bool \<times> string" where
  "sign_split (c # s) =
     (if c = CHR ''-'' then (True, s) else if c = CHR ''+'' then (False, s) else (False, c # s))"
| "sign_split [] = (False, [])"

definition ParseIntBase10 :: "string \<Rightarrow> string \<Rightarrow> int res" where
  "ParseIntBase10 fn s =
     (case sign_split s of (neg, ds) \<Rightarrow>
        if \<not> all_digits ds then Fail (NumError fn s ''invalid syntax'')
        else let v = (if neg then - int (dec_value ds) else int (dec_value ds)) in
          if v < int64_min \<or> int64_max < v then Fail (NumError fn s ''value out of range'')
          else Ok v)"

definition Atoi :: "string \<Rightarrow> int res" where
  "Atoi s = ParseIntBase10 ''Atoi'' s"

definition ParseUint :: "string \<Rightarrow> nat \<Rightarrow> nat res" where
  "ParseUint s bits =
     (if \<not> all_digits s then Fail (NumError ''ParseUint'' s ''invalid syntax'')
      else if 2 ^ bits \<le> dec_value s then Fail (NumError ''ParseUint'' s ''value out of range'')
      else Ok (dec_value s))"

lemma of_char_digit_char: "d < 10 \<Longrightarrow> (of_char (digit_char d) :: nat) = 48 + d"
  by (simp add: digit_char_def)

lemma digit_val_digit_char [simp]: "d < 10 \<Longrightarrow> digit_val (digit_char d) = d"
  by (simp add: digit_val_def of_char_digit_char)

lemma is_digit_digit_char [simp]: "d < 10 \<Longrightarrow> is_digit (digit_char d)"
  by (simp add: is_digit_def less_eq_char_def of_char_digit_char)

lemma dec_value_append: "dec_value (s @ [c]) = 10 * dec_value s + digit_val c"
  by (simp add: dec_value_def)

lemma dec_digits_value [simp]: "dec_value (dec_digits n) = n"
proof (induction n rule: dec_digits.induct)
  case (1 n)
  show ?case
  proof (cases "n < 10")
    case True
    then show ?thesis by (subst dec_digits.simps) (simp add: dec_value_def)
  next
    case False
    with 1 show ?thesis by (subst dec_digits.simps) (simp add: dec_value_append)
  qed
qed

lemma dec_digits_all_digits [simp]: "all_digits (dec_digits n)"
proof (induction n rule: dec_digits.induct)
  case (1 n)
  show ?case
  proof (cases "n < 10")
    case True
    then show ?thesis by (subst dec_digits.simps) (simp add: all_digits_def)
  next
    case False
    with 1 show ?thesis by (subst dec_digits.simps) (simp add: all_digits_def)
  qed
qed

lemma sign_split_digits:
  assumes "all_digits s"
  shows "sign_split s = (False, s)"
proof (cases s)
  case (Cons c t)
  with assms have "is_digit c" by (simp add: all_digits_def)
  then have "c \<noteq> CHR ''-''" and "c \<noteq> CHR ''+''"
    by (auto simp: is_digit_def less_eq_char_def)
  with Cons show ?thesis by simp
qed simp

lemma Atoi_Itoa:
  assumes "int64_min \<le> i" and "i \<le> int64_max"
  shows "Atoi (Itoa i) = Ok i"
  using assms by (auto simp: Atoi_def Itoa_def ParseIntBase10_def sign_split_digits)

lemma Atoi_range: "Atoi s = Ok i \<Longrightarrow> int64_min \<le> i \<and> i \<le> int64_max"
  by (auto simp: Atoi_def ParseIntBase10_def Let_def split: prod.splits if_splits)

lemma digit_not_space: "is_digit c \<Longrightarrow> c \<notin> set space_bytes"
  by (auto simp: is_digit_def less_eq_char_def space_bytes_def space_encodings_def)

text \<open>Only bytes of space runes are removed at the right end, so a digit at the front stays.\<close>

lemma trim_right_eq_append: "\<exists>w. s = trim_right s @ w \<and> set w \<subseteq> set space_bytes"
proof (induction s rule: trim_right.induct)
  case (1 s)
  show ?case
  proof (cases "find (\<lambda>p. suffix p s) space_encodings")
    case None
    then show ?thesis by (subst trim_right.simps) (auto intro: exI [of _ "[]"])
  next
    case (Some p)
    then have p: "p \<in> set space_encodings" "suffix p s" by (auto dest: find_Some_prop)
    from 1 [OF Some] obtain w where
      w: "take (length s - length p) s = trim_right (take (length s - length p) s) @ w"
      "set w \<subseteq> set space_bytes" by blast
    have "s = take (length s - length p) s @ p" using p(2) by (rule suffix_take_length)
    then have "s = trim_right (take (length s - length p) s) @ (w @ p)"
      using w(1) by (metis append.assoc)
    moreover have "set (w @ p) \<subseteq> set space_bytes"
      using w(2) p(1) by (auto simp: space_bytes_def)
    moreover have "trim_right s = trim_right (take (length s - length p) s)"
      using Some by (simp add: trim_right.simps [of s])
    ultimately show ?thesis by metis
  qed
qed

lemma trim_right_keeps_digit: "s \<noteq> [] \<Longrightarrow> is_digit (hd s) \<Longrightarrow> trim_right s \<noteq> []"
  using trim_right_eq_append [of s] digit_not_space
  by (metis append_Nil hd_in_set subsetD)

end
