(* ===== verification/GoTime.thy ===== *)
theory GoTime
  imports GoStrings "HOL-Library.Monad_Syntax"
begin

text \<open>
  The part of Go's \<open>time\<close> package the sources use. An instant is the number of nanoseconds since
  the Unix epoch. \<open>time.Parse(time.RFC3339, _)\<close> is modelled with the leniency of Go's generic
  layout parser (one-digit hours, a comma before the fraction, offsets up to 24:60), and
  \<open>Format(time.RFC3339)\<close> for an instant in UTC, which drops the fraction of the second.
\<close>

type_synonym time = int

definition nanos :: int where "nanos = 1000000000"

section \<open>The calendar\<close>

definition is_leap :: "nat \<Rightarrow> bool" where
  "is_leap y \<longleftrightarrow> y mod 4 = 0 \<and> (y mod 100 \<noteq> 0 \<or> y mod 400 = 0)"

text \<open>Days from 0000-01-01 to the first day of a year, in the proleptic Gregorian calendar.\<close>

definition days_before_year :: "nat \<Rightarrow> nat" where
  "days_before_year y = 365 * y + (y + 3) div 4 - (y + 99) div 100 + (y + 399) div 400"

definition month_lengths :: "nat \<Rightarrow> nat list" where
  "month_lengths y =
     [31, if is_leap y then 29 else 28, 31, 30, 31, 30, 31, 31, 30, 31, 30, 31]"

definition days_in :: "nat \<Rightarrow> nat \<Rightarrow> nat" where
  "days_in y m = month_lengths y ! (m - 1)"

definition days_before_month :: "nat \<Rightarrow> nat \<Rightarrow> nat" where
  "days_before_month y m = sum_list (take (m - 1) (month_lengths y))"

definition epoch_day :: nat where "epoch_day = 719528"

definition civil_day :: "nat \<Rightarrow> nat \<Rightarrow> nat \<Rightarrow> nat" where
  "civil_day y m d = days_before_year y + days_before_month y m + (d - 1)"

text \<open>The year of a day number: the last year that starts on or before it.\<close>

lemma ceil_div_Suc:
  "0 < k \<Longrightarrow> (Suc y + (k - 1)) div k = (y + (k - 1)) div k + (if y mod k = 0 then 1 else 0)"
proof -
  assume "0 < k"
  then have "Suc (y + (k - 1)) = y + k" by simp
  then have "Suc (y + (k - 1)) mod k = y mod k" by simp
  then show ?thesis by (simp add: div_Suc)
qed

lemma days_before_year_Suc:
  "days_before_year (Suc y) = days_before_year y + (if is_leap y then 366 else 365)"
proof -
  have c: "(z + 99) div 100 \<le> 365 * z + (z + 3) div 4" for z :: nat
    by linarith
  have m: "y mod 400 = 0 \<Longrightarrow> y mod 100 = 0" "y mod 100 = 0 \<Longrightarrow> y mod 4 = 0"
    by (auto simp: mod_eq_0_iff_dvd elim: dvd_trans [rotated])
  have step: "365 * Suc z + a' - b' + e' = 365 * z + a - b + e + (365 + x + w - v)"
    if "b \<le> 365 * z + a" "b' \<le> 365 * Suc z + a'" "a' = a + x" "b' = b + v" "e' = e + w" "v \<le> 1"
    for z a a' b b' e e' x v w :: nat
    using that by simp
  have "days_before_year (Suc y) = days_before_year y +
      (365 + (if y mod 4 = 0 then 1 else 0) + (if y mod 400 = 0 then 1 else 0)
        - (if y mod 100 = 0 then 1 else 0))"
    unfolding days_before_year_def
    by (rule step) (use c [of y] c [of "Suc y"] ceil_div_Suc [of 4 y] ceil_div_Suc [of 100 y]
      ceil_div_Suc [of 400 y] in simp_all)
  with m show ?thesis by (auto simp: is_leap_def)
qed

lemma days_before_year_less: "days_before_year y < days_before_year (Suc y)"
  by (simp add: days_before_year_Suc)

lemma days_before_year_mono: "y \<le> z \<Longrightarrow> days_before_year y \<le> days_before_year z"
  by (rule lift_Suc_mono_le [of days_before_year]) (simp_all add: days_before_year_Suc)

function year_from :: "nat \<Rightarrow> nat \<Rightarrow> nat" where
  "year_from y n = (if days_before_year (Suc y) \<le> n then year_from (Suc y) n else y)"
  by pat_completeness auto
termination
proof (relation "measure (\<lambda>(y, n). n - days_before_year y)")
  fix y n
  assume "days_before_year (Suc y) \<le> n"
  with days_before_year_less [of y]
  show "((Suc y, n), (y, n)) \<in> measure (\<lambda>(y, n). n - days_before_year y)" by simp
qed simp

declare year_from.simps [simp del]

fun month_from :: "nat list \<Rightarrow> nat \<Rightarrow> nat \<Rightarrow> nat \<times> nat" where
  "month_from [] m r = (m, r)"
| "month_from (l # ls) m r = (if r < l then (m, r) else month_from ls (Suc m) (r - l))"

text \<open>Year, month and day of a day number.\<close>

definition civil_date :: "nat \<Rightarrow> nat \<times> nat \<times> nat" where
  "civil_date n =
     (let y = year_from (n div 366) n;
          mr = month_from (month_lengths y) 1 (n - days_before_year y)
      in (y, fst mr, Suc (snd mr)))"

lemma year_from_bounds:
  "days_before_year y \<le> n \<Longrightarrow>
     days_before_year (year_from y n) \<le> n \<and> n < days_before_year (Suc (year_from y n))"
proof (induction y n rule: year_from.induct)
  case (1 y n)
  then show ?case by (cases "days_before_year (Suc y) \<le> n") (simp_all add: year_from.simps [of y n])
qed

lemma days_before_div: "days_before_year (n div 366) \<le> n"
proof -
  have "days_before_year y \<le> 366 * y" for y
    by (induction y) (auto simp: days_before_year_Suc days_before_year_def)
  from this [of "n div 366"] show ?thesis by simp
qed

lemma sum_month_lengths: "sum_list (month_lengths y) = (if is_leap y then 366 else 365)"
  by (simp add: month_lengths_def)

lemma month_from_spec:
  "r < sum_list ls \<Longrightarrow> month_from ls m r = (m', r') \<Longrightarrow>
     m \<le> m' \<and> m' < m + length ls \<and> r' < ls ! (m' - m) \<and> r = sum_list (take (m' - m) ls) + r'"
proof (induction ls arbitrary: m r)
  case (Cons l ls)
  show ?case
  proof (cases "r < l")
    case True
    with Cons.prems show ?thesis by auto
  next
    case False
    with Cons.prems have "r - l < sum_list ls" and "month_from ls (Suc m) (r - l) = (m', r')"
      by auto
    from Cons.IH [OF this] False show ?thesis
      by (auto simp: Suc_diff_le nth_Cons' take_Cons' diff_diff_eq split: nat.splits)
  qed
qed simp

lemma civil_date_spec:
  assumes "civil_date n = (y, m, d)"
  shows "civil_day y m d = n" and "1 \<le> m" and "m \<le> 12" and "1 \<le> d" and "d \<le> days_in y m"
proof -
  let ?r = "n - days_before_year y"
  from assms have y: "y = year_from (n div 366) n"
    and md: "month_from (month_lengths y) 1 ?r = (m, d - 1)" and d: "1 \<le> d"
    by (auto simp: civil_date_def Let_def prod_eq_iff)
  from year_from_bounds [OF days_before_div] y
  have b: "days_before_year y \<le> n" "n < days_before_year (Suc y)" by simp_all
  then have "?r < sum_list (month_lengths y)"
    by (simp add: sum_month_lengths days_before_year_Suc)
  from month_from_spec [OF this md]
  have m: "1 \<le> m" "m < 1 + length (month_lengths y)" "d - 1 < month_lengths y ! (m - 1)"
    and r: "?r = sum_list (take (m - 1) (month_lengths y)) + (d - 1)"
    by simp_all
  from m show "1 \<le> m" and "m \<le> 12" by (simp_all add: month_lengths_def)
  from d show "1 \<le> d" .
  from m(3) show "d \<le> days_in y m" by (simp add: days_in_def)
  from r b(1) show "civil_day y m d = n" by (simp add: civil_day_def days_before_month_def)
qed

section \<open>\<open>Format(time.RFC3339)\<close> in UTC\<close>

fun fixed_digits :: "nat \<Rightarrow> nat \<Rightarrow> string" where
  "fixed_digits 0 n = []"
| "fixed_digits (Suc w) n = fixed_digits w (n div 10) @ [digit_char (n mod 10)]"

definition day_number :: "time \<Rightarrow> nat" where
  "day_number t = nat (t div nanos div 86400 + int epoch_day)"

definition second_of_day :: "time \<Rightarrow> nat" where
  "second_of_day t = nat (t div nanos mod 86400)"

definition format_date :: "nat \<Rightarrow> nat \<Rightarrow> nat \<Rightarrow> string" where
  "format_date y m d =
     (if y < 10000 then fixed_digits 4 y else dec_digits y) @ ''-'' @
     fixed_digits 2 m @ ''-'' @ fixed_digits 2 d"

definition format_clock :: "nat \<Rightarrow> string" where
  "format_clock s =
     fixed_digits 2 (s div 3600) @ '':'' @ fixed_digits 2 (s div 60 mod 60) @ '':'' @
     fixed_digits 2 (s mod 60)"

definition format_rfc3339 :: "time \<Rightarrow> string" where
  "format_rfc3339 t =
     (case civil_date (day_number t) of (y, m, d) \<Rightarrow>
        format_date y m d @ ''T'' @ format_clock (second_of_day t) @ ''Z'')"

text \<open>Instants of the years 0 to 9999, for which \<open>Format\<close> writes a four-digit year.\<close>

definition time_ok :: "time \<Rightarrow> bool" where
  "time_ok t \<longleftrightarrow> - 62167219200 * nanos \<le> t \<and> t < 253402300800 * nanos"

section \<open>\<open>time.Parse(time.RFC3339, _)\<close>\<close>

fun expect :: "char \<Rightarrow> string \<Rightarrow> string option" where
  "expect c (x # s) = (if x = c then Some s else None)"
| "expect c [] = None"

fun getnum_fixed :: "string \<Rightarrow> (nat \<times> string) option" where
  "getnum_fixed (a # b # s) =
     (if is_digit a \<and> is_digit b then Some (10 * digit_val a + digit_val b, s) else None)"
| "getnum_fixed _ = None"

fun getnum :: "string \<Rightarrow> (nat \<times> string) option" where
  "getnum (a # b # s) =
     (if \<not> is_digit a then None
      else if is_digit b then Some (10 * digit_val a + digit_val b, s)
      else Some (digit_val a, b # s))"
| "getnum [a] = (if is_digit a then Some (digit_val a, []) else None)"
| "getnum [] = None"

definition getyear :: "string \<Rightarrow> (nat \<times> string) option" where
  "getyear s =
     (if 4 \<le> length s \<and> list_all is_digit (take 4 s)
      then Some (dec_value (take 4 s), drop 4 s) else None)"

text \<open>An optional fraction: a period or comma and at least one digit; nine digits count.\<close>

definition parse_fraction :: "string \<Rightarrow> int \<times> string" where
  "parse_fraction s =
     (case s of
        p # d # r \<Rightarrow>
          if (p = CHR ''.'' \<or> p = CHR '','') \<and> is_digit d
          then let ds = takeWhile is_digit (d # r); kept = take 9 ds in
            (int (dec_value kept) * 10 ^ (9 - length kept), drop (length ds) (d # r))
          else (0, s)
      | _ \<Rightarrow> (0, s))"

definition parse_zone :: "string \<Rightarrow> (int \<times> string) option" where
  "parse_zone s =
     (case s of
        [] \<Rightarrow> None
      | c # r \<Rightarrow>
          if c = CHR ''Z'' then Some (0, r)
          else if c = CHR ''+'' \<or> c = CHR ''-'' then
            do { (hh, r1) \<leftarrow> getnum_fixed r;
                 r2 \<leftarrow> expect CHR '':'' r1;
                 (mm, r3) \<leftarrow> getnum_fixed r2;
                 if hh \<le> 24 \<and> mm \<le> 60
                 then Some ((if c = CHR ''-'' then - 1 else 1) * int (3600 * hh + 60 * mm), r3)
                 else None }
          else None)"

definition parse_rfc3339 :: "string \<Rightarrow> time option" where
  "parse_rfc3339 s =
     do { (y, s) \<leftarrow> getyear s;
          s \<leftarrow> expect CHR ''-'' s;
          (mo, s) \<leftarrow> getnum_fixed s;
          s \<leftarrow> expect CHR ''-'' s;
          (d, s) \<leftarrow> getnum_fixed s;
          s \<leftarrow> expect CHR ''T'' s;
          (h, s) \<leftarrow> getnum s;
          s \<leftarrow> expect CHR '':'' s;
          (mi, s) \<leftarrow> getnum_fixed s;
          s \<leftarrow> expect CHR '':'' s;
          (sec, s) \<leftarrow> getnum_fixed s;
          (case parse_fraction s of (ns, s) \<Rightarrow>
            do { (off, s) \<leftarrow> parse_zone s;
                 if 1 \<le> mo \<and> mo \<le> 12 \<and> 1 \<le> d \<and> d \<le> days_in y mo
                    \<and> h < 24 \<and> mi < 60 \<and> sec < 60 \<and> s = []
                 then Some (((int (civil_day y mo d) - int epoch_day) * 86400
                        + int (3600 * h + 60 * mi + sec) - off) * nanos + ns)
                 else None }) }"

section \<open>Parsing what was formatted\<close>

lemma getnum_fixed_digits:
  "n < 100 \<Longrightarrow> getnum_fixed (fixed_digits 2 n @ s) = Some (n, s)"
  by (simp add: eval_nat_numeral(2) [of num.One] numeral_2_eq_2)

lemma getnum_digits: "n < 100 \<Longrightarrow> getnum (fixed_digits 2 n @ s) = Some (n, s)"
  by (simp add: numeral_2_eq_2)

lemma length_fixed_digits [simp]: "length (fixed_digits w n) = w"
  by (induction w arbitrary: n) auto

lemma fixed_digits_digits: "list_all is_digit (fixed_digits w n)"
  by (induction w arbitrary: n) auto

lemma dec_value_fixed_digits: "dec_value (fixed_digits w n) = n mod 10 ^ w"
proof (induction w arbitrary: n)
  case 0
  then show ?case by (simp add: dec_value_def)
next
  case (Suc w)
  then show ?case by (simp add: dec_value_append mod_mult2_eq)
qed

lemma getyear_digits: "n < 10000 \<Longrightarrow> getyear (fixed_digits 4 n @ s) = Some (n, s)"
  by (simp add: getyear_def fixed_digits_digits dec_value_fixed_digits del: fixed_digits.simps)

lemma is_digit_Z [simp]: "\<not> is_digit CHR ''Z''"
  by (simp add: is_digit_def less_eq_char_def)

lemma int_le_div_iff: "0 < k \<Longrightarrow> c \<le> t div k \<longleftrightarrow> c * k \<le> t" for c t k :: int
proof -
  assume k: "0 < k"
  have t: "t = k * (t div k) + t mod k" "0 \<le> t mod k" "t mod k < k" using k by simp_all
  show ?thesis
  proof
    assume "c \<le> t div k"
    then have "k * c \<le> k * (t div k)" using k by simp
    also have "\<dots> \<le> t" using t by linarith
    finally show "c * k \<le> t" by (simp add: mult.commute)
  next
    assume "c * k \<le> t"
    then have "c * k div k \<le> t div k" using k by (rule zdiv_mono1)
    with k show "c \<le> t div k" by simp
  qed
qed

lemma pos_imp_zdiv_less_iff: "0 < k \<Longrightarrow> t div k < c \<longleftrightarrow> t < c * k" for c t k :: int
  using int_le_div_iff [of k c t] by auto

lemma day_number_bound:
  assumes "time_ok t"
  shows "int (day_number t) = t div nanos div 86400 + int epoch_day"
    and "day_number t < days_before_year 10000"
proof -
  have n: "0 < nanos" by (simp add: nanos_def)
  have "- 62167219200 \<le> t div nanos" "t div nanos < 253402300800"
    using assms n by (auto simp: time_ok_def pos_imp_zdiv_less_iff int_le_div_iff)
  then have "- 719528 \<le> t div nanos div 86400" "t div nanos div 86400 < 2932897"
    by (auto simp: pos_imp_zdiv_less_iff int_le_div_iff)
  then show "int (day_number t) = t div nanos div 86400 + int epoch_day"
    and "day_number t < days_before_year 10000"
    by (simp_all add: day_number_def epoch_day_def days_before_year_def)
qed

theorem parse_format_rfc3339:
  assumes ok: "time_ok t"
  shows "parse_rfc3339 (format_rfc3339 t) = Some (t - t mod nanos)"
proof -
  obtain y m d where c: "civil_date (day_number t) = (y, m, d)"
    using prod_cases3 by blast
  note spec = civil_date_spec [OF c]
  have y: "y < 10000"
  proof (rule ccontr)
    assume "\<not> y < 10000"
    then have "days_before_year 10000 \<le> day_number t"
      using days_before_year_mono [of 10000 y] spec(1) by (simp add: civil_day_def)
    with day_number_bound(2) [OF ok] show False by simp
  qed
  have d31: "d < 100" and m100: "m < 100"
  proof -
    from spec(2,3) have "m - 1 < 12" by simp
    then have "days_in y m \<le> 31"
      unfolding days_in_def month_lengths_def by (auto simp: less_Suc_eq numeral_eq_Suc)
    with spec show "d < 100" "m < 100" by simp_all
  qed
  let ?s = "second_of_day t"
  have s: "?s < 86400" "int ?s = t div nanos mod 86400" by (simp_all add: second_of_day_def)
  have sum: "3600 * (?s div 3600) + 60 * (?s div 60 mod 60) + ?s mod 60 = ?s"
  proof -
    have "?s div 3600 = ?s div 60 div 60" by (simp add: div_mult2_eq [symmetric])
    then have "3600 * (?s div 3600) + 60 * (?s div 60 mod 60)
        = 60 * (60 * (?s div 60 div 60) + ?s div 60 mod 60)"
      by (simp only: distrib_left)
    also have "\<dots> = 60 * (?s div 60)" by (simp only: mult_div_mod_eq)
    finally show ?thesis by simp
  qed
  have t: "(int (day_number t) - int epoch_day) * 86400 + int ?s = t div nanos"
    by (simp add: day_number_bound(1) [OF ok] s(2))
  have "parse_rfc3339 (format_rfc3339 t) =
      Some (((int (day_number t) - int epoch_day) * 86400 + int ?s) * nanos)"
    using y d31 m100 s(1) sum spec
    by (simp add: parse_rfc3339_def format_rfc3339_def c format_date_def format_clock_def
        getyear_digits getnum_fixed_digits getnum_digits parse_fraction_def parse_zone_def
        del: fixed_digits.simps)
  then show ?thesis unfolding t by (simp add: minus_mod_eq_div_mult)
qed

end
