(* ===== verification/GoMap.thy ===== *)
theory GoMap
  imports Prelude
begin

text \<open>
  Go maps with string keys. A map is an association list whose keys are strictly increasing, so
  two maps with the same entries are equal and \<open>encoding/json\<close>'s sorted output order is the
  order of the list. The interface the other components use is the locale \<open>go_map\<close>.
\<close>

type_synonym 'v gomap = "(string \<times> 'v) list"

definition map_make :: "'v gomap" where
  "map_make = []"

fun map_put :: "string \<Rightarrow> 'v \<Rightarrow> 'v gomap \<Rightarrow> 'v gomap" where
  "map_put k v [] = [(k, v)]"
| "map_put k v ((a, b) # m) =
     (if k < a then (k, v) # (a, b) # m
      else if k = a then (k, v) # m
      else (a, b) # map_put k v m)"

definition map_get :: "'v gomap \<Rightarrow> string \<Rightarrow> 'v option" where
  "map_get m k = map_of m k"

definition map_delete :: "string \<Rightarrow> 'v gomap \<Rightarrow> 'v gomap" where
  "map_delete k m = filter (\<lambda>(a, b). a \<noteq> k) m"

definition map_ok :: "'v gomap \<Rightarrow> bool" where
  "map_ok m \<longleftrightarrow> sorted_wrt (<) (map fst m)"

definition map_from_list :: "(string \<times> 'v) list \<Rightarrow> 'v gomap" where
  "map_from_list kvs = fold (\<lambda>(k, v). map_put k v) kvs map_make"

section \<open>The interface\<close>

locale go_map =
  fixes make :: "'m"
    and put :: "'k \<Rightarrow> 'v \<Rightarrow> 'm \<Rightarrow> 'm"
    and get :: "'m \<Rightarrow> 'k \<Rightarrow> 'v option"
    and delete :: "'k \<Rightarrow> 'm \<Rightarrow> 'm"
    and ok :: "'m \<Rightarrow> bool"
  assumes get_make: "get make k = None"
    and get_put: "get (put k v m) k' = (if k' = k then Some v else get m k')"
    and get_delete: "get (delete k m) k' = (if k' = k then None else get m k')"
    and ok_make: "ok make"
    and ok_put: "ok m \<Longrightarrow> ok (put k v m)"
    and ok_delete: "ok m \<Longrightarrow> ok (delete k m)"
    and ext: "ok m \<Longrightarrow> ok m' \<Longrightarrow> (\<And>k. get m k = get m' k) \<Longrightarrow> m = m'"
begin

lemma put_put: "ok m \<Longrightarrow> put k v (put k w m) = put k v m"
  by (rule ext) (auto simp: ok_put get_put)

lemma put_commute: "ok m \<Longrightarrow> k \<noteq> k' \<Longrightarrow> put k v (put k' w m) = put k' w (put k v m)"
  by (rule ext) (auto simp: ok_put get_put)

lemma put_same: "ok m \<Longrightarrow> get m k = Some v \<Longrightarrow> put k v m = m"
  by (rule ext) (auto simp: ok_put get_put)

lemma delete_absent: "ok m \<Longrightarrow> get m k = None \<Longrightarrow> delete k m = m"
  by (rule ext) (auto simp: ok_delete get_delete)

lemma delete_put: "ok m \<Longrightarrow> get m k = None \<Longrightarrow> delete k (put k v m) = m"
  by (rule ext) (auto simp: ok_delete ok_put get_delete get_put)

lemma get_fold_put:
  "get (fold (\<lambda>(k, v). put k v) kvs m) k =
     (case map_of (rev kvs) k of Some v \<Rightarrow> Some v | None \<Rightarrow> get m k)"
proof (induction kvs arbitrary: m)
  case Nil
  then show ?case by simp
next
  case (Cons kv kvs)
  then show ?case
    by (cases kv) (auto simp: get_put map_add_def split: option.splits)
qed

lemma ok_fold_put: "ok m \<Longrightarrow> ok (fold (\<lambda>(k, v). put k v) kvs m)"
  by (induction kvs arbitrary: m) (auto simp: ok_put)

end

section \<open>The sorted association list satisfies the interface\<close>

lemma map_get_put: "map_get (map_put k v m) k' = (if k' = k then Some v else map_get m k')"
  by (induction m) (auto simp: map_get_def)

lemma map_get_delete: "map_get (map_delete k m) k' = (if k' = k then None else map_get m k')"
  by (induction m) (auto simp: map_get_def map_delete_def)

lemma set_keys_put: "fst ` set (map_put k v m) = insert k (fst ` set m)"
  by (induction k v m rule: map_put.induct) auto

lemma map_ok_put: "map_ok m \<Longrightarrow> map_ok (map_put k v m)"
proof (induction m)
  case Nil
  then show ?case by (simp add: map_ok_def)
next
  case (Cons ab m)
  obtain a b where ab: "ab = (a, b)" by (cases ab)
  from Cons.prems have m: "map_ok m" and a: "\<forall>x \<in> fst ` set m. a < x"
    by (auto simp: map_ok_def ab)
  consider "k < a" | "k = a" | "a < k" by (rule linorder_cases)
  then show ?case
  proof cases
    case 1
    with a m show ?thesis by (fastforce simp: map_ok_def ab)
  next
    case 2
    with a m show ?thesis by (auto simp: map_ok_def ab)
  next
    case 3
    then have eq: "map_put k v (ab # m) = (a, b) # map_put k v m" by (auto simp: ab)
    have "\<forall>x \<in> fst ` set (map_put k v m). a < x" using a 3 by (simp add: set_keys_put)
    with Cons.IH [OF m] show ?thesis unfolding eq by (simp add: map_ok_def)
  qed
qed

lemma map_ok_delete: "map_ok m \<Longrightarrow> map_ok (map_delete k m)"
  by (induction m) (auto simp: map_ok_def map_delete_def)

lemma map_ok_distinct: "map_ok m \<Longrightarrow> distinct (map fst m)"
  by (simp add: map_ok_def strict_sorted_iff)

lemma map_get_set: "map_ok m \<Longrightarrow> (k, v) \<in> set m \<longleftrightarrow> map_get m k = Some v"
  by (simp add: map_get_def map_ok_distinct)

lemma map_from_keys: "map_ok m \<Longrightarrow> map (\<lambda>k. (k, the (map_get m k))) (map fst m) = m"
  by (auto simp: map_get_def map_ok_distinct intro!: map_idI)

lemma map_ext:
  assumes "map_ok m" and "map_ok m'" and eq: "\<And>k. map_get m k = map_get m' k"
  shows "m = m'"
proof -
  have "set m = set m'"
    using assms by (auto simp: map_get_set)
  then have keys: "map fst m = map fst m'"
    using assms(1,2) unfolding map_ok_def
    by (metis list.set_map strict_sorted_equal)
  have "m = map (\<lambda>k. (k, the (map_get m k))) (map fst m)"
    using assms(1) by (simp only: map_from_keys)
  also have "\<dots> = map (\<lambda>k. (k, the (map_get m' k))) (map fst m')"
    by (simp only: keys eq)
  also have "\<dots> = m'"
    using assms(2) by (rule map_from_keys)
  finally show ?thesis .
qed

interpretation gm: go_map map_make map_put map_get map_delete map_ok
proof (standard, goal_cases)
  case (1 k)
  show ?case by (simp add: map_make_def map_get_def)
next
  case (2 k v m k')
  show ?case by (rule map_get_put)
next
  case (3 k m k')
  show ?case by (rule map_get_delete)
next
  case 4
  show ?case by (simp add: map_make_def map_ok_def)
next
  case (5 m k v)
  then show ?case by (rule map_ok_put)
next
  case (6 m k)
  then show ?case by (rule map_ok_delete)
next
  case (7 m m')
  then show ?case by (rule map_ext)
qed

lemmas map_get_simps [simp] = gm.get_make gm.get_put gm.get_delete
lemmas map_ok_intros [simp, intro] = gm.ok_make gm.ok_put gm.ok_delete

lemma map_ok_from_list [simp]: "map_ok (map_from_list kvs)"
  by (simp add: map_from_list_def gm.ok_fold_put)

lemma map_get_from_list: "map_get (map_from_list kvs) k = map_of (rev kvs) k"
  by (simp add: map_from_list_def gm.get_fold_put split: option.split)

lemma map_put_snoc: "\<forall>a \<in> fst ` set m. a < k \<Longrightarrow> map_put k v m = m @ [(k, v)]"
  by (induction k v m rule: map_put.induct) (auto simp: not_less_iff_gr_or_eq)

lemma map_from_list_sorted: "map_ok m \<Longrightarrow> map_from_list m = m"
proof (rule gm.ext)
  fix k
  assume "map_ok m"
  then have d: "distinct (map fst m)" by (rule map_ok_distinct)
  then have "map_of (rev m) = map_of m"
    by (subst map_of_inject_set) (simp_all add: rev_map [symmetric])
  then show "map_get (map_from_list m) k = map_get m k"
    by (simp add: map_get_from_list map_get_def [of m])
qed simp_all

end
