(* ===== verification/Float64.thy ===== *)
theory Float64
  imports Complex_Main "HOL-Library.Log_Nat"
begin

text \<open>
  Go's \<open>float64\<close> arithmetic on finite values. A finite \<open>float64\<close> is the rational it denotes; an
  operation computes the exact rational result and rounds it to the nearest representable value,
  ties to even, with the 53-bit significand and the smallest exponent of IEEE 754 binary64.
  Overflow to an infinity is outside the model: the largest exponent is not bounded.
\<close>

section \<open>Rounding\<close>

text \<open>Round to the nearest integer, ties to even.\<close>

definition rne :: "rat \<Rightarrow> int" where
  "rne x =
     (let f = \<lfloor>x\<rfloor>; d = x - of_int f in
      if d < 1 / 2 then f else if 1 / 2 < d then f + 1 else if even f then f else f + 1)"

text \<open>The exponent of the leading binary digit of a positive rational.\<close>

definition log2_floor :: "rat \<Rightarrow> int" where
  "log2_floor x =
     (let pq = quotient_of x;
          k = int (floorlog 2 (nat (fst pq))) - int (floorlog 2 (nat (snd pq)))
      in if 2 powi k \<le> x then k else k - 1)"

definition f64_exp :: "rat \<Rightarrow> int" where
  "f64_exp x = max (log2_floor \<bar>x\<bar> - 52) (- 1074)"

definition f64_round :: "rat \<Rightarrow> rat" where
  "f64_round x =
     (if x = 0 then 0 else of_int (rne (x / 2 powi f64_exp x)) * 2 powi f64_exp x)"

section \<open>The integer rounding\<close>

lemma rne_of_int [simp]: "rne (of_int n) = n"
  by (simp add: rne_def)

lemma rne_error: "\<bar>of_int (rne x) - x\<bar> \<le> 1 / 2"
proof -
  have "0 \<le> x - of_int \<lfloor>x\<rfloor>" "x - of_int \<lfloor>x\<rfloor> < 1"
    by linarith+
  then show ?thesis by (auto simp: rne_def Let_def)
qed

lemma rne_mono:
  assumes "x \<le> y"
  shows "rne x \<le> rne y"
proof (cases "\<lfloor>x\<rfloor> = \<lfloor>y\<rfloor>")
  case True
  with assms have "x - of_int \<lfloor>x\<rfloor> \<le> y - of_int \<lfloor>y\<rfloor>" by simp
  with True show ?thesis unfolding rne_def Let_def by auto
next
  case False
  from assms have "\<lfloor>x\<rfloor> \<le> \<lfloor>y\<rfloor>" by (rule floor_mono)
  with False have "\<lfloor>x\<rfloor> + 1 \<le> \<lfloor>y\<rfloor>" by simp
  moreover have "rne x \<le> \<lfloor>x\<rfloor> + 1" "\<lfloor>y\<rfloor> \<le> rne y"
    unfolding rne_def Let_def by auto
  ultimately show ?thesis by simp
qed

lemma rne_le_int: "x \<le> of_int n \<Longrightarrow> rne x \<le> n"
  using rne_mono [of x "of_int n"] by simp

lemma rne_ge_int: "of_int n \<le> x \<Longrightarrow> n \<le> rne x"
  using rne_mono [of "of_int n" x] by simp

lemma rne_minus: "rne (- x) = - rne x"
proof (cases "x \<in> \<int>")
  case True
  then obtain n where "x = of_int n" by (rule Ints_cases)
  then show ?thesis by (metis of_int_minus rne_of_int)
next
  case False
  then have "x \<noteq> of_int \<lfloor>x\<rfloor>" by (metis Ints_of_int)
  then have c: "\<lceil>x\<rceil> = \<lfloor>x\<rfloor> + 1" by (simp add: ceiling_altdef)
  then show ?thesis
    unfolding rne_def Let_def floor_minus c
    by (auto simp: algebra_simps)
qed

section \<open>The leading digit\<close>

lemma log2_floor_bounds:
  assumes "0 < x"
  shows "2 powi log2_floor x \<le> x" "x < 2 powi (log2_floor x + 1)"
proof -
  obtain p q where pq: "quotient_of x = (p, q)" by (cases "quotient_of x")
  have q: "0 < q" using pq by (rule quotient_of_denom_pos)
  have x: "x = of_int p / of_int q" using pq by (rule quotient_of_div)
  with assms q have p: "0 < p" by (simp add: zero_less_divide_iff)
  define a where "a = floorlog 2 (nat p)"
  define b where "b = floorlog 2 (nat q)"
  have bounds: "2 ^ (floorlog 2 n - 1) \<le> n \<and> n < 2 ^ floorlog 2 n \<and> 0 < floorlog 2 n"
    if "0 < n" for n :: nat
    using floorlog_bounds [of n 2] that by (cases "floorlog 2 n") auto
  from p q have ab: "2 ^ (a - 1) \<le> nat p" "nat p < 2 ^ a" "2 ^ (b - 1) \<le> nat q" "nat q < 2 ^ b"
    "0 < a" "0 < b"
    using bounds [of "nat p"] bounds [of "nat q"] by (auto simp: a_def b_def)
  have A: "(2::rat) ^ (a - 1) \<le> of_int p" "of_int p < (2::rat) ^ a"
    using ab(1,2) p by (metis of_nat_le_iff of_nat_less_iff of_nat_nat less_imp_le of_nat_numeral
        of_nat_power of_int_of_nat_eq)+
  have B: "(2::rat) ^ (b - 1) \<le> of_int q" "of_int q < (2::rat) ^ b"
    using ab(3,4) q by (metis of_nat_le_iff of_nat_less_iff of_nat_nat less_imp_le of_nat_numeral
        of_nat_power of_int_of_nat_eq)+
  have pw: "(2::rat) powi (int m - int n) = 2 ^ m / 2 ^ n" for m n
    by (simp add: power_int_diff)
  let ?k = "int a - int b"
  have up: "x < 2 powi (?k + 1)"
  proof -
    have "of_int p / of_int q < (2::rat) ^ a / 2 ^ (b - 1)"
      using A B q p by (intro frac_less) auto
    also have "\<dots> = 2 powi (?k + 1)"
      using ab(6) pw [of a "b - 1"] by (simp add: algebra_simps of_nat_diff)
    finally show ?thesis by (simp add: x)
  qed
  have low: "2 powi (?k - 1) \<le> x"
  proof -
    have "2 powi (?k - 1) = (2::rat) ^ (a - 1) / 2 ^ b"
      using ab(5) pw [of "a - 1" b] by (simp add: algebra_simps of_nat_diff)
    also have "\<dots> \<le> of_int p / of_int q"
      using A B q p by (intro frac_le) auto
    finally show ?thesis by (simp add: x)
  qed
  have k: "log2_floor x = (if 2 powi ?k \<le> x then ?k else ?k - 1)"
    by (simp add: log2_floor_def pq a_def b_def)
  show "2 powi log2_floor x \<le> x" "x < 2 powi (log2_floor x + 1)"
    using up low by (auto simp: k)
qed

lemma powi_mono: "i \<le> j \<Longrightarrow> (2::rat) powi i \<le> 2 powi j"
  by (simp add: power_int_increasing)

lemma powi_pos: "0 < (2::rat) powi i"
  by simp

lemma log2_floor_mono:
  assumes "0 < x" "x \<le> y"
  shows "log2_floor x \<le> log2_floor y"
proof (rule ccontr)
  assume "\<not> ?thesis"
  then have "(2::rat) powi (log2_floor y + 1) \<le> 2 powi log2_floor x"
    by (intro powi_mono) simp
  with log2_floor_bounds [of x] log2_floor_bounds [of y] assms show False by simp
qed

lemma log2_floor_less_iff:
  assumes "0 < x" "x < 2 powi k"
  shows "log2_floor x < k"
proof (rule ccontr)
  assume "\<not> ?thesis"
  then have "(2::rat) powi k \<le> 2 powi log2_floor x" by (intro powi_mono) simp
  with log2_floor_bounds [of x] assms show False by simp
qed

section \<open>Representable values and the laws of rounding\<close>

definition representable :: "rat \<Rightarrow> bool" where
  "representable r \<longleftrightarrow> (\<exists>m e. r = of_int m * 2 powi e \<and> \<bar>m\<bar> < 2 ^ 53 \<and> - 1074 \<le> e)"

lemma f64_round_0 [simp]: "f64_round 0 = 0"
  by (simp add: f64_round_def)

lemma f64_exp_minus [simp]: "f64_exp (- x) = f64_exp x"
  by (simp add: f64_exp_def)

lemma f64_round_minus: "f64_round (- x) = - f64_round x"
proof (cases "x = 0")
  case False
  have "rne (- x / 2 powi f64_exp x) = - rne (x / 2 powi f64_exp x)"
    using rne_minus [of "x / 2 powi f64_exp x"] by simp
  with False show ?thesis by (simp add: f64_round_def)
qed simp

lemma f64_round_representable:
  assumes "representable r"
  shows "f64_round r = r"
proof (cases "r = 0")
  case False
  from assms obtain m e where r: "r = of_int m * 2 powi e" and m: "\<bar>m\<bar> < 2 ^ 53" and e: "- 1074 \<le> e"
    by (auto simp: representable_def)
  have "\<bar>r\<bar> = of_int \<bar>m\<bar> * 2 powi e" by (simp add: r abs_mult)
  also have "\<dots> < of_int (2 ^ 53) * 2 powi e"
    using m by (intro mult_strict_right_mono) (simp_all only: of_int_less_iff powi_pos)
  also have "\<dots> = 2 powi (53 + e)" by (simp add: power_int_add)
  finally have "log2_floor \<bar>r\<bar> < 53 + e" using False by (intro log2_floor_less_iff) simp_all
  then have le: "f64_exp r \<le> e" using e by (simp add: f64_exp_def)
  have "r / 2 powi f64_exp r = of_int m * 2 powi (e - f64_exp r)"
    by (simp add: r power_int_diff)
  also have "\<dots> = of_int (m * 2 ^ nat (e - f64_exp r))"
    using le by (simp add: power_int_def)
  finally have q: "r / 2 powi f64_exp r = of_int (m * 2 ^ nat (e - f64_exp r))" .
  have "f64_round r = of_int (m * 2 ^ nat (e - f64_exp r)) * 2 powi f64_exp r"
    using False by (simp only: f64_round_def q rne_of_int if_False)
  also have "\<dots> = r" using q by (simp only: nonzero_divide_eq_eq [OF powi_pos [THEN less_imp_neq, symmetric]] flip: q)
  finally show ?thesis .
qed simp

lemma f64_round_pos_bounds:
  assumes "0 < x"
  shows "f64_round x \<le> 2 powi max (log2_floor x + 1) (f64_exp x)"
    and "- 1074 \<le> log2_floor x - 52 \<Longrightarrow> 2 powi log2_floor x \<le> f64_round x"
    and "0 \<le> f64_round x"
proof -
  let ?l = "log2_floor x" and ?e = "f64_exp x"
  have e: "?e = max (?l - 52) (- 1074)" using assms by (simp add: f64_exp_def)
  have r: "f64_round x = of_int (rne (x / 2 powi ?e)) * 2 powi ?e"
    using assms by (simp add: f64_round_def)
  have pow: "of_int (2 ^ nat (i - ?e)) * 2 powi ?e = (2::rat) powi i" if "?e \<le> i" for i
  proof -
    have "(2::rat) powi i = 2 powi (i - ?e) * 2 powi ?e" by (simp flip: power_int_add)
    then show ?thesis using that by (simp add: power_int_def)
  qed
  have div: "x / 2 powi ?e \<le> of_int n \<longleftrightarrow> x \<le> of_int n * 2 powi ?e"
    "of_int n \<le> x / 2 powi ?e \<longleftrightarrow> of_int n * 2 powi ?e \<le> x" for n
    by (simp_all add: pos_divide_le_eq pos_le_divide_eq)
  let ?i = "max (?l + 1) ?e"
  have "x \<le> 2 powi ?i"
    using log2_floor_bounds(2) [OF assms] powi_mono [of "?l + 1" ?i] by simp
  then have "rne (x / 2 powi ?e) \<le> 2 ^ nat (?i - ?e)"
    by (intro rne_le_int) (simp only: div pow max.cobounded2)
  then have "of_int (rne (x / 2 powi ?e)) \<le> (of_int (2 ^ nat (?i - ?e)) :: rat)"
    by (simp only: of_int_le_iff)
  then show "f64_round x \<le> 2 powi ?i"
    unfolding r using pow [of ?i] by (metis max.cobounded2 mult_right_mono powi_pos less_imp_le)
  show "2 powi ?l \<le> f64_round x" if "- 1074 \<le> ?l - 52"
  proof -
    from that have le: "?e \<le> ?l" using e by simp
    have "2 ^ nat (?l - ?e) \<le> rne (x / 2 powi ?e)"
      using log2_floor_bounds(1) [OF assms] by (intro rne_ge_int) (simp only: div pow [OF le])
    then have "(of_int (2 ^ nat (?l - ?e)) :: rat) \<le> of_int (rne (x / 2 powi ?e))"
      by (simp only: of_int_le_iff)
    then show ?thesis
      unfolding r using pow [OF le] by (metis mult_right_mono powi_pos less_imp_le)
  qed
  have "0 \<le> rne (x / 2 powi ?e)" using assms by (intro rne_ge_int) simp
  then show "0 \<le> f64_round x" unfolding r by simp
qed

lemma f64_round_mono_pos:
  assumes "0 < x" "x \<le> y"
  shows "f64_round x \<le> f64_round y"
proof (cases "f64_exp x = f64_exp y")
  case True
  from assms have "x / 2 powi f64_exp x \<le> y / 2 powi f64_exp x" by (simp add: divide_right_mono)
  from rne_mono [OF this] have "of_int (rne (x / 2 powi f64_exp x)) * (2::rat) powi f64_exp x
      \<le> of_int (rne (y / 2 powi f64_exp x)) * 2 powi f64_exp x"
    by (intro mult_right_mono) simp_all
  with True assms show ?thesis by (simp add: f64_round_def)
next
  case False
  let ?lx = "log2_floor x" and ?ly = "log2_floor y"
  have l: "?lx \<le> ?ly" using assms by (rule log2_floor_mono)
  with False assms have e: "f64_exp x < f64_exp y" by (auto simp: f64_exp_def)
  then have ey: "f64_exp y = ?ly - 52" "- 1074 < ?ly - 52" "?lx + 1 \<le> ?ly" "f64_exp x \<le> ?ly"
    using l assms by (auto simp: f64_exp_def)
  have "f64_round x \<le> 2 powi max (?lx + 1) (f64_exp x)" using assms f64_round_pos_bounds by simp
  also have "\<dots> \<le> 2 powi ?ly" using ey by (intro powi_mono) simp
  also have "\<dots> \<le> f64_round y" using assms ey f64_round_pos_bounds(2) [of y] by simp
  finally show ?thesis .
qed

lemma f64_round_nonneg: "0 \<le> x \<Longrightarrow> 0 \<le> f64_round x"
  using f64_round_pos_bounds(3) [of x] by (cases "x = 0") auto

lemma f64_round_mono: "x \<le> y \<Longrightarrow> f64_round x \<le> f64_round y"
proof -
  assume xy: "x \<le> y"
  consider "0 < x" | "x \<le> 0" "0 \<le> y" | "y < 0" using xy by linarith
  then show ?thesis
  proof cases
    case 1
    then show ?thesis using xy by (rule f64_round_mono_pos)
  next
    case 2
    then have "0 \<le> f64_round (- x)" "0 \<le> f64_round y" by (simp_all add: f64_round_nonneg)
    then show ?thesis by (simp add: f64_round_minus)
  next
    case 3
    then have "f64_round (- y) \<le> f64_round (- x)" using xy by (intro f64_round_mono_pos) simp_all
    then show ?thesis by (simp add: f64_round_minus)
  qed
qed

lemma f64_round_error: "\<bar>f64_round x - x\<bar> \<le> \<bar>x\<bar> / 2 ^ 53 + 1 / 2 ^ 1075"
proof (cases "x = 0")
  case False
  let ?e = "f64_exp x"
  have "\<bar>of_int (rne (x / 2 powi ?e)) - x / 2 powi ?e\<bar> * 2 powi ?e \<le> 1 / 2 * 2 powi ?e"
    by (intro mult_right_mono rne_error) simp
  moreover have "\<bar>of_int (rne (x / 2 powi ?e)) - x / 2 powi ?e\<bar> * 2 powi ?e = \<bar>f64_round x - x\<bar>"
  proof -
    have "f64_round x - x = (of_int (rne (x / 2 powi ?e)) - x / 2 powi ?e) * 2 powi ?e"
      using False by (simp add: f64_round_def left_diff_distrib)
    then show ?thesis by (simp add: abs_mult)
  qed
  ultimately have 1: "\<bar>f64_round x - x\<bar> \<le> 1 / 2 * 2 powi ?e" by simp
  have "(2::rat) powi ?e \<le> 2 powi (log2_floor \<bar>x\<bar> - 52) + 2 powi (- 1074)"
    by (simp add: f64_exp_def max_def add_increasing add_increasing2)
  also have "\<dots> \<le> \<bar>x\<bar> / 2 ^ 52 + 1 / 2 ^ 1074"
    using log2_floor_bounds(1) [of "\<bar>x\<bar>"] False
    by (simp add: power_int_diff power_int_minus divide_right_mono inverse_eq_divide)
  finally have 2: "1 / 2 * (2::rat) powi ?e \<le> 1 / 2 * (\<bar>x\<bar> / 2 ^ 52 + 1 / 2 ^ 1074)" by simp
  have "1 / 2 * (\<bar>x\<bar> / 2 ^ 52 + 1 / 2 ^ 1074) = \<bar>x\<bar> / 2 ^ 53 + 1 / 2 ^ 1075"
    by (simp add: algebra_simps)
  with 1 2 show ?thesis by linarith
qed simp

lemma representable_round: "representable (f64_round x)"
proof (cases "x = 0")
  case True
  then show ?thesis by (auto simp: representable_def intro!: exI [of _ 0])
next
  case False
  let ?e = "f64_exp x" and ?m = "rne (x / 2 powi f64_exp x)"
  have r: "f64_round x = of_int ?m * 2 powi ?e" using False by (simp add: f64_round_def)
  have e: "- 1074 \<le> ?e" by (simp add: f64_exp_def)
  have "\<bar>x\<bar> \<le> 2 powi (log2_floor \<bar>x\<bar> + 1)"
    using log2_floor_bounds(2) [of "\<bar>x\<bar>"] False by simp
  also have "\<dots> \<le> 2 powi (53 + ?e)" by (intro powi_mono) (simp add: f64_exp_def)
  finally have "\<bar>x\<bar> / 2 powi ?e \<le> 2 ^ 53" by (simp add: pos_divide_le_eq power_int_add)
  then have "x / 2 powi ?e \<le> of_int (2 ^ 53)" "of_int (- (2 ^ 53)) \<le> x / 2 powi ?e"
    by (simp_all add: abs_le_iff pos_divide_le_eq pos_le_divide_eq)
  then have "?m \<le> 2 ^ 53" "- (2 ^ 53) \<le> ?m" using rne_le_int rne_ge_int by blast+
  then have m: "\<bar>?m\<bar> \<le> 2 ^ 53" by simp
  show ?thesis
  proof (cases "\<bar>?m\<bar> < 2 ^ 53")
    case True
    with r e show ?thesis by (auto simp: representable_def)
  next
    case False
    with m have "?m = 2 ^ 53 \<or> ?m = - (2 ^ 53)" by linarith
    then have "of_int ?m = (2::rat) * of_int (?m div 2)" and b: "\<bar>?m div 2\<bar> < 2 ^ 53" by auto
    then have "f64_round x = of_int (?m div 2) * 2 powi (?e + 1)"
      by (simp add: r power_int_add)
    with b e show ?thesis
      unfolding representable_def by (intro exI [of _ "?m div 2"] exI [of _ "?e + 1"]) simp
  qed
qed

lemma f64_round_idem [simp]: "f64_round (f64_round x) = f64_round x"
  by (intro f64_round_representable representable_round)

lemma representable_of_int: "\<bar>n\<bar> < 2 ^ 53 \<Longrightarrow> representable (of_int n)"
  unfolding representable_def by (intro exI [of _ n] exI [of _ 0]) simp

lemma f64_round_of_int: "\<bar>n\<bar> < 2 ^ 53 \<Longrightarrow> f64_round (of_int n) = of_int n"
  by (intro f64_round_representable representable_of_int)

section \<open>The arithmetic operations\<close>

text \<open>The interface of an arithmetic with rounding that the clients rely on.\<close>

locale rounding =
  fixes rnd :: "rat \<Rightarrow> rat" and u :: rat and eta :: rat
  assumes rnd_mono: "x \<le> y \<Longrightarrow> rnd x \<le> rnd y"
    and rnd_idem: "rnd (rnd x) = rnd x"
    and rnd_zero: "rnd 0 = 0"
    and rnd_one: "rnd 1 = 1"
    and rnd_error: "\<bar>rnd x - x\<bar> \<le> \<bar>x\<bar> * u + eta"
    and u_nonneg: "0 \<le> u"
    and eta_nonneg: "0 \<le> eta"
begin

lemma rnd_nonneg: "0 \<le> x \<Longrightarrow> 0 \<le> rnd x"
  using rnd_mono [of 0 x] by (simp add: rnd_zero)

lemma rnd_upper: "0 \<le> x \<Longrightarrow> rnd x \<le> x * (1 + u) + eta"
  using rnd_error [of x] by (simp add: algebra_simps abs_le_iff)

lemma rnd_le_fixed: "rnd y = y \<Longrightarrow> x \<le> y \<Longrightarrow> rnd x \<le> y"
  using rnd_mono [of x y] by simp

end

interpretation f64: rounding f64_round "1 / 2 ^ 53" "1 / 2 ^ 1075"
proof (standard, goal_cases)
  case (1 x y)
  then show ?case by (rule f64_round_mono)
next
  case (2 x)
  show ?case by (rule f64_round_idem)
next
  case 3
  show ?case by (rule f64_round_0)
next
  case 4
  show ?case using f64_round_of_int [of 1] by simp
next
  case (5 x)
  show ?case using f64_round_error [of x] by simp
qed simp_all

definition f64_add :: "rat \<Rightarrow> rat \<Rightarrow> rat" where "f64_add x y = f64_round (x + y)"
definition f64_sub :: "rat \<Rightarrow> rat \<Rightarrow> rat" where "f64_sub x y = f64_round (x - y)"
definition f64_mul :: "rat \<Rightarrow> rat \<Rightarrow> rat" where "f64_mul x y = f64_round (x * y)"
definition f64_div :: "rat \<Rightarrow> rat \<Rightarrow> rat" where "f64_div x y = f64_round (x / y)"

text \<open>Conversion of an integer to \<open>float64\<close>.\<close>

definition f64_of_int :: "int \<Rightarrow> rat" where "f64_of_int n = f64_round (of_int n)"

text \<open>Go's conversion of a \<open>float64\<close> to an integer truncates towards zero.\<close>

definition f64_trunc :: "rat \<Rightarrow> int" where
  "f64_trunc x = (if x < 0 then \<lceil>x\<rceil> else \<lfloor>x\<rfloor>)"

end
