(* ===== verification/Ratelimit.thy ===== *)
theory Ratelimit
  imports GoStrings GoTime GoMap Float64 "HOL-Library.Signed_Division"
begin

text \<open>
  \<open>backend/internal/ratelimit/ratelimit.go\<close>: the token-bucket limiter. The mutex makes each call
  of \<open>Allow\<close> and \<open>Cleanup\<close> one atomic step; the clock reading \<open>l.now()\<close> is an argument.
\<close>

section \<open>State\<close>

record rl_config =
  PerAgentMPS :: rat
  PerGroupMPS :: rat
  PerTagMPS :: rat
  BurstFactor :: int
  CleanupSecs :: int
  Enabled :: bool

record bucket =
  tokens :: rat
  maxBurst :: rat
  rate :: rat
  lastFill :: time

record limiter =
  buckets :: "bucket gomap"
  cfg :: rl_config

definition DefaultConfig :: rl_config where
  "DefaultConfig = \<lparr>PerAgentMPS = 100, PerGroupMPS = 500, PerTagMPS = 50,
     BurstFactor = 10, CleanupSecs = 300, Enabled = True\<rparr>"

definition New :: "rl_config \<Rightarrow> limiter" where
  "New c =
     (let c1 = (if BurstFactor c \<le> 0 then c\<lparr>BurstFactor := 10\<rparr> else c);
          c2 = (if CleanupSecs c1 \<le> 0 then c1\<lparr>CleanupSecs := 300\<rparr> else c1)
      in \<lparr>buckets = map_make, cfg = c2\<rparr>)"

section \<open>Operations\<close>

definition DimensionAgent :: string where [simp]: "DimensionAgent = ''agent''"
definition DimensionGroup :: string where [simp]: "DimensionGroup = ''group''"
definition DimensionTag :: string where [simp]: "DimensionTag = ''tag''"

definition AgentKey :: "string \<Rightarrow> string" where "AgentKey agentID = ''agent:'' @ agentID"
definition GroupKey :: "string \<Rightarrow> string" where "GroupKey groupID = ''group:'' @ groupID"
definition TagKey :: "string \<Rightarrow> string" where "TagKey tag = ''tag:'' @ tag"

definition rateFor :: "limiter \<Rightarrow> string \<Rightarrow> rat" where
  "rateFor l dimension =
     (if dimension = DimensionAgent then PerAgentMPS (cfg l)
      else if dimension = DimensionGroup then PerGroupMPS (cfg l)
      else if dimension = DimensionTag then PerTagMPS (cfg l)
      else 0)"

text \<open>\<open>time.Time.Sub\<close> saturates at the ends of the \<open>int64\<close> range of a duration.\<close>

definition time_Sub :: "time \<Rightarrow> time \<Rightarrow> int" where
  "time_Sub t s = max int64_min (min int64_max (t - s))"

text \<open>\<open>time.Duration.Seconds\<close>: whole seconds and the remaining fraction, added as \<open>float64\<close>.\<close>

definition Seconds :: "int \<Rightarrow> rat" where
  "Seconds d =
     f64_add (f64_of_int (d sdiv 1000000000))
             (f64_div (f64_of_int (d smod 1000000000)) 1000000000)"

definition full_key :: "string \<Rightarrow> string \<Rightarrow> string" where
  "full_key dimension key = dimension @ '':'' @ key"

definition max_burst :: "limiter \<Rightarrow> string \<Rightarrow> rat" where
  "max_burst l dimension = f64_mul (f64_of_int (BurstFactor (cfg l))) (rateFor l dimension)"

definition refill :: "time \<Rightarrow> bucket \<Rightarrow> bucket" where
  "refill now b =
     (let elapsed = Seconds (time_Sub now (lastFill b));
          t = f64_add (tokens b) (f64_mul elapsed (rate b))
      in b\<lparr>tokens := (if maxBurst b < t then maxBurst b else t), lastFill := now\<rparr>)"

definition Allow :: "limiter \<Rightarrow> time \<Rightarrow> string \<Rightarrow> string \<Rightarrow> bool \<times> limiter" where
  "Allow l now dimension key =
     (if \<not> Enabled (cfg l) then (True, l)
      else let r = rateFor l dimension in
        if r \<le> 0 then (True, l)
        else let fullKey = full_key dimension key; mb = max_burst l dimension in
          case map_get (buckets l) fullKey of
            None \<Rightarrow>
              (True, l\<lparr>buckets := map_put fullKey
                 \<lparr>tokens = f64_sub mb 1, maxBurst = mb, rate = r, lastFill = now\<rparr> (buckets l)\<rparr>)
          | Some b \<Rightarrow>
              let b1 = refill now b in
              if tokens b1 < 1 then (False, l\<lparr>buckets := map_put fullKey b1 (buckets l)\<rparr>)
              else (True, l\<lparr>buckets :=
                     map_put fullKey (b1\<lparr>tokens := f64_sub (tokens b1) 1\<rparr>) (buckets l)\<rparr>))"

text \<open>A duration is an \<open>int64\<close>: the product with a second wraps around.\<close>

definition int64_wrap :: "int \<Rightarrow> int" where
  "int64_wrap x = (x + 2 ^ 63) mod 2 ^ 64 - 2 ^ 63"

definition cutoff :: "limiter \<Rightarrow> time \<Rightarrow> time" where
  "cutoff l now = now + int64_wrap (- CleanupSecs (cfg l) * 1000000000)"

definition Cleanup :: "limiter \<Rightarrow> time \<Rightarrow> limiter" where
  "Cleanup l now =
     l\<lparr>buckets := filter (\<lambda>(k, b). \<not> lastFill b < cutoff l now) (buckets l)\<rparr>"

definition Len :: "limiter \<Rightarrow> nat" where
  "Len l = length (buckets l)"

section \<open>Invariant\<close>

text \<open>
  Every bucket stands under the full key of one of the three dimensions with the rate and the
  capacity of that dimension; its token count is a \<open>float64\<close> not above the capacity, and not
  negative when the capacity is at least one token.
\<close>

definition bucket_ok :: "bucket \<Rightarrow> bool" where
  "bucket_ok b \<longleftrightarrow>
     f64_round (tokens b) = tokens b \<and> f64_round (maxBurst b) = maxBurst b
     \<and> 0 < rate b \<and> tokens b \<le> maxBurst b \<and> (1 \<le> maxBurst b \<longrightarrow> 0 \<le> tokens b)"

definition config_ok :: "rl_config \<Rightarrow> bool" where
  "config_ok c \<longleftrightarrow> 1 \<le> BurstFactor c \<and> 1 \<le> CleanupSecs c"

definition limiter_inv :: "limiter \<Rightarrow> bool" where
  "limiter_inv l \<longleftrightarrow>
     map_ok (buckets l) \<and> config_ok (cfg l)
     \<and> (\<forall>k b. map_get (buckets l) k = Some b \<longrightarrow>
          bucket_ok b \<and> (\<exists>d key. k = full_key d key \<and> rate b = rateFor l d
             \<and> maxBurst b = max_burst l d
             \<and> d \<in> {DimensionAgent, DimensionGroup, DimensionTag}))"

lemma limiter_invD:
  assumes "limiter_inv l"
  shows "map_ok (buckets l)" "config_ok (cfg l)"
    "map_get (buckets l) k = Some b \<Longrightarrow> bucket_ok b"
  using assms by (auto simp: limiter_inv_def)

lemma rateFor_pos_dim:
  "0 < rateFor l d \<Longrightarrow> d \<in> {DimensionAgent, DimensionGroup, DimensionTag}"
  by (auto simp: rateFor_def split: if_splits)

lemma rateFor_cfg [simp]: "rateFor (l\<lparr>buckets := m\<rparr>) d = rateFor l d"
  by (simp add: rateFor_def)

lemma max_burst_cfg [simp]: "max_burst (l\<lparr>buckets := m\<rparr>) d = max_burst l d"
  by (simp add: max_burst_def)

text \<open>Dimension names contain no colon, so a full key determines its dimension and its key.\<close>

lemma full_key_inj:
  assumes "full_key d k = full_key d' k'"
    and "d \<in> {DimensionAgent, DimensionGroup, DimensionTag}"
    and "d' \<in> {DimensionAgent, DimensionGroup, DimensionTag}"
  shows "d = d' \<and> k = k'"
  using assms by (auto simp: full_key_def)

lemma refill_fields [simp]:
  "maxBurst (refill now b) = maxBurst b" "rate (refill now b) = rate b"
  "lastFill (refill now b) = now"
  by (simp_all add: refill_def Let_def)

lemma time_Sub_nonneg: "s \<le> t \<Longrightarrow> 0 \<le> time_Sub t s"
  by (simp add: time_Sub_def int64_min_def int64_max_def)

lemma sdiv_nonneg: "0 \<le> d \<Longrightarrow> d sdiv 1000000000 = d div 1000000000"
  and smod_nonneg: "0 \<le> d \<Longrightarrow> d smod 1000000000 = d mod 1000000000" for d :: int
  by (cases "d = 0"; simp add: signed_divide_int_def signed_modulo_int_def sgn_if)+

lemma Seconds_nonneg: "0 \<le> d \<Longrightarrow> 0 \<le> Seconds d"
proof -
  assume "0 \<le> d"
  then have "0 \<le> d sdiv 1000000000" "0 \<le> d smod 1000000000"
    by (simp_all add: sdiv_nonneg smod_nonneg)
  then have "0 \<le> f64_of_int (d sdiv 1000000000)"
    "0 \<le> f64_div (f64_of_int (d smod 1000000000)) 1000000000"
    by (simp_all add: f64_of_int_def f64_div_def f64.rnd_nonneg)
  then show ?thesis by (simp add: Seconds_def f64_add_def f64.rnd_nonneg)
qed

lemma refill_ok:
  assumes "bucket_ok b" "lastFill b \<le> now"
  shows "bucket_ok (refill now b)"
proof -
  from assms(2) have s: "0 \<le> Seconds (time_Sub now (lastFill b))"
    by (intro Seconds_nonneg time_Sub_nonneg)
  have x: "0 \<le> f64_mul (Seconds (time_Sub now (lastFill b))) (rate b)"
    using s assms(1) by (simp add: f64_mul_def bucket_ok_def f64.rnd_nonneg)
  have "1 \<le> maxBurst b \<longrightarrow>
      0 \<le> f64_add (tokens b) (f64_mul (Seconds (time_Sub now (lastFill b))) (rate b))"
    using x assms(1) by (auto simp: f64_add_def bucket_ok_def intro!: f64.rnd_nonneg)
  then show ?thesis
    using assms(1) by (auto simp: bucket_ok_def refill_def Let_def f64_add_def)
qed

lemma spend_ok:
  assumes "bucket_ok b" "1 \<le> tokens b"
  shows "bucket_ok (b\<lparr>tokens := f64_sub (tokens b) 1\<rparr>)"
proof -
  have "f64_sub (tokens b) 1 \<le> maxBurst b"
    using assms by (auto simp: f64_sub_def bucket_ok_def intro!: f64.rnd_le_fixed)
  moreover have "0 \<le> f64_sub (tokens b) 1"
    using assms by (auto simp: f64_sub_def intro!: f64.rnd_nonneg)
  ultimately show ?thesis using assms by (simp add: bucket_ok_def f64_sub_def)
qed

lemma fresh_ok:
  assumes "0 < r" "f64_round mb = mb"
  shows "bucket_ok \<lparr>tokens = f64_sub mb 1, maxBurst = mb, rate = r, lastFill = now\<rparr>"
  using assms by (auto simp: bucket_ok_def f64_sub_def intro!: f64.rnd_le_fixed f64.rnd_nonneg)

lemma inv_put:
  assumes "limiter_inv l" "bucket_ok b" "rate b = rateFor l d" "maxBurst b = max_burst l d"
    "d \<in> {DimensionAgent, DimensionGroup, DimensionTag}"
  shows "limiter_inv (l\<lparr>buckets := map_put (full_key d k) b (buckets l)\<rparr>)"
  using assms unfolding limiter_inv_def by (auto split: if_splits)

lemma inv_bucket_dim:
  assumes "limiter_inv l" "map_get (buckets l) (full_key d k) = Some b" "0 < rateFor l d"
  shows "bucket_ok b" "rate b = rateFor l d" "maxBurst b = max_burst l d"
proof -
  from assms(1,2) obtain d' k' where "bucket_ok b" "full_key d k = full_key d' k'"
    "rate b = rateFor l d'" "maxBurst b = max_burst l d'"
    "d' \<in> {DimensionAgent, DimensionGroup, DimensionTag}"
    unfolding limiter_inv_def by blast
  moreover from this full_key_inj rateFor_pos_dim [OF assms(3)] have "d = d'" by blast
  ultimately show "bucket_ok b" "rate b = rateFor l d" "maxBurst b = max_burst l d" by simp_all
qed

lemma max_burst_float [simp]: "f64_round (max_burst l d) = max_burst l d"
  by (simp add: max_burst_def f64_mul_def)

text \<open>The clock has not gone back behind any bucket's last refill.\<close>

definition clock_ok :: "limiter \<Rightarrow> time \<Rightarrow> bool" where
  "clock_ok l now \<longleftrightarrow> list_all (\<lambda>(k, b). lastFill b \<le> now) (buckets l)"

lemma clock_okD: "clock_ok l now \<Longrightarrow> map_get (buckets l) k = Some b \<Longrightarrow> lastFill b \<le> now"
  by (auto simp: clock_ok_def list_all_iff map_get_def dest: map_of_SomeD)

lemma limiter_inv_New: "limiter_inv (New c)"
  by (simp add: limiter_inv_def New_def Let_def config_ok_def)

lemma limiter_inv_Allow:
  assumes "limiter_inv l" "clock_ok l now"
  shows "limiter_inv (snd (Allow l now d k))"
proof (cases "Enabled (cfg l) \<and> 0 < rateFor l d")
  case False
  with assms show ?thesis by (auto simp: Allow_def Let_def)
next
  case True
  then have d: "d \<in> {DimensionAgent, DimensionGroup, DimensionTag}" using rateFor_pos_dim by blast
  show ?thesis
  proof (cases "map_get (buckets l) (full_key d k)")
    case None
    with True assms(1) d show ?thesis
      by (auto simp: Allow_def Let_def intro!: inv_put fresh_ok)
  next
    case (Some b)
    note b = inv_bucket_dim [OF assms(1) Some] True
    have r: "bucket_ok (refill now b)"
      using b clock_okD [OF assms(2) Some] by (intro refill_ok) simp_all
    from Some True have eq: "snd (Allow l now d k) =
        l\<lparr>buckets := map_put (full_key d k)
            (if tokens (refill now b) < 1 then refill now b
             else (refill now b)\<lparr>tokens := f64_sub (tokens (refill now b)) 1\<rparr>) (buckets l)\<rparr>"
      by (simp add: Allow_def Let_def)
    show ?thesis
      unfolding eq using r b assms(1) d spend_ok [OF r] by (intro inv_put) (auto simp: not_less)
  qed
qed

lemma map_get_filter:
  "map_ok m \<Longrightarrow> map_get (filter P m) k =
     (case map_get m k of None \<Rightarrow> None | Some b \<Rightarrow> if P (k, b) then Some b else None)"
proof (induction m)
  case (Cons x m)
  obtain a b where x: "x = (a, b)" by (cases x)
  from Cons.prems have "map_ok m" and "a \<notin> fst ` set m"
    by (auto simp: map_ok_def x)
  then have "map_of m a = None" "map_of (filter P m) a = None"
    by (auto simp: map_of_eq_None_iff)
  with Cons.IH [OF \<open>map_ok m\<close>] show ?case by (auto simp: map_get_def x)
qed (simp add: map_get_def)

lemma map_ok_filter: "map_ok m \<Longrightarrow> map_ok (filter P m)"
  unfolding map_ok_def by (induction m) auto

lemma limiter_inv_Cleanup: "limiter_inv l \<Longrightarrow> limiter_inv (Cleanup l now)"
  unfolding limiter_inv_def Cleanup_def
  by (auto simp: map_ok_filter map_get_filter split: option.splits if_splits)

text \<open>
  A run of the limiter: a fresh limiter, calls of \<open>Allow\<close> and of \<open>Cleanup\<close> in any order, with a
  clock that does not go back.
\<close>

inductive limiter_run :: "rl_config \<Rightarrow> limiter \<Rightarrow> time \<Rightarrow> bool" for c where
  new: "limiter_run c (New c) t"
| allow: "limiter_run c l t \<Longrightarrow> t \<le> now \<Longrightarrow> limiter_run c (snd (Allow l now d k)) now"
| clean: "limiter_run c l t \<Longrightarrow> t \<le> now \<Longrightarrow> limiter_run c (Cleanup l now) now"

lemma clock_ok_mono: "clock_ok l t \<Longrightarrow> t \<le> now \<Longrightarrow> clock_ok l now"
  by (auto simp: clock_ok_def list_all_iff)

lemma clock_ok_put:
  "clock_ok l now \<Longrightarrow> lastFill b \<le> now \<Longrightarrow> clock_ok (l\<lparr>buckets := map_put k b (buckets l)\<rparr>) now"
proof -
  have "list_all P (map_put k b m)" if "list_all P m" "P (k, b)" for P m
    using that by (induction k b m rule: map_put.induct) auto
  then show "clock_ok l now \<Longrightarrow> lastFill b \<le> now \<Longrightarrow>
      clock_ok (l\<lparr>buckets := map_put k b (buckets l)\<rparr>) now"
    by (simp add: clock_ok_def)
qed

lemma clock_ok_Allow: "clock_ok l now \<Longrightarrow> clock_ok (snd (Allow l now d k)) now"
  by (auto simp: Allow_def Let_def clock_ok_put split: option.splits)

lemma limiter_run_clock: "limiter_run c l t \<Longrightarrow> clock_ok l t"
proof (induction rule: limiter_run.induct)
  case (new t)
  show ?case by (simp add: clock_ok_def New_def Let_def map_make_def)
next
  case (allow l t now d k)
  then show ?case by (blast intro: clock_ok_Allow clock_ok_mono)
next
  case (clean l t now)
  then have "clock_ok l now" by (blast intro: clock_ok_mono)
  then show ?case by (auto simp: clock_ok_def Cleanup_def list_all_iff)
qed

lemma limiter_run_inv: "limiter_run c l t \<Longrightarrow> limiter_inv l"
proof (induction rule: limiter_run.induct)
  case (allow l t now d k)
  then show ?case by (blast intro: limiter_inv_Allow clock_ok_mono limiter_run_clock)
qed (simp_all add: limiter_inv_New limiter_inv_Cleanup)

text \<open>
  C21. In every run of the limiter, whatever the order of calls, each bucket's token count stays a
  \<open>float64\<close> at most its burst capacity (and never negative when the capacity is at least one),
  and the bucket keeps the rate and capacity of the dimension its key names.
\<close>

theorem limiter_run_invariant:
  assumes "limiter_run c l t" and "map_get (buckets l) k = Some b"
  shows "tokens b \<le> maxBurst b \<and> (1 \<le> maxBurst b \<longrightarrow> 0 \<le> tokens b)
     \<and> (\<exists>d key. k = full_key d key \<and> rate b = rateFor l d \<and> maxBurst b = max_burst l d)"
proof -
  from assms(1) have "limiter_inv l" by (rule limiter_run_inv)
  with assms(2) show ?thesis unfolding limiter_inv_def bucket_ok_def by blast
qed

theorem limiter_run_invariant_witness:
  "\<exists>l b. limiter_run DefaultConfig l 5 \<and> map_get (buckets l) (full_key ''agent'' ''a'') = Some b
     \<and> tokens b \<le> maxBurst b"
proof -
  define l where "l = snd (Allow (New DefaultConfig) 5 ''agent'' ''a'')"
  have run: "limiter_run DefaultConfig l 5"
    unfolding l_def by (rule limiter_run.allow [OF limiter_run.new [where t = 0]]) simp
  have "map_get (buckets l) (full_key ''agent'' ''a'') \<noteq> None"
    by (simp add: l_def Allow_def New_def Let_def DefaultConfig_def rateFor_def)
  then obtain b where b: "map_get (buckets l) (full_key ''agent'' ''a'') = Some b" by blast
  from limiter_run_invariant [OF run b] run b show ?thesis by blast
qed

section \<open>Decisions\<close>

text \<open>
  Every branch of \<open>Allow\<close>: a disabled limiter and a dimension without a positive rate admit the
  call and keep the state; an unseen key is admitted and starts one token below its capacity; a
  known key is refilled and admitted exactly when at least one token is there, which is spent.
\<close>

theorem Allow_branches:
  "(\<not> Enabled (cfg l) \<or> rateFor l d \<le> 0 \<longrightarrow> Allow l now d k = (True, l))
   \<and> (Enabled (cfg l) \<and> 0 < rateFor l d \<longrightarrow>
       (case map_get (buckets l) (full_key d k) of
          None \<Rightarrow> fst (Allow l now d k)
            \<and> (\<exists>b. map_get (buckets (snd (Allow l now d k))) (full_key d k) = Some b
                \<and> tokens b = f64_sub (maxBurst b) 1 \<and> lastFill b = now)
        | Some b \<Rightarrow>
            (fst (Allow l now d k) \<longleftrightarrow> 1 \<le> tokens (refill now b))
            \<and> map_get (buckets (snd (Allow l now d k))) (full_key d k) =
                Some (if 1 \<le> tokens (refill now b)
                      then (refill now b)\<lparr>tokens := f64_sub (tokens (refill now b)) 1\<rparr>
                      else refill now b)))"
  by (auto simp: Allow_def Let_def split: option.splits)

theorem Allow_branches_witness:
  "\<not> Enabled (cfg (New (DefaultConfig\<lparr>Enabled := False\<rparr>)))
   \<and> fst (Allow (New (DefaultConfig\<lparr>Enabled := False\<rparr>)) 7 ''agent'' ''x'')"
  using Allow_branches [of "New (DefaultConfig\<lparr>Enabled := False\<rparr>)" "''agent''" 7 "''x''"]
  by (simp add: New_def DefaultConfig_def Let_def)

text \<open>
  Keys do not interfere: a call for one dimension and key leaves the bucket of every other
  known dimension and key unchanged, also when the key text contains colons.
\<close>

theorem Allow_independent:
  assumes "d' \<in> {DimensionAgent, DimensionGroup, DimensionTag}" and "(d', k') \<noteq> (d, k)"
  shows "map_get (buckets (snd (Allow l now d k))) (full_key d' k')
     = map_get (buckets l) (full_key d' k')"
proof (cases "0 < rateFor l d")
  case False
  then show ?thesis by (auto simp: Allow_def Let_def)
next
  case True
  then have "full_key d' k' \<noteq> full_key d k"
    using full_key_inj assms rateFor_pos_dim by blast
  then show ?thesis by (auto simp: Allow_def Let_def split: option.splits)
qed

theorem Allow_independent_witness:
  "map_get (buckets (snd (Allow (New DefaultConfig) 7 ''agent'' ''x''))) (full_key ''tag'' ''x'') = None"
proof -
  have "''tag'' \<in> {DimensionAgent, DimensionGroup, DimensionTag}" by simp
  from Allow_independent [OF this, of "''x''" "''agent''" "''x''" "New DefaultConfig" 7]
  show ?thesis by (simp add: New_def Let_def DefaultConfig_def)
qed

text \<open>
  C39. A capacity below one token starves its key: once the key has a bucket, every later call is
  refused, however long the caller waits, until the bucket is cleaned up.
\<close>

theorem Allow_starved:
  assumes "limiter_inv l" and "Enabled (cfg l)" and "0 < rateFor l d" and "max_burst l d < 1"
    and "map_get (buckets l) (full_key d k) = Some b"
  shows "\<not> fst (Allow l now d k)
     \<and> map_get (buckets (snd (Allow l now d k))) (full_key d k) \<noteq> None"
proof -
  have "maxBurst b = max_burst l d" using inv_bucket_dim [OF assms(1,5,3)] by simp
  then have "tokens (refill now b) < 1"
    using assms(4) by (auto simp: refill_def Let_def)
  with assms show ?thesis by (simp add: Allow_def Let_def)
qed

definition slow_config :: rl_config where
  "slow_config = DefaultConfig\<lparr>PerAgentMPS := 1 / 4, BurstFactor := 1\<rparr>"

lemma f64_round_quarter: "f64_round (1 / 4) = 1 / 4"
proof -
  have "representable (1 / 4)"
    unfolding representable_def
    by (intro exI [of _ 1] exI [of _ "- 2"]) (simp add: power_int_minus)
  then show ?thesis by (rule f64_round_representable)
qed

theorem Allow_starved_witness:
  "\<not> fst (Allow (snd (Allow (New slow_config) 0 ''agent'' ''x'')) (3600 * nanos) ''agent'' ''x'')"
proof -
  define l where "l = snd (Allow (New slow_config) 0 ''agent'' ''x'')"
  have inv: "limiter_inv l"
    unfolding l_def
    by (intro limiter_inv_Allow limiter_inv_New)
       (simp add: clock_ok_def New_def Let_def map_make_def)
  have mb: "max_burst l ''agent'' < 1"
    by (simp add: l_def max_burst_def Allow_def New_def Let_def slow_config_def DefaultConfig_def
        rateFor_def f64_of_int_def f64.rnd_one f64_mul_def f64_round_quarter)
  have "map_get (buckets l) (full_key ''agent'' ''x'') \<noteq> None" and "Enabled (cfg l)"
    and "0 < rateFor l ''agent''"
    by (simp_all add: l_def Allow_def New_def Let_def slow_config_def DefaultConfig_def rateFor_def)
  with Allow_starved [OF inv _ _ mb] show ?thesis unfolding l_def [symmetric] by blast
qed


lemma default_burst: "f64_mul (f64_of_int 10) 100 = 1000"
  using f64_round_of_int [of 10] f64_round_of_int [of 1000] by (simp add: f64_of_int_def f64_mul_def)


section \<open>The long-run rate\<close>

text \<open>Successive calls for one key at the given instants: the answers, and the final state.\<close>

fun allow_seq :: "limiter \<Rightarrow> string \<Rightarrow> string \<Rightarrow> time list \<Rightarrow> bool list \<times> limiter" where
  "allow_seq l d k [] = ([], l)"
| "allow_seq l d k (t # ts) =
     (case Allow l t d k of (a, l1) \<Rightarrow>
        (case allow_seq l1 d k ts of (as, l2) \<Rightarrow> (a # as, l2)))"

definition admitted :: "bool list \<Rightarrow> nat" where
  "admitted as = length (filter (\<lambda>a. a) as)"

lemma Seconds_upper:
  assumes "0 \<le> d"
  shows "Seconds d \<le> of_int d / 1000000000 * (1 + 1 / 2 ^ 53) ^ 3 + 9 / 2 ^ 1075"
proof -
  define u eta where "u = (1 / 2 ^ 53 :: rat)" and "eta = (1 / 2 ^ 1075 :: rat)"
  let ?S = "of_int (d div 1000000000) :: rat" and ?N = "of_int (d mod 1000000000) :: rat"
  have ue: "0 \<le> u" "u \<le> 1" "0 \<le> eta" by (simp_all add: u_def eta_def)
  have up: "f64_round x \<le> x * (1 + u) + eta" if "0 \<le> x" for x
    using f64.rnd_upper [OF that] by (simp add: u_def eta_def)
  have S: "0 \<le> ?S" and N: "0 \<le> ?N" using assms by simp_all
  have D: "of_int d / 1000000000 = ?S + ?N / 1000000000"
  proof -
    have "d = 1000000000 * (d div 1000000000) + d mod 1000000000" by simp
    then have "(of_int d :: rat) = 1000000000 * ?S + ?N"
      by (metis of_int_add of_int_mult of_int_numeral)
    then show ?thesis by simp
  qed
  define a b0 b where "a = f64_round ?S" and "b0 = f64_round ?N" and "b = f64_round (b0 / 1000000000)"
  have nn: "0 \<le> a" "0 \<le> b0" "0 \<le> b"
    using S N by (simp_all add: a_def b0_def b_def f64.rnd_nonneg)
  have a: "a \<le> ?S * (1 + u) + eta" unfolding a_def using S by (rule up)
  have "b0 \<le> ?N * (1 + u) + eta" unfolding b0_def using N by (rule up)
  then have b0: "b0 / 1000000000 \<le> ?N / 1000000000 * (1 + u) + eta" using ue by simp
  have "b \<le> b0 / 1000000000 * (1 + u) + eta" unfolding b_def using nn by (intro up) simp
  also have "\<dots> \<le> (?N / 1000000000 * (1 + u) + eta) * (1 + u) + eta"
    using b0 ue by (intro add_right_mono mult_right_mono) simp_all
  also have "\<dots> \<le> ?N / 1000000000 * (1 + u) ^ 2 + 3 * eta"
    using ue mult_right_mono [of u 1 eta] by (simp add: power2_eq_square algebra_simps)
  finally have b: "b \<le> ?N / 1000000000 * (1 + u) ^ 2 + 3 * eta" .
  have "?S * (1 + u) \<le> ?S * (1 + u) ^ 2"
    using S ue by (intro mult_left_mono) (simp_all add: power2_eq_square algebra_simps)
  with a b have ab: "a + b \<le> (?S + ?N / 1000000000) * (1 + u) ^ 2 + 4 * eta"
    by (simp add: algebra_simps)
  have "Seconds d = f64_round (a + b)"
    using assms by (simp add: Seconds_def f64_add_def f64_of_int_def f64_div_def a_def b_def b0_def
        sdiv_nonneg smod_nonneg)
  also have "\<dots> \<le> (a + b) * (1 + u) + eta" using nn by (intro up) simp
  also have "\<dots> \<le> ((?S + ?N / 1000000000) * (1 + u) ^ 2 + 4 * eta) * (1 + u) + eta"
    using ab ue by (intro add_right_mono mult_right_mono) simp_all
  also have "\<dots> \<le> (?S + ?N / 1000000000) * (1 + u) ^ 3 + 9 * eta"
    using ue mult_right_mono [of u 1 eta]
    by (simp add: power3_eq_cube power2_eq_square algebra_simps)
  finally show ?thesis by (simp add: D u_def eta_def)
qed

text \<open>The rounding error one call can add to a bucket's count, relative to its capacity.\<close>

definition rounding_slack :: "rat \<Rightarrow> rat" where
  "rounding_slack mb = (mb + 1) / 2 ^ 50"

definition drift :: rat where
  "drift = 1 + 1 / 2 ^ 50"

lemma drift_bound: "(1 + 1 / 2 ^ 53) ^ 5 \<le> drift"
  by (simp add: drift_def power_divide)

lemma slack_bound:
  "2 * (mb / 2 ^ 53) + 36 * mb / 2 ^ 1075 + 5 / 2 ^ 1075 \<le> rounding_slack mb" if "1 \<le> mb"
proof -
  have "36 * mb / 2 ^ 1075 + 5 / 2 ^ 1075 \<le> mb / 2 ^ 53"
    using that by simp
  then show ?thesis using that by (simp add: rounding_slack_def)
qed

lemma refill_upper:
  assumes "bucket_ok b" "1 \<le> maxBurst b" "rate b \<le> maxBurst b" "lastFill b \<le> now"
  shows "tokens (refill now b) \<le> tokens b
     + rate b * (of_int (now - lastFill b) / 1000000000) * drift
     + (maxBurst b / 2 ^ 53 + 36 * maxBurst b / 2 ^ 1075 + 3 / 2 ^ 1075)"
proof -
  define u eta where "u = (1 / 2 ^ 53 :: rat)" and "eta = (1 / 2 ^ 1075 :: rat)"
  have ue: "0 \<le> u" "u \<le> 1" "0 \<le> eta" by (simp_all add: u_def eta_def)
  have up: "f64_round x \<le> x * (1 + u) + eta" if "0 \<le> x" for x
    using f64.rnd_upper [OF that] by (simp add: u_def eta_def)
  define D where "D = (of_int (now - lastFill b) / 1000000000 :: rat)"
  let ?d = "time_Sub now (lastFill b)"
  let ?r = "rate b" and ?B = "maxBurst b" and ?t = "tokens b"
  have r: "0 \<le> ?r" "0 \<le> ?t" "?t \<le> ?B" using assms by (simp_all add: bucket_ok_def)
  have d: "0 \<le> ?d" "?d \<le> now - lastFill b"
    using assms(4) by (auto simp: time_Sub_def int64_min_def int64_max_def)
  have D: "0 \<le> D" using assms(4) by (simp add: D_def)
  have s0: "0 \<le> Seconds ?d" using d by (intro Seconds_nonneg)
  have "Seconds ?d \<le> of_int ?d / 1000000000 * (1 + u) ^ 3 + 9 * eta"
    using Seconds_upper [OF d(1)] by (simp add: u_def eta_def)
  also have "\<dots> \<le> D * (1 + u) ^ 3 + 9 * eta"
    unfolding D_def using d ue
    by (intro add_right_mono mult_right_mono divide_right_mono) simp_all
  finally have s: "Seconds ?d \<le> D * (1 + u) ^ 3 + 9 * eta" .
  let ?x = "f64_mul (Seconds ?d) ?r"
  have x0: "0 \<le> ?x" using s0 r by (simp add: f64_mul_def f64.rnd_nonneg)
  have "?x \<le> Seconds ?d * ?r * (1 + u) + eta"
    unfolding f64_mul_def using s0 r by (intro up) simp
  also have "\<dots> \<le> (D * (1 + u) ^ 3 + 9 * eta) * ?r * (1 + u) + eta"
    using s r ue by (intro add_right_mono mult_right_mono) simp_all
  also have "\<dots> \<le> D * ?r * (1 + u) ^ 4 + 18 * (?r * eta) + eta"
  proof -
    have "9 * (?r * eta) * u \<le> 9 * (?r * eta) * 1"
      using r ue by (intro mult_left_mono) simp_all
    then show ?thesis by (simp add: power_numeral_reduce algebra_simps)
  qed
  finally have x: "?x \<le> D * ?r * (1 + u) ^ 4 + 18 * (?r * eta) + eta" .
  have "f64_add ?t ?x \<le> (?t + ?x) * (1 + u) + eta"
    unfolding f64_add_def using r x0 by (intro up) simp
  also have "\<dots> = ?t + ?t * u + ?x * (1 + u) + eta" by (simp add: algebra_simps)
  also have "\<dots> \<le> ?t + ?B * u + (D * ?r * (1 + u) ^ 4 + 18 * (?r * eta) + eta) * (1 + u) + eta"
    using x r ue by (intro add_mono mult_right_mono) simp_all
  also have "\<dots> \<le> ?t + ?B * u + D * ?r * (1 + u) ^ 5 + 36 * (?r * eta) + 3 * eta"
  proof -
    have "18 * (?r * eta) * u \<le> 18 * (?r * eta) * 1" "eta * u \<le> eta * 1"
      using r ue by (intro mult_left_mono; simp)+
    then show ?thesis by (simp add: power_numeral_reduce algebra_simps)
  qed
  also have "\<dots> \<le> ?t + ?B * u + D * ?r * drift + 36 * (?B * eta) + 3 * eta"
    using r D ue assms(3) drift_bound
    by (intro add_mono mult_left_mono mult_right_mono) (simp_all add: u_def)
  finally have "f64_add ?t ?x \<le> ?t + ?B * u + D * ?r * drift + 36 * (?B * eta) + 3 * eta" .
  then show ?thesis
    by (simp add: refill_def Let_def u_def eta_def D_def mult.commute mult.left_commute)
qed

lemma sub_one_upper:
  assumes "1 \<le> x" "x \<le> mb"
  shows "f64_sub x 1 + 1 \<le> x + mb / 2 ^ 53 + 1 / 2 ^ 1075"
proof -
  define u eta where "u = (1 / 2 ^ 53 :: rat)" and "eta = (1 / 2 ^ 1075 :: rat)"
  have "f64_sub x 1 \<le> (x - 1) * (1 + u) + eta"
    unfolding f64_sub_def u_def eta_def using assms(1) by (intro f64.rnd_upper) simp
  moreover have "(x - 1) * u \<le> mb * u"
    using assms by (intro mult_right_mono) (simp_all add: u_def)
  ultimately have "f64_sub x 1 + 1 \<le> x + mb * u + eta" by (simp add: algebra_simps)
  then show ?thesis by (simp add: u_def eta_def)
qed

text \<open>One call for a known key: what is left plus what was admitted never exceeds what was there
  plus what the elapsed time earned, up to rounding.\<close>

lemma Allow_potential:
  assumes inv: "limiter_inv l" and en: "Enabled (cfg l)" and r: "0 < rateFor l d"
    and mb: "1 \<le> max_burst l d" "rateFor l d \<le> max_burst l d"
    and b: "map_get (buckets l) (full_key d k) = Some b" "lastFill b \<le> now"
  shows "\<exists>b'. map_get (buckets (snd (Allow l now d k))) (full_key d k) = Some b' \<and> lastFill b' = now
     \<and> tokens b' + (if fst (Allow l now d k) then 1 else 0)
        \<le> tokens b + rateFor l d * (of_int (now - lastFill b) / 1000000000) * drift
          + rounding_slack (max_burst l d)"
proof -
  note i = inv_bucket_dim [OF inv b(1) r]
  let ?b = "refill now b"
  have ok: "bucket_ok ?b" using i b by (intro refill_ok)
  have up: "tokens ?b \<le> tokens b + rateFor l d * (of_int (now - lastFill b) / 1000000000) * drift
      + (max_burst l d / 2 ^ 53 + 36 * max_burst l d / 2 ^ 1075 + 3 / 2 ^ 1075)"
    using refill_upper [OF i(1) _ _ b(2)] mb i by simp
  note slack = slack_bound [OF mb(1)]
  have extra: "0 \<le> max_burst l d / 2 ^ 53" "(0::rat) \<le> 1 / 2 ^ 1075" using mb by simp_all
  show ?thesis
  proof (cases "tokens ?b < 1")
    case True
    with b en r have "Allow l now d k = (False, l\<lparr>buckets := map_put (full_key d k) ?b (buckets l)\<rparr>)"
      by (simp add: Allow_def Let_def)
    moreover have "tokens ?b \<le> tokens b
        + rateFor l d * (of_int (now - lastFill b) / 1000000000) * drift
        + rounding_slack (max_burst l d)"
      using up slack extra by linarith
    ultimately show ?thesis by simp
  next
    case False
    with b en r have eq: "Allow l now d k = (True, l\<lparr>buckets := map_put (full_key d k)
        (?b\<lparr>tokens := f64_sub (tokens ?b) 1\<rparr>) (buckets l)\<rparr>)"
      by (simp add: Allow_def Let_def)
    have "f64_sub (tokens ?b) 1 + 1 \<le> tokens ?b + max_burst l d / 2 ^ 53 + 1 / 2 ^ 1075"
      using False ok i(3) by (intro sub_one_upper) (simp_all add: bucket_ok_def)
    with up slack have "f64_sub (tokens ?b) 1 + 1 \<le> tokens b
        + rateFor l d * (of_int (now - lastFill b) / 1000000000) * drift
        + rounding_slack (max_burst l d)"
      using extra by linarith
    then show ?thesis by (simp add: eq)
  qed
qed

lemma Allow_cfg [simp]: "cfg (snd (Allow l now d k)) = cfg l"
  by (auto simp: Allow_def Let_def split: option.splits)

lemma rateFor_Allow [simp]: "rateFor (snd (Allow l now d k)) d' = rateFor l d'"
  by (simp add: rateFor_def)

lemma max_burst_Allow [simp]: "max_burst (snd (Allow l now d k)) d' = max_burst l d'"
  by (simp add: max_burst_def)

lemma drift_pos: "0 < drift"
  by (simp add: drift_def)

lemma potential_step:
  "n \<le> tb' + E2 + S \<Longrightarrow> m = a + n \<Longrightarrow> E1 + E2 = E \<Longrightarrow> L = s + S \<Longrightarrow> tb' + a \<le> tb + E1 + s
     \<Longrightarrow> m \<le> tb + E + L" for n tb' E2 S m a E1 E L s tb :: rat
  by linarith

lemma allow_seq_known:
  assumes "limiter_inv l" "clock_ok l (lastFill b)" "Enabled (cfg l)" "0 < rateFor l d"
    "1 \<le> max_burst l d" "rateFor l d \<le> max_burst l d"
    "map_get (buckets l) (full_key d k) = Some b" "sorted (lastFill b # ts)"
  shows "of_nat (admitted (fst (allow_seq l d k ts)))
     \<le> tokens b + rateFor l d * (of_int (last (lastFill b # ts) - lastFill b) / 1000000000) * drift
       + of_nat (length ts) * rounding_slack (max_burst l d)"
  using assms
proof (induction ts arbitrary: l b)
  case Nil
  then show ?case
    using inv_bucket_dim [of l d k b] by (simp add: admitted_def bucket_ok_def)
next
  case (Cons t ts)
  let ?l = "snd (Allow l t d k)" and ?a = "fst (Allow l t d k)"
  have t: "lastFill b \<le> t" "sorted (t # ts)" using Cons.prems(8) by simp_all
  from Allow_potential [OF Cons.prems(1,3-7) t(1)] obtain b' where
    b': "map_get (buckets ?l) (full_key d k) = Some b'" "lastFill b' = t"
    and pot: "tokens b' + (if ?a then 1 else 0) \<le> tokens b
      + rateFor l d * (of_int (t - lastFill b) / 1000000000) * drift
      + rounding_slack (max_burst l d)" by blast
  have clk: "clock_ok l t" using Cons.prems(2) t(1) by (rule clock_ok_mono)
  have ih: "of_nat (admitted (fst (allow_seq ?l d k ts)))
     \<le> tokens b' + rateFor l d * (of_int (last (t # ts) - t) / 1000000000) * drift
       + of_nat (length ts) * rounding_slack (max_burst l d)"
    using Cons.IH [of ?l b'] Cons.prems b' t clk
    by (simp add: limiter_inv_Allow clock_ok_Allow)
  have m: "of_nat (admitted (fst (allow_seq l d k (t # ts)))) =
      (if ?a then 1 else 0) + (of_nat (admitted (fst (allow_seq ?l d k ts))) :: rat)"
    by (simp add: admitted_def split: prod.splits)
  have e: "rateFor l d * (of_int (t - lastFill b) / 1000000000) * drift
      + rateFor l d * (of_int (last (t # ts) - t) / 1000000000) * drift
      = rateFor l d * (of_int (last (t # ts) - lastFill b) / 1000000000) * drift"
    by (simp add: distrib_left [symmetric] distrib_right [symmetric]
        add_divide_distrib [symmetric])
  have len: "of_nat (length (t # ts)) * rounding_slack (max_burst l d)
      = rounding_slack (max_burst l d) + of_nat (length ts) * rounding_slack (max_burst l d)"
    by (simp add: algebra_simps)
  have last: "last (lastFill b # t # ts) = last (t # ts)" by simp
  show ?case unfolding last by (rule potential_step [OF ih m e len pot])
qed



end
