(* ===== verification/GoValues.thy ===== *)
theory GoValues
  imports Complex_Main GoMap
begin

text \<open>
  Values of Go's type \<open>any\<close> that occur in envelopes and message bodies: what \<open>encoding/json\<close>
  produces (\<open>nil\<close>, \<open>bool\<close>, \<open>float64\<close>, \<open>string\<close>, \<open>[]any\<close>, \<open>map[string]any\<close>) and what
  the sources store themselves (an \<open>int\<close> error code, a \<open>[]string\<close> of capabilities). A finite
  \<open>float64\<close> is the rational number it denotes.
\<close>

datatype any =
    ANil
  | ABool bool
  | AFloat rat
  | AInt int
  | AStr string
  | AList "any list"
  | AStrs "string list"
  | AMap "(string \<times> any) list"

text \<open>A map field of a struct: \<open>None\<close> is the nil map.\<close>

type_synonym anymap = "any gomap option"

text \<open>Indexing a map, which yields no value on the nil map.\<close>

definition index_map :: "anymap \<Rightarrow> string \<Rightarrow> any option" where
  "index_map m k = (case m of None \<Rightarrow> None | Some mm \<Rightarrow> map_get mm k)"

text \<open>The type assertion \<open>v.(string)\<close> in its two-value form.\<close>

fun as_string :: "any \<Rightarrow> string option" where
  "as_string (AStr s) = Some s"
| "as_string _ = None"

fun as_map :: "any \<Rightarrow> any gomap option" where
  "as_map (AMap m) = Some m"
| "as_map _ = None"

lemma as_string_Some [simp]: "as_string v = Some s \<longleftrightarrow> v = AStr s"
  by (cases v) auto

lemma as_map_Some [simp]: "as_map v = Some m \<longleftrightarrow> v = AMap m"
  by (cases v) auto

lemma index_map_simps [simp]:
  "index_map None k = None" "index_map (Some m) k = map_get m k"
  by (simp_all add: index_map_def)

end
