(* ===== verification/Utf8.thy ===== *)
theory Utf8
  imports Prelude
begin

text \<open>
  UTF-8 as Go's \<open>unicode/utf8\<close> decodes it: the length of the valid encoding at the front of a byte
  string, and the replacement of every byte outside a valid encoding by U+FFFD, which is what
  \<open>encoding/json\<close> does to the strings it writes and reads.
\<close>

definition cont_byte :: "char \<Rightarrow> bool" where
  "cont_byte c \<longleftrightarrow> CHR 0x80 \<le> c \<and> c \<le> CHR 0xBF"

text \<open>The range of the second byte, which depends on the first one.\<close>

definition second_byte :: "char \<Rightarrow> char \<Rightarrow> bool" where
  "second_byte a b =
     (if a = CHR 0xE0 then CHR 0xA0 \<le> b \<and> b \<le> CHR 0xBF
      else if a = CHR 0xED then CHR 0x80 \<le> b \<and> b \<le> CHR 0x9F
      else if a = CHR 0xF0 then CHR 0x90 \<le> b \<and> b \<le> CHR 0xBF
      else if a = CHR 0xF4 then CHR 0x80 \<le> b \<and> b \<le> CHR 0x8F
      else cont_byte b)"

text \<open>Length of the encoding a string starts with; 0 when it starts with none.\<close>

definition rune_len :: "string \<Rightarrow> nat" where
  "rune_len s =
     (case s of
        [] \<Rightarrow> 0
      | a # r \<Rightarrow>
          if a \<le> CHR 0x7F then 1
          else (case r of
              [] \<Rightarrow> 0
            | b # r2 \<Rightarrow>
                if CHR 0xC2 \<le> a \<and> a \<le> CHR 0xDF then (if cont_byte b then 2 else 0)
                else (case r2 of
                    [] \<Rightarrow> 0
                  | c # r3 \<Rightarrow>
                      if CHR 0xE0 \<le> a \<and> a \<le> CHR 0xEF
                      then (if second_byte a b \<and> cont_byte c then 3 else 0)
                      else (case r3 of
                          [] \<Rightarrow> 0
                        | d # r4 \<Rightarrow>
                            if CHR 0xF0 \<le> a \<and> a \<le> CHR 0xF4
                               \<and> second_byte a b \<and> cont_byte c \<and> cont_byte d then 4 else 0))))"

definition rune_error :: string where
  "rune_error = [CHR 0xEF, CHR 0xBF, CHR 0xBD]"

function sanitize :: "string \<Rightarrow> string" where
  "sanitize s =
     (if s = [] then []
      else if rune_len s = 0 then rune_error @ sanitize (tl s)
      else take (rune_len s) s @ sanitize (drop (rune_len s) s))"
  by pat_completeness auto
termination
  by (relation "measure length") auto

function utf8_valid :: "string \<Rightarrow> bool" where
  "utf8_valid s =
     (if s = [] then True
      else if rune_len s = 0 then False
      else utf8_valid (drop (rune_len s) s))"
  by pat_completeness auto
termination
  by (relation "measure length") auto

declare sanitize.simps [simp del] utf8_valid.simps [simp del]

lemma rune_len_ascii: "a \<le> CHR 0x7F \<Longrightarrow> rune_len (a # s) = 1"
  by (simp add: rune_len_def)

lemma rune_len_le: "rune_len s \<le> length s"
  by (auto simp: rune_len_def split: list.splits)

lemma utf8_valid_Nil [simp]: "utf8_valid []"
  by (simp add: utf8_valid.simps)

lemma sanitize_Nil [simp]: "sanitize [] = []"
  by (simp add: sanitize.simps)

lemma utf8_valid_ascii [simp]: "a \<le> CHR 0x7F \<Longrightarrow> utf8_valid (a # s) = utf8_valid s"
  by (simp add: utf8_valid.simps [of "a # s"] rune_len_ascii)

lemma sanitize_ascii [simp]: "a \<le> CHR 0x7F \<Longrightarrow> sanitize (a # s) = a # sanitize s"
  by (simp add: sanitize.simps [of "a # s"] rune_len_ascii)

lemma sanitize_id: "utf8_valid s \<Longrightarrow> sanitize s = s"
proof (induction s rule: utf8_valid.induct)
  case (1 s)
  show ?case
  proof (cases "s = []")
    case False
    with 1 have "rune_len s \<noteq> 0" by (subst (asm) (2) utf8_valid.simps) (auto split: if_splits)
    with False 1 show ?thesis
      by (simp add: sanitize.simps [of s] utf8_valid.simps [of s])
  qed simp
qed

text \<open>The encoding at the front is determined by its own bytes.\<close>

lemma rune_len_append:
  assumes "rune_len s \<noteq> 0"
  shows "rune_len (s @ t) = rune_len s"
proof (cases s)
  case 1: (Cons a r)
  show ?thesis
  proof (cases r)
    case Nil
    with 1 assms show ?thesis by (simp add: rune_len_def split: if_splits)
  next
    case 2: (Cons b r2)
    show ?thesis
    proof (cases r2)
      case Nil
      with 1 2 assms show ?thesis by (simp add: rune_len_def split: if_splits)
    next
      case 3: (Cons c r3)
      with 1 2 assms show ?thesis
        by (cases r3) (simp_all add: rune_len_def split: if_splits)
    qed
  qed
qed (use assms in \<open>simp add: rune_len_def\<close>)

lemma rune_len_take_self:
  assumes "rune_len s \<noteq> 0"
  shows "rune_len (take (rune_len s) s) = rune_len s"
proof (cases s)
  case 1: (Cons a r)
  consider "a \<le> CHR 0x7F" | "\<not> a \<le> CHR 0x7F" by blast
  then show ?thesis
  proof cases
    case 1
    with \<open>s = a # r\<close> show ?thesis by (simp add: rune_len_def)
  next
    case 2
    note na = this
    show ?thesis
    proof (cases "CHR 0xC2 \<le> a \<and> a \<le> CHR 0xDF")
      case True
      with na 1 assms show ?thesis
        by (cases r) (simp_all add: rune_len_def numeral_2_eq_2 split: if_splits)
    next
      case False
      then obtain b c r3 where r: "r = b # c # r3"
        using na 1 assms by (cases r; cases "tl r") (auto simp: rune_len_def)
      show ?thesis
      proof (cases "CHR 0xE0 \<le> a \<and> a \<le> CHR 0xEF")
        case True
        with na 1 assms False r show ?thesis
          by (simp add: rune_len_def numeral_3_eq_3 split: if_splits)
      next
        case nf: False
        then obtain d r4 where "r3 = d # r4"
          using na 1 assms False r by (cases r3) (auto simp: rune_len_def)
        with na 1 assms False nf r show ?thesis
          by (simp add: rune_len_def numeral_eq_Suc split: if_splits)
      qed
    qed
  qed
qed (use assms in \<open>simp add: rune_len_def\<close>)

lemma rune_len_take: "rune_len s \<noteq> 0 \<Longrightarrow> rune_len (take (rune_len s) s @ t) = rune_len s"
  using rune_len_take_self rune_len_append by metis

lemma utf8_valid_sanitize: "utf8_valid (sanitize s)"
proof (induction s rule: sanitize.induct)
  case (1 s)
  consider "s = []" | "s \<noteq> []" "rune_len s = 0" | "s \<noteq> []" "rune_len s \<noteq> 0" by blast
  then show ?case
  proof cases
    case 2
    then have eq: "sanitize s = rune_error @ sanitize (tl s)" by (simp add: sanitize.simps [of s])
    have l: "rune_len (rune_error @ sanitize (tl s)) = 3"
      by (simp add: rune_error_def rune_len_def second_byte_def cont_byte_def less_eq_char_def)
    then have "drop 3 (rune_error @ sanitize (tl s)) = sanitize (tl s)"
      by (simp add: rune_error_def)
    with 1(1) [OF 2] l show ?thesis
      unfolding eq by (simp add: utf8_valid.simps [of "rune_error @ _"])
  next
    case 3
    then have eq: "sanitize s = take (rune_len s) s @ sanitize (drop (rune_len s) s)"
      by (simp add: sanitize.simps [of s])
    have l: "rune_len (sanitize s) = rune_len s" unfolding eq using 3 by (simp add: rune_len_take)
    have "drop (rune_len s) (sanitize s) = sanitize (drop (rune_len s) s)"
      unfolding eq using rune_len_le [of s] by simp
    with 1(2) [OF 3] l 3 show ?thesis by (simp add: utf8_valid.simps [of "sanitize s"])
  qed simp
qed

lemma sanitize_idem [simp]: "sanitize (sanitize s) = sanitize s"
  by (intro sanitize_id utf8_valid_sanitize)

end
