(* ===== verification/Json.thy ===== *)
theory Json
  imports GoValues Utf8 Float64
begin

text \<open>
  What a value becomes when \<open>encoding/json\<close> writes it and reads it back into an \<open>any\<close>: numbers
  are \<open>float64\<close>, every list is a \<open>[]any\<close>, strings and keys are valid UTF-8, and of two equal
  keys the last one wins. Metadata takes this form in the database.
\<close>

fun json_norm :: "any \<Rightarrow> any" where
  "json_norm ANil = ANil"
| "json_norm (ABool b) = ABool b"
| "json_norm (AFloat x) = AFloat x"
| "json_norm (AInt i) = AFloat (f64_of_int i)"
| "json_norm (AStr s) = AStr (sanitize s)"
| "json_norm (AList vs) = AList (map json_norm vs)"
| "json_norm (AStrs ss) = AList (map (\<lambda>s. AStr (sanitize s)) ss)"
| "json_norm (AMap m) = AMap (map_from_list (map (\<lambda>(k, v). (sanitize k, json_norm v)) m))"

text \<open>The nil map is written as \<open>null\<close> and read back as the nil map.\<close>

definition norm_map :: "anymap \<Rightarrow> anymap" where
  "norm_map m = map_option (\<lambda>mm. map_from_list (map (\<lambda>(k, v). (sanitize k, json_norm v)) mm)) m"

lemma norm_map_ok: "norm_map m = Some mm \<Longrightarrow> map_ok mm"
  by (auto simp: norm_map_def)

lemma map_of_rev_distinct: "distinct (map fst xs) \<Longrightarrow> map_of (rev xs) = map_of xs"
  by (subst map_of_inject_set) (simp_all add: rev_map [symmetric])

text \<open>A map with valid UTF-8 keys keeps its keys.\<close>

lemma index_norm_map:
  assumes "map_ok m" "\<forall>k \<in> fst ` set m. utf8_valid k"
  shows "index_map (norm_map (Some m)) k = map_option json_norm (map_get m k)"
proof -
  have keys: "map (\<lambda>(k, v). (sanitize k, json_norm v)) m = map (\<lambda>(k, v). (k, json_norm v)) m"
    using assms(2) by (auto simp: sanitize_id)
  have "map fst (map (\<lambda>(k, v). (k, json_norm v)) m) = map fst m"
    by (simp add: comp_def case_prod_unfold)
  then have "distinct (map fst (map (\<lambda>(k, v). (k, json_norm v)) m))"
    using map_ok_distinct [OF assms(1)] by (simp only:)
  then have "map_of (rev (map (\<lambda>(k, v). (k, json_norm v)) m)) = map_of (map (\<lambda>(k, v). (k, json_norm v)) m)"
    by (rule map_of_rev_distinct)
  then show ?thesis
    by (simp add: norm_map_def keys map_get_from_list map_get_def [of m] map_of_map)
qed

end
