(* ===== verification/World.thy ===== *)
theory World
  imports Ratelimit Json "HOL-Library.Word"
begin

text \<open>
  The data of \<open>backend/internal/persistence/models.go\<close>, the database tables as the migrations
  leave them, and the world a request runs in: the tables, the supply of fresh UUIDs, the clock and
  the failures of the database connection. An operation takes the world and returns a result and
  the new world.
\<close>

section \<open>UUIDs\<close>

text \<open>
  A UUID is a 128-bit value, compared bytewise as PostgreSQL compares it. Parsing and printing are
  those of \<open>github.com/google/uuid\<close>, which is a parameter.
\<close>

type_synonym uuid = "128 word"

definition uuid_Nil :: uuid where "uuid_Nil = 0"

record uuid_lib =
  uuid_Parse :: "string \<Rightarrow> uuid res"
  uuid_String :: "uuid \<Rightarrow> string"

text \<open>
  What the sources rely on: printed UUIDs parse back, printing preserves the order, and the text
  consists of lower-case hexadecimal digits and hyphens.
\<close>

definition uuid_laws :: "uuid_lib \<Rightarrow> bool" where
  "uuid_laws U \<longleftrightarrow>
     (\<forall>u. uuid_Parse U (uuid_String U u) = Ok u)
     \<and> (\<forall>u v. uuid_String U u < uuid_String U v \<longleftrightarrow> u < v)
     \<and> (\<forall>u. uuid_String U u \<noteq> [] \<and> set (uuid_String U u) \<subseteq> set ''0123456789abcdef-'')"

lemma uuid_lawsD:
  assumes "uuid_laws U"
  shows "uuid_Parse U (uuid_String U u) = Ok u" "uuid_String U u < uuid_String U v \<longleftrightarrow> u < v"
    "uuid_String U u \<noteq> []" "set (uuid_String U u) \<subseteq> set ''0123456789abcdef-''"
  using assms unfolding uuid_laws_def by blast+

lemma TrimSpace_uuid:
  assumes "uuid_laws U"
  shows "TrimSpace (uuid_String U u) = uuid_String U u"
proof -
  have "set ''0123456789abcdef-'' \<inter> set space_bytes = {}" by (simp add: space_bytes_def space_encodings_def)
  then have "set (uuid_String U u) \<inter> set space_bytes = {}" using uuid_lawsD(4) [OF assms] by blast
  moreover have "hd (uuid_String U u) \<in> set (uuid_String U u)" "last (uuid_String U u) \<in> set (uuid_String U u)"
    using uuid_lawsD(3) [OF assms] by simp_all
  ultimately show ?thesis
    by (intro TrimSpace_id) (auto dest: hd_in_space_bytes last_in_space_bytes)
qed

section \<open>Rows\<close>

definition ConversationTypeDirect :: string where [simp]: "ConversationTypeDirect = ''direct''"
definition ConversationTypeGroup :: string where [simp]: "ConversationTypeGroup = ''group''"
definition ParticipantTypeUser :: string where [simp]: "ParticipantTypeUser = ''user''"
definition ParticipantTypeAgent :: string where [simp]: "ParticipantTypeAgent = ''agent''"
definition EntityTypeAgent :: string where [simp]: "EntityTypeAgent = ''agent''"
definition EntityTypeGroup :: string where [simp]: "EntityTypeGroup = ''group''"
definition EntityTypeUser :: string where [simp]: "EntityTypeUser = ''user''"
definition StatusPending :: string where [simp]: "StatusPending = ''PENDING''"
definition StatusAccepted :: string where [simp]: "StatusAccepted = ''ACCEPTED''"
definition StatusRejected :: string where [simp]: "StatusRejected = ''REJECTED''"

record user =
  u_ID :: uuid
  u_Email :: string
  u_PasswordHash :: string
  u_CreatedAt :: time
  u_EmailVerified :: bool
  u_VerificationToken :: "string option"
  u_VerificationTokenExpiresAt :: "time option"

record agent =
  a_ID :: uuid
  a_DisplayName :: string
  a_OwnerUserID :: uuid
  a_APISecretHash :: string
  a_CreatedAt :: time

record conversation =
  c_ID :: uuid
  c_Type :: string
  c_IDLow :: "uuid option"
  c_IDHigh :: "uuid option"
  c_GroupID :: "uuid option"
  c_CreatedAt :: time
  c_LastMessageID :: "uuid option"
  c_LastMessageAt :: "time option"

record participant =
  cp_ConversationID :: uuid
  cp_ParticipantID :: uuid
  cp_ParticipantKind :: string
  cp_Muted :: bool
  cp_LastReadMessageID :: "uuid option"
  cp_JoinedAt :: time

record chat_group =
  g_ID :: uuid
  g_Name :: string
  g_OwnerID :: uuid
  g_ConversationID :: "uuid option"
  g_CreatedAt :: time

record message =
  m_ID :: uuid
  m_FromID :: uuid
  m_ConversationID :: uuid
  m_ParticipantKind :: string
  m_Tag :: string
  m_Content :: string
  m_Metadata :: anymap
  m_Timestamp :: time

record connection_request =
  cr_ID :: uuid
  cr_SenderID :: uuid
  cr_FromID :: uuid
  cr_FromKind :: string
  cr_ToID :: uuid
  cr_ToKind :: string
  cr_Status :: string
  cr_CreatedAt :: time
  cr_UpdatedAt :: time

record list_item =
  li_ID :: uuid
  li_ReferenceID :: uuid
  li_ReferenceType :: string
  li_Name :: string
  li_LastMessageAt :: "time option"

record blacklist_entry =
  bl_ID :: uuid
  bl_FromID :: uuid
  bl_FromKind :: string
  bl_ToID :: uuid
  bl_ToKind :: string
  bl_CreatedAt :: time

text \<open>The tables, each a list of its rows.\<close>

record db =
  t_users :: "user list"
  t_agents :: "agent list"
  t_conversations :: "conversation list"
  t_participants :: "participant list"
  t_groups :: "chat_group list"
  t_messages :: "message list"
  t_requests :: "connection_request list"
  t_blacklist :: "blacklist_entry list"

definition empty_db :: db where
  "empty_db = \<lparr>t_users = [], t_agents = [], t_conversations = [], t_participants = [],
     t_groups = [], t_messages = [], t_requests = [], t_blacklist = []\<rparr>"

section \<open>The world and its operations\<close>

text \<open>
  A statement reaches the server and its result arrives, or the connection fails before the
  statement takes effect, or it fails after that, so that the caller sees an error although the
  tables changed. A failure also stands for whatever else the server may reject.
\<close>

datatype fault = NoFault | FailBefore | FailAfter

text \<open>The message of \<open>backend/internal/email/email.go\<close>.\<close>

record email_message =
  em_To :: string
  em_Subject :: string
  em_Text :: string
  em_HTML :: string

text \<open>
  The world also has the random bytes of \<open>crypto/rand\<close> (the stream of each read, or its error),
  the messages handed to the e-mail sender, the process's rate limiter (\<open>None\<close> is the nil
  pointer) and the label pairs its \<open>RateLimited\<close> counter was incremented with.
\<close>

record world =
  w_db :: db
  w_uuid :: "nat \<Rightarrow> uuid"
  w_uuids_used :: nat
  w_clock :: "nat \<Rightarrow> time"
  w_clock_reads :: nat
  w_fault :: "nat \<Rightarrow> fault"
  w_stmts :: nat
  w_rand :: "nat \<Rightarrow> (nat \<Rightarrow> char) res"
  w_rand_reads :: nat
  w_outbox :: "email_message list"
  w_limiter :: "limiter option"
  w_limited :: "(string \<times> string) list"

text \<open>
  Operations of a state, with results that may be errors; the operations of the server work on the
  world, those of the clients on a state of their own.
\<close>

type_synonym ('a, 's) action = "'s \<Rightarrow> 'a res \<times> 's"

type_synonym 'a io = "('a, world) action"

definition returnE :: "'a \<Rightarrow> ('a, 's) action" where
  "returnE x w = (Ok x, w)"

definition failE :: "go_error \<Rightarrow> ('a, 's) action" where
  "failE e w = (Fail e, w)"

text \<open>Sequencing that returns the first error, as \<open>if err != nil { return err }\<close> does.\<close>

definition bindE :: "('a, 's) action \<Rightarrow> ('a \<Rightarrow> ('b, 's) action) \<Rightarrow> ('b, 's) action" where
  "bindE m f w = (case m w of (Inl e, w1) \<Rightarrow> (Inl e, w1) | (Inr x, w1) \<Rightarrow> f x w1)"

text \<open>Sequencing that hands the error to the continuation.\<close>

definition tryE :: "('a, 's) action \<Rightarrow> ('a res \<Rightarrow> ('b, 's) action) \<Rightarrow> ('b, 's) action" where
  "tryE m f w = (case m w of (r, w1) \<Rightarrow> f r w1)"

text \<open>\<open>return nil, fmt.Errorf("...: %w", err)\<close>.\<close>

definition wrapE :: "string \<Rightarrow> ('a, 's) action \<Rightarrow> ('a, 's) action" where
  "wrapE msg m w = (case m w of (Inl e, w1) \<Rightarrow> (Inl (Wrap msg e), w1) | (Inr x, w1) \<Rightarrow> (Inr x, w1))"

text \<open>A pure result as an operation.\<close>

definition liftE :: "'a res \<Rightarrow> ('a, 's) action" where
  "liftE r w = (r, w)"

definition time_Now :: "time io" where
  "time_Now w = (Ok (w_clock w (w_clock_reads w)), w\<lparr>w_clock_reads := Suc (w_clock_reads w)\<rparr>)"

definition uuid_New :: "uuid io" where
  "uuid_New w = (Ok (w_uuid w (w_uuids_used w)), w\<lparr>w_uuids_used := Suc (w_uuids_used w)\<rparr>)"

definition rand_Read :: "nat \<Rightarrow> string io" where
  "rand_Read n w =
     ((case w_rand w (w_rand_reads w) of Inl e \<Rightarrow> Fail e | Inr f \<Rightarrow> Ok (map f [0..<n])),
      w\<lparr>w_rand_reads := Suc (w_rand_reads w)\<rparr>)"

definition SendEmail :: "email_message \<Rightarrow> unit io" where
  "SendEmail m w = (Ok (), w\<lparr>w_outbox := w_outbox w @ [m]\<rparr>)"

text \<open>\<open>Limiter.Allow\<close> on the process's limiter, at the current time.\<close>

definition limiter_Allow :: "limiter \<Rightarrow> string \<Rightarrow> string \<Rightarrow> bool io" where
  "limiter_Allow l dmn key =
     bindE time_Now (\<lambda>now w. case Allow l now dmn key of (ok, l1) \<Rightarrow> (Ok ok, w\<lparr>w_limiter := Some l1\<rparr>))"

definition count_limited :: "string \<Rightarrow> string \<Rightarrow> unit io" where
  "count_limited dmn key w = (Ok (), w\<lparr>w_limited := w_limited w @ [(dmn, key)]\<rparr>)"

text \<open>
  One SQL statement: a function of the tables that fails on a violated constraint or yields rows
  and the new tables.
\<close>

definition stmt :: "(db \<Rightarrow> ('a \<times> db) res) \<Rightarrow> 'a io" where
  "stmt q w =
     (let w1 = w\<lparr>w_stmts := Suc (w_stmts w)\<rparr> in
      case w_fault w (w_stmts w) of
        FailBefore \<Rightarrow> (Fail (ErrDriver ''connection''), w1)
      | NoFault \<Rightarrow>
          (case q (w_db w) of Inl e \<Rightarrow> (Fail e, w1) | Inr (x, d) \<Rightarrow> (Ok x, w1\<lparr>w_db := d\<rparr>))
      | FailAfter \<Rightarrow>
          (case q (w_db w) of Inl e \<Rightarrow> (Fail e, w1)
           | Inr (x, d) \<Rightarrow> (Fail (ErrDriver ''connection''), w1\<lparr>w_db := d\<rparr>)))"

definition query :: "(db \<Rightarrow> 'a res) \<Rightarrow> 'a io" where
  "query q = stmt (\<lambda>d. case q d of Inl e \<Rightarrow> Inl e | Inr x \<Rightarrow> Inr (x, d))"

section \<open>Preservation of a property of the tables\<close>

text \<open>An operation keeps a property of the tables, whatever fails and whatever it returns.\<close>

definition keeps :: "(db \<Rightarrow> bool) \<Rightarrow> 'a io \<Rightarrow> bool" where
  "keeps P m \<longleftrightarrow> (\<forall>w. P (w_db w) \<longrightarrow> P (w_db (snd (m w))))"

named_theorems keeps_intros \<open>operations that keep a property of the tables\<close>

lemma keepsD: "keeps P m \<Longrightarrow> m w = (r, w') \<Longrightarrow> P (w_db w) \<Longrightarrow> P (w_db w')"
  by (auto simp: keeps_def dest: spec [of _ w])

lemma keeps_returnE [keeps_intros]: "keeps P (returnE x)"
  by (simp add: keeps_def returnE_def)

lemma keeps_failE [keeps_intros]: "keeps P (failE e)"
  by (simp add: keeps_def failE_def)

lemma keeps_liftE [keeps_intros]: "keeps P (liftE r)"
  by (simp add: keeps_def liftE_def)

lemma keeps_time_Now [keeps_intros]: "keeps P time_Now"
  by (simp add: keeps_def time_Now_def)

lemma keeps_uuid_New [keeps_intros]: "keeps P uuid_New"
  by (simp add: keeps_def uuid_New_def)

lemma keeps_rand_Read [keeps_intros]: "keeps P (rand_Read n)"
  by (simp add: keeps_def rand_Read_def)

lemma keeps_SendEmail [keeps_intros]: "keeps P (SendEmail m)"
  by (simp add: keeps_def SendEmail_def)

lemma keeps_count_limited [keeps_intros]: "keeps P (count_limited dmn key)"
  by (simp add: keeps_def count_limited_def)

lemma keeps_limiter_Allow [keeps_intros]: "keeps P (limiter_Allow l dmn key)"
  by (simp add: keeps_def limiter_Allow_def bindE_def time_Now_def split: prod.splits)

lemma keeps_bindE [keeps_intros]: "keeps P m \<Longrightarrow> (\<And>x. keeps P (f x)) \<Longrightarrow> keeps P (bindE m f)"
  unfolding keeps_def bindE_def by (auto split: prod.splits sum.splits)

lemma keeps_tryE [keeps_intros]: "keeps P m \<Longrightarrow> (\<And>r. keeps P (f r)) \<Longrightarrow> keeps P (tryE m f)"
  unfolding keeps_def tryE_def by (auto split: prod.splits)

lemma keeps_wrapE [keeps_intros]: "keeps P m \<Longrightarrow> keeps P (wrapE msg m)"
  unfolding keeps_def wrapE_def by (auto split: prod.splits sum.splits)

lemma keeps_stmt:
  assumes "\<And>d x d'. P d \<Longrightarrow> q d = Inr (x, d') \<Longrightarrow> P d'"
  shows "keeps P (stmt q)"
  unfolding keeps_def stmt_def Let_def
  by (auto split: fault.splits sum.splits dest: assms)

lemma keeps_query [keeps_intros]: "keeps P (query q)"
  unfolding query_def by (rule keeps_stmt) (auto split: sum.splits)

section \<open>Operations that only read\<close>

definition reads :: "'a io \<Rightarrow> bool" where
  "reads m \<longleftrightarrow> (\<forall>w. w_db (snd (m w)) = w_db w)"

named_theorems reads_intros \<open>operations that leave the tables alone\<close>

lemma readsD: "reads m \<Longrightarrow> m w = (r, w') \<Longrightarrow> w_db w' = w_db w"
  by (auto simp: reads_def dest: spec [of _ w])

lemma reads_keeps: "reads m \<Longrightarrow> keeps P m"
  by (simp add: reads_def keeps_def)

lemma reads_returnE [reads_intros]: "reads (returnE x)"
  by (simp add: reads_def returnE_def)

lemma reads_failE [reads_intros]: "reads (failE e)"
  by (simp add: reads_def failE_def)

lemma reads_liftE [reads_intros]: "reads (liftE r)"
  by (simp add: reads_def liftE_def)

lemma reads_time_Now [reads_intros]: "reads time_Now"
  by (simp add: reads_def time_Now_def)

lemma reads_uuid_New [reads_intros]: "reads uuid_New"
  by (simp add: reads_def uuid_New_def)

lemma reads_rand_Read [reads_intros]: "reads (rand_Read n)"
  by (simp add: reads_def rand_Read_def)

lemma reads_SendEmail [reads_intros]: "reads (SendEmail m)"
  by (simp add: reads_def SendEmail_def)

lemma reads_count_limited [reads_intros]: "reads (count_limited dmn key)"
  by (simp add: reads_def count_limited_def)

lemma reads_limiter_Allow [reads_intros]: "reads (limiter_Allow l dmn key)"
  by (simp add: reads_def limiter_Allow_def bindE_def time_Now_def split: prod.splits)

lemma reads_bindE [reads_intros]: "reads m \<Longrightarrow> (\<And>x. reads (f x)) \<Longrightarrow> reads (bindE m f)"
  unfolding reads_def bindE_def by (auto split: prod.splits sum.splits) (metis snd_conv)+

lemma reads_tryE [reads_intros]: "reads m \<Longrightarrow> (\<And>r. reads (f r)) \<Longrightarrow> reads (tryE m f)"
  unfolding reads_def tryE_def by (auto split: prod.splits) (metis snd_conv)

lemma reads_wrapE [reads_intros]: "reads m \<Longrightarrow> reads (wrapE msg m)"
  unfolding reads_def wrapE_def by (auto split: prod.splits sum.splits) (metis snd_conv)+

lemma reads_query [reads_intros]: "reads (query q)"
  unfolding reads_def query_def stmt_def Let_def by (auto split: fault.splits sum.splits)

section \<open>Results of sequences\<close>

lemma bindE_cases [consumes 1, case_names fail ok]:
  assumes "bindE m f w = (r, w')"
  obtains (fail) e where "m w = (Inl e, w')" "r = Inl e"
  | (ok) x w1 where "m w = (Inr x, w1)" "f x w1 = (r, w')"
  using assms by (auto simp: bindE_def split: prod.splits sum.splits)

text \<open>A sequence whose first part only reads.\<close>

lemma bindE_reads_cases [consumes 1, case_names reads fail ok]:
  assumes "bindE m f w = (r, w')" "reads m"
  obtains (fail) e where "w_db w' = w_db w" "r = Inl e" "m w = (Inl e, w')"
  | (ok) x w1 where "m w = (Inr x, w1)" "w_db w1 = w_db w" "f x w1 = (r, w')"
  using assms(1)
  by (cases rule: bindE_cases) (blast dest: readsD [OF assms(2)] intro: that)+

lemma query_Inr: "query q w = (Inr x, w') \<Longrightarrow> q (w_db w) = Inr x"
  by (auto simp: query_def stmt_def Let_def split: fault.splits sum.splits)

lemma wrapE_Inr [simp]: "wrapE msg m w = (Inr x, w') \<longleftrightarrow> m w = (Inr x, w')"
  by (auto simp: wrapE_def split: prod.splits sum.splits)

lemma query_frame:
  "query q w = (r, w') \<Longrightarrow> w_clock w' = w_clock w \<and> w_clock_reads w' = w_clock_reads w \<and> w_db w' = w_db w"
  by (auto simp: query_def stmt_def Let_def split: fault.splits sum.splits)

lemma query_ok: "w_fault w (w_stmts w) = NoFault \<Longrightarrow> fst (query q w) = q (w_db w)"
  by (auto simp: query_def stmt_def Let_def split: sum.splits)

lemma stmt_Inr: "stmt q w = (Inr x, w') \<Longrightarrow> q (w_db w) = Inr (x, w_db w')"
  by (auto simp: stmt_def Let_def split: fault.splits sum.splits)

lemma tryE_cases [consumes 1, case_names run]:
  assumes "tryE m f w = (r, w')"
  obtains (run) x w1 where "m w = (x, w1)" "f x w1 = (r, w')"
  using assms by (auto simp: tryE_def split: prod.splits)

lemma bindE_Inr:
  "bindE m f w = (Inr y, w') \<longleftrightarrow> (\<exists>x w1. m w = (Inr x, w1) \<and> f x w1 = (Inr y, w'))"
  by (auto simp: bindE_def split: prod.splits sum.splits)

lemma returnE_Inr [simp]: "returnE x w = (r, w') \<longleftrightarrow> r = Inr x \<and> w' = w"
  by (auto simp: returnE_def)

lemma failE_Inr [simp]: "failE e w = (r, w') \<longleftrightarrow> r = Inl e \<and> w' = w"
  by (auto simp: failE_def)

lemma liftE_Inr [simp]: "liftE v w = (r, w') \<longleftrightarrow> v = r \<and> w' = w"
  by (auto simp: liftE_def)

end
