(* ===== verification/Repositories.thy ===== *)
theory Repositories
  imports World
begin

text \<open>
  \<open>backend/internal/persistence/repositories.go\<close>: every repository method as an operation on the
  world. A SQL statement is a function of the tables with the constraints the migrations declare;
  where SQL leaves the order of equal sort keys open, the rows keep their table order.
\<close>

section \<open>Shared pieces of the statements\<close>

text \<open>A \<open>TIMESTAMPTZ\<close> column keeps microseconds.\<close>

definition pg_ts :: "time \<Rightarrow> time" where
  "pg_ts t = t - t mod 1000"

text \<open>Go's zero \<open>time.Time\<close>, the first instant of year 1.\<close>

definition zero_time :: time where
  "zero_time = - 62135596800 * nanos"

definition new_id :: "uuid \<Rightarrow> uuid io" where
  "new_id i = (if i = uuid_Nil then uuid_New else returnE i)"

definition new_time :: "time \<Rightarrow> time io" where
  "new_time t = (if t = zero_time then time_Now else returnE t)"

text \<open>The error mapping of the \<open>scan...\<close> functions.\<close>

definition scanE :: "string \<Rightarrow> 'a io \<Rightarrow> 'a io" where
  "scanE msg m w =
     (case m w of
        (Inl e, w1) \<Rightarrow> ((if errors_Is e ErrNoRows then Fail ErrNotFound else Fail (Wrap msg e)), w1)
      | (Inr x, w1) \<Rightarrow> (Ok x, w1))"

text \<open>Each scan function is this mapping with its own message.\<close>

definition scanAgent :: "'a io \<Rightarrow> 'a io" where
  [simp]: "scanAgent = scanE ''scan agent''"

definition scanMessage :: "'a io \<Rightarrow> 'a io" where
  [simp]: "scanMessage = scanE ''scan message''"

definition scanConversation :: "'a io \<Rightarrow> 'a io" where
  [simp]: "scanConversation = scanE ''scan conversation''"

definition scanConnectionRequest :: "'a io \<Rightarrow> 'a io" where
  [simp]: "scanConnectionRequest = scanE ''scan connection request''"

definition scanBlacklistEntry :: "'a io \<Rightarrow> 'a io" where
  [simp]: "scanBlacklistEntry = scanE ''scan blacklist entry''"

text \<open>An \<open>Exec\<close> whose method reports \<open>ErrNotFound\<close> when no row was affected.\<close>

definition execE :: "string \<Rightarrow> nat io \<Rightarrow> unit io" where
  "execE msg m = bindE (wrapE msg m) (\<lambda>n. if n = 0 then failE ErrNotFound else returnE ())"

definition one_row :: "'a list \<Rightarrow> 'a res" where
  "one_row rows = (case rows of [] \<Rightarrow> Fail ErrNoRows | r # _ \<Rightarrow> Ok r)"

definition participant_kinds :: "string list" where
  "participant_kinds = [ParticipantTypeUser, ParticipantTypeAgent]"

definition entity_kinds :: "string list" where
  "entity_kinds = [EntityTypeAgent, EntityTypeGroup, EntityTypeUser]"

definition order_desc :: "('a \<Rightarrow> time) \<Rightarrow> 'a list \<Rightarrow> 'a list" where
  "order_desc f rows = sort_key (\<lambda>r. - f r) rows"

definition order_desc_nulls_last :: "('a \<Rightarrow> time option) \<Rightarrow> 'a list \<Rightarrow> 'a list" where
  "order_desc_nulls_last f rows =
     order_desc (\<lambda>r. case f r of Some t \<Rightarrow> t | None \<Rightarrow> 0) (filter (\<lambda>r. f r \<noteq> None) rows)
     @ filter (\<lambda>r. f r = None) rows"

lemma keeps_scanE [keeps_intros]: "keeps P m \<Longrightarrow> keeps P (scanE msg m)"
  unfolding keeps_def scanE_def by (auto split: prod.splits sum.splits)

lemma keeps_execE [keeps_intros]: "keeps P m \<Longrightarrow> keeps P (execE msg m)"
  unfolding execE_def by (auto intro!: keeps_intros)

lemma keeps_new_id [keeps_intros]: "keeps P (new_id i)"
  by (simp add: new_id_def keeps_intros)

lemma keeps_new_time [keeps_intros]: "keeps P (new_time t)"
  by (simp add: new_time_def keeps_intros)

section \<open>Agents\<close>

definition insert_agent :: "agent \<Rightarrow> db \<Rightarrow> (agent \<times> db) res" where
  "insert_agent a d =
     (if a_ID a \<in> a_ID ` set (t_agents d) then Fail (ErrDriver ''agents_pkey'')
      else if a_OwnerUserID a \<notin> u_ID ` set (t_users d)
      then Fail (ErrDriver ''agents_owner_user_id_fkey'')
      else Ok (a, d\<lparr>t_agents := t_agents d @ [a]\<rparr>))"

definition Agents_Create :: "agent \<Rightarrow> agent io" where
  "Agents_Create a =
     bindE (new_id (a_ID a)) (\<lambda>i.
     bindE (new_time (a_CreatedAt a)) (\<lambda>t.
     scanAgent (stmt (insert_agent (a\<lparr>a_ID := i, a_CreatedAt := pg_ts t\<rparr>)))))"

definition Agents_GetByID :: "uuid \<Rightarrow> agent io" where
  "Agents_GetByID i =
     scanAgent (query (\<lambda>d. one_row (filter (\<lambda>a. a_ID a = i) (t_agents d))))"

text \<open>Deleting an agent also deletes the connection requests it sent (\<open>ON DELETE CASCADE\<close>).\<close>

definition delete_agent :: "uuid \<Rightarrow> db \<Rightarrow> (nat \<times> db) res" where
  "delete_agent i d =
     Ok (length (filter (\<lambda>a. a_ID a = i) (t_agents d)),
         d\<lparr>t_agents := filter (\<lambda>a. a_ID a \<noteq> i) (t_agents d),
           t_requests := (if i \<in> a_ID ` set (t_agents d)
                          then filter (\<lambda>r. cr_SenderID r \<noteq> i) (t_requests d)
                          else t_requests d)\<rparr>)"

definition Agents_Delete :: "uuid \<Rightarrow> unit io" where
  "Agents_Delete i = execE ''delete agent'' (stmt (delete_agent i))"

definition Agents_ListAll :: "agent list io" where
  "Agents_ListAll = wrapE ''list agents'' (query (\<lambda>d. Ok (order_desc a_CreatedAt (t_agents d))))"

definition Agents_ListByOwner :: "uuid \<Rightarrow> agent list io" where
  "Agents_ListByOwner owner =
     wrapE ''list agents by owner''
       (query (\<lambda>d. Ok (order_desc a_CreatedAt
                        (filter (\<lambda>a. a_OwnerUserID a = owner) (t_agents d)))))"

text \<open>The update statement of \<open>auth.Service.RotateSecret\<close>.\<close>

definition update_secret_hash :: "uuid \<Rightarrow> string \<Rightarrow> db \<Rightarrow> (nat \<times> db) res" where
  "update_secret_hash i h d =
     Ok (length (filter (\<lambda>a. a_ID a = i) (t_agents d)),
         d\<lparr>t_agents := map (\<lambda>a. if a_ID a = i then a\<lparr>a_APISecretHash := h\<rparr> else a) (t_agents d)\<rparr>)"

section \<open>Users\<close>

text \<open>
  The \<open>email\<close> column is \<open>CITEXT\<close>: equality ignores letter case. \<open>ulower\<close> is the Unicode
  lower-casing table (see \<open>ToLower\<close>).
\<close>

definition email_key :: "(string \<Rightarrow> string) \<Rightarrow> string \<Rightarrow> string" where
  "email_key ulower e = ToLower ulower (TrimSpace e)"

definition citext_eq :: "(string \<Rightarrow> string) \<Rightarrow> string \<Rightarrow> string \<Rightarrow> bool" where
  "citext_eq ulower a b \<longleftrightarrow> ToLower ulower a = ToLower ulower b"

definition insert_user :: "(string \<Rightarrow> string) \<Rightarrow> user \<Rightarrow> db \<Rightarrow> (user \<times> db) res" where
  "insert_user ulower u d =
     (if u_ID u \<in> u_ID ` set (t_users d) then Fail (ErrDriver ''users_pkey'')
      else if list_ex (\<lambda>v. citext_eq ulower (u_Email v) (u_Email u)) (t_users d)
      then Fail (ErrDriver ''users_email_key'')
      else Ok (u, d\<lparr>t_users := t_users d @ [u]\<rparr>))"

definition Users_Create :: "(string \<Rightarrow> string) \<Rightarrow> user \<Rightarrow> user io" where
  "Users_Create ulower u =
     bindE (new_id (u_ID u)) (\<lambda>i.
     bindE (new_time (u_CreatedAt u)) (\<lambda>t.
     wrapE ''create user''
       (stmt (insert_user ulower
          (u\<lparr>u_ID := i, u_Email := email_key ulower (u_Email u), u_CreatedAt := pg_ts t,
             u_VerificationTokenExpiresAt :=
               map_option pg_ts (u_VerificationTokenExpiresAt u)\<rparr>)))))"

definition Users_GetByEmail :: "(string \<Rightarrow> string) \<Rightarrow> string \<Rightarrow> user io" where
  "Users_GetByEmail ulower e =
     scanE ''get user by email''
       (query (\<lambda>d. one_row (filter (\<lambda>u. citext_eq ulower (u_Email u) (email_key ulower e)) (t_users d))))"

definition Users_GetByID :: "uuid \<Rightarrow> user io" where
  "Users_GetByID i =
     scanE ''get user by id'' (query (\<lambda>d. one_row (filter (\<lambda>u. u_ID u = i) (t_users d))))"

definition set_token :: "uuid \<Rightarrow> string \<Rightarrow> time \<Rightarrow> db \<Rightarrow> (nat \<times> db) res" where
  "set_token i tok expires d =
     Ok (length (filter (\<lambda>u. u_ID u = i) (t_users d)),
         d\<lparr>t_users := map (\<lambda>u. if u_ID u = i
              then u\<lparr>u_VerificationToken := Some tok,
                     u_VerificationTokenExpiresAt := Some (pg_ts expires)\<rparr>
              else u) (t_users d)\<rparr>)"

definition Users_SetVerificationToken :: "uuid \<Rightarrow> string \<Rightarrow> time \<Rightarrow> unit io" where
  "Users_SetVerificationToken i tok expires =
     execE ''set verification token'' (stmt (set_token i tok expires))"

definition token_live :: "string \<Rightarrow> time \<Rightarrow> user \<Rightarrow> bool" where
  "token_live tok now u \<longleftrightarrow>
     u_VerificationToken u = Some tok
     \<and> (case u_VerificationTokenExpiresAt u of None \<Rightarrow> False | Some e \<Rightarrow> now < e)"

definition mark_verified :: "user \<Rightarrow> user" where
  "mark_verified u =
     u\<lparr>u_EmailVerified := True, u_VerificationToken := None, u_VerificationTokenExpiresAt := None\<rparr>"

definition verify_stmt :: "string \<Rightarrow> time \<Rightarrow> db \<Rightarrow> (user \<times> db) res" where
  "verify_stmt tok now d =
     (case filter (token_live tok now) (t_users d) of
        [] \<Rightarrow> Fail ErrNoRows
      | u # _ \<Rightarrow> Ok (mark_verified u,
          d\<lparr>t_users := map (\<lambda>v. if token_live tok now v then mark_verified v else v) (t_users d)\<rparr>))"

definition Users_VerifyEmail :: "string \<Rightarrow> user io" where
  "Users_VerifyEmail tok =
     bindE time_Now (\<lambda>now. scanE ''verify email'' (stmt (verify_stmt tok now)))"

definition Users_GetByVerificationToken :: "string \<Rightarrow> user io" where
  "Users_GetByVerificationToken tok =
     bindE time_Now (\<lambda>now. scanE ''get user by verification token''
       (query (\<lambda>d. one_row (filter (token_live tok now) (t_users d)))))"

section \<open>Conversations\<close>

definition check_direct_ids :: "conversation \<Rightarrow> bool" where
  "check_direct_ids c \<longleftrightarrow>
     (c_Type c = ConversationTypeGroup \<and> c_IDLow c = None \<and> c_IDHigh c = None)
     \<or> (c_Type c = ConversationTypeDirect
        \<and> (case (c_IDLow c, c_IDHigh c) of (Some l, Some h) \<Rightarrow> l < h | _ \<Rightarrow> False))"

definition same_pair :: "conversation \<Rightarrow> conversation \<Rightarrow> bool" where
  "same_pair c e \<longleftrightarrow>
     c_IDLow c \<noteq> None \<and> c_IDHigh c \<noteq> None \<and> c_IDLow c = c_IDLow e \<and> c_IDHigh c = c_IDHigh e"

definition group_ref_ok :: "uuid option \<Rightarrow> db \<Rightarrow> bool" where
  "group_ref_ok g d = (case g of None \<Rightarrow> True | Some i \<Rightarrow> i \<in> g_ID ` set (t_groups d))"

definition conv_ref_ok :: "uuid option \<Rightarrow> db \<Rightarrow> bool" where
  "conv_ref_ok c d = (case c of None \<Rightarrow> True | Some i \<Rightarrow> i \<in> c_ID ` set (t_conversations d))"

definition insert_conversation :: "conversation \<Rightarrow> db \<Rightarrow> (conversation \<times> db) res" where
  "insert_conversation c d =
     (if \<not> check_direct_ids c then Fail (ErrDriver ''chk_conversations_direct_ids'')
      else if c_ID c \<in> c_ID ` set (t_conversations d) then Fail (ErrDriver ''conversations_pkey'')
      else if list_ex (same_pair c) (t_conversations d)
      then Fail (ErrDriver ''uq_conversations_direct_pair'')
      else if \<not> group_ref_ok (c_GroupID c) d
      then Fail (ErrDriver ''conversations_group_id_fkey'')
      else Ok (c, d\<lparr>t_conversations := t_conversations d @ [c]\<rparr>))"

definition Conversations_Create :: "conversation \<Rightarrow> conversation io" where
  "Conversations_Create c =
     bindE (new_id (c_ID c)) (\<lambda>i.
     bindE (new_time (c_CreatedAt c)) (\<lambda>t.
     scanConversation
       (stmt (insert_conversation
          (c\<lparr>c_ID := i, c_CreatedAt := pg_ts t, c_LastMessageID := None,
             c_LastMessageAt := Some (pg_ts t)\<rparr>)))))"

definition Conversations_GetByID :: "uuid \<Rightarrow> conversation io" where
  "Conversations_GetByID i =
     scanConversation
       (query (\<lambda>d. one_row (filter (\<lambda>c. c_ID c = i) (t_conversations d))))"

definition Conversations_GetDirectByPair :: "uuid \<Rightarrow> uuid \<Rightarrow> conversation io" where
  "Conversations_GetDirectByPair low high =
     scanConversation
       (query (\<lambda>d. one_row (filter (\<lambda>c. c_IDLow c = Some low \<and> c_IDHigh c = Some high)
                              (t_conversations d))))"

definition Conversations_GetByGroupID :: "uuid \<Rightarrow> conversation io" where
  "Conversations_GetByGroupID g =
     scanConversation
       (query (\<lambda>d. one_row (filter (\<lambda>c. c_GroupID c = Some g) (t_conversations d))))"

definition set_group_id :: "uuid \<Rightarrow> uuid \<Rightarrow> db \<Rightarrow> (nat \<times> db) res" where
  "set_group_id c g d =
     (if c \<in> c_ID ` set (t_conversations d) \<and> g \<notin> g_ID ` set (t_groups d)
      then Fail (ErrDriver ''conversations_group_id_fkey'')
      else Ok (length (filter (\<lambda>x. c_ID x = c) (t_conversations d)),
               d\<lparr>t_conversations := map (\<lambda>x. if c_ID x = c then x\<lparr>c_GroupID := Some g\<rparr> else x)
                                       (t_conversations d)\<rparr>))"

definition Conversations_UpdateGroupID :: "uuid \<Rightarrow> uuid \<Rightarrow> unit io" where
  "Conversations_UpdateGroupID c g =
     execE ''update conversation group_id'' (stmt (set_group_id c g))"

text \<open>The join of conversations with the participant rows of one participant.\<close>

definition joined :: "db \<Rightarrow> uuid \<Rightarrow> string \<Rightarrow> (conversation \<times> participant) list" where
  "joined d pid kind =
     concat (map (\<lambda>c. map (\<lambda>p. (c, p))
        (filter (\<lambda>p. cp_ConversationID p = c_ID c \<and> cp_ParticipantID p = pid
                     \<and> cp_ParticipantKind p = kind) (t_participants d)))
       (t_conversations d))"

definition Conversations_ListByParticipant :: "uuid \<Rightarrow> string \<Rightarrow> conversation list io" where
  "Conversations_ListByParticipant pid kind =
     wrapE ''list conversations by participant''
       (query (\<lambda>d. if kind \<notin> set participant_kinds then Fail (ErrDriver ''participant_type'')
                   else Ok (order_desc c_CreatedAt (map fst (joined d pid kind)))))"

definition Conversations_ListByParticipantAndType ::
    "uuid \<Rightarrow> string \<Rightarrow> string \<Rightarrow> conversation list io" where
  "Conversations_ListByParticipantAndType pid kind ctype =
     wrapE ''list conversations by participant and type''
       (query (\<lambda>d. if kind \<notin> set participant_kinds then Fail (ErrDriver ''participant_type'')
                   else if ctype \<notin> {ConversationTypeDirect, ConversationTypeGroup}
                   then Fail (ErrDriver ''conversation_type'')
                   else Ok (order_desc c_CreatedAt
                          (filter (\<lambda>c. c_Type c = ctype) (map fst (joined d pid kind))))))"

text \<open>The peer of a participant in a direct conversation: the other end of the pair.\<close>

definition peer_id :: "uuid \<Rightarrow> conversation \<Rightarrow> uuid option" where
  "peer_id pid c = (if c_IDLow c = Some pid then c_IDHigh c else c_IDLow c)"

text \<open>A row of the direct half of the union; a NULL reference does not scan.\<close>

definition direct_item :: "db \<Rightarrow> uuid \<Rightarrow> conversation \<Rightarrow> list_item option" where
  "direct_item d pid c =
     (case peer_id pid c of None \<Rightarrow> None | Some ref \<Rightarrow>
       (let us = filter (\<lambda>u. u_ID u = ref) (t_users d);
            as = filter (\<lambda>a. a_ID a = ref) (t_agents d) in
        Some \<lparr>li_ID = c_ID c, li_ReferenceID = ref,
          li_ReferenceType = (if us \<noteq> [] then ''user'' else ''agent''),
          li_Name = (case us of u # _ \<Rightarrow> u_Email u
                     | [] \<Rightarrow> (case as of a # _ \<Rightarrow> a_DisplayName a | [] \<Rightarrow> ''unknown'')),
          li_LastMessageAt = c_LastMessageAt c\<rparr>))"

definition group_items :: "db \<Rightarrow> conversation \<Rightarrow> list_item list" where
  "group_items d c =
     map (\<lambda>g. \<lparr>li_ID = c_ID c, li_ReferenceID = g_ID g, li_ReferenceType = ''group'',
               li_Name = g_Name g, li_LastMessageAt = c_LastMessageAt c\<rparr>)
       (filter (\<lambda>g. c_GroupID c = Some (g_ID g)) (t_groups d))"

definition scan_items :: "string \<Rightarrow> list_item option list \<Rightarrow> list_item list res" where
  "scan_items msg rows =
     (case those rows of None \<Rightarrow> Fail (Wrap msg (ErrDriver ''null uuid'')) | Some is \<Rightarrow>
        Ok (order_desc_nulls_last li_LastMessageAt is))"

definition list_items_query ::
    "string \<Rightarrow> (db \<Rightarrow> conversation \<times> participant \<Rightarrow> bool) \<Rightarrow> uuid \<Rightarrow> string \<Rightarrow> string option
      \<Rightarrow> db \<Rightarrow> list_item list res" where
  "list_items_query msg keep pid kind ctype d =
     (if kind \<notin> set participant_kinds then Fail (ErrDriver ''participant_type'')
      else let rows = filter (keep d) (joined d pid kind);
               typed = (\<lambda>t. map fst (filter (\<lambda>(c, p). c_Type c = t
                              \<and> (case ctype of None \<Rightarrow> True | Some ct \<Rightarrow> c_Type c = ct)) rows))
           in scan_items msg
                (map (direct_item d pid) (typed ConversationTypeDirect)
                 @ map Some (concat (map (group_items d) (typed ConversationTypeGroup)))))"

definition Conversations_ListItems :: "uuid \<Rightarrow> string \<Rightarrow> string option \<Rightarrow> list_item list io" where
  "Conversations_ListItems pid kind ctype =
     wrapE ''list conversation items''
       (query (list_items_query ''scan conversation list item'' (\<lambda>_ _. True) pid kind ctype))"

text \<open>Messages later than the last read one, or than the time of joining.\<close>

definition unread_count :: "db \<Rightarrow> conversation \<times> participant \<Rightarrow> nat" where
  "unread_count d cp =
     (case cp of (c, p) \<Rightarrow>
       (let read = (case cp_LastReadMessageID p of None \<Rightarrow> []
                    | Some i \<Rightarrow> filter (\<lambda>m. m_ID m = i) (t_messages d));
            since = (case read of m # _ \<Rightarrow> m_Timestamp m | [] \<Rightarrow> cp_JoinedAt p)
        in length (filter (\<lambda>m. m_ConversationID m = c_ID c \<and> since < m_Timestamp m) (t_messages d))))"

definition Conversations_ListUnreadByParticipant :: "uuid \<Rightarrow> string \<Rightarrow> list_item list io" where
  "Conversations_ListUnreadByParticipant pid kind =
     wrapE ''list unread conversations''
       (query (list_items_query ''scan unread conversation item'' (\<lambda>d cp. 0 < unread_count d cp)
                 pid kind None))"

section \<open>Conversation participants\<close>

definition same_participant :: "uuid \<Rightarrow> uuid \<Rightarrow> string \<Rightarrow> participant \<Rightarrow> bool" where
  "same_participant cid pid kind p \<longleftrightarrow>
     cp_ConversationID p = cid \<and> cp_ParticipantID p = pid \<and> cp_ParticipantKind p = kind"

definition participant_in :: "uuid \<Rightarrow> uuid \<Rightarrow> string \<Rightarrow> db \<Rightarrow> bool" where
  "participant_in cid pid kind d \<longleftrightarrow> list_ex (same_participant cid pid kind) (t_participants d)"

definition insert_participant :: "participant \<Rightarrow> db \<Rightarrow> (unit \<times> db) res" where
  "insert_participant p d =
     (if cp_ParticipantKind p \<notin> set participant_kinds then Fail (ErrDriver ''participant_type'')
      else if participant_in (cp_ConversationID p) (cp_ParticipantID p) (cp_ParticipantKind p) d
      then Ok ((), d)
      else if cp_ConversationID p \<notin> c_ID ` set (t_conversations d)
      then Fail (ErrDriver ''conversation_participants_conversation_id_fkey'')
      else Ok ((), d\<lparr>t_participants := t_participants d @ [p]\<rparr>))"

definition Participants_Add :: "participant \<Rightarrow> unit io" where
  "Participants_Add p =
     bindE (new_time (cp_JoinedAt p)) (\<lambda>t.
     wrapE ''add conversation participant''
       (stmt (insert_participant (p\<lparr>cp_JoinedAt := pg_ts t\<rparr>))))"

definition delete_participant :: "uuid \<Rightarrow> uuid \<Rightarrow> string \<Rightarrow> db \<Rightarrow> (unit \<times> db) res" where
  "delete_participant cid pid kind d =
     (if kind \<notin> set participant_kinds then Fail (ErrDriver ''participant_type'')
      else Ok ((), d\<lparr>t_participants :=
                      filter (\<lambda>p. \<not> same_participant cid pid kind p) (t_participants d)\<rparr>))"

definition Participants_Remove :: "uuid \<Rightarrow> uuid \<Rightarrow> string \<Rightarrow> unit io" where
  "Participants_Remove cid pid kind =
     wrapE ''remove conversation participant'' (stmt (delete_participant cid pid kind))"

definition Participants_ListByConversation :: "uuid \<Rightarrow> participant list io" where
  "Participants_ListByConversation cid =
     wrapE ''list conversation participants''
       (query (\<lambda>d. Ok (sort_key cp_JoinedAt
                        (filter (\<lambda>p. cp_ConversationID p = cid) (t_participants d)))))"

definition update_participant ::
    "uuid \<Rightarrow> uuid \<Rightarrow> string \<Rightarrow> (participant \<Rightarrow> participant) \<Rightarrow> db \<Rightarrow> (nat \<times> db) res" where
  "update_participant cid pid kind f d =
     (if kind \<notin> set participant_kinds then Fail (ErrDriver ''participant_type'')
      else Ok (length (filter (same_participant cid pid kind) (t_participants d)),
               d\<lparr>t_participants := map (\<lambda>p. if same_participant cid pid kind p then f p else p)
                                      (t_participants d)\<rparr>))"

definition Participants_UpdateMuted :: "uuid \<Rightarrow> uuid \<Rightarrow> string \<Rightarrow> bool \<Rightarrow> unit io" where
  "Participants_UpdateMuted cid pid kind muted =
     execE ''update conversation participant muted''
       (stmt (update_participant cid pid kind (\<lambda>p. p\<lparr>cp_Muted := muted\<rparr>)))"

definition Participants_UpdateLastRead :: "uuid \<Rightarrow> uuid \<Rightarrow> string \<Rightarrow> uuid \<Rightarrow> unit io" where
  "Participants_UpdateLastRead cid pid kind mid =
     execE ''update conversation participant last read''
       (stmt (update_participant cid pid kind (\<lambda>p. p\<lparr>cp_LastReadMessageID := Some mid\<rparr>)))"

section \<open>Chat groups\<close>

definition insert_group :: "chat_group \<Rightarrow> db \<Rightarrow> (chat_group \<times> db) res" where
  "insert_group g d =
     (if g_ID g \<in> g_ID ` set (t_groups d) then Fail (ErrDriver ''chat_groups_pkey'')
      else if g_Name g \<in> g_Name ` set (t_groups d) then Fail (ErrDriver ''chat_groups_name_key'')
      else if g_OwnerID g \<notin> u_ID ` set (t_users d)
      then Fail (ErrDriver ''chat_groups_creator_id_fkey'')
      else if \<not> conv_ref_ok (g_ConversationID g) d
      then Fail (ErrDriver ''chat_groups_conversation_id_fkey'')
      else Ok (g, d\<lparr>t_groups := t_groups d @ [g]\<rparr>))"

definition Groups_Create :: "chat_group \<Rightarrow> chat_group io" where
  "Groups_Create g =
     bindE (new_id (g_ID g)) (\<lambda>i.
     bindE (new_time (g_CreatedAt g)) (\<lambda>t.
     wrapE ''create chat group'' (stmt (insert_group (g\<lparr>g_ID := i, g_CreatedAt := pg_ts t\<rparr>)))))"

definition Groups_GetByID :: "uuid \<Rightarrow> chat_group io" where
  "Groups_GetByID i =
     scanE ''get chat group'' (query (\<lambda>d. one_row (filter (\<lambda>g. g_ID g = i) (t_groups d))))"

definition Groups_ListAll :: "chat_group list io" where
  "Groups_ListAll = wrapE ''list chat groups'' (query (\<lambda>d. Ok (order_desc g_CreatedAt (t_groups d))))"

definition set_conversation_id :: "uuid \<Rightarrow> uuid \<Rightarrow> db \<Rightarrow> (nat \<times> db) res" where
  "set_conversation_id g c d =
     (if g \<in> g_ID ` set (t_groups d) \<and> c \<notin> c_ID ` set (t_conversations d)
      then Fail (ErrDriver ''chat_groups_conversation_id_fkey'')
      else Ok (length (filter (\<lambda>x. g_ID x = g) (t_groups d)),
               d\<lparr>t_groups := map (\<lambda>x. if g_ID x = g then x\<lparr>g_ConversationID := Some c\<rparr> else x)
                                (t_groups d)\<rparr>))"

definition Groups_SetConversationID :: "uuid \<Rightarrow> uuid \<Rightarrow> unit io" where
  "Groups_SetConversationID g c =
     execE ''set chat group conversation id'' (stmt (set_conversation_id g c))"

section \<open>Messages\<close>

definition insert_message :: "message \<Rightarrow> db \<Rightarrow> (message \<times> db) res" where
  "insert_message m d =
     (if m_ParticipantKind m \<notin> set participant_kinds then Fail (ErrDriver ''participant_type'')
      else if m_ID m \<in> m_ID ` set (t_messages d) then Fail (ErrDriver ''messages_pkey'')
      else if m_ConversationID m \<notin> c_ID ` set (t_conversations d)
      then Fail (ErrDriver ''messages_conversation_id_fkey'')
      else Ok (m, d\<lparr>t_messages := t_messages d @ [m]\<rparr>))"

definition set_last_message :: "message \<Rightarrow> db \<Rightarrow> db" where
  "set_last_message m d =
     d\<lparr>t_conversations :=
        map (\<lambda>c. if c_ID c = m_ConversationID m
                 then c\<lparr>c_LastMessageID := Some (m_ID m), c_LastMessageAt := Some (m_Timestamp m)\<rparr>
                 else c) (t_conversations d)\<rparr>"

text \<open>
  The statements of a transaction work on a private version of the tables, which the commit
  installs; a method that returns before the commit rolls back. The metadata column is \<open>JSONB\<close>.
\<close>

definition Messages_Save :: "message \<Rightarrow> message io" where
  "Messages_Save m =
     bindE (new_time (m_Timestamp m)) (\<lambda>t.
     bindE (wrapE ''begin tx'' (query (\<lambda>_. Ok ()))) (\<lambda>_.
     bindE (scanMessage
              (query (insert_message
                 (m\<lparr>m_Timestamp := pg_ts t, m_Metadata := norm_map (m_Metadata m)\<rparr>)))) (\<lambda>(out, d1).
     bindE (wrapE ''update conversation last message''
              (query (\<lambda>_. Ok (set_last_message out d1)))) (\<lambda>d2.
     bindE (wrapE ''commit tx'' (stmt (\<lambda>_. Ok ((), d2)))) (\<lambda>_.
     returnE out)))))"

definition Messages_GetByID :: "uuid \<Rightarrow> message io" where
  "Messages_GetByID i =
     scanMessage (query (\<lambda>d. one_row (filter (\<lambda>m. m_ID m = i) (t_messages d))))"

definition in_window :: "uuid \<Rightarrow> time option \<Rightarrow> uuid option \<Rightarrow> message \<Rightarrow> bool" where
  "in_window cid sinceTS sinceID m \<longleftrightarrow>
     m_ConversationID m = cid
     \<and> (case sinceTS of None \<Rightarrow> True | Some t \<Rightarrow> pg_ts t < m_Timestamp m)
     \<and> (case sinceID of None \<Rightarrow> True | Some i \<Rightarrow> i < m_ID m)"

definition Messages_GetByConversation ::
    "uuid \<Rightarrow> int \<Rightarrow> time option \<Rightarrow> uuid option \<Rightarrow> message list io" where
  "Messages_GetByConversation cid limit sinceTS sinceID =
     (let limit = (if limit \<le> 0 then 50 else limit) in
      wrapE ''get messages by conversation''
        (query (\<lambda>d. Ok (take (nat limit) (order_desc m_Timestamp
                         (filter (in_window cid sinceTS sinceID) (t_messages d)))))))"

section \<open>Connection requests\<close>

definition request_statuses :: "string list" where
  "request_statuses = [StatusPending, StatusAccepted, StatusRejected]"

definition same_edge :: "uuid \<Rightarrow> string \<Rightarrow> uuid \<Rightarrow> string \<Rightarrow> connection_request \<Rightarrow> bool" where
  "same_edge fid fk tid tk r \<longleftrightarrow>
     cr_FromID r = fid \<and> cr_FromKind r = fk \<and> cr_ToID r = tid \<and> cr_ToKind r = tk"

definition insert_request :: "connection_request \<Rightarrow> db \<Rightarrow> (connection_request \<times> db) res" where
  "insert_request r d =
     (if cr_FromKind r \<notin> set entity_kinds \<or> cr_ToKind r \<notin> set entity_kinds
      then Fail (ErrDriver ''entity_type'')
      else if cr_Status r \<notin> set request_statuses
      then Fail (ErrDriver ''connection_request_status'')
      else if cr_ID r \<in> cr_ID ` set (t_requests d)
      then Fail (ErrDriver ''connection_requests_pkey'')
      else if list_ex (same_edge (cr_FromID r) (cr_FromKind r) (cr_ToID r) (cr_ToKind r)) (t_requests d)
      then Fail (ErrDriver ''connection_requests_from_to_unique'')
      else if cr_SenderID r \<notin> a_ID ` set (t_agents d)
      then Fail (ErrDriver ''connection_requests_sender_id_fkey'')
      else Ok (r, d\<lparr>t_requests := t_requests d @ [r]\<rparr>))"

definition ConnectionRequests_Create :: "connection_request \<Rightarrow> connection_request io" where
  "ConnectionRequests_Create r =
     bindE (new_id (cr_ID r)) (\<lambda>i.
     bindE time_Now (\<lambda>now.
     scanConnectionRequest
       (stmt (insert_request
          (r\<lparr>cr_ID := i,
             cr_CreatedAt := pg_ts (if cr_CreatedAt r = zero_time then now else cr_CreatedAt r),
             cr_UpdatedAt := pg_ts (if cr_UpdatedAt r = zero_time then now else cr_UpdatedAt r),
             cr_Status := (if cr_Status r = [] then StatusPending else cr_Status r)\<rparr>)))))"

definition ConnectionRequests_GetPendingByTarget :: "uuid \<Rightarrow> string \<Rightarrow> connection_request list io" where
  "ConnectionRequests_GetPendingByTarget tid tk =
     wrapE ''get pending connection requests''
       (query (\<lambda>d. if tk \<notin> set entity_kinds then Fail (ErrDriver ''entity_type'')
                   else Ok (order_desc cr_CreatedAt
                          (filter (\<lambda>r. cr_ToID r = tid \<and> cr_ToKind r = tk
                                       \<and> cr_Status r = StatusPending) (t_requests d)))))"

definition set_status :: "uuid \<Rightarrow> string \<Rightarrow> time \<Rightarrow> db \<Rightarrow> (nat \<times> db) res" where
  "set_status i st now d =
     (if st \<notin> set request_statuses then Fail (ErrDriver ''connection_request_status'')
      else Ok (length (filter (\<lambda>r. cr_ID r = i) (t_requests d)),
               d\<lparr>t_requests := map (\<lambda>r. if cr_ID r = i
                                        then r\<lparr>cr_Status := st, cr_UpdatedAt := pg_ts now\<rparr> else r)
                                  (t_requests d)\<rparr>))"

text \<open>\<open>NOW()\<close> is a reading of the clock.\<close>

definition ConnectionRequests_UpdateStatus :: "uuid \<Rightarrow> string \<Rightarrow> unit io" where
  "ConnectionRequests_UpdateStatus i st =
     bindE time_Now (\<lambda>now. execE ''update connection request status'' (stmt (set_status i st now)))"

definition ConnectionRequests_GetByFromAndTo ::
    "uuid \<Rightarrow> string \<Rightarrow> uuid \<Rightarrow> string \<Rightarrow> connection_request io" where
  "ConnectionRequests_GetByFromAndTo fid fk tid tk =
     scanConnectionRequest
       (query (\<lambda>d. if fk \<notin> set entity_kinds \<or> tk \<notin> set entity_kinds
                   then Fail (ErrDriver ''entity_type'')
                   else one_row (filter (same_edge fid fk tid tk) (t_requests d))))"

section \<open>Blacklist\<close>

definition same_block :: "uuid \<Rightarrow> string \<Rightarrow> uuid \<Rightarrow> string \<Rightarrow> blacklist_entry \<Rightarrow> bool" where
  "same_block fid fk tid tk b \<longleftrightarrow>
     bl_FromID b = fid \<and> bl_FromKind b = fk \<and> bl_ToID b = tid \<and> bl_ToKind b = tk"

definition insert_block :: "blacklist_entry \<Rightarrow> db \<Rightarrow> (blacklist_entry \<times> db) res" where
  "insert_block b d =
     (if bl_FromKind b \<notin> set entity_kinds \<or> bl_ToKind b \<notin> set entity_kinds
      then Fail (ErrDriver ''entity_type'')
      else if bl_ID b \<in> bl_ID ` set (t_blacklist d) then Fail (ErrDriver ''blacklist_entries_pkey'')
      else if list_ex (same_block (bl_FromID b) (bl_FromKind b) (bl_ToID b) (bl_ToKind b)) (t_blacklist d)
      then Fail (ErrDriver ''blacklist_entries_from_to_unique'')
      else Ok (b, d\<lparr>t_blacklist := t_blacklist d @ [b]\<rparr>))"

definition Blacklist_Create :: "blacklist_entry \<Rightarrow> blacklist_entry io" where
  "Blacklist_Create b =
     bindE (new_id (bl_ID b)) (\<lambda>i.
     bindE (new_time (bl_CreatedAt b)) (\<lambda>t.
     scanBlacklistEntry
       (stmt (insert_block (b\<lparr>bl_ID := i, bl_CreatedAt := pg_ts t\<rparr>)))))"

definition delete_block :: "uuid \<Rightarrow> string \<Rightarrow> uuid \<Rightarrow> string \<Rightarrow> db \<Rightarrow> (unit \<times> db) res" where
  "delete_block fid fk tid tk d =
     (if fk \<notin> set entity_kinds \<or> tk \<notin> set entity_kinds then Fail (ErrDriver ''entity_type'')
      else Ok ((), d\<lparr>t_blacklist := filter (\<lambda>b. \<not> same_block fid fk tid tk b) (t_blacklist d)\<rparr>))"

definition Blacklist_Delete :: "uuid \<Rightarrow> string \<Rightarrow> uuid \<Rightarrow> string \<Rightarrow> unit io" where
  "Blacklist_Delete fid fk tid tk =
     wrapE ''delete blacklist entry'' (stmt (delete_block fid fk tid tk))"

definition Blacklist_IsBlocked :: "uuid \<Rightarrow> string \<Rightarrow> uuid \<Rightarrow> string \<Rightarrow> bool io" where
  "Blacklist_IsBlocked fid fk tid tk =
     wrapE ''check blacklist entry''
       (query (\<lambda>d. if fk \<notin> set entity_kinds \<or> tk \<notin> set entity_kinds
                   then Fail (ErrDriver ''entity_type'')
                   else Ok (list_ex (same_block fid fk tid tk) (t_blacklist d))))"

definition Blacklist_ListByEntity :: "uuid \<Rightarrow> string \<Rightarrow> blacklist_entry list io" where
  "Blacklist_ListByEntity i k =
     wrapE ''list blacklist entries''
       (query (\<lambda>d. if k \<notin> set entity_kinds then Fail (ErrDriver ''entity_type'')
                   else Ok (order_desc bl_CreatedAt
                          (filter (\<lambda>b. bl_FromID b = i \<and> bl_FromKind b = k) (t_blacklist d)))))"

end
