(* ===== verification/Store.thy ===== *)
theory Store
  imports Repositories "HOL-Library.Multiset"
begin

text \<open>
  What the repositories promise. A locale states the contract of a table with a primary key and is
  interpreted on seven tables; \<open>db_inv\<close> collects the constraints of the schema, and every
  repository method keeps it, whatever statement fails.
\<close>

section \<open>Tables with a primary key\<close>

locale keyed_table =
  fixes ins :: "'r \<Rightarrow> db \<Rightarrow> ('r \<times> db) res"
    and rows :: "db \<Rightarrow> 'r list"
    and key :: "'r \<Rightarrow> uuid"
  assumes ins_returns: "ins r d = Inr (x, d') \<Longrightarrow> x = r"
    and ins_rows: "ins r d = Inr (x, d') \<Longrightarrow> rows d' = rows d @ [r]"
    and ins_fresh: "ins r d = Inr (x, d') \<Longrightarrow> key r \<notin> key ` set (rows d)"
begin

definition lookup :: "uuid \<Rightarrow> db \<Rightarrow> 'r res" where
  "lookup i d = one_row (filter (\<lambda>r. key r = i) (rows d))"

lemma lookup_inserted:
  assumes "ins r d = Inr (x, d')"
  shows "lookup (key r) d' = Ok r"
proof -
  have "filter (\<lambda>q. key q = key r) (rows d) = []"
    using ins_fresh [OF assms] by (metis (mono_tags, lifting) filter_False image_eqI)
  then show ?thesis
    by (simp add: lookup_def one_row_def ins_rows [OF assms])
qed

lemma lookup_other:
  assumes "ins r d = Inr (x, d')" "i \<noteq> key r"
  shows "lookup i d' = lookup i d"
  using assms(2) by (simp add: lookup_def ins_rows [OF assms(1)])

lemma keys_distinct:
  assumes "ins r d = Inr (x, d')" "distinct (map key (rows d))"
  shows "distinct (map key (rows d'))"
  using assms(2) ins_fresh [OF assms(1)] by (simp add: ins_rows [OF assms(1)])

lemma lookup_iff:
  assumes "distinct (map key (rows d))"
  shows "lookup i d = Ok r \<longleftrightarrow> r \<in> set (rows d) \<and> key r = i"
proof
  assume "lookup i d = Ok r"
  then have "r \<in> set (filter (\<lambda>r. key r = i) (rows d))"
    by (cases "filter (\<lambda>r. key r = i) (rows d)") (simp_all add: lookup_def one_row_def)
  then show "r \<in> set (rows d) \<and> key r = i" by simp
next
  assume r: "r \<in> set (rows d) \<and> key r = i"
  then obtain q rest where q: "filter (\<lambda>r. key r = i) (rows d) = q # rest"
    by (cases "filter (\<lambda>r. key r = i) (rows d)") (auto simp: filter_empty_conv)
  then have "q \<in> set (filter (\<lambda>r. key r = i) (rows d))" by simp
  then have "q \<in> set (rows d)" "key q = key r" using r by auto
  then have "q = r" using assms r by (auto simp: distinct_map inj_on_def)
  with q show "lookup i d = Ok r" by (simp add: lookup_def one_row_def)
qed

lemma duplicate_refused:
  assumes "ins r d = Inr (x, d')" "key q = key r"
  shows "\<exists>e. ins q d' = Fail e"
proof (cases "ins q d'")
  case (Inr p)
  then have "key q \<notin> key ` set (rows d')" using ins_fresh [of q d' "fst p" "snd p"] by simp
  then show ?thesis using assms(2) by (simp add: ins_rows [OF assms(1)])
qed simp

end

interpretation agents: keyed_table insert_agent t_agents a_ID
  by unfold_locales (auto simp: insert_agent_def split: if_splits)

interpretation users: keyed_table "insert_user ulower" t_users u_ID for ulower
  by unfold_locales (auto simp: insert_user_def split: if_splits)

interpretation conversations: keyed_table insert_conversation t_conversations c_ID
  by unfold_locales (auto simp: insert_conversation_def split: if_splits)

interpretation groups: keyed_table insert_group t_groups g_ID
  by unfold_locales (auto simp: insert_group_def split: if_splits)

interpretation messages: keyed_table insert_message t_messages m_ID
  by unfold_locales (auto simp: insert_message_def split: if_splits)

interpretation requests: keyed_table insert_request t_requests cr_ID
  by unfold_locales (auto simp: insert_request_def split: if_splits)

interpretation blacklist: keyed_table insert_block t_blacklist bl_ID
  by unfold_locales (auto simp: insert_block_def split: if_splits)

section \<open>The constraints of the schema\<close>

definition users_ok :: "(string \<Rightarrow> string) \<Rightarrow> db \<Rightarrow> bool" where
  "users_ok ulower d \<longleftrightarrow>
     distinct (map u_ID (t_users d)) \<and> distinct (map (\<lambda>u. ToLower ulower (u_Email u)) (t_users d))"

definition agents_ok :: "db \<Rightarrow> bool" where
  "agents_ok d \<longleftrightarrow>
     distinct (map a_ID (t_agents d)) \<and> a_OwnerUserID ` set (t_agents d) \<subseteq> u_ID ` set (t_users d)"

definition last_message_ok :: "db \<Rightarrow> conversation \<Rightarrow> bool" where
  "last_message_ok d c \<longleftrightarrow>
     (\<forall>i \<in> set_option (c_LastMessageID c).
        \<exists>m \<in> set (t_messages d). m_ID m = i \<and> m_ConversationID m = c_ID c
           \<and> c_LastMessageAt c = Some (m_Timestamp m))"

definition conversations_ok :: "db \<Rightarrow> bool" where
  "conversations_ok d \<longleftrightarrow>
     distinct (map c_ID (t_conversations d))
     \<and> (\<forall>c \<in> set (t_conversations d). check_direct_ids c \<and> group_ref_ok (c_GroupID c) d
                                      \<and> last_message_ok d c)
     \<and> (\<forall>c \<in> set (t_conversations d). \<forall>e \<in> set (t_conversations d).
          same_pair c e \<longrightarrow> c_ID c = c_ID e)"

definition cp_key :: "participant \<Rightarrow> uuid \<times> uuid \<times> string" where
  "cp_key p = (cp_ConversationID p, cp_ParticipantID p, cp_ParticipantKind p)"

definition participants_ok :: "db \<Rightarrow> bool" where
  "participants_ok d \<longleftrightarrow>
     distinct (map cp_key (t_participants d))
     \<and> (\<forall>p \<in> set (t_participants d). cp_ParticipantKind p \<in> set participant_kinds
          \<and> cp_ConversationID p \<in> c_ID ` set (t_conversations d))"

definition groups_ok :: "db \<Rightarrow> bool" where
  "groups_ok d \<longleftrightarrow>
     distinct (map g_ID (t_groups d)) \<and> distinct (map g_Name (t_groups d))
     \<and> (\<forall>g \<in> set (t_groups d). g_OwnerID g \<in> u_ID ` set (t_users d)
                                \<and> conv_ref_ok (g_ConversationID g) d)"

definition messages_ok :: "db \<Rightarrow> bool" where
  "messages_ok d \<longleftrightarrow>
     distinct (map m_ID (t_messages d))
     \<and> (\<forall>m \<in> set (t_messages d). m_ParticipantKind m \<in> set participant_kinds
          \<and> m_ConversationID m \<in> c_ID ` set (t_conversations d))"

definition cr_edge :: "connection_request \<Rightarrow> uuid \<times> string \<times> uuid \<times> string" where
  "cr_edge r = (cr_FromID r, cr_FromKind r, cr_ToID r, cr_ToKind r)"

definition requests_ok :: "db \<Rightarrow> bool" where
  "requests_ok d \<longleftrightarrow>
     distinct (map cr_ID (t_requests d)) \<and> distinct (map cr_edge (t_requests d))
     \<and> (\<forall>r \<in> set (t_requests d). cr_SenderID r \<in> a_ID ` set (t_agents d)
          \<and> cr_FromKind r \<in> set entity_kinds \<and> cr_ToKind r \<in> set entity_kinds
          \<and> cr_Status r \<in> set request_statuses)"

definition bl_edge :: "blacklist_entry \<Rightarrow> uuid \<times> string \<times> uuid \<times> string" where
  "bl_edge b = (bl_FromID b, bl_FromKind b, bl_ToID b, bl_ToKind b)"

definition blacklist_ok :: "db \<Rightarrow> bool" where
  "blacklist_ok d \<longleftrightarrow>
     distinct (map bl_ID (t_blacklist d)) \<and> distinct (map bl_edge (t_blacklist d))
     \<and> (\<forall>b \<in> set (t_blacklist d). bl_FromKind b \<in> set entity_kinds \<and> bl_ToKind b \<in> set entity_kinds)"

definition db_inv :: "(string \<Rightarrow> string) \<Rightarrow> db \<Rightarrow> bool" where
  "db_inv ulower d \<longleftrightarrow>
     users_ok ulower d \<and> agents_ok d \<and> conversations_ok d \<and> participants_ok d
     \<and> groups_ok d \<and> messages_ok d \<and> requests_ok d \<and> blacklist_ok d"

lemma group_ref_ok_iff: "group_ref_ok g d \<longleftrightarrow> set_option g \<subseteq> g_ID ` set (t_groups d)"
  by (cases g) (auto simp: group_ref_ok_def)

lemma conv_ref_ok_iff: "conv_ref_ok c d \<longleftrightarrow> set_option c \<subseteq> c_ID ` set (t_conversations d)"
  by (cases c) (auto simp: conv_ref_ok_def)

named_theorems table_defs \<open>constraints that do not depend on an updated table\<close>

lemmas [table_defs] = users_ok_def agents_ok_def conversations_ok_def participants_ok_def
  groups_ok_def messages_ok_def requests_ok_def blacklist_ok_def
  group_ref_ok_iff conv_ref_ok_iff last_message_ok_def

lemma db_inv_empty: "db_inv ulower empty_db"
  by (simp add: db_inv_def empty_db_def table_defs)

section \<open>The statements keep the constraints\<close>

lemma insert_agent_inv:
  assumes "db_inv ulower d" "insert_agent a d = Inr (x, d')"
  shows "db_inv ulower d'"
proof -
  have d': "d' = d\<lparr>t_agents := t_agents d @ [a]\<rparr>"
    using assms(2) by (auto simp: insert_agent_def split: if_splits)
  have "agents_ok d'"
    using assms by (auto simp: d' db_inv_def agents_ok_def insert_agent_def split: if_splits)
  moreover have "requests_ok d'"
    using assms(1) by (auto simp: d' db_inv_def requests_ok_def)
  ultimately show ?thesis
    using assms(1) by (simp add: d' db_inv_def table_defs)
qed

lemma delete_agent_inv:
  assumes "db_inv ulower d" "delete_agent i d = Inr (x, d')"
  shows "db_inv ulower d'"
proof -
  have d': "d' = d\<lparr>t_agents := filter (\<lambda>a. a_ID a \<noteq> i) (t_agents d),
           t_requests := filter (\<lambda>r. cr_SenderID r \<noteq> i) (t_requests d)\<rparr>"
  proof (cases "i \<in> a_ID ` set (t_agents d)")
    case False
    then have "filter (\<lambda>r. cr_SenderID r \<noteq> i) (t_requests d) = t_requests d"
      using assms(1) by (auto simp: filter_id_conv db_inv_def requests_ok_def)
    with False assms(2) show ?thesis by (auto simp: delete_agent_def)
  qed (use assms(2) in \<open>auto simp: delete_agent_def\<close>)
  have "agents_ok d'" "requests_ok d'"
    using assms(1) by (auto simp: d' db_inv_def agents_ok_def requests_ok_def distinct_map
      intro: inj_on_subset)
  then show ?thesis
    using assms(1) by (simp add: d' db_inv_def table_defs)
qed

lemma update_secret_hash_inv:
  assumes "db_inv ulower d" "update_secret_hash i h d = Inr (x, d')"
  shows "db_inv ulower d'"
proof -
  define f where "f = (\<lambda>a::agent. if a_ID a = i then a\<lparr>a_APISecretHash := h\<rparr> else a)"
  have d': "d' = d\<lparr>t_agents := map f (t_agents d)\<rparr>"
    using assms(2) by (auto simp: update_secret_hash_def f_def)
  have "a_ID (f a) = a_ID a" "a_OwnerUserID (f a) = a_OwnerUserID a" for a
    by (simp_all add: f_def)
  then show ?thesis
    using assms(1) by (simp add: d' db_inv_def table_defs image_image comp_def)
qed

lemma insert_user_inv:
  assumes "db_inv ulower d" "insert_user ulower u d = Inr (x, d')"
  shows "db_inv ulower d'"
proof -
  have d': "d' = d\<lparr>t_users := t_users d @ [u]\<rparr>"
    using assms(2) by (auto simp: insert_user_def split: if_splits)
  have "users_ok ulower d'"
    using assms by (auto simp: d' db_inv_def users_ok_def insert_user_def list_ex_iff citext_eq_def
        image_iff split: if_splits)
  moreover have "agents_ok d'" "groups_ok d'"
    using assms(1) by (auto simp: d' db_inv_def agents_ok_def groups_ok_def conv_ref_ok_iff)
  ultimately show ?thesis
    using assms(1) by (simp add: d' db_inv_def table_defs)
qed

text \<open>Updates of users that keep the identifier and the address.\<close>

lemma map_users_inv:
  assumes "db_inv ulower d" "\<And>u. u_ID (f u) = u_ID u" "\<And>u. u_Email (f u) = u_Email u"
  shows "db_inv ulower (d\<lparr>t_users := map f (t_users d)\<rparr>)"
  using assms(1) by (simp add: db_inv_def table_defs image_image comp_def assms(2,3))

lemma set_token_inv:
  "db_inv ulower d \<Longrightarrow> set_token i tok t d = Inr (x, d') \<Longrightarrow> db_inv ulower d'"
  by (auto simp: set_token_def intro!: map_users_inv)

lemma verify_stmt_inv:
  "db_inv ulower d \<Longrightarrow> verify_stmt tok now d = Inr (x, d') \<Longrightarrow> db_inv ulower d'"
  by (auto simp: verify_stmt_def mark_verified_def intro!: map_users_inv split: list.splits)

lemma insert_conversation_inv:
  assumes "db_inv ulower d" "insert_conversation c d = Inr (x, d')" "c_LastMessageID c = None"
  shows "db_inv ulower d'"
proof -
  have d': "d' = d\<lparr>t_conversations := t_conversations d @ [c]\<rparr>"
    and c: "check_direct_ids c" "c_ID c \<notin> c_ID ` set (t_conversations d)"
      "\<forall>e \<in> set (t_conversations d). \<not> same_pair c e" "group_ref_ok (c_GroupID c) d"
    using assms(2) by (auto simp: insert_conversation_def list_ex_iff split: if_splits)
  moreover from c(3) have "\<forall>e \<in> set (t_conversations d). \<not> same_pair e c"
    by (auto simp: same_pair_def)
  moreover have "group_ref_ok g d' = group_ref_ok g d" "last_message_ok d' e = last_message_ok d e" for g e
    by (simp_all add: d' group_ref_ok_iff last_message_ok_def)
  moreover have "last_message_ok d c" by (simp add: last_message_ok_def assms(3))
  ultimately have "conversations_ok d'"
    using assms(1) by (simp add: d' db_inv_def conversations_ok_def ball_Un)
  moreover have "participants_ok d'" "messages_ok d'"
    using assms(1) by (auto simp: d' db_inv_def participants_ok_def messages_ok_def)
  moreover have "groups_ok d'"
    using assms(1) by (auto simp: d' db_inv_def groups_ok_def conv_ref_ok_iff)
  ultimately show ?thesis
    using assms(1) by (simp add: d' db_inv_def table_defs)
qed

lemma map_conversations_inv:
  assumes inv: "db_inv ulower d" and keep: "\<And>c. c_ID (f c) = c_ID c" "\<And>c. c_Type (f c) = c_Type c"
      "\<And>c. c_IDLow (f c) = c_IDLow c" "\<And>c. c_IDHigh (f c) = c_IDHigh c"
    and ref: "\<And>c. c \<in> set (t_conversations d) \<Longrightarrow>
                group_ref_ok (c_GroupID (f c)) d \<and> last_message_ok d (f c)"
  shows "db_inv ulower (d\<lparr>t_conversations := map f (t_conversations d)\<rparr>)"
proof -
  have "check_direct_ids (f c) = check_direct_ids c" "same_pair (f c) (f e) = same_pair c e" for c e
    by (simp_all add: check_direct_ids_def same_pair_def keep)
  then have "conversations_ok (d\<lparr>t_conversations := map f (t_conversations d)\<rparr>)"
    using inv ref
    by (simp add: db_inv_def conversations_ok_def comp_def keep group_ref_ok_iff last_message_ok_def)
  then show ?thesis
    using inv by (simp add: db_inv_def table_defs image_image keep)
qed

lemma set_group_id_inv:
  assumes "db_inv ulower d" "set_group_id c g d = Inr (x, d')"
  shows "db_inv ulower d'"
proof -
  define f where "f = (\<lambda>x::conversation. if c_ID x = c then x\<lparr>c_GroupID := Some g\<rparr> else x)"
  have d': "d' = d\<lparr>t_conversations := map f (t_conversations d)\<rparr>"
    and g: "c \<in> c_ID ` set (t_conversations d) \<Longrightarrow> g \<in> g_ID ` set (t_groups d)"
    using assms(2) by (auto simp: set_group_id_def f_def split: if_splits)
  have "db_inv ulower (d\<lparr>t_conversations := map f (t_conversations d)\<rparr>)"
  proof (rule map_conversations_inv [OF assms(1)])
    fix x assume x: "x \<in> set (t_conversations d)"
    have "group_ref_ok (c_GroupID x) d" "last_message_ok d x"
      using assms(1) x by (auto simp: db_inv_def conversations_ok_def)
    then show "group_ref_ok (c_GroupID (f x)) d \<and> last_message_ok d (f x)"
      using g x by (auto simp: f_def group_ref_ok_iff last_message_ok_def)
  qed (auto simp: f_def)
  then show ?thesis by (simp add: d')
qed

lemma insert_participant_inv:
  assumes "db_inv ulower d" "insert_participant p d = Inr (x, d')"
  shows "db_inv ulower d'"
proof -
  have "participants_ok d'"
    using assms by (auto simp: db_inv_def participants_ok_def insert_participant_def participant_in_def
        list_ex_iff same_participant_def cp_key_def image_iff split: if_splits) blast
  moreover obtain ps where d': "d' = d\<lparr>t_participants := ps\<rparr>"
    using assms(2) by (cases d) (auto simp: insert_participant_def split: if_splits)
  ultimately show ?thesis
    using assms(1) by (simp add: d' db_inv_def table_defs)
qed

lemma delete_participant_inv:
  assumes "db_inv ulower d" "delete_participant cid pid kind d = Inr (x, d')"
  shows "db_inv ulower d'"
proof -
  have d': "d' = d\<lparr>t_participants := filter (\<lambda>p. \<not> same_participant cid pid kind p) (t_participants d)\<rparr>"
    using assms(2) by (auto simp: delete_participant_def split: if_splits)
  have "participants_ok d'"
    using assms(1) by (auto simp: d' db_inv_def participants_ok_def distinct_map intro: inj_on_subset)
  then show ?thesis
    using assms(1) by (simp add: d' db_inv_def table_defs)
qed

lemma update_participant_inv:
  assumes "db_inv ulower d" "update_participant cid pid kind f d = Inr (x, d')"
    and keep: "\<And>p. cp_key (f p) = cp_key p"
  shows "db_inv ulower d'"
proof -
  define h where "h = (\<lambda>p::participant. if same_participant cid pid kind p then f p else p)"
  have d': "d' = d\<lparr>t_participants := map h (t_participants d)\<rparr>"
    using assms(2) by (auto simp: update_participant_def h_def split: if_splits)
  have "cp_key (h p) = cp_key p" for p by (simp add: h_def keep)
  moreover from this have "cp_ConversationID (h p) = cp_ConversationID p"
      "cp_ParticipantKind (h p) = cp_ParticipantKind p" for p
    by (simp_all add: cp_key_def)
  ultimately show ?thesis
    using assms(1) by (simp add: d' db_inv_def table_defs comp_def)
qed

lemma insert_group_inv:
  assumes "db_inv ulower d" "insert_group g d = Inr (x, d')"
  shows "db_inv ulower d'"
proof -
  have d': "d' = d\<lparr>t_groups := t_groups d @ [g]\<rparr>"
    using assms(2) by (auto simp: insert_group_def split: if_splits)
  have "groups_ok d'"
    using assms by (auto simp: d' db_inv_def groups_ok_def conv_ref_ok_iff insert_group_def split: if_splits)
  moreover have "conversations_ok d'"
    using assms(1) by (auto simp: d' db_inv_def conversations_ok_def group_ref_ok_iff last_message_ok_def)
  ultimately show ?thesis
    using assms(1) by (simp add: d' db_inv_def table_defs)
qed

lemma set_conversation_id_inv:
  assumes "db_inv ulower d" "set_conversation_id g c d = Inr (x, d')"
  shows "db_inv ulower d'"
proof -
  define f where "f = (\<lambda>x::chat_group. if g_ID x = g then x\<lparr>g_ConversationID := Some c\<rparr> else x)"
  have d': "d' = d\<lparr>t_groups := map f (t_groups d)\<rparr>"
    and c: "g \<in> g_ID ` set (t_groups d) \<Longrightarrow> c \<in> c_ID ` set (t_conversations d)"
    using assms(2) by (auto simp: set_conversation_id_def f_def split: if_splits)
  have keep: "g_ID (f x) = g_ID x" "g_Name (f x) = g_Name x" "g_OwnerID (f x) = g_OwnerID x" for x
    by (simp_all add: f_def)
  have "conv_ref_ok (g_ConversationID (f x)) d" if "x \<in> set (t_groups d)" for x
    using that assms(1) c by (auto simp: f_def conv_ref_ok_iff db_inv_def groups_ok_def)
  then have "groups_ok d'"
    using assms(1) by (simp add: d' db_inv_def groups_ok_def conv_ref_ok_iff comp_def keep)
  then show ?thesis
    using assms(1) by (simp add: d' db_inv_def table_defs image_image keep)
qed

lemma insert_message_inv:
  assumes "db_inv ulower d" "insert_message m d = Inr (x, d')"
  shows "db_inv ulower d'"
proof -
  have d': "d' = d\<lparr>t_messages := t_messages d @ [m]\<rparr>"
    using assms(2) by (auto simp: insert_message_def split: if_splits)
  have "messages_ok d'"
    using assms by (auto simp: d' db_inv_def messages_ok_def insert_message_def split: if_splits)
  moreover have "conversations_ok d'"
    using assms(1) by (auto simp: d' db_inv_def conversations_ok_def group_ref_ok_iff last_message_ok_def)
  ultimately show ?thesis
    using assms(1) by (simp add: d' db_inv_def table_defs)
qed

lemma set_last_message_inv:
  assumes inv: "db_inv ulower d" and m: "m \<in> set (t_messages d)"
  shows "db_inv ulower (set_last_message m d)"
  unfolding set_last_message_def
proof (rule map_conversations_inv [OF inv])
  fix c assume "c \<in> set (t_conversations d)"
  then have "group_ref_ok (c_GroupID c) d" "last_message_ok d c"
    using inv by (auto simp: db_inv_def conversations_ok_def)
  then show "group_ref_ok (c_GroupID (if c_ID c = m_ConversationID m
        then c\<lparr>c_LastMessageID := Some (m_ID m), c_LastMessageAt := Some (m_Timestamp m)\<rparr> else c)) d
      \<and> last_message_ok d (if c_ID c = m_ConversationID m
        then c\<lparr>c_LastMessageID := Some (m_ID m), c_LastMessageAt := Some (m_Timestamp m)\<rparr> else c)"
    using m by (auto simp: last_message_ok_def)
qed auto

lemma insert_request_inv:
  assumes "db_inv ulower d" "insert_request r d = Inr (x, d')"
  shows "db_inv ulower d'"
proof -
  have d': "d' = d\<lparr>t_requests := t_requests d @ [r]\<rparr>"
    using assms(2) by (auto simp: insert_request_def split: if_splits)
  have "requests_ok d'"
    using assms by (auto simp: d' db_inv_def requests_ok_def insert_request_def list_ex_iff
        same_edge_def cr_edge_def image_iff split: if_splits)
  then show ?thesis
    using assms(1) by (simp add: d' db_inv_def table_defs)
qed

lemma set_status_inv:
  assumes "db_inv ulower d" "set_status i st now d = Inr (x, d')"
  shows "db_inv ulower d'"
proof -
  define f where "f = (\<lambda>r::connection_request. if cr_ID r = i then r\<lparr>cr_Status := st, cr_UpdatedAt := pg_ts now\<rparr> else r)"
  have d': "d' = d\<lparr>t_requests := map f (t_requests d)\<rparr>" and st: "st \<in> set request_statuses"
    using assms(2) by (auto simp: set_status_def f_def split: if_splits)
  have keep: "cr_ID (f r) = cr_ID r" "cr_edge (f r) = cr_edge r" "cr_SenderID (f r) = cr_SenderID r"
      "cr_FromKind (f r) = cr_FromKind r" "cr_ToKind (f r) = cr_ToKind r"
      "cr_Status r \<in> set request_statuses \<Longrightarrow> cr_Status (f r) \<in> set request_statuses" for r
    using st by (simp_all add: f_def cr_edge_def)
  show ?thesis
    using assms(1) by (simp add: d' db_inv_def table_defs image_image comp_def keep)
qed

lemma insert_block_inv:
  assumes "db_inv ulower d" "insert_block b d = Inr (x, d')"
  shows "db_inv ulower d'"
proof -
  have d': "d' = d\<lparr>t_blacklist := t_blacklist d @ [b]\<rparr>"
    using assms(2) by (auto simp: insert_block_def split: if_splits)
  have "blacklist_ok d'"
    using assms by (auto simp: d' db_inv_def blacklist_ok_def insert_block_def list_ex_iff
        same_block_def bl_edge_def image_iff split: if_splits)
  then show ?thesis
    using assms(1) by (simp add: d' db_inv_def table_defs)
qed

lemma delete_block_inv:
  assumes "db_inv ulower d" "delete_block fid fk tid tk d = Inr (x, d')"
  shows "db_inv ulower d'"
proof -
  have d': "d' = d\<lparr>t_blacklist := filter (\<lambda>b. \<not> same_block fid fk tid tk b) (t_blacklist d)\<rparr>"
    using assms(2) by (auto simp: delete_block_def split: if_splits)
  have "blacklist_ok d'"
    using assms(1) by (auto simp: d' db_inv_def blacklist_ok_def distinct_map intro: inj_on_subset)
  then show ?thesis
    using assms(1) by (simp add: d' db_inv_def table_defs)
qed

section \<open>The methods keep the constraints\<close>

lemmas stmt_invs = insert_agent_inv delete_agent_inv update_secret_hash_inv insert_user_inv set_token_inv
  verify_stmt_inv set_group_id_inv insert_participant_inv delete_participant_inv insert_group_inv
  set_conversation_id_inv insert_request_inv set_status_inv insert_block_inv delete_block_inv

text \<open>A statement keeps the constraints, by the lemma for it.\<close>

lemma keeps_stmt_inv [keeps_intros]:
  "keeps (db_inv ulower) (stmt (insert_agent a))"
  "keeps (db_inv ulower) (stmt (delete_agent i))"
  "keeps (db_inv ulower) (stmt (update_secret_hash i h))"
  "keeps (db_inv ulower) (stmt (insert_user ulower u))"
  "keeps (db_inv ulower) (stmt (set_token i tok t))"
  "keeps (db_inv ulower) (stmt (verify_stmt tok now))"
  "keeps (db_inv ulower) (stmt (set_group_id c g))"
  "keeps (db_inv ulower) (stmt (insert_participant p))"
  "keeps (db_inv ulower) (stmt (delete_participant cid pid kind))"
  "keeps (db_inv ulower) (stmt (insert_group gr))"
  "keeps (db_inv ulower) (stmt (set_conversation_id g c))"
  "keeps (db_inv ulower) (stmt (insert_request r))"
  "keeps (db_inv ulower) (stmt (set_status i st now))"
  "keeps (db_inv ulower) (stmt (insert_block b))"
  "keeps (db_inv ulower) (stmt (delete_block fid fk tid tk))"
  by (rule keeps_stmt; erule (1) stmt_invs)+

lemma keeps_insert_conversation [keeps_intros]:
  "c_LastMessageID c = None \<Longrightarrow> keeps (db_inv ulower) (stmt (insert_conversation c))"
  by (rule keeps_stmt) (erule (2) insert_conversation_inv)

lemma keeps_update_participant [keeps_intros]:
  "(\<And>p. cp_key (f p) = cp_key p) \<Longrightarrow>
     keeps (db_inv ulower) (stmt (update_participant cid pid kind f))"
  by (rule keeps_stmt) (erule (1) update_participant_inv, simp)

text \<open>
  The transaction of \<open>Save\<close>: the commit installs the tables of the snapshot, with the message and
  the reference to it, or nothing happens.
\<close>

definition save_tables :: "message \<Rightarrow> db \<Rightarrow> (message \<times> db) res" where
  "save_tables m d =
     (case insert_message m d of Inl e \<Rightarrow> Inl e | Inr (out, d1) \<Rightarrow> Inr (out, set_last_message out d1))"

lemma save_tables_inv:
  assumes "db_inv ulower d" "save_tables m d = Inr (out, d')"
  shows "db_inv ulower d'"
proof -
  obtain d1 where d1: "insert_message m d = Inr (out, d1)" "d' = set_last_message out d1"
    using assms(2) by (auto simp: save_tables_def split: sum.splits)
  have "out = m" "t_messages d1 = t_messages d @ [m]"
    by (rule messages.ins_returns [OF d1(1)], rule messages.ins_rows [OF d1(1)])
  then have "out \<in> set (t_messages d1)" by simp
  with insert_message_inv [OF assms(1) d1(1)] show ?thesis
    unfolding d1(2) by (rule set_last_message_inv)
qed

text \<open>The methods that write, and the methods that only read.\<close>

lemmas scan_defs = scanAgent_def scanMessage_def scanConversation_def scanConnectionRequest_def scanBlacklistEntry_def

lemmas write_defs = scan_defs
  Agents_Create_def Agents_Delete_def Users_Create_def Users_SetVerificationToken_def
  Users_VerifyEmail_def Conversations_Create_def Conversations_UpdateGroupID_def
  Participants_Add_def Participants_Remove_def Participants_UpdateMuted_def
  Participants_UpdateLastRead_def Groups_Create_def Groups_SetConversationID_def
  ConnectionRequests_Create_def ConnectionRequests_UpdateStatus_def Blacklist_Create_def
  Blacklist_Delete_def

lemmas read_defs = scan_defs
  Agents_GetByID_def Agents_ListAll_def Agents_ListByOwner_def Users_GetByEmail_def
  Users_GetByID_def Users_GetByVerificationToken_def Conversations_GetByID_def
  Conversations_GetDirectByPair_def Conversations_GetByGroupID_def
  Conversations_ListByParticipant_def Conversations_ListByParticipantAndType_def
  Conversations_ListItems_def Conversations_ListUnreadByParticipant_def
  Participants_ListByConversation_def Groups_GetByID_def Groups_ListAll_def Messages_GetByID_def
  Messages_GetByConversation_def ConnectionRequests_GetPendingByTarget_def
  ConnectionRequests_GetByFromAndTo_def Blacklist_IsBlocked_def Blacklist_ListByEntity_def

lemma keeps_writes [keeps_intros]:
  "keeps (db_inv ulower) (Agents_Create a1)"
  "keeps (db_inv ulower) (Agents_Delete i1)"
  "keeps (db_inv ulower) (Users_Create ulower u1)"
  "keeps (db_inv ulower) (Users_SetVerificationToken i1 s2 t3)"
  "keeps (db_inv ulower) (Users_VerifyEmail s1)"
  "keeps (db_inv ulower) (Conversations_Create c1)"
  "keeps (db_inv ulower) (Conversations_UpdateGroupID i1 i2)"
  "keeps (db_inv ulower) (Participants_Add p1)"
  "keeps (db_inv ulower) (Participants_Remove i1 i2 s3)"
  "keeps (db_inv ulower) (Participants_UpdateMuted i1 i2 s3 q4)"
  "keeps (db_inv ulower) (Participants_UpdateLastRead i1 i2 s3 i4)"
  "keeps (db_inv ulower) (Groups_Create g1)"
  "keeps (db_inv ulower) (Groups_SetConversationID i1 i2)"
  "keeps (db_inv ulower) (ConnectionRequests_Create r1)"
  "keeps (db_inv ulower) (ConnectionRequests_UpdateStatus i1 s2)"
  "keeps (db_inv ulower) (Blacklist_Create b1)"
  "keeps (db_inv ulower) (Blacklist_Delete i1 s2 i3 s4)"
  unfolding write_defs by (intro keeps_intros; simp add: cp_key_def)+

lemma keeps_reads [keeps_intros]:
  "keeps P (Agents_GetByID i1)"
  "keeps P Agents_ListAll"
  "keeps P (Agents_ListByOwner i1)"
  "keeps P (Users_GetByEmail ulower s1)"
  "keeps P (Users_GetByID i1)"
  "keeps P (Users_GetByVerificationToken s1)"
  "keeps P (Conversations_GetByID i1)"
  "keeps P (Conversations_GetDirectByPair i1 i2)"
  "keeps P (Conversations_GetByGroupID i1)"
  "keeps P (Conversations_ListByParticipant i1 s2)"
  "keeps P (Conversations_ListByParticipantAndType i1 s2 s3)"
  "keeps P (Conversations_ListItems i1 s2 so3)"
  "keeps P (Conversations_ListUnreadByParticipant i1 s2)"
  "keeps P (Participants_ListByConversation i1)"
  "keeps P (Groups_GetByID i1)"
  "keeps P Groups_ListAll"
  "keeps P (Messages_GetByID i1)"
  "keeps P (Messages_GetByConversation i1 n2 ts3 io4)"
  "keeps P (ConnectionRequests_GetPendingByTarget i1 s2)"
  "keeps P (ConnectionRequests_GetByFromAndTo i1 s2 i3 s4)"
  "keeps P (Blacklist_IsBlocked i1 s2 i3 s4)"
  "keeps P (Blacklist_ListByEntity i1 s2)"
  unfolding read_defs Let_def by (intro keeps_intros; simp)+

text \<open>
  What \<open>Save\<close> does to the tables: the transaction as a whole, or nothing. The row has the
  microsecond timestamp and the metadata of the \<open>JSONB\<close> column.
\<close>

definition saved_row :: "message \<Rightarrow> time \<Rightarrow> message" where
  "saved_row m t = m\<lparr>m_Timestamp := pg_ts t, m_Metadata := norm_map (m_Metadata m)\<rparr>"

lemma reads_scanE [reads_intros]: "reads m \<Longrightarrow> reads (scanE msg m)"
  unfolding reads_def scanE_def by (auto split: prod.splits sum.splits) (metis snd_conv)+

lemma scanE_Inr [simp]: "scanE msg m w = (Inr x, w') \<longleftrightarrow> m w = (Inr x, w')"
  by (auto simp: scanE_def split: prod.splits sum.splits)

lemma reads_new_id [reads_intros]: "reads (new_id i)"
  by (simp add: new_id_def reads_intros)

lemma reads_new_time [reads_intros]: "reads (new_time t)"
  by (simp add: new_time_def reads_intros)

lemma new_time_Inr: "new_time t0 w = (Inr t, w1) \<Longrightarrow> t = t0 \<or> t0 = zero_time"
  by (auto simp: new_time_def time_Now_def returnE_def split: if_splits)

lemma commit_Inr: "stmt (\<lambda>_. Ok ((), d2)) w = (Ok (), w') \<Longrightarrow> w_db w' = d2"
  by (auto simp: stmt_def Let_def split: fault.splits)

lemma commit_cases:
  assumes "wrapE msg (stmt (\<lambda>_. Ok ((), d2))) w = (r, w')"
  shows "(w_db w' = w_db w \<or> w_db w' = d2)
    \<and> (r = Ok () \<and> w_db w' = d2 \<or> r = Fail (Wrap msg (ErrDriver ''connection'')))"
  using assms by (auto simp: wrapE_def stmt_def Let_def split: fault.splits)

lemma Messages_Save_cases:
  assumes "Messages_Save m w = (r, w')"
  shows "w_db w' = w_db w \<and> \<not> is_ok r
    \<or> (\<exists>t out. (t = m_Timestamp m \<or> m_Timestamp m = zero_time)
         \<and> save_tables (saved_row m t) (w_db w) = Inr (out, w_db w')
         \<and> (r = Ok out \<or> r = Fail (Wrap ''commit tx'' (ErrDriver ''connection''))))"
  using assms unfolding Messages_Save_def scan_defs
proof (cases rule: bindE_reads_cases)
  case time: (ok t w1)
  from time(3) show ?thesis
  proof (cases rule: bindE_reads_cases)
    case beg: (ok u w2)
    from beg(3) show ?thesis
    proof (cases rule: bindE_reads_cases)
      case ins: (ok x w3)
      obtain out d1 where x: "x = (out, d1)" by (cases x)
      have row: "insert_message (saved_row m t) (w_db w) = Inr (out, d1)"
        using ins(1) by (auto simp: x saved_row_def beg(2) time(2) dest!: query_Inr)
      from ins(3) [unfolded x prod.case] show ?thesis
      proof (cases rule: bindE_reads_cases)
        case upd: (ok d2 w4)
        have d2: "d2 = set_last_message out d1"
          using upd(1) by (auto dest: query_Inr)
        have saved: "save_tables (saved_row m t) (w_db w) = Inr (out, d2)"
          by (simp add: save_tables_def row d2)
        from upd(3) have "w_db w' = w_db w \<and> \<not> is_ok r
            \<or> w_db w' = d2 \<and> (r = Ok out \<or> r = Fail (Wrap ''commit tx'' (ErrDriver ''connection'')))"
          by (cases rule: bindE_cases)
            (auto dest: commit_Inr dest!: commit_cases simp: returnE_def upd(2) ins(2) beg(2) time(2))
        then show ?thesis using saved new_time_Inr [OF time(1)] by auto
      qed (auto intro!: reads_intros simp: ins(2) beg(2) time(2))
    qed (auto intro!: reads_intros simp: beg(2) time(2))
  qed (auto intro!: reads_intros simp: time(2))
qed (auto intro!: reads_intros)

lemma keeps_Messages_Save [keeps_intros]: "keeps (db_inv ulower) (Messages_Save m)"
  unfolding keeps_def
proof (intro allI impI)
  fix w :: world assume inv: "db_inv ulower (w_db w)"
  obtain r w' where sv: "Messages_Save m w = (r, w')" by fastforce
  show "db_inv ulower (w_db (snd (Messages_Save m w)))"
    using Messages_Save_cases [OF sv] inv by (auto simp: sv intro: save_tables_inv)
qed

text \<open>
  C15. Saving a message is atomic: whatever statement of the transaction fails, either the tables
  are as before and the caller sees an error, or the message is stored and its conversation refers
  to it, and the caller sees the stored row or the failure of the commit.
\<close>

theorem Messages_Save_atomic:
  "case Messages_Save m w of (r, w') \<Rightarrow>
     (w_db w' = w_db w \<and> \<not> is_ok r)
     \<or> (\<exists>t. (t = m_Timestamp m \<or> m_Timestamp m = zero_time)
          \<and> w_db w' = set_last_message (saved_row m t)
                        ((w_db w)\<lparr>t_messages := t_messages (w_db w) @ [saved_row m t]\<rparr>)
          \<and> (r = Ok (saved_row m t) \<or> r = Fail (Wrap ''commit tx'' (ErrDriver ''connection''))))"
proof -
  obtain r w' where sv: "Messages_Save m w = (r, w')" by fastforce
  have "out = x \<and> d' = set_last_message x (d\<lparr>t_messages := t_messages d @ [x]\<rparr>)"
    if "save_tables x d = Inr (out, d')" for x d out d'
    using that by (auto simp: save_tables_def insert_message_def split: if_splits)
  then show ?thesis
    using Messages_Save_cases [OF sv] unfolding sv prod.case by blast
qed

section \<open>Reading back\<close>

text \<open>The page of a conversation's history.\<close>

definition window :: "db \<Rightarrow> uuid \<Rightarrow> time option \<Rightarrow> uuid option \<Rightarrow> message list" where
  "window d cid ts i = filter (in_window cid ts i) (t_messages d)"

lemma sorted_order_desc: "sorted_wrt (\<lambda>a b. f b \<le> f a) (order_desc f xs)"
proof -
  have "sorted (map (\<lambda>r. - f r) (order_desc f xs))"
    unfolding order_desc_def by (rule sorted_sort_key)
  then show ?thesis by (simp add: sorted_wrt_map)
qed

lemma mset_order_desc [simp]: "mset (order_desc f xs) = mset xs"
  by (simp add: order_desc_def)

lemma length_order_desc [simp]: "length (order_desc f xs) = length xs"
  by (simp add: order_desc_def)

lemma newest_first:
  fixes f :: "'a \<Rightarrow> time" and rows :: "'a list"
  defines "xs \<equiv> order_desc f rows"
  shows "\<exists>rest. mset (take n xs) + mset rest = mset rows
    \<and> (\<forall>a \<in> set rest. \<forall>b \<in> set (take n xs). f a \<le> f b)"
proof (intro exI conjI)
  show "mset (take n xs) + mset (drop n xs) = mset rows"
    by (metis append_take_drop_id mset_append mset_order_desc xs_def)
  have "sorted_wrt (\<lambda>a b. f b \<le> f a) (take n xs @ drop n xs)"
    by (simp add: xs_def sorted_order_desc)
  then show "\<forall>a \<in> set (drop n xs). \<forall>b \<in> set (take n xs). f a \<le> f b"
    by (simp only: sorted_wrt_append) blast
qed

text \<open>
  A successful history query returns the newest messages of the window, newest first: at most
  the limit (50 when it is not positive), and every message left out is no newer than every one
  returned.
\<close>

theorem GetByConversation_newest:
  assumes "Messages_GetByConversation cid limit ts i w = (Ok ms, w')"
  shows "length ms = min (nat (if limit \<le> 0 then 50 else limit)) (length (window (w_db w) cid ts i))
    \<and> sorted_wrt (\<lambda>a b. m_Timestamp b \<le> m_Timestamp a) ms
    \<and> (\<exists>rest. mset ms + mset rest = mset (window (w_db w) cid ts i)
         \<and> (\<forall>a \<in> set rest. \<forall>b \<in> set ms. m_Timestamp a \<le> m_Timestamp b))"
proof -
  define n where "n = nat (if limit \<le> 0 then 50 else limit)"
  have ms: "ms = take n (order_desc m_Timestamp (window (w_db w) cid ts i))"
    using assms by (auto simp: Messages_GetByConversation_def Let_def n_def window_def dest!: query_Inr)
  show ?thesis
    using newest_first [of n m_Timestamp "window (w_db w) cid ts i"] sorted_wrt_take [OF sorted_order_desc]
    by (simp add: ms min.commute flip: n_def)
qed

section \<open>A concrete world\<close>

text \<open>A world without failures whose clock ticks a second per reading, for the witnesses.\<close>

definition clear_world :: "db \<Rightarrow> world" where
  "clear_world d = \<lparr>w_db = d, w_uuid = (\<lambda>n. of_nat n + 1), w_uuids_used = 0,
     w_clock = (\<lambda>n. 1700000000 * nanos + int n * nanos), w_clock_reads = 0,
     w_fault = (\<lambda>_. NoFault), w_stmts = 0, w_rand = (\<lambda>k. Ok (\<lambda>i. char_of (k + i))),
     w_rand_reads = 0, w_outbox = [], w_limiter = None, w_limited = []\<rparr>"

lemma clear_stmt:
  "w_fault w = (\<lambda>_. NoFault) \<Longrightarrow>
   stmt q w = (case q (w_db w) of Inl e \<Rightarrow> (Fail e, w\<lparr>w_stmts := Suc (w_stmts w)\<rparr>)
               | Inr (x, d) \<Rightarrow> (Ok x, w\<lparr>w_stmts := Suc (w_stmts w), w_db := d\<rparr>))"
  by (simp add: stmt_def Let_def)

lemma clear_query:
  "w_fault w = (\<lambda>_. NoFault) \<Longrightarrow>
   query q w = (q (w_db w), w\<lparr>w_stmts := Suc (w_stmts w)\<rparr>)"
  by (cases "q (w_db w)") (simp_all add: query_def clear_stmt)

definition two_messages :: db where
  "two_messages = empty_db\<lparr>
     t_conversations := [\<lparr>c_ID = 7, c_Type = ''direct'', c_IDLow = Some 1, c_IDHigh = Some 2,
        c_GroupID = None, c_CreatedAt = 0, c_LastMessageID = Some 12, c_LastMessageAt = Some 5000\<rparr>],
     t_messages := [
       \<lparr>m_ID = 11, m_FromID = 1, m_ConversationID = 7, m_ParticipantKind = ''user'',
        m_Tag = ''request'', m_Content = ''a'', m_Metadata = None, m_Timestamp = 3000\<rparr>,
       \<lparr>m_ID = 12, m_FromID = 2, m_ConversationID = 7, m_ParticipantKind = ''user'',
        m_Tag = ''response'', m_Content = ''b'', m_Metadata = None, m_Timestamp = 5000\<rparr>]\<rparr>"

theorem GetByConversation_newest_witness:
  "\<exists>m. fst (Messages_GetByConversation 7 1 None None (clear_world two_messages)) = Ok [m]
     \<and> m_ID m = 12 \<and> sorted_wrt (\<lambda>a b. m_Timestamp b \<le> m_Timestamp a) [m]"
proof -
  have "fst (Messages_GetByConversation 7 1 None None (clear_world two_messages))
      = Ok [t_messages two_messages ! 1]"
    by (simp add: Messages_GetByConversation_def wrapE_def clear_query clear_world_def two_messages_def
      in_window_def order_desc_def)
  moreover from this obtain w' where
    "Messages_GetByConversation 7 1 None None (clear_world two_messages) = (Ok [t_messages two_messages ! 1], w')"
    by (metis prod.collapse)
  ultimately show ?thesis
    using GetByConversation_newest [of 7 1 None None "clear_world two_messages"]
    by (auto simp: two_messages_def)
qed

section \<open>Verification tokens\<close>

lemma verify_spent:
  assumes "verify_stmt tok now d = Inr (u, d')" "now \<le> now'"
  shows "verify_stmt tok now' d' = Fail ErrNoRows"
proof -
  have "t_users d' = map (\<lambda>v. if token_live tok now v then mark_verified v else v) (t_users d)"
    using assms(1) by (auto simp: verify_stmt_def split: list.splits)
  then have "filter (token_live tok now') (t_users d') = []"
    using assms(2) by (auto simp: filter_empty_conv token_live_def mark_verified_def split: option.splits)
  then show ?thesis by (simp add: verify_stmt_def)
qed

end
