(* ===== verification/Encoding.thy ===== *)
theory Encoding
  imports GoStrings
begin

text \<open>
  Go's \<open>encoding/hex\<close> and the raw (unpadded) alphabets of \<open>encoding/base64\<close>, which
  \<open>backend/internal/auth/auth.go\<close> uses for tokens, secrets and hashes.
\<close>

definition byte :: "char \<Rightarrow> nat" where "byte c = of_char c"

definition of_byte :: "nat \<Rightarrow> char" where "of_byte n = char_of n"

lemma byte_lt [simp]: "byte c < 256"
  by (simp add: byte_def)

lemma div16_lt: "byte b div 16 < 16" and div64_lt: "byte b div 64 < 4" and div4_lt: "byte b div 4 < 64"
  by (simp_all add: less_mult_imp_div_less)

lemma of_byte_byte [simp]: "of_byte (byte c) = c"
  by (simp add: byte_def of_byte_def)

lemma byte_of_byte [simp]: "n < 256 \<Longrightarrow> byte (of_byte n) = n"
  by (simp add: byte_def of_byte_def)

section \<open>Hexadecimal\<close>

definition hex_alphabet :: string where
  "hex_alphabet = ''0123456789abcdef''"

fun hex_EncodeToString :: "string \<Rightarrow> string" where
  "hex_EncodeToString [] = []"
| "hex_EncodeToString (c # s) =
     hex_alphabet ! (byte c div 16) # hex_alphabet ! (byte c mod 16) # hex_EncodeToString s"

lemma length_hex [simp]: "length (hex_EncodeToString s) = 2 * length s"
  by (induction s) auto

lemma hex_alphabet_inj: "i < 16 \<Longrightarrow> j < 16 \<Longrightarrow> hex_alphabet ! i = hex_alphabet ! j \<Longrightarrow> i = j"
  using nth_eq_iff_index_eq [of hex_alphabet i j] by (simp add: hex_alphabet_def)

lemma hex_inject: "hex_EncodeToString s = hex_EncodeToString t \<Longrightarrow> s = t"
proof (induction s arbitrary: t)
  case Nil
  then show ?case by (cases t) auto
next
  case (Cons c s)
  then obtain d u where t: "t = d # u" by (cases t) auto
  have "hex_alphabet ! (byte c div 16) = hex_alphabet ! (byte d div 16)"
      "hex_alphabet ! (byte c mod 16) = hex_alphabet ! (byte d mod 16)" "hex_EncodeToString s = hex_EncodeToString u"
    using Cons.prems by (simp_all add: t)
  then have "byte c div 16 = byte d div 16" "byte c mod 16 = byte d mod 16" "s = u"
    using Cons.IH by (auto intro: hex_alphabet_inj simp: div16_lt)
  then have "byte c = byte d" by (metis div_mult_mod_eq)
  then have "c = d" by (metis of_byte_byte)
  then show ?case by (simp add: t \<open>s = u\<close>)
qed

section \<open>Base64\<close>

definition std_alphabet :: string where
  "std_alphabet = ''ABCDEFGHIJKLMNOPQRSTUVWXYZabcdefghijklmnopqrstuvwxyz0123456789+/''"

definition url_alphabet :: string where
  "url_alphabet = ''ABCDEFGHIJKLMNOPQRSTUVWXYZabcdefghijklmnopqrstuvwxyz0123456789-_''"

fun base64_encode :: "string \<Rightarrow> string \<Rightarrow> string" where
  "base64_encode al [] = []"
| "base64_encode al [a] = [al ! (byte a div 4), al ! (byte a mod 4 * 16)]"
| "base64_encode al [a, b] =
     [al ! (byte a div 4), al ! (byte a mod 4 * 16 + byte b div 16), al ! (byte b mod 16 * 4)]"
| "base64_encode al (a # b # c # s) =
     al ! (byte a div 4) # al ! (byte a mod 4 * 16 + byte b div 16)
     # al ! (byte b mod 16 * 4 + byte c div 64) # al ! (byte c mod 64) # base64_encode al s"

definition sextet :: "string \<Rightarrow> char \<Rightarrow> nat option" where
  "sextet al c = (case filter (\<lambda>i. al ! i = c) [0..<length al] of [] \<Rightarrow> None | i # _ \<Rightarrow> Some i)"

text \<open>Line breaks are skipped; a single left-over character is an error.\<close>

fun decode_sextets :: "nat list \<Rightarrow> string option" where
  "decode_sextets [] = Some []"
| "decode_sextets [p] = None"
| "decode_sextets [p, q] = Some [of_byte (p * 4 + q div 16)]"
| "decode_sextets [p, q, r] = Some [of_byte (p * 4 + q div 16), of_byte (q mod 16 * 16 + r div 4)]"
| "decode_sextets (p # q # r # t # rest) =
     (case decode_sextets rest of None \<Rightarrow> None | Some s \<Rightarrow>
        Some (of_byte (p * 4 + q div 16) # of_byte (q mod 16 * 16 + r div 4)
              # of_byte (r mod 4 * 64 + t) # s))"

definition base64_decode :: "string \<Rightarrow> string \<Rightarrow> string option" where
  "base64_decode al s =
     Option.bind (those (map (sextet al) (filter (\<lambda>c. c \<noteq> CHR 0x0A \<and> c \<noteq> CHR 0x0D) s))) decode_sextets"

text \<open>What the round trip needs of an alphabet.\<close>

definition alphabet_ok :: "string \<Rightarrow> bool" where
  "alphabet_ok al \<longleftrightarrow>
     length al = 64 \<and> distinct al \<and> list_all (\<lambda>c. c \<noteq> CHR 0x0A \<and> c \<noteq> CHR 0x0D) al"

lemma std_alphabet_ok: "alphabet_ok std_alphabet"
  by (simp add: alphabet_ok_def std_alphabet_def)

lemma url_alphabet_ok: "alphabet_ok url_alphabet"
  by (simp add: alphabet_ok_def url_alphabet_def)

lemma filter_upt_eq: "i < n \<Longrightarrow> filter (\<lambda>j. j = i) [0..<n] = [i]"
  by (induction n) (auto simp: less_Suc_eq filter_empty_conv)

lemma sextet_nth:
  assumes "distinct al" "i < length al"
  shows "sextet al (al ! i) = Some i"
proof -
  have "filter (\<lambda>j. al ! j = al ! i) [0..<length al] = filter (\<lambda>j. j = i) [0..<length al]"
    using assms by (intro filter_cong) (auto simp: nth_eq_iff_index_eq)
  also have "\<dots> = [i]"
    by (rule filter_upt_eq [OF assms(2)])
  finally show ?thesis by (simp add: sextet_def)
qed

fun sextets :: "string \<Rightarrow> nat list" where
  "sextets [] = []"
| "sextets [a] = [byte a div 4, byte a mod 4 * 16]"
| "sextets [a, b] = [byte a div 4, byte a mod 4 * 16 + byte b div 16, byte b mod 16 * 4]"
| "sextets (a # b # c # s) =
     byte a div 4 # (byte a mod 4 * 16 + byte b div 16) # (byte b mod 16 * 4 + byte c div 64)
     # byte c mod 64 # sextets s"

lemma base64_encode_sextets: "base64_encode al s = map (nth al) (sextets s)"
  by (induction s rule: sextets.induct) auto

lemma mod_div_bytes:
  "(byte a mod 4 * 16 + byte b div 16) div 16 = byte a mod 4"
  "(byte a mod 4 * 16 + byte b div 16) mod 16 = byte b div 16"
  "(byte b mod 16 * 4 + byte c div 64) div 4 = byte b mod 16"
  "(byte b mod 16 * 4 + byte c div 64) mod 4 = byte c div 64"
  using div16_lt [of b] div64_lt [of c] by (simp_all add: div_add1_eq mod_add_eq)

lemma sextets_range: "list_all (\<lambda>i. i < 64) (sextets s)"
proof (induction s rule: sextets.induct)
  case (2 a)
  have "byte a mod 4 * 16 < 64" using mod_less_divisor [of 4 "byte a"] by linarith
  then show ?case using div4_lt [of a] by simp
next
  case (3 a b)
  have "byte a mod 4 * 16 + byte b div 16 < 64" "byte b mod 16 * 4 < 64"
    using div16_lt [of b] mod_less_divisor [of 4 "byte a"] mod_less_divisor [of 16 "byte b"] by linarith+
  then show ?case using div4_lt [of a] by simp
next
  case (4 a b c s)
  have "byte a mod 4 * 16 + byte b div 16 < 64" "byte b mod 16 * 4 + byte c div 64 < 64"
    using div16_lt [of b] div64_lt [of c] mod_less_divisor [of 4 "byte a"] mod_less_divisor [of 16 "byte b"]
    by linarith+
  then show ?case using 4 div4_lt [of a] by simp
qed simp

lemma decode_sextets_inverse: "decode_sextets (sextets s) = Some s"
  by (induction s rule: sextets.induct) (simp_all add: mod_div_bytes div16_lt div64_lt)

theorem base64_roundtrip:
  assumes "alphabet_ok al"
  shows "base64_decode al (base64_encode al s) = Some s"
proof -
  have rng: "list_all (\<lambda>i. i < length al) (sextets s)"
    using sextets_range assms by (simp add: alphabet_ok_def)
  have "filter (\<lambda>c. c \<noteq> CHR 0x0A \<and> c \<noteq> CHR 0x0D) (map (nth al) (sextets s)) = map (nth al) (sextets s)"
    using rng assms by (auto simp: filter_id_conv alphabet_ok_def list_all_iff)
  moreover have "those (map (\<lambda>i. sextet al (al ! i)) (sextets s)) = Some (map (\<lambda>i. i) (sextets s))"
    using rng assms by (intro those_cong) (auto simp: alphabet_ok_def list_all_iff sextet_nth)
  ultimately show ?thesis
    by (simp add: base64_decode_def base64_encode_sextets comp_def decode_sextets_inverse)
qed

lemma base64_chars:
  assumes "alphabet_ok al"
  shows "set (base64_encode al s) \<subseteq> set al"
proof
  fix c assume "c \<in> set (base64_encode al s)"
  then obtain i where "i \<in> set (sextets s)" "c = al ! i" by (auto simp: base64_encode_sextets)
  moreover have "length al = 64" using assms by (simp add: alphabet_ok_def)
  ultimately show "c \<in> set al" using sextets_range [of s] by (simp add: list_all_iff)
qed

lemma base64_inject:
  assumes "alphabet_ok al" "base64_encode al s = base64_encode al t"
  shows "s = t"
proof -
  have "Some s = base64_decode al (base64_encode al t)"
    by (simp only: base64_roundtrip [OF assms(1)] assms(2) [symmetric])
  then show ?thesis by (simp only: base64_roundtrip [OF assms(1)] option.inject)
qed

end
