(* ===== verification/Uuid.thy ===== *)
theory Uuid
  imports World Encoding
begin

text \<open>
  An instance of the UUID library: the canonical form of RFC 4122, 32 lower-case hexadecimal
  digits in groups of 8, 4, 4, 4 and 12. It shows that \<open>uuid_laws\<close> can hold, and the witnesses
  use it.
\<close>

section \<open>Printing\<close>

definition hyphen_before :: "nat \<Rightarrow> string" where
  "hyphen_before i = (if i \<in> {8, 12, 16, 20} then ''-'' else [])"

primrec hex_fixed :: "nat \<Rightarrow> nat \<Rightarrow> string" where
  "hex_fixed 0 n = []"
| "hex_fixed (Suc w) n = hex_fixed w (n div 16) @ hyphen_before w @ [hex_alphabet ! (n mod 16)]"

definition canonical_String :: "uuid \<Rightarrow> string" where
  "canonical_String u = hex_fixed 32 (unat u)"

lemma length_hex_fixed: "length (hex_fixed w m) = length (hex_fixed w n)"
proof (induction w arbitrary: m n)
  case (Suc w)
  then show ?case using Suc.IH [of "m div 16" "n div 16"] by simp
qed simp

lemma append_less_iff:
  fixes xs ys :: string
  assumes "length xs = length ys"
  shows "xs @ u < ys @ v \<longleftrightarrow> xs < ys \<or> xs = ys \<and> u < v"
  using assms by (induction rule: list_induct2) auto

lemma hex_alphabet_less: "i < 16 \<Longrightarrow> j < 16 \<Longrightarrow> hex_alphabet ! i < hex_alphabet ! j \<longleftrightarrow> i < j"
proof -
  have "list_all (\<lambda>i. list_all (\<lambda>j. (hex_alphabet ! i < hex_alphabet ! j) = (i < j)) [0..<16]) [0..<16]"
    by code_simp
  then show "i < 16 \<Longrightarrow> j < 16 \<Longrightarrow> hex_alphabet ! i < hex_alphabet ! j \<longleftrightarrow> i < j"
    by (simp only: list_all_iff set_upt) simp
qed

lemma hex_fixed_inject:
  "m < 16 ^ w \<Longrightarrow> n < 16 ^ w \<Longrightarrow> hex_fixed w m = hex_fixed w n \<longleftrightarrow> m = n"
proof (induction w arbitrary: m n)
  case (Suc w)
  have "m div 16 < 16 ^ w" "n div 16 < 16 ^ w"
    using Suc.prems by (auto simp: less_mult_imp_div_less mult.commute)
  then have "hex_fixed w (m div 16) = hex_fixed w (n div 16) \<longleftrightarrow> m div 16 = n div 16"
    by (rule Suc.IH)
  moreover have "hex_alphabet ! (m mod 16) = hex_alphabet ! (n mod 16) \<longleftrightarrow> m mod 16 = n mod 16"
    by (auto intro: hex_alphabet_inj)
  ultimately show ?case
    using length_hex_fixed [of w "m div 16" "n div 16"] by (simp, metis div_mult_mod_eq)
qed simp

lemma less_div_mod:
  "(m :: nat) < n \<longleftrightarrow> m div 16 < n div 16 \<or> m div 16 = n div 16 \<and> m mod 16 < n mod 16"
proof -
  have "m mod 16 < 16" "n mod 16 < 16" by simp_all
  moreover have "m = m div 16 * 16 + m mod 16" "n = n div 16 * 16 + n mod 16"
    by (simp_all only: div_mult_mod_eq)
  ultimately show ?thesis by linarith
qed

lemma hex_fixed_less:
  "m < 16 ^ w \<Longrightarrow> n < 16 ^ w \<Longrightarrow> hex_fixed w m < hex_fixed w n \<longleftrightarrow> m < n"
proof (induction w arbitrary: m n)
  case (Suc w)
  have lt: "m div 16 < 16 ^ w" "n div 16 < 16 ^ w"
    using Suc.prems by (auto simp: less_mult_imp_div_less mult.commute)
  have "m < n \<longleftrightarrow> m div 16 < n div 16 \<or> m div 16 = n div 16 \<and> m mod 16 < n mod 16"
    by (rule less_div_mod)
  moreover have "hyphen_before w @ [hex_alphabet ! (m mod 16)] < hyphen_before w @ [hex_alphabet ! (n mod 16)]
      \<longleftrightarrow> m mod 16 < n mod 16"
    by (simp add: append_less_iff hex_alphabet_less)
  ultimately show ?case
    by (simp only: hex_fixed.simps append_less_iff [OF length_hex_fixed [of w "m div 16" "n div 16"]]
        Suc.IH [OF lt] hex_fixed_inject [OF lt])
qed simp

section \<open>Parsing\<close>

definition hex_digits_value :: "string \<Rightarrow> nat option" where
  "hex_digits_value s =
     map_option (foldl (\<lambda>n d. n * 16 + d) 0) (those (map (sextet hex_alphabet) s))"

text \<open>
  The digits may be upper-case; the canonical form of the value decides the layout.
\<close>

definition canonical_Parse :: "string \<Rightarrow> uuid res" where
  "canonical_Parse s =
     (case hex_digits_value (filter (\<lambda>c. c \<noteq> CHR ''-'') (map char_lower s)) of
        None \<Rightarrow> Fail (Err ''invalid UUID format'')
      | Some n \<Rightarrow> if hex_fixed 32 n = map char_lower s \<and> n < 2 ^ 128 then Ok (of_nat n)
                  else Fail (Err ''invalid UUID length''))"

definition canonical :: uuid_lib where
  "canonical = \<lparr>uuid_Parse = canonical_Parse, uuid_String = canonical_String\<rparr>"

lemma foldl_digits_append:
  "foldl (\<lambda>n d. n * 16 + d) (0::nat) (xs @ [d]) = foldl (\<lambda>n d. n * 16 + d) 0 xs * 16 + d"
  by simp

lemma hex_alphabet_chars:
  assumes "i < 16"
  shows "sextet hex_alphabet (hex_alphabet ! i) = Some i"
    and "hex_alphabet ! i \<noteq> CHR ''-''" and "char_lower (hex_alphabet ! i) = hex_alphabet ! i"
proof -
  have "list_all (\<lambda>i. hex_alphabet ! i \<noteq> CHR ''-'' \<and> char_lower (hex_alphabet ! i) = hex_alphabet ! i) [0..<16]"
    by code_simp
  then show "hex_alphabet ! i \<noteq> CHR ''-''" "char_lower (hex_alphabet ! i) = hex_alphabet ! i"
    using assms by (auto simp: list_all_iff)
  have "distinct hex_alphabet" "length hex_alphabet = 16" by (simp_all add: hex_alphabet_def)
  then show "sextet hex_alphabet (hex_alphabet ! i) = Some i"
    using assms by (simp add: sextet_nth)
qed

lemma hex_fixed_lower: "map char_lower (hex_fixed w n) = hex_fixed w n"
proof (induction w arbitrary: n)
  case (Suc w)
  have "map char_lower (hyphen_before w) = hyphen_before w"
    by (simp add: hyphen_before_def) code_simp
  then show ?case by (simp add: Suc.IH hex_alphabet_chars)
qed simp

lemma those_append:
  "those (xs @ ys) = (case those xs of None \<Rightarrow> None | Some a \<Rightarrow> map_option (append a) (those ys))"
  by (induction xs; cases "those ys") (auto split: option.splits)

lemma hex_fixed_value:
  "hex_digits_value (filter (\<lambda>c. c \<noteq> CHR ''-'') (hex_fixed w n)) = Some (n mod 16 ^ w)"
proof (induction w arbitrary: n)
  case 0
  then show ?case by (simp add: hex_digits_value_def)
next
  case (Suc w)
  have "filter (\<lambda>c. c \<noteq> CHR ''-'') (hyphen_before w) = []" by (simp add: hyphen_before_def)
  moreover have "n mod 16 ^ Suc w = n div 16 mod 16 ^ w * 16 + n mod 16"
    by (simp add: mod_mult2_eq)
  ultimately show ?case
    using Suc.IH [of "n div 16"] hex_alphabet_chars(1,2) [of "n mod 16"]
    by (auto simp: hex_digits_value_def those_append split: option.splits)
qed

lemma hex_fixed_chars: "set (hex_fixed w n) \<subseteq> set ''0123456789abcdef-''"
proof (induction w arbitrary: n)
  case (Suc w)
  have "hex_alphabet ! (n mod 16) \<in> set hex_alphabet"
    by (rule nth_mem) (simp add: hex_alphabet_def)
  then have "hex_alphabet ! (n mod 16) \<in> set ''0123456789abcdef-''" by (auto simp: hex_alphabet_def)
  moreover have "set (hyphen_before w) \<subseteq> set ''0123456789abcdef-''" by (auto simp: hyphen_before_def)
  ultimately show ?case using Suc.IH [of "n div 16"] by simp
qed simp

lemma hex_fixed_32_nonempty: "hex_fixed 32 n \<noteq> []"
proof -
  have "hex_fixed (Suc 31) n \<noteq> []" by (simp only: hex_fixed.simps) simp
  then show ?thesis by simp
qed

theorem canonical_laws: "uuid_laws canonical"
proof -
  have lt: "unat u < 16 ^ 32" for u :: uuid
    using unsigned_less [of u] by simp
  have "canonical_Parse (canonical_String u) = Ok u" for u
    using lt [of u] unsigned_less [of u]
    by (simp add: canonical_Parse_def canonical_String_def hex_fixed_lower hex_fixed_value)
  moreover have "canonical_String u < canonical_String v \<longleftrightarrow> u < v" for u v
    unfolding canonical_String_def by (simp only: hex_fixed_less [OF lt lt] word_less_nat_alt)
  moreover have "canonical_String u \<noteq> []" "set (canonical_String u) \<subseteq> set ''0123456789abcdef-''" for u
    unfolding canonical_String_def by (rule hex_fixed_32_nonempty, rule hex_fixed_chars)
  ultimately show ?thesis
    unfolding uuid_laws_def canonical_def uuid_lib.select_convs by blast
qed

lemma canonical_parse [simp]: "uuid_Parse canonical (uuid_String canonical u) = Ok u"
  by (rule uuid_lawsD [OF canonical_laws])

lemma canonical_nonempty [simp]: "uuid_String canonical u \<noteq> []"
  by (rule uuid_lawsD [OF canonical_laws])

end
