(* ===== verification/Conversation.thy ===== *)
theory Conversation
  imports Store Uuid
begin

text \<open>
  \<open>backend/internal/conversation/conversation.go\<close> and \<open>backend/internal/registry/registry.go\<close>.
  The argument \<open>svc\<close> says that neither the service pointer nor its database pointer is nil.
\<close>

section \<open>The registry service\<close>

definition Register :: "bool \<Rightarrow> agent option \<Rightarrow> unit io" where
  "Register svc a =
     (case a of
        None \<Rightarrow> failE ErrInvalidInput
      | Some ag \<Rightarrow> if \<not> svc then failE ErrInvalidInput
                   else bindE (Agents_Create ag) (\<lambda>_. returnE ()))"

definition Deregister :: "uuid_lib \<Rightarrow> bool \<Rightarrow> string \<Rightarrow> unit io" where
  "Deregister U svc agentID =
     (if \<not> svc \<or> agentID = [] then failE ErrInvalidInput
      else bindE (liftE (uuid_Parse U agentID)) Agents_Delete)"

definition Heartbeat :: "bool \<Rightarrow> string \<Rightarrow> unit io" where
  "Heartbeat svc agentID = returnE ()"

record discovery_query =
  dq_SupportedTags :: "string list"
  dq_Limit :: int

definition Discover :: "bool \<Rightarrow> discovery_query \<Rightarrow> agent list io" where
  "Discover svc q =
     (if \<not> svc then failE ErrInvalidInput
      else let limit = (if dq_Limit q \<le> 0 then 10 else dq_Limit q) in
        bindE Agents_ListAll (\<lambda>agents.
          returnE (if int (length agents) > limit then take (nat limit) agents else agents)))"

definition GetAgent :: "uuid_lib \<Rightarrow> bool \<Rightarrow> string \<Rightarrow> agent io" where
  "GetAgent U svc agentID =
     (if \<not> svc \<or> agentID = [] then failE ErrInvalidInput
      else bindE (liftE (uuid_Parse U agentID)) Agents_GetByID)"

section \<open>The conversation service\<close>

definition blank_conversation :: conversation where
  "blank_conversation = \<lparr>c_ID = uuid_Nil, c_Type = [], c_IDLow = None, c_IDHigh = None,
     c_GroupID = None, c_CreatedAt = zero_time, c_LastMessageID = None, c_LastMessageAt = None\<rparr>"

definition new_participant :: "uuid \<Rightarrow> uuid \<Rightarrow> string \<Rightarrow> participant" where
  "new_participant cid pid kind = \<lparr>cp_ConversationID = cid, cp_ParticipantID = pid,
     cp_ParticipantKind = kind, cp_Muted = False, cp_LastReadMessageID = None, cp_JoinedAt = zero_time\<rparr>"

definition CreateGroup :: "uuid_lib \<Rightarrow> bool \<Rightarrow> string \<Rightarrow> string \<Rightarrow> chat_group io" where
  "CreateGroup U svc name creatorID =
     (if \<not> svc \<or> name = [] \<or> creatorID = [] then failE ErrInvalidInput
      else
        bindE (liftE (uuid_Parse U creatorID)) (\<lambda>cid.
        bindE (Conversations_Create (blank_conversation\<lparr>c_Type := ConversationTypeGroup\<rparr>)) (\<lambda>conv.
        bindE (Groups_Create \<lparr>g_ID = uuid_Nil, g_Name = name, g_OwnerID = cid,
                 g_ConversationID = Some (c_ID conv), g_CreatedAt = zero_time\<rparr>) (\<lambda>group.
        bindE (Conversations_UpdateGroupID (c_ID conv) (g_ID group)) (\<lambda>_.
        bindE (Participants_Add (new_participant (c_ID conv) cid ParticipantTypeUser)) (\<lambda>_.
        returnE group))))))"

definition GetGroup :: "uuid_lib \<Rightarrow> bool \<Rightarrow> string \<Rightarrow> chat_group io" where
  "GetGroup U svc groupID =
     (if \<not> svc \<or> groupID = [] then failE ErrInvalidInput
      else bindE (liftE (uuid_Parse U groupID)) Groups_GetByID)"

definition ListConversationsByType ::
    "bool \<Rightarrow> uuid \<Rightarrow> string \<Rightarrow> string \<Rightarrow> conversation list io" where
  "ListConversationsByType svc pid kind ctype =
     (if \<not> svc then failE ErrInvalidInput
      else if pid = uuid_Nil then failE ErrInvalidInput
      else Conversations_ListByParticipantAndType pid kind ctype)"

definition ListConversationItems ::
    "bool \<Rightarrow> uuid \<Rightarrow> string \<Rightarrow> string option \<Rightarrow> list_item list io" where
  "ListConversationItems svc pid kind ctype =
     (if \<not> svc then failE ErrInvalidInput
      else if pid = uuid_Nil then failE ErrInvalidInput
      else Conversations_ListItems pid kind ctype)"

definition ListUnreadConversations :: "bool \<Rightarrow> uuid \<Rightarrow> string \<Rightarrow> list_item list io" where
  "ListUnreadConversations svc pid kind =
     (if \<not> svc then failE ErrInvalidInput
      else if pid = uuid_Nil then failE ErrInvalidInput
      else Conversations_ListUnreadByParticipant pid kind)"

definition LeaveGroup :: "uuid_lib \<Rightarrow> bool \<Rightarrow> string \<Rightarrow> string \<Rightarrow> string \<Rightarrow> unit io" where
  "LeaveGroup U svc groupID participantID kind =
     (if \<not> svc \<or> groupID = [] \<or> participantID = [] \<or> kind = [] then failE ErrInvalidInput
      else
        bindE (liftE (uuid_Parse U groupID)) (\<lambda>gid.
        bindE (liftE (uuid_Parse U participantID)) (\<lambda>pid.
        bindE (Groups_GetByID gid) (\<lambda>group.
        case g_ConversationID group of
          None \<Rightarrow> failE (Err ''group has no conversation'')
        | Some cid \<Rightarrow> Participants_Remove cid pid kind))))"

text \<open>The canonical order of a pair, with the kinds following their identifiers.\<close>

definition order_pair ::
    "uuid_lib \<Rightarrow> uuid \<Rightarrow> uuid \<Rightarrow> string \<Rightarrow> string \<Rightarrow> uuid \<times> uuid \<times> string \<times> string" where
  "order_pair U id1 id2 kind1 kind2 =
     (if uuid_String U id1 > uuid_String U id2 then (id2, id1, kind2, kind1)
      else (id1, id2, kind1, kind2))"

definition GetOrCreateDirect ::
    "uuid_lib \<Rightarrow> bool \<Rightarrow> uuid \<Rightarrow> uuid \<Rightarrow> string \<Rightarrow> string \<Rightarrow> conversation io" where
  "GetOrCreateDirect U svc id1 id2 kind1 kind2 =
     (if \<not> svc then failE ErrInvalidInput
      else if id1 = uuid_Nil \<or> id2 = uuid_Nil then failE ErrInvalidInput
      else case order_pair U id1 id2 kind1 kind2 of (idLow, idHigh, kindLow, kindHigh) \<Rightarrow>
        tryE (Conversations_GetDirectByPair idLow idHigh) (\<lambda>r. case r of
          Inr conv \<Rightarrow> returnE conv
        | Inl e \<Rightarrow>
            if \<not> errors_Is e ErrNotFound then failE e
            else
              bindE (Conversations_Create (blank_conversation\<lparr>c_Type := ConversationTypeDirect,
                       c_IDLow := Some idLow, c_IDHigh := Some idHigh\<rparr>)) (\<lambda>conv.
              bindE (Participants_Add (new_participant (c_ID conv) idLow kindLow)) (\<lambda>_.
              bindE (Participants_Add (new_participant (c_ID conv) idHigh kindHigh)) (\<lambda>_.
              returnE conv)))))"

section \<open>The constraints are kept\<close>

lemma keeps_services [keeps_intros]:
  "keeps (db_inv ulower) (Register svc a)"
  "keeps (db_inv ulower) (Deregister U svc s)"
  "keeps (db_inv ulower) (Heartbeat svc s)"
  "keeps (db_inv ulower) (CreateGroup U svc s t)"
  "keeps (db_inv ulower) (LeaveGroup U svc s t k)"
  "keeps (db_inv ulower) (GetOrCreateDirect U svc i j k l)"
  unfolding Register_def Deregister_def Heartbeat_def CreateGroup_def LeaveGroup_def GetOrCreateDirect_def
  by (auto intro!: keeps_intros split: option.splits sum.splits prod.splits)

lemma reads_methods [reads_intros]:
  "reads (Agents_GetByID i)" "reads Agents_ListAll" "reads (Agents_ListByOwner i)" "reads (Users_GetByID i)"
  "reads (Users_GetByEmail ulower s)" "reads (Groups_GetByID i)"
  "reads (Conversations_GetDirectByPair i j)" "reads (Conversations_ListByParticipantAndType i k t)"
  "reads (Conversations_ListItems i k ct)" "reads (Conversations_ListUnreadByParticipant i k)"
  "reads (Messages_GetByConversation i n ts io)" "reads (ConnectionRequests_GetPendingByTarget i k)"
  "reads (Blacklist_ListByEntity i k)" "reads (Blacklist_IsBlocked i k j l)"
  unfolding read_defs Let_def by (intro reads_intros; simp)+

lemma reads_services [reads_intros]:
  "reads (Discover svc q)" "reads (GetAgent U svc s)" "reads (GetGroup U svc s)"
  "reads (ListConversationsByType svc i k t)" "reads (ListConversationItems svc i k ct)"
  "reads (ListUnreadConversations svc i k)"
  unfolding Discover_def GetAgent_def GetGroup_def ListConversationsByType_def ListConversationItems_def
    ListUnreadConversations_def Let_def
  by (auto intro!: reads_intros)

section \<open>What the writes of the services do\<close>

lemma new_id_Inr: "new_id i w = (Inr j, w1) \<Longrightarrow> w_db w1 = w_db w"
  by (rule readsD [OF reads_new_id])

lemma Conversations_Create_Inr:
  assumes "Conversations_Create c w = (Inr conv, w')"
  shows "insert_conversation conv (w_db w) = Inr (conv, w_db w')
    \<and> c_Type conv = c_Type c \<and> c_IDLow conv = c_IDLow c \<and> c_IDHigh conv = c_IDHigh c
    \<and> c_GroupID conv = c_GroupID c \<and> c_LastMessageID conv = None"
proof -
  obtain i t where row: "insert_conversation (c\<lparr>c_ID := i, c_CreatedAt := t, c_LastMessageID := None,
      c_LastMessageAt := Some t\<rparr>) (w_db w) = Inr (conv, w_db w')"
    using assms unfolding Conversations_Create_def
    by (auto simp: bindE_Inr dest!: stmt_Inr readsD [OF reads_new_id] readsD [OF reads_new_time])
  show ?thesis using row conversations.ins_returns [OF row] by simp
qed

lemma Groups_Create_Inr:
  assumes "Groups_Create g w = (Inr gr, w')"
  shows "insert_group gr (w_db w) = Inr (gr, w_db w')
    \<and> g_Name gr = g_Name g \<and> g_OwnerID gr = g_OwnerID g \<and> g_ConversationID gr = g_ConversationID g"
proof -
  obtain i t where row: "insert_group (g\<lparr>g_ID := i, g_CreatedAt := t\<rparr>) (w_db w) = Inr (gr, w_db w')"
    using assms unfolding Groups_Create_def
    by (auto simp: bindE_Inr dest!: stmt_Inr readsD [OF reads_new_id] readsD [OF reads_new_time])
  show ?thesis using row groups.ins_returns [OF row] by simp
qed

lemma Participants_Add_Inr:
  assumes "Participants_Add p w = (Inr u, w')"
  shows "\<exists>t. insert_participant (p\<lparr>cp_JoinedAt := t\<rparr>) (w_db w) = Inr ((), w_db w')"
  using assms unfolding Participants_Add_def
  by (auto simp: bindE_Inr dest!: stmt_Inr readsD [OF reads_new_time])

lemma one_row_Inr: "one_row rows = Inr r \<Longrightarrow> r \<in> set rows"
  by (cases rows) (simp_all add: one_row_def)

lemma GetDirectByPair_Inr:
  assumes "Conversations_GetDirectByPair low high w = (Inr c, w')"
  shows "c \<in> set (t_conversations (w_db w)) \<and> c_IDLow c = Some low \<and> c_IDHigh c = Some high"
proof -
  have "one_row (filter (\<lambda>c. c_IDLow c = Some low \<and> c_IDHigh c = Some high) (t_conversations (w_db w))) = Ok c"
    using assms unfolding Conversations_GetDirectByPair_def by (auto dest: query_Inr)
  then have "c \<in> set (filter (\<lambda>c. c_IDLow c = Some low \<and> c_IDHigh c = Some high) (t_conversations (w_db w)))"
    by (rule one_row_Inr)
  then show ?thesis by simp
qed

text \<open>Adding the first two participants of a new conversation.\<close>

lemma fresh_conversation_empty:
  assumes "db_inv ulower d" "insert_conversation conv d = Inr (x, d')"
  shows "cp_ConversationID p = c_ID conv \<Longrightarrow> p \<notin> set (t_participants d')"
  using assms by (auto simp: insert_conversation_def db_inv_def participants_ok_def split: if_splits) metis

lemma insert_participant_new:
  assumes "insert_participant p d = Inr (u, d')"
    and "\<And>q. q \<in> set (t_participants d) \<Longrightarrow> cp_key q \<noteq> cp_key p"
  shows "d' = d\<lparr>t_participants := t_participants d @ [p]\<rparr>"
proof -
  have "\<not> participant_in (cp_ConversationID p) (cp_ParticipantID p) (cp_ParticipantKind p) d"
    using assms(2) by (auto simp: participant_in_def list_ex_iff same_participant_def cp_key_def)
  then show ?thesis using assms(1) by (auto simp: insert_participant_def split: if_splits)
qed

definition pair_row :: "uuid \<Rightarrow> uuid \<Rightarrow> conversation \<Rightarrow> bool" where
  "pair_row low high c \<longleftrightarrow> c_IDLow c = Some low \<and> c_IDHigh c = Some high"

text \<open>The tables after a direct conversation was created.\<close>

definition direct_created :: "conversation \<Rightarrow> participant \<Rightarrow> participant \<Rightarrow> db \<Rightarrow> db" where
  "direct_created c p q d =
     d\<lparr>t_conversations := t_conversations d @ [c], t_participants := t_participants d @ [p, q]\<rparr>"

lemma check_direct_less: "check_direct_ids c \<Longrightarrow> pair_row low high c \<Longrightarrow> low < high"
  by (auto simp: check_direct_ids_def pair_row_def)

lemma direct_create_steps:
  assumes inv: "db_inv ulower (w_db w)"
    and conv: "Conversations_Create c0 w = (Inr conv, w1)"
    and c0: "c_IDLow c0 = Some low" "c_IDHigh c0 = Some high" "c_Type c0 = ConversationTypeDirect"
    and add1: "Participants_Add (new_participant (c_ID conv) low kl) w1 = (Inr u, w2)"
    and add2: "Participants_Add (new_participant (c_ID conv) high kh) w2 = (Inr v, w3)"
  shows "\<exists>t t'. w_db w3 = direct_created conv ((new_participant (c_ID conv) low kl)\<lparr>cp_JoinedAt := t\<rparr>)
      ((new_participant (c_ID conv) high kh)\<lparr>cp_JoinedAt := t'\<rparr>) (w_db w)
    \<and> pair_row low high conv"
proof -
  note cr = Conversations_Create_Inr [OF conv]
  have ins: "insert_conversation conv (w_db w) = Inr (conv, w_db w1)" and pr: "pair_row low high conv"
    using cr c0 by (auto simp: pair_row_def)
  have w1: "w_db w1 = (w_db w)\<lparr>t_conversations := t_conversations (w_db w) @ [conv]\<rparr>"
    and "low < high"
    using ins pr check_direct_less [of conv low high] by (auto simp: insert_conversation_def split: if_splits)
  define p where "p t = (new_participant (c_ID conv) low kl)\<lparr>cp_JoinedAt := t\<rparr>" for t
  define q where "q t = (new_participant (c_ID conv) high kh)\<lparr>cp_JoinedAt := t\<rparr>" for t
  have key: "cp_key (p t) = (c_ID conv, low, kl)" "cp_key (q t) = (c_ID conv, high, kh)" for t
    by (simp_all add: p_def q_def cp_key_def new_participant_def)
  have old: "cp_key r \<noteq> (c_ID conv, i, k)" if "r \<in> set (t_participants (w_db w1))" for r i k
    using fresh_conversation_empty [OF inv ins, of r] that by (auto simp: cp_key_def)
  obtain t where "insert_participant (p t) (w_db w1) = Inr ((), w_db w2)"
    using Participants_Add_Inr [OF add1] by (auto simp: p_def)
  then have w2: "w_db w2 = (w_db w1)\<lparr>t_participants := t_participants (w_db w1) @ [p t]\<rparr>"
    by (rule insert_participant_new) (simp add: key old)
  obtain t' where "insert_participant (q t') (w_db w2) = Inr ((), w_db w3)"
    using Participants_Add_Inr [OF add2] by (auto simp: q_def)
  then have "w_db w3 = (w_db w2)\<lparr>t_participants := t_participants (w_db w2) @ [q t']\<rparr>"
  proof (rule insert_participant_new)
    fix r assume "r \<in> set (t_participants (w_db w2))"
    then have "r = p t \<or> r \<in> set (t_participants (w_db w1))" by (auto simp: w2)
    then show "cp_key r \<noteq> cp_key (q t')" using \<open>low < high\<close> old by (auto simp: key)
  qed
  then have "w_db w3 = direct_created conv (p t) (q t') (w_db w)"
    by (simp add: w2 w1 direct_created_def)
  then show ?thesis using pr by (auto simp: p_def q_def)
qed

section \<open>Direct conversations\<close>

lemma order_pair_min_max:
  assumes "uuid_laws U"
  shows "order_pair U i j k l = (min i j, max i j, if j < i then l else k, if j < i then k else l)"
  using uuid_lawsD(2) [OF assms] by (auto simp: order_pair_def min_def max_def)

lemma GetOrCreateDirect_cases:
  assumes inv: "db_inv ulower (w_db w)"
    and ord: "order_pair U id1 id2 k1 k2 = (low, high, kl, kh)"
    and run: "GetOrCreateDirect U svc id1 id2 k1 k2 w = (Inr c, w')"
  shows "pair_row low high c
    \<and> (c \<in> set (t_conversations (w_db w)) \<and> w_db w' = w_db w
       \<or> (\<exists>t t'. w_db w' = direct_created c ((new_participant (c_ID c) low kl)\<lparr>cp_JoinedAt := t\<rparr>)
                    ((new_participant (c_ID c) high kh)\<lparr>cp_JoinedAt := t'\<rparr>) (w_db w)))"
proof -
  let ?c0 = "blank_conversation\<lparr>c_Type := ConversationTypeDirect, c_IDLow := Some low, c_IDHigh := Some high\<rparr>"
  obtain r w1 where get: "Conversations_GetDirectByPair low high w = (r, w1)" by fastforce
  have w1: "w_db w1 = w_db w" by (rule readsD [OF reads_methods(7) get])
  show ?thesis
  proof (cases r)
    case (Inr e)
    then have "c = e" "w' = w1"
      using run get by (auto simp: GetOrCreateDirect_def ord tryE_def split: if_splits)
    then show ?thesis
      using GetDirectByPair_Inr [of low high w e w1] get Inr w1 by (simp add: pair_row_def)
  next
    case (Inl e)
    then obtain u v w2 w3 where steps: "Conversations_Create ?c0 w1 = (Inr c, w2)"
        "Participants_Add (new_participant (c_ID c) low kl) w2 = (Inr u, w3)"
        "Participants_Add (new_participant (c_ID c) high kh) w3 = (Inr v, w')"
      using run get by (auto simp: GetOrCreateDirect_def ord tryE_def bindE_Inr split: if_splits)
    show ?thesis
      using direct_create_steps [OF _ steps(1) _ _ _ steps(2,3)] inv w1 by auto
  qed
qed

text \<open>
  What a successful \<open>GetOrCreateDirect\<close> returns and does: a conversation of the two
  identifiers in canonical order, either an existing row with the tables left alone, or a new row
  together with exactly its two participants, each with the kind given for it.
\<close>

theorem GetOrCreateDirect_spec:
  assumes "uuid_laws U" "db_inv ulower (w_db w)"
    and "GetOrCreateDirect U svc id1 id2 k1 k2 w = (Ok c, w')"
  shows "c_IDLow c = Some (min id1 id2) \<and> c_IDHigh c = Some (max id1 id2) \<and> id1 \<noteq> id2
    \<and> (c \<in> set (t_conversations (w_db w)) \<and> w_db w' = w_db w
       \<or> (\<exists>t t'. w_db w' = direct_created c
            ((new_participant (c_ID c) (min id1 id2) (if id2 < id1 then k2 else k1))\<lparr>cp_JoinedAt := t\<rparr>)
            ((new_participant (c_ID c) (max id1 id2) (if id2 < id1 then k1 else k2))\<lparr>cp_JoinedAt := t'\<rparr>)
            (w_db w)))"
proof -
  note cs = GetOrCreateDirect_cases [OF assms(2) order_pair_min_max [OF assms(1)] assms(3)]
  have inv': "db_inv ulower (w_db w')"
    by (rule keepsD [OF keeps_services(6) assms(3,2)])
  have "c \<in> set (t_conversations (w_db w'))" using cs by (auto simp: direct_created_def)
  then have "check_direct_ids c" using inv' by (simp add: db_inv_def conversations_ok_def)
  then have "min id1 id2 < max id1 id2" using cs check_direct_less by blast
  then have "id1 \<noteq> id2" by auto
  then show ?thesis using cs by (simp add: pair_row_def)
qed

lemma GetDirectByPair_present:
  assumes "pair_row low high c" "c \<in> set (t_conversations (w_db w))" "w_fault w (w_stmts w) = NoFault"
  shows "\<exists>e w'. Conversations_GetDirectByPair low high w = (Inr e, w')"
proof -
  let ?rows = "filter (\<lambda>c. c_IDLow c = Some low \<and> c_IDHigh c = Some high) (t_conversations (w_db w))"
  have "c \<in> set ?rows" using assms(1,2) by (simp add: pair_row_def)
  then obtain e rest where "?rows = e # rest" by (cases ?rows) auto
  then show ?thesis
    using assms(3)
    by (simp add: Conversations_GetDirectByPair_def scanE_def query_def stmt_def one_row_def)
qed

lemma pair_row_unique:
  assumes "db_inv ulower d" "c \<in> set (t_conversations d)" "e \<in> set (t_conversations d)"
    and "pair_row low high c" "pair_row low high e"
  shows "c_ID c = c_ID e"
proof -
  have "same_pair c e" using assms(4,5) by (simp add: pair_row_def same_pair_def)
  moreover have "\<forall>c \<in> set (t_conversations d). \<forall>e \<in> set (t_conversations d). same_pair c e \<longrightarrow> c_ID c = c_ID e"
    using assms(1) by (simp add: db_inv_def conversations_ok_def)
  ultimately show ?thesis using assms(2,3) by blast
qed

text \<open>
  C16. A pair of participants has one direct conversation: once \<open>GetOrCreateDirect\<close> has
  succeeded, a further call for the same two identifiers in either order, with any kinds, that
  reaches the database returns the same conversation and changes no table.
\<close>

theorem GetOrCreateDirect_unique:
  assumes "uuid_laws U" "db_inv ulower (w_db w)"
    and "GetOrCreateDirect U True id1 id2 k1 k2 w = (Ok c, w')"
    and "(i, j) = (id1, id2) \<or> (i, j) = (id2, id1)"
    and "w_db v = w_db w'" "w_fault v (w_stmts v) = NoFault"
  shows "\<exists>e v'. GetOrCreateDirect U True i j k l v = (Ok e, v') \<and> c_ID e = c_ID c \<and> w_db v' = w_db v"
proof -
  note cs = GetOrCreateDirect_cases [OF assms(2) order_pair_min_max [OF assms(1)] assms(3)]
  have nil: "id1 \<noteq> uuid_Nil" "id2 \<noteq> uuid_Nil"
    using assms(3) by (auto simp: GetOrCreateDirect_def split: if_splits)
  have ord: "order_pair U i j k l = (min id1 id2, max id1 id2, if j < i then l else k, if j < i then k else l)"
    using assms(4) by (auto simp: order_pair_min_max [OF assms(1)] min.commute max.commute)
  have inv': "db_inv ulower (w_db w')" by (rule keepsD [OF keeps_services(6) assms(3,2)])
  have c: "c \<in> set (t_conversations (w_db v))" "pair_row (min id1 id2) (max id1 id2) c"
    using cs by (auto simp: direct_created_def assms(5))
  obtain e v' where get: "Conversations_GetDirectByPair (min id1 id2) (max id1 id2) v = (Inr e, v')"
    using GetDirectByPair_present [OF c(2,1) assms(6)] by blast
  have "c_ID e = c_ID c"
    using GetDirectByPair_Inr [OF get] c inv' pair_row_unique [of ulower "w_db v" e c]
    by (simp add: assms(5) pair_row_def)
  moreover have "w_db v' = w_db v" by (rule readsD [OF reads_methods(7) get])
  moreover have "GetOrCreateDirect U True i j k l v = (Ok e, v')"
    using nil assms(4) by (auto simp: GetOrCreateDirect_def ord tryE_def get returnE_def)
  ultimately show ?thesis by blast
qed

section \<open>Groups\<close>

text \<open>The tables after a group was created.\<close>

definition group_created :: "conversation \<Rightarrow> chat_group \<Rightarrow> participant \<Rightarrow> db \<Rightarrow> db" where
  "group_created c g p d =
     d\<lparr>t_conversations := t_conversations d @ [c], t_groups := t_groups d @ [g],
       t_participants := t_participants d @ [p]\<rparr>"

lemma UpdateGroupID_Inr:
  "Conversations_UpdateGroupID c g w = (Inr u, w') \<Longrightarrow> \<exists>n. set_group_id c g (w_db w) = Inr (n, w_db w')"
  unfolding Conversations_UpdateGroupID_def execE_def
  by (auto simp: bindE_Inr split: if_splits dest: stmt_Inr)

text \<open>
  C35. A successful \<open>CreateGroup\<close> leaves the group and its conversation referring to each other,
  with the creator as owner and as the only participant, and changes nothing else.
\<close>

theorem CreateGroup_links:
  assumes inv: "db_inv ulower (w_db w)"
    and run: "CreateGroup U svc name creatorID w = (Ok g, w')"
  shows "\<exists>c p cid. uuid_Parse U creatorID = Ok cid \<and> w_db w' = group_created c g p (w_db w)
    \<and> c_Type c = ConversationTypeGroup \<and> c_GroupID c = Some (g_ID g) \<and> g_ConversationID g = Some (c_ID c)
    \<and> g_Name g = name \<and> g_OwnerID g = cid \<and> cp_key p = (c_ID c, cid, ParticipantTypeUser)"
proof -
  obtain cid conv w1 w2 w3 u v where cid: "uuid_Parse U creatorID = Ok cid"
    and steps: "Conversations_Create (blank_conversation\<lparr>c_Type := ConversationTypeGroup\<rparr>) w = (Inr conv, w1)"
      "Groups_Create \<lparr>g_ID = uuid_Nil, g_Name = name, g_OwnerID = cid, g_ConversationID = Some (c_ID conv),
        g_CreatedAt = zero_time\<rparr> w1 = (Inr g, w2)"
      "Conversations_UpdateGroupID (c_ID conv) (g_ID g) w2 = (Inr u, w3)"
      "Participants_Add (new_participant (c_ID conv) cid ParticipantTypeUser) w3 = (Inr v, w')"
    using run by (auto simp: CreateGroup_def bindE_Inr split: if_splits)
  define d where "d = w_db w"
  note ins = Conversations_Create_Inr [OF steps(1)] and grp = Groups_Create_Inr [OF steps(2)]
  have w1: "w_db w1 = d\<lparr>t_conversations := t_conversations d @ [conv]\<rparr>"
    and fresh: "c_ID conv \<notin> c_ID ` set (t_conversations d)"
    using ins by (auto simp: insert_conversation_def d_def split: if_splits)
  have w2: "w_db w2 = (w_db w1)\<lparr>t_groups := t_groups (w_db w1) @ [g]\<rparr>"
    using grp by (auto simp: insert_group_def split: if_splits)
  define c where "c = conv\<lparr>c_GroupID := Some (g_ID g)\<rparr>"
  have upd: "map (\<lambda>x. if c_ID x = c_ID conv then x\<lparr>c_GroupID := Some (g_ID g)\<rparr> else x)
      (t_conversations d @ [conv]) = t_conversations d @ [c]"
    using fresh by (auto simp: c_def intro!: map_idI) (metis imageI)
  have w3: "w_db w3 = (w_db w2)\<lparr>t_conversations := t_conversations d @ [c]\<rparr>"
    using UpdateGroupID_Inr [OF steps(3)] upd by (auto simp: set_group_id_def w2 w1 split: if_splits)
  obtain t where add: "insert_participant ((new_participant (c_ID conv) cid ParticipantTypeUser)\<lparr>cp_JoinedAt := t\<rparr>)
      (w_db w3) = Inr ((), w_db w')"
    using Participants_Add_Inr [OF steps(4)] by blast
  have "cp_ConversationID r \<noteq> c_ID conv" if "r \<in> set (t_participants (w_db w3))" for r
    using fresh_conversation_empty [OF inv, of conv conv "w_db w1" r] ins that by (auto simp: w3 w2)
  then have "w_db w' = (w_db w3)\<lparr>t_participants := t_participants (w_db w3)
      @ [(new_participant (c_ID conv) cid ParticipantTypeUser)\<lparr>cp_JoinedAt := t\<rparr>]\<rparr>"
    by (intro insert_participant_new [OF add]) (auto simp: cp_key_def new_participant_def)
  then have "w_db w' = group_created c g ((new_participant (c_ID conv) cid ParticipantTypeUser)\<lparr>cp_JoinedAt := t\<rparr>) (w_db w)"
    by (simp add: w3 w2 w1 group_created_def d_def)
  moreover have "c_Type c = ConversationTypeGroup" "c_GroupID c = Some (g_ID g)" "g_ConversationID g = Some (c_ID c)"
      "g_Name g = name" "g_OwnerID g = cid"
    using ins grp by (simp_all add: c_def)
  moreover have "cp_key ((new_participant (c_ID conv) cid ParticipantTypeUser)\<lparr>cp_JoinedAt := t\<rparr>)
      = (c_ID c, cid, ParticipantTypeUser)"
    by (simp add: c_def cp_key_def new_participant_def)
  ultimately show ?thesis using cid by blast
qed

text \<open>
  C37. \<open>CreateGroup\<close> is not a transaction: when the name is taken (and no statement fails) the
  call returns an error, yet a group conversation that no group refers to and that has no
  participants stays behind.
\<close>

theorem CreateGroup_orphan:
  assumes inv: "db_inv ulower (w_db w)" and clear: "w_fault w = (\<lambda>_. NoFault)"
    and args: "name \<noteq> []" "creatorID \<noteq> []" "uuid_Parse U creatorID = Ok cid"
    and fresh: "w_uuid w (w_uuids_used w) \<notin> c_ID ` set (t_conversations (w_db w))"
    and taken: "name \<in> g_Name ` set (t_groups (w_db w))"
  shows "\<exists>e w' c. CreateGroup U True name creatorID w = (Fail e, w')
    \<and> w_db w' = (w_db w)\<lparr>t_conversations := t_conversations (w_db w) @ [c]\<rparr>
    \<and> c_Type c = ConversationTypeGroup \<and> c_GroupID c = None
    \<and> c_ID c \<notin> cp_ConversationID ` set (t_participants (w_db w'))
    \<and> Some (c_ID c) \<notin> g_ConversationID ` set (t_groups (w_db w'))"
proof -
  define t where "t = pg_ts (w_clock w (w_clock_reads w))"
  define c where "c = blank_conversation\<lparr>c_Type := ConversationTypeGroup, c_ID := w_uuid w (w_uuids_used w),
    c_CreatedAt := t, c_LastMessageID := None, c_LastMessageAt := Some t\<rparr>"
  define w1 where "w1 = w\<lparr>w_uuids_used := Suc (w_uuids_used w), w_clock_reads := Suc (w_clock_reads w),
    w_stmts := Suc (w_stmts w), w_db := (w_db w)\<lparr>t_conversations := t_conversations (w_db w) @ [c]\<rparr>\<rparr>"
  have "insert_conversation c (w_db w) = Inr (c, w_db w1)"
    using fresh by (simp add: insert_conversation_def c_def w1_def blank_conversation_def check_direct_ids_def
        same_pair_def group_ref_ok_def list_ex_iff)
  then have conv: "Conversations_Create (blank_conversation\<lparr>c_Type := ConversationTypeGroup\<rparr>) w = (Ok c, w1)"
    by (simp add: Conversations_Create_def new_id_def new_time_def blank_conversation_def uuid_New_def
        time_Now_def bindE_def scanE_def clear_stmt clear c_def t_def w1_def)
  define g where "g = \<lparr>g_ID = uuid_Nil, g_Name = name, g_OwnerID = cid, g_ConversationID = Some (c_ID c),
    g_CreatedAt = zero_time\<rparr>"
  have "\<exists>e w'. Groups_Create g w1 = (Fail e, w') \<and> w_db w' = w_db w1"
    using taken clear
    by (auto simp: Groups_Create_def new_id_def new_time_def uuid_New_def time_Now_def returnE_def bindE_def
        wrapE_def stmt_def w1_def insert_group_def g_def)
  then obtain e w' where grp: "Groups_Create g w1 = (Fail e, w')" "w_db w' = w_db w1" by blast
  then have "CreateGroup U True name creatorID w = (Fail e, w')"
    using args conv by (simp add: CreateGroup_def bindE_def liftE_def g_def)
  moreover have "c_ID c \<notin> cp_ConversationID ` set (t_participants (w_db w))"
    using inv fresh by (auto simp: c_def db_inv_def participants_ok_def)
  moreover have "Some (c_ID c) \<notin> g_ConversationID ` set (t_groups (w_db w))"
  proof
    assume "Some (c_ID c) \<in> g_ConversationID ` set (t_groups (w_db w))"
    then obtain h where "h \<in> set (t_groups (w_db w))" "g_ConversationID h = Some (c_ID c)" by auto
    then have "conv_ref_ok (Some (c_ID c)) (w_db w)" using inv by (auto simp: db_inv_def groups_ok_def)
    then show False using fresh by (simp add: conv_ref_ok_def c_def)
  qed
  ultimately show ?thesis using grp(2)
    by (intro exI [of _ e] exI [of _ w'] exI [of _ c]) (simp add: w1_def c_def blank_conversation_def)
qed

text \<open>
  Leaving a group removes exactly the participant row named by the request from the group's
  conversation: every other row of every table stays as it was.
\<close>

theorem LeaveGroup_removes:
  assumes "LeaveGroup U svc groupID participantID kind w = (Ok u, w')"
  shows "\<exists>gid pid g cid. uuid_Parse U groupID = Ok gid \<and> uuid_Parse U participantID = Ok pid
    \<and> g \<in> set (t_groups (w_db w)) \<and> g_ID g = gid \<and> g_ConversationID g = Some cid
    \<and> w_db w' = (w_db w)\<lparr>t_participants := filter (\<lambda>p. cp_key p \<noteq> (cid, pid, kind)) (t_participants (w_db w))\<rparr>"
proof -
  obtain gid pid g cid w1 where ids: "uuid_Parse U groupID = Ok gid" "uuid_Parse U participantID = Ok pid"
    and get: "Groups_GetByID gid w = (Inr g, w1)" "g_ConversationID g = Some cid"
    and rm: "Participants_Remove cid pid kind w1 = (Inr u, w')"
    using assms by (auto simp: LeaveGroup_def bindE_Inr split: if_splits option.splits)
  have "g \<in> set (t_groups (w_db w))" "g_ID g = gid"
    using get(1) by (auto simp: Groups_GetByID_def dest!: query_Inr one_row_Inr)
  moreover have "w_db w1 = w_db w" by (rule readsD [OF reads_methods(6) get(1)])
  moreover have "(\<lambda>p. \<not> same_participant cid pid kind p) = (\<lambda>p. cp_key p \<noteq> (cid, pid, kind))"
    by (auto simp: same_participant_def cp_key_def)
  ultimately have "w_db w' = (w_db w)\<lparr>t_participants := filter (\<lambda>p. cp_key p \<noteq> (cid, pid, kind)) (t_participants (w_db w))\<rparr>"
    using rm by (auto simp: Participants_Remove_def delete_participant_def split: if_splits dest!: stmt_Inr)
  then show ?thesis using ids get(2) \<open>g \<in> _\<close> \<open>g_ID g = gid\<close> by blast
qed

section \<open>Witnesses\<close>

definition sample_user :: "uuid \<Rightarrow> string \<Rightarrow> user" where
  "sample_user i e = \<lparr>u_ID = i, u_Email = e, u_PasswordHash = ''h'', u_CreatedAt = 0,
     u_EmailVerified = True, u_VerificationToken = None, u_VerificationTokenExpiresAt = None\<rparr>"

definition sample_group :: chat_group where
  "sample_group = \<lparr>g_ID = 9, g_Name = ''ops'', g_OwnerID = 1, g_ConversationID = Some 8, g_CreatedAt = 0\<rparr>"

definition sample_db :: db where
  "sample_db = empty_db\<lparr>
     t_users := [sample_user 1 ''a'', sample_user 2 ''b''],
     t_groups := [sample_group],
     t_conversations := [\<lparr>c_ID = 8, c_Type = ''group'', c_IDLow = None, c_IDHigh = None,
        c_GroupID = Some 9, c_CreatedAt = 0, c_LastMessageID = None, c_LastMessageAt = Some 0\<rparr>],
     t_participants := [new_participant 8 1 ''user'', new_participant 8 2 ''user'']\<rparr>"

lemma sample_db_inv: "db_inv id sample_db"
  by (simp add: db_inv_def sample_db_def empty_db_def table_defs sample_user_def sample_group_def
      new_participant_def cp_key_def participant_kinds_def check_direct_ids_def same_pair_def ToLower_def
      is_ascii_def char_lower_def is_upper_def)

lemmas run_defs = bindE_def tryE_def wrapE_def scanE_def returnE_def failE_def liftE_def new_id_def new_time_def
  uuid_New_def time_Now_def clear_query clear_stmt one_row_def

lemma sample_direct:
  "\<exists>c w'. GetOrCreateDirect canonical True 1 2 ''user'' ''user'' (clear_world sample_db) = (Ok c, w')
     \<and> w_fault w' = (\<lambda>_. NoFault)"
  by (simp add: GetOrCreateDirect_def order_pair_min_max [OF canonical_laws] min_def max_def run_defs uuid_Nil_def
      Conversations_GetDirectByPair_def Conversations_Create_def Participants_Add_def clear_world_def sample_db_def
      empty_db_def insert_conversation_def blank_conversation_def insert_participant_def check_direct_ids_def
      same_pair_def group_ref_ok_def participant_kinds_def new_participant_def participant_in_def same_participant_def)

theorem GetOrCreateDirect_spec_witness:
  "\<exists>c w'. GetOrCreateDirect canonical True 1 2 ''user'' ''user'' (clear_world sample_db) = (Ok c, w')
     \<and> c_IDLow c = Some 1 \<and> c_IDHigh c = Some 2"
proof -
  obtain c w' where run: "GetOrCreateDirect canonical True 1 2 ''user'' ''user'' (clear_world sample_db) = (Ok c, w')"
    using sample_direct by blast
  have "db_inv id (w_db (clear_world sample_db))" by (simp add: clear_world_def sample_db_inv)
  from GetOrCreateDirect_spec [OF canonical_laws this run] show ?thesis
    using run by (auto simp: min_def max_def)
qed

theorem GetOrCreateDirect_unique_witness:
  "\<exists>c w' e v'. GetOrCreateDirect canonical True 1 2 ''user'' ''user'' (clear_world sample_db) = (Ok c, w')
     \<and> GetOrCreateDirect canonical True 2 1 ''user'' ''agent'' w' = (Ok e, v') \<and> c_ID e = c_ID c"
proof -
  obtain c w' where run: "GetOrCreateDirect canonical True 1 2 ''user'' ''user'' (clear_world sample_db) = (Ok c, w')"
    and clear: "w_fault w' = (\<lambda>_. NoFault)"
    using sample_direct by blast
  have "db_inv id (w_db (clear_world sample_db))" by (simp add: clear_world_def sample_db_inv)
  from GetOrCreateDirect_unique [OF canonical_laws this run, of 2 1 w' "''user''" "''agent''"] clear
  show ?thesis using run by auto
qed

theorem CreateGroup_links_witness:
  "\<exists>g w' c p. CreateGroup canonical True ''dev'' (uuid_String canonical 2) (clear_world sample_db) = (Ok g, w')
     \<and> w_db w' = group_created c g p sample_db \<and> c_GroupID c = Some (g_ID g) \<and> g_ConversationID g = Some (c_ID c)"
proof -
  have "\<exists>g w'. CreateGroup canonical True ''dev'' (uuid_String canonical 2) (clear_world sample_db) = (Ok g, w')"
    by (simp add: CreateGroup_def run_defs Conversations_Create_def Groups_Create_def Conversations_UpdateGroupID_def
      execE_def Participants_Add_def clear_world_def sample_db_def empty_db_def insert_conversation_def uuid_Nil_def
      blank_conversation_def insert_participant_def check_direct_ids_def same_pair_def group_ref_ok_def
      participant_kinds_def new_participant_def participant_in_def same_participant_def insert_group_def
      sample_group_def sample_user_def conv_ref_ok_def set_group_id_def)
  then obtain g w' where run: "CreateGroup canonical True ''dev'' (uuid_String canonical 2) (clear_world sample_db) = (Ok g, w')"
    by blast
  have db: "w_db (clear_world sample_db) = sample_db" by (simp add: clear_world_def)
  from CreateGroup_links [OF _ run, of id] sample_db_inv run show ?thesis
    unfolding db by blast
qed

theorem CreateGroup_orphan_witness:
  "\<exists>e w' c. CreateGroup canonical True ''ops'' (uuid_String canonical 2) (clear_world sample_db) = (Fail e, w')
     \<and> w_db w' = sample_db\<lparr>t_conversations := t_conversations sample_db @ [c]\<rparr> \<and> c_GroupID c = None"
proof -
  have db: "w_db (clear_world sample_db) = sample_db" by (simp add: clear_world_def)
  have "''ops'' \<in> g_Name ` set (t_groups (w_db (clear_world sample_db)))"
      "w_uuid (clear_world sample_db) (w_uuids_used (clear_world sample_db))
        \<notin> c_ID ` set (t_conversations (w_db (clear_world sample_db)))"
    by (simp_all add: clear_world_def sample_db_def sample_group_def)
  from CreateGroup_orphan [OF _ _ _ _ _ this(2,1), of id "uuid_String canonical 2" canonical 2] sample_db_inv
  show ?thesis unfolding db by (auto simp: clear_world_def)
qed

theorem LeaveGroup_removes_witness:
  "\<exists>w'. LeaveGroup canonical True (uuid_String canonical 9) (uuid_String canonical 2) ''user'' (clear_world sample_db)
       = (Ok (), w')
     \<and> t_participants (w_db w') = [new_participant 8 1 ''user'']"
proof -
  have "\<exists>w'. LeaveGroup canonical True (uuid_String canonical 9) (uuid_String canonical 2) ''user'' (clear_world sample_db)
       = (Ok (), w')"
    by (simp add: LeaveGroup_def run_defs Groups_GetByID_def Participants_Remove_def clear_world_def sample_db_def
      sample_group_def delete_participant_def participant_kinds_def)
  then obtain w' where run: "LeaveGroup canonical True (uuid_String canonical 9) (uuid_String canonical 2) ''user''
      (clear_world sample_db) = (Ok (), w')" by blast
  have db: "w_db (clear_world sample_db) = sample_db" by (simp add: clear_world_def)
  from LeaveGroup_removes [OF run] run show ?thesis
    unfolding db by (auto simp: sample_db_def sample_group_def cp_key_def new_participant_def)
qed

end
