(* ===== verification/Auth.thy ===== *)
theory Auth
  imports Conversation
begin

text \<open>
  \<open>backend/internal/auth/auth.go\<close>: registration, login, e-mail verification, access tokens and
  agent secrets. The cryptography (\<open>bcrypt\<close>, \<open>argon2\<close>, \<open>jwt\<close>) is a parameter.
\<close>

section \<open>The libraries\<close>

record jwt_claims =
  jc_UserID :: string
  jc_Subject :: string
  jc_IssuedAt :: time
  jc_ExpiresAt :: time

text \<open>
  \<open>bcrypt_Generate\<close> takes the salt the library draws from \<open>crypto/rand\<close>. \<open>jwt_Sign\<close> is
  \<open>NewWithClaims(SigningMethodHS256, _).SignedString(key)\<close>; \<open>jwt_Parse\<close> is \<open>ParseWithClaims\<close> at
  a time, with a function from the token's signing method to the key, and returns the claims and
  the \<open>Valid\<close> flag.
\<close>

record crypto_lib =
  bcrypt_Generate :: "string \<Rightarrow> string \<Rightarrow> int \<Rightarrow> string res"
  bcrypt_Compare :: "string \<Rightarrow> string \<Rightarrow> unit res"
  argon2_IDKey :: "string \<Rightarrow> string \<Rightarrow> nat \<Rightarrow> nat \<Rightarrow> nat \<Rightarrow> nat \<Rightarrow> string"
  jwt_Sign :: "jwt_claims \<Rightarrow> string \<Rightarrow> string res"
  jwt_Parse :: "time \<Rightarrow> (string \<Rightarrow> string res) \<Rightarrow> string \<Rightarrow> (jwt_claims \<times> bool) res"

text \<open>
  What the service relies on: a bcrypt hash accepts the password it was made from, argon2 returns
  a key of the requested length, and a signed token is accepted under its key exactly until it
  expires.
\<close>

definition crypto_laws :: "crypto_lib \<Rightarrow> bool" where
  "crypto_laws C \<longleftrightarrow>
     (\<forall>salt p cost h. bcrypt_Generate C salt p cost = Ok h \<longrightarrow> bcrypt_Compare C h p = Ok ())
     \<and> (\<forall>s salt t m p n. length (argon2_IDKey C s salt t m p n) = n)
     \<and> (\<forall>c key tok now kf. jwt_Sign C c key = Ok tok \<longrightarrow> kf ''HS256'' = Ok key \<longrightarrow>
          (now < jc_ExpiresAt c \<longrightarrow> jwt_Parse C now kf tok = Ok (c, True))
          \<and> (jc_ExpiresAt c \<le> now \<longrightarrow> \<not> is_ok (jwt_Parse C now kf tok)))"

section \<open>The service\<close>

text \<open>
  \<open>as_db\<close> says that the service and its database pointer are not nil, \<open>as_emailSender\<close> that
  there is a sender; a nil service has no secret either.
\<close>

record auth_service =
  as_db :: bool
  as_jwtSecret :: string
  as_hashCost :: int
  as_emailSender :: bool
  as_verificationTTL :: int

definition hour :: int where "hour = 3600 * nanos"

definition jwtDefaultTTL :: int where "jwtDefaultTTL = hour"

definition NewService :: "bool \<Rightarrow> string \<Rightarrow> bool \<Rightarrow> int \<Rightarrow> auth_service" where
  "NewService db jwtSecret emailSender verificationTTL =
     \<lparr>as_db = db, as_jwtSecret = jwtSecret, as_hashCost = 10, as_emailSender = emailSender,
      as_verificationTTL = (if verificationTTL = 0 then 24 * hour else verificationTTL)\<rparr>"

definition generateVerificationToken :: "string io" where
  "generateVerificationToken = bindE (rand_Read 32) (\<lambda>b. returnE (hex_EncodeToString b))"

definition generateSecret :: "nat \<Rightarrow> string io" where
  "generateSecret n = bindE (rand_Read n) (\<lambda>b. returnE (base64_encode url_alphabet b))"

definition verification_email :: "string \<Rightarrow> string \<Rightarrow> email_message" where
  "verification_email addr token =
     (let verifyURL = ''https://app.bobberchat.io/verify?token='' @ token in
      \<lparr>em_To = addr, em_Subject = ''Verify your BobberChat email'',
       em_Text = ''Verify your email by visiting: '' @ verifyURL,
       em_HTML = ''<p>Verify your email by visiting: <a href='' @ [CHR 0x22] @ verifyURL @ [CHR 0x22] @ ''>''
                 @ verifyURL @ ''</a></p>''\<rparr>)"

definition blank_user :: user where
  "blank_user = \<lparr>u_ID = uuid_Nil, u_Email = [], u_PasswordHash = [], u_CreatedAt = zero_time,
     u_EmailVerified = False, u_VerificationToken = None, u_VerificationTokenExpiresAt = None\<rparr>"

definition RegisterUser ::
    "(string \<Rightarrow> string) \<Rightarrow> crypto_lib \<Rightarrow> auth_service \<Rightarrow> string \<Rightarrow> string \<Rightarrow> user io" where
  "RegisterUser ulower C s emailAddr password =
     (if \<not> as_db s \<or> TrimSpace emailAddr = [] \<or> password = [] then failE ErrInvalidInput
      else
        bindE (wrapE ''hash password'' (bindE (rand_Read 16) (\<lambda>salt.
                 liftE (bcrypt_Generate C salt password (as_hashCost s))))) (\<lambda>hash.
        bindE (Users_Create ulower (blank_user\<lparr>u_Email := ToLower ulower (TrimSpace emailAddr),
                 u_PasswordHash := hash\<rparr>)) (\<lambda>created.
        bindE (wrapE ''generate verification token'' generateVerificationToken) (\<lambda>token.
        bindE time_Now (\<lambda>now.
        bindE (Users_SetVerificationToken (u_ID created) token (now + as_verificationTTL s)) (\<lambda>_.
        bindE (if as_emailSender s then SendEmail (verification_email (u_Email created) token)
               else returnE ()) (\<lambda>_.
        returnE created)))))))"

definition getUserByEmail :: "(string \<Rightarrow> string) \<Rightarrow> string \<Rightarrow> user io" where
  "getUserByEmail ulower e =
     query (\<lambda>d. one_row (order_desc u_CreatedAt
       (filter (\<lambda>u. citext_eq ulower (u_Email u) (ToLower ulower (TrimSpace e))) (t_users d))))"

definition truncate_second :: "time \<Rightarrow> time" where
  "truncate_second t = t - t mod nanos"

definition login_claims :: "uuid_lib \<Rightarrow> uuid \<Rightarrow> time \<Rightarrow> jwt_claims" where
  "login_claims U i now =
     \<lparr>jc_UserID = uuid_String U i, jc_Subject = ''user:'' @ uuid_String U i,
      jc_IssuedAt = truncate_second now, jc_ExpiresAt = truncate_second (now + jwtDefaultTTL)\<rparr>"

definition LoginUser ::
    "(string \<Rightarrow> string) \<Rightarrow> uuid_lib \<Rightarrow> crypto_lib \<Rightarrow> auth_service \<Rightarrow> string \<Rightarrow> string \<Rightarrow> (string \<times> user) io" where
  "LoginUser ulower U C s email password =
     (if \<not> as_db s \<or> TrimSpace email = [] \<or> password = [] then failE ErrInvalidInput
      else
        bindE (getUserByEmail ulower email) (\<lambda>u.
        case bcrypt_Compare C (u_PasswordHash u) password of
          Inl _ \<Rightarrow> failE (Err ''invalid credentials'')
        | Inr _ \<Rightarrow>
            if \<not> u_EmailVerified u then failE (Err ''email not verified'')
            else
              bindE time_Now (\<lambda>now.
              bindE (wrapE ''sign token'' (liftE (jwt_Sign C (login_claims U (u_ID u) now) (as_jwtSecret s)))) (\<lambda>signed.
              returnE (signed, u)))))"

definition VerifyEmail :: "auth_service \<Rightarrow> string \<Rightarrow> user io" where
  "VerifyEmail s token =
     (if \<not> as_db s \<or> TrimSpace token = [] then failE ErrInvalidInput
      else Users_VerifyEmail (TrimSpace token))"

definition ResendVerification :: "(string \<Rightarrow> string) \<Rightarrow> auth_service \<Rightarrow> string \<Rightarrow> unit io" where
  "ResendVerification ulower s emailAddr =
     (if \<not> as_db s \<or> TrimSpace emailAddr = [] then failE ErrInvalidInput
      else
        bindE (Users_GetByEmail ulower emailAddr) (\<lambda>u.
        if u_EmailVerified u then failE (Err ''email already verified'')
        else
          bindE (wrapE ''generate verification token'' generateVerificationToken) (\<lambda>token.
          bindE time_Now (\<lambda>now.
          bindE (Users_SetVerificationToken (u_ID u) token (now + as_verificationTTL s)) (\<lambda>_.
          if as_emailSender s then SendEmail (verification_email (u_Email u) token) else returnE ())))))"

definition ValidateJWT :: "crypto_lib \<Rightarrow> auth_service \<Rightarrow> string \<Rightarrow> string io" where
  "ValidateJWT C s tokenStr =
     (if as_jwtSecret s = [] then failE (Err ''auth service not configured'')
      else
        bindE time_Now (\<lambda>now.
        bindE (liftE (jwt_Parse C now
                 (\<lambda>alg. if alg \<noteq> ''HS256'' then Fail (Err (''unexpected signing method: '' @ alg))
                        else Ok (as_jwtSecret s)) tokenStr)) (\<lambda>(claims, valid).
        if \<not> valid then failE (Err ''invalid token claims'') else returnE (jc_UserID claims))))"

section \<open>Agent secrets\<close>

definition argon2_Version :: nat where "argon2_Version = 19"
definition timeCost :: nat where "timeCost = 3"
definition memoryCost :: nat where "memoryCost = 65536"
definition parallelism :: nat where "parallelism = 2"
definition hashLen :: nat where "hashLen = 32"
definition saltLen :: nat where "saltLen = 16"

definition argon2_encoded :: "string \<Rightarrow> string \<Rightarrow> string" where
  "argon2_encoded salt hash =
     ''$argon2id$v='' @ dec_digits argon2_Version @ ''$m='' @ dec_digits memoryCost
     @ '',t='' @ dec_digits timeCost @ '',p='' @ dec_digits parallelism
     @ ''$'' @ base64_encode std_alphabet salt @ ''$'' @ base64_encode std_alphabet hash"

definition hashSecretArgon2id :: "crypto_lib \<Rightarrow> string \<Rightarrow> string io" where
  "hashSecretArgon2id C secret =
     (if secret = [] then failE (Err ''secret is empty'')
      else bindE (rand_Read saltLen) (\<lambda>salt.
        returnE (argon2_encoded salt
                   (argon2_IDKey C secret salt timeCost memoryCost parallelism hashLen))))"

text \<open>
  \<open>fmt.Sscanf(s, "v=%d", &version)\<close>: the literal, then a decimal number after optional blanks;
  what follows the number is ignored.
\<close>

definition scan_blanks :: "string \<Rightarrow> string option" where
  "scan_blanks s =
     (let r = trim_left s in
      if CHR 0x0A \<in> set (take (length s - length r) s) then None else Some r)"

definition Sscanf_version :: "string \<Rightarrow> int res" where
  "Sscanf_version s =
     (if \<not> HasPrefix s ''v='' then Fail (Err ''input does not match format'')
      else case scan_blanks (drop 2 s) of
        None \<Rightarrow> Fail (Err ''unexpected newline'')
      | Some r \<Rightarrow>
          (let sgn = (if r \<noteq> [] \<and> (hd r = CHR ''+'' \<or> hd r = CHR ''-'') then [hd r] else []);
               digits = takeWhile is_digit (drop (length sgn) r) in
           if digits = [] then Fail (Err ''expected integer'') else Atoi (sgn @ digits)))"

definition decodeArgon2Hash :: "string \<Rightarrow> (nat \<times> nat \<times> nat \<times> string \<times> string) res" where
  "decodeArgon2Hash encodedHash =
     (let parts = Split encodedHash CHR ''$'' in
      if length parts \<noteq> 6 then Fail (Err ''invalid argon2 hash format'')
      else if parts ! 1 \<noteq> ''argon2id'' then Fail (Err ''not argon2id hash'')
      else case Sscanf_version (parts ! 2) of
        Inl e \<Rightarrow> Fail e
      | Inr version \<Rightarrow>
          if version \<noteq> int argon2_Version then Fail (Err ''incompatible argon2 version'')
          else let kv = Split (parts ! 3) CHR '','' in
            if length kv \<noteq> 3 then Fail (Err ''invalid argon2 params'')
            else case ParseUint (TrimPrefix (kv ! 0) ''m='') 32 of
              Inl e \<Rightarrow> Fail e
            | Inr m \<Rightarrow>
                (case ParseUint (TrimPrefix (kv ! 1) ''t='') 32 of
                   Inl e \<Rightarrow> Fail e
                 | Inr t \<Rightarrow>
                     (case ParseUint (TrimPrefix (kv ! 2) ''p='') 8 of
                        Inl e \<Rightarrow> Fail e
                      | Inr p \<Rightarrow>
                          (case base64_decode std_alphabet (parts ! 4) of
                             None \<Rightarrow> Fail (Err ''illegal base64 data'')
                           | Some salt \<Rightarrow>
                               (case base64_decode std_alphabet (parts ! 5) of
                                  None \<Rightarrow> Fail (Err ''illegal base64 data'')
                                | Some hash \<Rightarrow> Ok (m, t, p, salt, hash))))))"

definition verifySecretArgon2id :: "crypto_lib \<Rightarrow> string \<Rightarrow> string \<Rightarrow> bool" where
  "verifySecretArgon2id C encodedHash secret =
     (case decodeArgon2Hash encodedHash of
        Inl _ \<Rightarrow> False
      | Inr (memory, iterations, par, salt, hash) \<Rightarrow>
          argon2_IDKey C secret salt iterations memory par (length hash) = hash)"

definition getAgentByID :: "uuid_lib \<Rightarrow> string \<Rightarrow> agent io" where
  "getAgentByID U agentID =
     bindE (liftE (uuid_Parse U agentID)) (\<lambda>i.
       query (\<lambda>d. one_row (filter (\<lambda>a. a_ID a = i) (t_agents d))))"

definition CreateAgent ::
    "uuid_lib \<Rightarrow> crypto_lib \<Rightarrow> auth_service \<Rightarrow> string \<Rightarrow> string \<Rightarrow> (agent \<times> string) io" where
  "CreateAgent U C s ownerUserID displayName =
     (if \<not> as_db s \<or> ownerUserID = [] \<or> displayName = [] then failE ErrInvalidInput
      else
        bindE (liftE (uuid_Parse U ownerUserID)) (\<lambda>ownerID.
        bindE (generateSecret 32) (\<lambda>secret.
        bindE (hashSecretArgon2id C secret) (\<lambda>hash.
        bindE (Agents_Create \<lparr>a_ID = uuid_Nil, a_DisplayName = displayName, a_OwnerUserID = ownerID,
                 a_APISecretHash = hash, a_CreatedAt = zero_time\<rparr>) (\<lambda>created.
        returnE (created, secret))))))"

definition ValidateAPISecret :: "uuid_lib \<Rightarrow> crypto_lib \<Rightarrow> auth_service \<Rightarrow> string \<Rightarrow> string \<Rightarrow> agent io" where
  "ValidateAPISecret U C s agentID secret =
     (if \<not> as_db s \<or> agentID = [] \<or> secret = [] then failE ErrInvalidInput
      else
        bindE (getAgentByID U agentID) (\<lambda>agent.
        if verifySecretArgon2id C (a_APISecretHash agent) secret then returnE agent
        else failE (Err ''invalid api secret'')))"

definition RotateSecret :: "uuid_lib \<Rightarrow> crypto_lib \<Rightarrow> auth_service \<Rightarrow> string \<Rightarrow> string io" where
  "RotateSecret U C s agentID =
     (if \<not> as_db s \<or> agentID = [] then failE ErrInvalidInput
      else
        bindE (getAgentByID U agentID) (\<lambda>a.
        bindE (generateSecret 32) (\<lambda>secret.
        bindE (hashSecretArgon2id C secret) (\<lambda>newHash.
        bindE (stmt (update_secret_hash (a_ID a) newHash)) (\<lambda>_.
        returnE secret)))))"

section \<open>The constraints are kept\<close>

lemma keeps_auth_helpers [keeps_intros]:
  "keeps P generateVerificationToken" "keeps P (generateSecret n)" "keeps P (hashSecretArgon2id C x)"
  "keeps P (getUserByEmail ulower e)" "keeps P (getAgentByID U i)"
  unfolding generateVerificationToken_def generateSecret_def hashSecretArgon2id_def getUserByEmail_def
    getAgentByID_def
  by (auto intro!: keeps_intros)

lemma keeps_auth [keeps_intros]:
  "keeps (db_inv ulower) (RegisterUser ulower C s e p)"
  "keeps (db_inv ulower) (VerifyEmail s tok)"
  "keeps (db_inv ulower) (ResendVerification ulower s e)"
  "keeps (db_inv ulower) (CreateAgent U C s o1 n)"
  "keeps (db_inv ulower) (RotateSecret U C s i)"
  unfolding RegisterUser_def VerifyEmail_def ResendVerification_def CreateAgent_def RotateSecret_def
  by (auto intro!: keeps_intros)

lemma reads_auth [reads_intros]:
  "reads (LoginUser ulower U C s e p)" "reads (ValidateJWT C s tok)" "reads (ValidateAPISecret U C s i x)"
  unfolding LoginUser_def ValidateJWT_def ValidateAPISecret_def getUserByEmail_def getAgentByID_def
  by (auto intro!: reads_intros split: sum.splits prod.splits)

section \<open>Encoded hashes\<close>

lemma std_alphabet_no_sep: "CHR ''$'' \<notin> set std_alphabet" "CHR '','' \<notin> set std_alphabet"
  by (simp_all add: std_alphabet_def)

lemma base64_no_dollar: "CHR ''$'' \<notin> set (base64_encode std_alphabet s)"
  using base64_chars [OF std_alphabet_ok, of s] std_alphabet_no_sep by blast

lemma argon2_encoded_parts:
  "argon2_encoded salt hash =
     Join [[], ''argon2id'', ''v=19'', ''m=65536,t=3,p=2'', base64_encode std_alphabet salt,
           base64_encode std_alphabet hash] ''$''"
proof -
  have "dec_digits 19 = ''19''" "dec_digits 65536 = ''65536''" "dec_digits 3 = ''3''" "dec_digits 2 = ''2''"
    by (simp_all add: dec_digits.simps digit_char_def char_of_def bit_0)
  then show ?thesis
    by (simp add: argon2_encoded_def argon2_Version_def memoryCost_def timeCost_def parallelism_def)
qed

lemma Split_argon2:
  "Split (argon2_encoded salt hash) CHR ''$'' =
     [[], ''argon2id'', ''v=19'', ''m=65536,t=3,p=2'', base64_encode std_alphabet salt,
      base64_encode std_alphabet hash]"
  unfolding argon2_encoded_parts by (rule Split_Join) (simp_all add: base64_no_dollar)

lemma Sscanf_19: "Sscanf_version ''v=19'' = Ok 19"
proof -
  have "trim_left ''19'' = ''19''"
    by (rule trim_left_id) (simp add: starts_space_def space_encodings_def)
  then show ?thesis
    by (simp add: Sscanf_version_def HasPrefix_def scan_blanks_def Atoi_def ParseIntBase10_def all_digits_def
        is_digit_def less_eq_char_def dec_value_def digit_val_def int64_min_def int64_max_def)
qed

lemma decode_argon2_encoded:
  "decodeArgon2Hash (argon2_encoded salt hash) = Ok (memoryCost, timeCost, parallelism, salt, hash)"
proof -
  have "ParseUint ''65536'' 32 = Ok 65536" "ParseUint ''3'' 32 = Ok 3" "ParseUint ''2'' 8 = Ok 2"
    by (simp_all add: ParseUint_def all_digits_def is_digit_def less_eq_char_def dec_value_def digit_val_def)
  moreover have "TrimPrefix ''m=65536'' ''m='' = ''65536''" "TrimPrefix ''t=3'' ''t='' = ''3''"
      "TrimPrefix ''p=2'' ''p='' = ''2''"
    by (simp_all add: TrimPrefix_def HasPrefix_def)
  ultimately show ?thesis
    by (simp add: decodeArgon2Hash_def Split_argon2 Let_def Sscanf_19 argon2_Version_def memoryCost_def timeCost_def
        parallelism_def base64_roundtrip [OF std_alphabet_ok])
qed

text \<open>
  A stored agent secret is checked by its key: the encoded hash made for a secret decodes to
  the parameters, salt and key it was made of, and another text is accepted exactly when argon2
  derives the same key from it, in particular the secret itself.
\<close>

theorem verifySecret_encoded:
  assumes "crypto_laws C"
  shows "decodeArgon2Hash (argon2_encoded salt hash) = Ok (memoryCost, timeCost, parallelism, salt, hash)
    \<and> (verifySecretArgon2id C
          (argon2_encoded salt (argon2_IDKey C secret salt timeCost memoryCost parallelism hashLen)) x
       \<longleftrightarrow> argon2_IDKey C x salt timeCost memoryCost parallelism hashLen
          = argon2_IDKey C secret salt timeCost memoryCost parallelism hashLen)"
proof -
  have "length (argon2_IDKey C secret salt timeCost memoryCost parallelism hashLen) = hashLen"
    using assms by (simp add: crypto_laws_def)
  then show ?thesis by (simp add: verifySecretArgon2id_def decode_argon2_encoded)
qed

section \<open>An instance of the libraries\<close>

text \<open>
  Concrete functions with the laws the service relies on: a token is its claims and its key in
  base64, joined by dots.
\<close>

definition int_text :: "int \<Rightarrow> string" where
  "int_text i = (if i < 0 then CHR ''-'' # dec_digits (nat (- i)) else dec_digits (nat i))"

definition text_int :: "string \<Rightarrow> int" where
  "text_int s = (case sign_split s of (neg, ds) \<Rightarrow> if neg then - int (dec_value ds) else int (dec_value ds))"

definition plain_Sign :: "jwt_claims \<Rightarrow> string \<Rightarrow> string res" where
  "plain_Sign c key =
     Ok (Join [base64_encode std_alphabet (jc_UserID c), base64_encode std_alphabet (jc_Subject c),
           int_text (jc_IssuedAt c), int_text (jc_ExpiresAt c), base64_encode std_alphabet key] ''.'')"

definition plain_Parse :: "time \<Rightarrow> (string \<Rightarrow> string res) \<Rightarrow> string \<Rightarrow> (jwt_claims \<times> bool) res" where
  "plain_Parse now kf tok =
     (case Split tok CHR ''.'' of
        [u, s, i, e, k] \<Rightarrow>
          (case kf ''HS256'' of
             Inl err \<Rightarrow> Fail err
           | Inr key \<Rightarrow>
               (case (base64_decode std_alphabet u, base64_decode std_alphabet s) of
                  (Some user, Some sub) \<Rightarrow>
                    if k \<noteq> base64_encode std_alphabet key then Fail (Err ''signature is invalid'')
                    else if text_int e \<le> now then Fail (Err ''token is expired'')
                    else Ok (\<lparr>jc_UserID = user, jc_Subject = sub, jc_IssuedAt = text_int i,
                              jc_ExpiresAt = text_int e\<rparr>, True)
                | _ \<Rightarrow> Fail (Err ''token is malformed'')))
      | _ \<Rightarrow> Fail (Err ''token is malformed''))"

definition plain_crypto :: crypto_lib where
  "plain_crypto =
     \<lparr>bcrypt_Generate = (\<lambda>salt p cost. Ok (''bc:'' @ p)),
      bcrypt_Compare = (\<lambda>h p. if h = ''bc:'' @ p then Ok () else Fail (Err ''mismatch'')),
      argon2_IDKey = (\<lambda>s salt t m p n. take n (s @ replicate n CHR ''0'')),
      jwt_Sign = plain_Sign, jwt_Parse = plain_Parse\<rparr>"

lemma sign_split_dec_digits: "sign_split (dec_digits n) = (False, dec_digits n)"
  by (rule sign_split_digits) (simp add: dec_digits_all_digits)

lemma text_int_inverse: "text_int (int_text i) = i"
  by (simp add: text_int_def int_text_def sign_split_dec_digits)

lemma int_text_no_dot: "CHR ''.'' \<notin> set (int_text i)"
proof -
  have "CHR ''.'' \<notin> set (dec_digits n)" for n
    using dec_digits_all_digits [of n] by (auto simp: all_digits_def list_all_iff is_digit_def less_eq_char_def)
  then show ?thesis by (simp add: int_text_def)
qed

lemma plain_Split:
  assumes "plain_Sign c key = Ok tok"
  shows "Split tok CHR ''.'' = [base64_encode std_alphabet (jc_UserID c), base64_encode std_alphabet (jc_Subject c),
     int_text (jc_IssuedAt c), int_text (jc_ExpiresAt c), base64_encode std_alphabet key]"
proof -
  have "CHR ''.'' \<notin> set std_alphabet" by (simp add: std_alphabet_def)
  then have "CHR ''.'' \<notin> set (base64_encode std_alphabet s)" for s
    using base64_chars [OF std_alphabet_ok, of s] by blast
  then show ?thesis
    using assms unfolding plain_Sign_def Inr_inject
    by (auto intro!: Split_Join simp: int_text_no_dot simp del: Join.simps)
qed

lemma plain_crypto_laws: "crypto_laws plain_crypto"
  unfolding crypto_laws_def
proof (intro conjI allI impI)
  fix c key tok now kf
  assume "jwt_Sign plain_crypto c key = Ok tok" "kf ''HS256'' = Ok key"
  then have s: "plain_Sign c key = Ok tok" and kf: "kf ''HS256'' = Ok key"
    by (simp_all add: plain_crypto_def)
  have p: "jwt_Parse plain_crypto now kf tok =
      (if jc_ExpiresAt c \<le> now then Fail (Err ''token is expired'') else Ok (c, True))"
    by (simp add: plain_crypto_def plain_Parse_def plain_Split [OF s] kf base64_roundtrip [OF std_alphabet_ok]
        text_int_inverse)
  show "now < jc_ExpiresAt c \<Longrightarrow> jwt_Parse plain_crypto now kf tok = Ok (c, True)" by (simp add: p)
  show "jc_ExpiresAt c \<le> now \<Longrightarrow> \<not> is_ok (jwt_Parse plain_crypto now kf tok)" by (simp add: p)
qed (auto simp: plain_crypto_def)

theorem verifySecret_encoded_witness:
  "verifySecretArgon2id plain_crypto
     (argon2_encoded ''salt'' (argon2_IDKey plain_crypto ''secret'' ''salt'' timeCost memoryCost parallelism hashLen))
     ''secret''"
  using verifySecret_encoded [OF plain_crypto_laws, of "''salt''" "[]" "''secret''" "''secret''"] by simp

section \<open>Access tokens\<close>

lemma ValidateJWT_fst:
  assumes "as_jwtSecret s \<noteq> []"
  shows "fst (ValidateJWT C s tok v) =
    (case jwt_Parse C (w_clock v (w_clock_reads v))
            (\<lambda>alg. if alg \<noteq> ''HS256'' then Fail (Err (''unexpected signing method: '' @ alg)) else Ok (as_jwtSecret s)) tok
     of Inl e \<Rightarrow> Fail e
      | Inr (claims, valid) \<Rightarrow> if valid then Ok (jc_UserID claims) else Fail (Err ''invalid token claims''))"
  using assms by (auto simp: ValidateJWT_def bindE_def time_Now_def liftE_def failE_def returnE_def
      split: sum.splits prod.splits)

text \<open>
  C17. A successful login names a stored, verified user whose e-mail address and password match,
  leaves the tables alone, and issues a token that validates as that user until an hour (counted
  in whole seconds) after the login, and is refused from then on.
\<close>

theorem LoginUser_token:
  assumes "crypto_laws C" "as_jwtSecret s \<noteq> []"
    and "LoginUser ulower U C s email password w = (Ok (tok, u), w')"
  shows "u \<in> set (t_users (w_db w)) \<and> u_EmailVerified u
    \<and> citext_eq ulower (u_Email u) (ToLower ulower (TrimSpace email))
    \<and> bcrypt_Compare C (u_PasswordHash u) password = Ok () \<and> w_db w' = w_db w
    \<and> (let expires = truncate_second (w_clock w (w_clock_reads w) + hour) in
       (w_clock v (w_clock_reads v) < expires \<longrightarrow> fst (ValidateJWT C s tok v) = Ok (uuid_String U (u_ID u)))
       \<and> (expires \<le> w_clock v (w_clock_reads v) \<longrightarrow> \<not> is_ok (fst (ValidateJWT C s tok v))))"
proof -
  obtain w1 where get: "getUserByEmail ulower email w = (Inr u, w1)"
    and chk: "bcrypt_Compare C (u_PasswordHash u) password = Ok ()" "u_EmailVerified u"
    and sgn: "jwt_Sign C (login_claims U (u_ID u) (w_clock w1 (w_clock_reads w1))) (as_jwtSecret s) = Ok tok"
    using assms(3)
    by (auto simp: LoginUser_def bindE_Inr time_Now_def split: if_splits sum.splits)
  have clk: "w_clock w1 = w_clock w" "w_clock_reads w1 = w_clock_reads w"
    using query_frame [OF get [unfolded getUserByEmail_def]] by simp_all
  have "u \<in> set (t_users (w_db w)) \<and> citext_eq ulower (u_Email u) (ToLower ulower (TrimSpace email))"
    using get by (auto simp: getUserByEmail_def order_desc_def dest!: query_Inr one_row_Inr)
  moreover have "w_db w' = w_db w" by (rule readsD [OF reads_auth(1) assms(3)])
  moreover define c where "c = login_claims U (u_ID u) (w_clock w (w_clock_reads w))"
  define kf where "kf = (\<lambda>alg. if alg \<noteq> ''HS256'' then Fail (Err (''unexpected signing method: '' @ alg))
    else Ok (as_jwtSecret s))"
  have c: "jwt_Sign C c (as_jwtSecret s) = Ok tok" "jc_UserID c = uuid_String U (u_ID u)"
      "jc_ExpiresAt c = truncate_second (w_clock w (w_clock_reads w) + hour)"
    using sgn by (simp_all add: c_def clk login_claims_def jwtDefaultTTL_def)
  have kf: "kf ''HS256'' = Ok (as_jwtSecret s)" by (simp add: kf_def)
  have "now < jc_ExpiresAt c \<Longrightarrow> jwt_Parse C now kf tok = Ok (c, True)"
      "jc_ExpiresAt c \<le> now \<Longrightarrow> \<exists>e. jwt_Parse C now kf tok = Fail e" for now
    using assms(1) c(1) kf unfolding crypto_laws_def by (blast, metis is_ok_iff sum.exhaust)
  then have "(w_clock v (w_clock_reads v) < jc_ExpiresAt c \<longrightarrow> fst (ValidateJWT C s tok v) = Ok (jc_UserID c))
      \<and> (jc_ExpiresAt c \<le> w_clock v (w_clock_reads v) \<longrightarrow> \<not> is_ok (fst (ValidateJWT C s tok v)))"
    unfolding ValidateJWT_fst [OF assms(2)] kf_def [symmetric] by fastforce
  ultimately show ?thesis using chk by (simp add: c(2,3) Let_def)
qed

section \<open>Issuing and rotating agent secrets\<close>

lemma generateSecret_nonempty: "generateSecret 32 w = (Inr x, w') \<Longrightarrow> x \<noteq> []"
  by (auto simp: generateSecret_def bindE_Inr rand_Read_def upt_rec [of _ 32] split: sum.splits)

lemma hashSecret_Inr:
  "hashSecretArgon2id C secret w = (Inr h, w') \<Longrightarrow>
     \<exists>salt. h = argon2_encoded salt (argon2_IDKey C secret salt timeCost memoryCost parallelism hashLen)"
  by (auto simp: hashSecretArgon2id_def bindE_Inr split: if_splits)

lemma reads_secret_helpers [reads_intros]:
  "reads (generateSecret n)" "reads (hashSecretArgon2id C x)" "reads (getAgentByID U i)"
  unfolding generateSecret_def hashSecretArgon2id_def getAgentByID_def by (auto intro!: reads_intros)

lemma verify_encoded:
  assumes "crypto_laws C"
  shows "verifySecretArgon2id C
      (argon2_encoded salt (argon2_IDKey C secret salt timeCost memoryCost parallelism hashLen)) x
    \<longleftrightarrow> argon2_IDKey C x salt timeCost memoryCost parallelism hashLen
      = argon2_IDKey C secret salt timeCost memoryCost parallelism hashLen"
proof -
  have "length (argon2_IDKey C secret salt timeCost memoryCost parallelism hashLen) = hashLen"
    using assms by (simp add: crypto_laws_def)
  then show ?thesis by (simp add: verifySecretArgon2id_def decode_argon2_encoded)
qed

text \<open>The check of a secret against the row of an agent.\<close>

lemma ValidateAPISecret_row:
  assumes "distinct (map a_ID (t_agents (w_db v)))" "a \<in> set (t_agents (w_db v))" "uuid_Parse U i = Ok (a_ID a)"
    and "as_db s" "i \<noteq> []" "x \<noteq> []" "w_fault v (w_stmts v) = NoFault"
  shows "fst (ValidateAPISecret U C s i x v) =
    (if verifySecretArgon2id C (a_APISecretHash a) x then Ok a else Fail (Err ''invalid api secret''))"
proof -
  have "agents.lookup (a_ID a) (w_db v) = Ok a"
    using agents.lookup_iff [OF assms(1)] assms(2) by simp
  then have "fst (query (\<lambda>d. one_row (filter (\<lambda>b. a_ID b = a_ID a) (t_agents d))) v) = Ok a"
    by (simp add: query_ok [OF assms(7)] agents.lookup_def)
  then show ?thesis
    using assms(3-6)
    by (auto simp: ValidateAPISecret_def getAgentByID_def bindE_def liftE_def returnE_def failE_def
        split: prod.splits sum.splits)
qed

lemma Agents_Create_Inr:
  assumes "Agents_Create a w = (Inr x, w')"
  shows "insert_agent x (w_db w) = Inr (x, w_db w')
    \<and> a_OwnerUserID x = a_OwnerUserID a \<and> a_APISecretHash x = a_APISecretHash a \<and> a_DisplayName x = a_DisplayName a"
proof -
  obtain i t where row: "insert_agent (a\<lparr>a_ID := i, a_CreatedAt := t\<rparr>) (w_db w) = Inr (x, w_db w')"
    using assms unfolding Agents_Create_def
    by (auto simp: bindE_Inr dest!: stmt_Inr readsD [OF reads_new_id] readsD [OF reads_new_time])
  show ?thesis using row agents.ins_returns [OF row] by simp
qed

text \<open>
  C36. The secret returned for a new agent authenticates that agent: the agent belongs to the given
  owner, is the only row added, and validating its identifier with the secret returns it.
\<close>

theorem CreateAgent_secret_valid:
  assumes "crypto_laws C" "uuid_laws U" "db_inv ulower (w_db w)"
    and "CreateAgent U C s ownerUserID displayName w = (Ok (a, secret), w')"
    and "w_db v = w_db w'" "w_fault v (w_stmts v) = NoFault"
  shows "uuid_Parse U ownerUserID = Ok (a_OwnerUserID a) \<and> a_DisplayName a = displayName
    \<and> w_db w' = (w_db w)\<lparr>t_agents := t_agents (w_db w) @ [a]\<rparr>
    \<and> fst (ValidateAPISecret U C s (uuid_String U (a_ID a)) secret v) = Ok a"
proof -
  obtain ow h w1 w2 where steps: "uuid_Parse U ownerUserID = Ok ow" "as_db s"
      "generateSecret 32 w = (Inr secret, w1)" "hashSecretArgon2id C secret w1 = (Inr h, w2)"
      "Agents_Create \<lparr>a_ID = uuid_Nil, a_DisplayName = displayName, a_OwnerUserID = ow,
         a_APISecretHash = h, a_CreatedAt = zero_time\<rparr> w2 = (Inr a, w')"
    using assms(4) by (auto simp: CreateAgent_def bindE_Inr split: if_splits)
  have "w_db w2 = w_db w"
    using readsD [OF reads_secret_helpers(1) steps(3)] readsD [OF reads_secret_helpers(2) steps(4)] by simp
  then have ins: "insert_agent a (w_db w) = Inr (a, w_db w')" and a: "a_OwnerUserID a = ow" "a_APISecretHash a = h"
      "a_DisplayName a = displayName"
    using Agents_Create_Inr [OF steps(5)] by simp_all
  have db: "w_db w' = (w_db w)\<lparr>t_agents := t_agents (w_db w) @ [a]\<rparr>"
    using ins by (auto simp: insert_agent_def split: if_splits)
  have "db_inv ulower (w_db v)" using insert_agent_inv [OF assms(3) ins] by (simp add: assms(5))
  then have "distinct (map a_ID (t_agents (w_db v)))" by (simp add: db_inv_def agents_ok_def)
  moreover have "a \<in> set (t_agents (w_db v))" by (simp add: assms(5) db)
  ultimately have "fst (ValidateAPISecret U C s (uuid_String U (a_ID a)) secret v) =
      (if verifySecretArgon2id C h secret then Ok a else Fail (Err ''invalid api secret''))"
    using ValidateAPISecret_row [of v a U "uuid_String U (a_ID a)" s secret C] steps(2) a assms(6)
      generateSecret_nonempty [OF steps(3)] uuid_lawsD(1,3) [OF assms(2)]
    by simp
  moreover have "verifySecretArgon2id C h secret"
    using hashSecret_Inr [OF steps(4)] verify_encoded [OF assms(1)] by auto
  ultimately show ?thesis using steps(1) a db by simp
qed

text \<open>
  C24. Rotating a secret replaces the hash of that agent and nothing else; from then on a text
  authenticates the agent exactly when argon2 derives from it the key of the new secret, so the
  old secret is refused unless the keys collide.
\<close>

theorem RotateSecret_replaces:
  assumes "crypto_laws C" "db_inv ulower (w_db w)"
    and "RotateSecret U C s agentID w = (Ok secret, w')"
    and "w_db v = w_db w'" "w_fault v (w_stmts v) = NoFault" "x \<noteq> []"
  shows "\<exists>a salt. a \<in> set (t_agents (w_db w)) \<and> uuid_Parse U agentID = Ok (a_ID a)
    \<and> w_db w' = (w_db w)\<lparr>t_agents := map (\<lambda>b. if a_ID b = a_ID a then b\<lparr>a_APISecretHash :=
        argon2_encoded salt (argon2_IDKey C secret salt timeCost memoryCost parallelism hashLen)\<rparr> else b)
        (t_agents (w_db w))\<rparr>
    \<and> (is_ok (fst (ValidateAPISecret U C s agentID x v)) \<longleftrightarrow>
         argon2_IDKey C x salt timeCost memoryCost parallelism hashLen
         = argon2_IDKey C secret salt timeCost memoryCost parallelism hashLen)"
proof -
  obtain a h n w1 w2 w3 where guard: "as_db s" "agentID \<noteq> []"
    and steps: "getAgentByID U agentID w = (Inr a, w1)" "generateSecret 32 w1 = (Inr secret, w2)"
      "hashSecretArgon2id C secret w2 = (Inr h, w3)" "stmt (update_secret_hash (a_ID a) h) w3 = (Inr n, w')"
    using assms(3) by (auto simp: RotateSecret_def bindE_Inr split: if_splits)
  obtain salt where h: "h = argon2_encoded salt (argon2_IDKey C secret salt timeCost memoryCost parallelism hashLen)"
    using hashSecret_Inr [OF steps(3)] by blast
  have w3: "w_db w3 = w_db w"
    using readsD [OF reads_secret_helpers(3) steps(1)] readsD [OF reads_secret_helpers(1) steps(2)]
      readsD [OF reads_secret_helpers(2) steps(3)] by simp
  have a: "a \<in> set (t_agents (w_db w))" "uuid_Parse U agentID = Ok (a_ID a)"
    using steps(1) by (auto simp: getAgentByID_def bindE_Inr dest!: query_Inr one_row_Inr)
  have upd: "update_secret_hash (a_ID a) h (w_db w) = Inr (n, w_db w')" using stmt_Inr [OF steps(4)] w3 by simp
  have db: "w_db w' = (w_db w)\<lparr>t_agents := map (\<lambda>b. if a_ID b = a_ID a then b\<lparr>a_APISecretHash := h\<rparr> else b)
      (t_agents (w_db w))\<rparr>"
    using upd by (simp add: update_secret_hash_def)
  have "distinct (map a_ID (t_agents (w_db v)))"
    using update_secret_hash_inv [OF assms(2) upd] by (simp add: assms(4) db_inv_def agents_ok_def)
  moreover have "a\<lparr>a_APISecretHash := h\<rparr> \<in> set (t_agents (w_db v))"
    using a(1) by (auto simp: assms(4) db image_iff intro!: bexI [of _ a])
  ultimately have "fst (ValidateAPISecret U C s agentID x v) =
      (if verifySecretArgon2id C h x then Ok (a\<lparr>a_APISecretHash := h\<rparr>) else Fail (Err ''invalid api secret''))"
    using ValidateAPISecret_row [of v "a\<lparr>a_APISecretHash := h\<rparr>" U agentID s x C] guard a(2) assms(5,6) by simp
  then show ?thesis using a db h verify_encoded [OF assms(1)] by auto
qed

section \<open>Verification of addresses\<close>

text \<open>
  C26. Verifying an address uses the token up: a successful call found a user holding the trimmed
  token before its expiry, marked as verified every such user and left all others as they were,
  and a later call with the same token fails.
\<close>

theorem VerifyEmail_once:
  assumes run: "VerifyEmail s tok w = (Ok u, w')" and db: "w_db v = w_db w'"
    and later: "w_clock w (w_clock_reads w) \<le> w_clock v (w_clock_reads v)"
  shows "(\<exists>u0 \<in> set (t_users (w_db w)). u = mark_verified u0 \<and> u_VerificationToken u0 = Some (TrimSpace tok)
      \<and> (\<exists>e. u_VerificationTokenExpiresAt u0 = Some e \<and> w_clock w (w_clock_reads w) < e))
    \<and> w_db w' = (w_db w)\<lparr>t_users := map (\<lambda>x. if token_live (TrimSpace tok) (w_clock w (w_clock_reads w)) x
          then mark_verified x else x) (t_users (w_db w))\<rparr>
    \<and> \<not> is_ok (fst (VerifyEmail s tok v))"
proof -
  have vs: "verify_stmt (TrimSpace tok) (w_clock w (w_clock_reads w)) (w_db w) = Inr (u, w_db w')"
    using run by (auto simp: VerifyEmail_def Users_VerifyEmail_def bindE_Inr time_Now_def split: if_splits dest!: stmt_Inr)
  then obtain u0 rest where
      u0: "filter (token_live (TrimSpace tok) (w_clock w (w_clock_reads w))) (t_users (w_db w)) = u0 # rest"
      and u: "u = mark_verified u0"
    by (auto simp: verify_stmt_def split: list.splits)
  then have "u0 \<in> set (filter (token_live (TrimSpace tok) (w_clock w (w_clock_reads w))) (t_users (w_db w)))"
    by simp
  then have "\<exists>u0 \<in> set (t_users (w_db w)). u = mark_verified u0 \<and> u_VerificationToken u0 = Some (TrimSpace tok)
      \<and> (\<exists>e. u_VerificationTokenExpiresAt u0 = Some e \<and> w_clock w (w_clock_reads w) < e)"
    by (auto simp: u token_live_def intro!: bexI [of _ u0] split: option.splits)
  moreover have "verify_stmt (TrimSpace tok) (w_clock v (w_clock_reads v)) (w_db v) = Fail ErrNoRows"
    unfolding db by (rule verify_spent [OF vs later])
  then have "\<not> is_ok (fst (VerifyEmail s tok v))"
    by (auto simp: VerifyEmail_def Users_VerifyEmail_def bindE_def time_Now_def failE_def scanE_def stmt_def Let_def
        split: fault.splits)
  ultimately show ?thesis
    using vs by (auto simp: verify_stmt_def split: list.splits)
qed

section \<open>Witnesses\<close>

definition sample_service :: auth_service where
  "sample_service = NewService True ''key'' True 0"

definition sample_login_db :: db where
  "sample_login_db = sample_db\<lparr>t_users := [(sample_user 1 ''a'')\<lparr>u_PasswordHash := ''bc:pw''\<rparr>,
     (sample_user 2 ''b'')\<lparr>u_EmailVerified := False, u_VerificationToken := Some ''t'',
        u_VerificationTokenExpiresAt := Some (1800000000 * nanos)\<rparr>]\<rparr>"

lemma TrimSpace_letters [simp]: "TrimSpace ''a'' = ''a''" "TrimSpace ''t'' = ''t''"
  by (rule TrimSpace_id; simp add: starts_space_def ends_space_def space_encodings_def suffix_def)+

lemmas login_defs = sample_login_db_def sample_service_def NewService_def clear_world_def sample_db_def
  empty_db_def sample_user_def

theorem LoginUser_token_witness:
  "\<exists>tok u w'. LoginUser id canonical plain_crypto sample_service ''a'' ''pw'' (clear_world sample_login_db) = (Ok (tok, u), w')
     \<and> u_EmailVerified u \<and> fst (ValidateJWT plain_crypto sample_service tok (clear_world sample_login_db))
         = Ok (uuid_String canonical (u_ID u))"
proof -
  have "\<exists>tok u w'. LoginUser id canonical plain_crypto sample_service ''a'' ''pw'' (clear_world sample_login_db)
      = (Ok (tok, u), w')"
    by (simp add: LoginUser_def login_defs run_defs getUserByEmail_def citext_eq_def ToLower_def is_ascii_def
      char_lower_def is_upper_def order_desc_def plain_crypto_def plain_Sign_def less_eq_char_def)
  then obtain tok u w' where run: "LoginUser id canonical plain_crypto sample_service ''a'' ''pw''
      (clear_world sample_login_db) = (Ok (tok, u), w')" by blast
  have "as_jwtSecret sample_service \<noteq> []" by (simp add: sample_service_def NewService_def)
  from LoginUser_token [OF plain_crypto_laws this run, of "clear_world sample_login_db"] run show ?thesis
    by (auto simp: clear_world_def Let_def truncate_second_def hour_def nanos_def)
qed

theorem VerifyEmail_once_witness:
  "\<exists>u w'. VerifyEmail sample_service ''t'' (clear_world sample_login_db) = (Ok u, w') \<and> u_EmailVerified u
     \<and> \<not> is_ok (fst (VerifyEmail sample_service ''t'' w'))"
proof -
  have "\<exists>u w'. VerifyEmail sample_service ''t'' (clear_world sample_login_db) = (Ok u, w')
      \<and> w_clock w' = w_clock (clear_world sample_login_db) \<and> w_clock_reads w' = 1"
    by (simp add: VerifyEmail_def Users_VerifyEmail_def login_defs run_defs verify_stmt_def token_live_def nanos_def)
  then obtain u w' where run: "VerifyEmail sample_service ''t'' (clear_world sample_login_db) = (Ok u, w')"
    and clk: "w_clock w' = w_clock (clear_world sample_login_db)" "w_clock_reads w' = 1" by blast
  have "w_clock (clear_world sample_login_db) (w_clock_reads (clear_world sample_login_db)) \<le> w_clock w' (w_clock_reads w')"
    by (simp add: clk clear_world_def nanos_def)
  from VerifyEmail_once [OF run refl this] run show ?thesis by (auto simp: mark_verified_def)
qed

lemma sample_CreateAgent:
  "\<exists>a x w'. CreateAgent canonical plain_crypto sample_service (uuid_String canonical 2) ''bot'' (clear_world sample_db)
     = (Ok (a, x), w') \<and> w_fault w' = (\<lambda>_. NoFault)"
  by (simp add: CreateAgent_def generateSecret_def rand_Read_def hashSecretArgon2id_def login_defs run_defs
      Agents_Create_def insert_agent_def upt_rec [of _ 32] uuid_Nil_def)

theorem CreateAgent_secret_valid_witness:
  "\<exists>a x w'. CreateAgent canonical plain_crypto sample_service (uuid_String canonical 2) ''bot'' (clear_world sample_db)
       = (Ok (a, x), w')
     \<and> a_OwnerUserID a = 2 \<and> fst (ValidateAPISecret canonical plain_crypto sample_service (uuid_String canonical (a_ID a)) x w') = Ok a"
proof -
  obtain a x w' where run: "CreateAgent canonical plain_crypto sample_service (uuid_String canonical 2) ''bot''
      (clear_world sample_db) = (Ok (a, x), w')" and f: "w_fault w' = (\<lambda>_. NoFault)"
    using sample_CreateAgent by blast
  have "db_inv id (w_db (clear_world sample_db))" by (simp add: clear_world_def sample_db_inv)
  from CreateAgent_secret_valid [OF plain_crypto_laws canonical_laws this run refl] f run show ?thesis by auto
qed

definition sample_agent_db :: db where
  "sample_agent_db = sample_db\<lparr>t_agents := [\<lparr>a_ID = 5, a_DisplayName = ''bot'', a_OwnerUserID = 1,
     a_APISecretHash = [], a_CreatedAt = 0\<rparr>]\<rparr>"

lemma sample_agent_db_inv: "db_inv id sample_agent_db"
  using sample_db_inv by (simp add: sample_agent_db_def db_inv_def table_defs) (simp add: sample_db_def sample_user_def empty_db_def)

theorem RotateSecret_replaces_witness:
  "\<exists>x w'. RotateSecret canonical plain_crypto sample_service (uuid_String canonical 5) (clear_world sample_agent_db) = (Ok x, w')
     \<and> is_ok (fst (ValidateAPISecret canonical plain_crypto sample_service (uuid_String canonical 5) x w'))"
proof -
  have "\<exists>x w'. RotateSecret canonical plain_crypto sample_service (uuid_String canonical 5) (clear_world sample_agent_db)
      = (Ok x, w') \<and> w_fault w' = (\<lambda>_. NoFault) \<and> x \<noteq> []"
    by (simp add: RotateSecret_def getAgentByID_def generateSecret_def rand_Read_def hashSecretArgon2id_def run_defs
      update_secret_hash_def upt_rec [of _ 32] sample_agent_db_def sample_service_def NewService_def clear_world_def)
  then obtain x w' where run: "RotateSecret canonical plain_crypto sample_service (uuid_String canonical 5)
      (clear_world sample_agent_db) = (Ok x, w')" and f: "w_fault w' = (\<lambda>_. NoFault)" "x \<noteq> []" by blast
  have "db_inv id (w_db (clear_world sample_agent_db))" by (simp add: clear_world_def sample_agent_db_inv)
  from RotateSecret_replaces [OF plain_crypto_laws this run refl, of x] f run show ?thesis by auto
qed

end
