(* ===== verification/Protocol.thy ===== *)
theory Protocol
  imports GoStrings GoTime GoValues
begin

text \<open>
  \<open>backend/internal/protocol\<close>: message tags (\<open>tags.go\<close>), protocol versions (\<open>version.go\<close>) and
  the envelope with its validation (\<open>envelope.go\<close>).
\<close>

section \<open>Tags\<close>

definition TagRequest :: string where [simp]: "TagRequest = ''request''"
definition TagResponse :: string where [simp]: "TagResponse = ''response''"
definition TagContextProvide :: string where [simp]: "TagContextProvide = ''context-provide''"
definition TagNoResponse :: string where [simp]: "TagNoResponse = ''no-response''"
definition TagProgress :: string where [simp]: "TagProgress = ''progress''"
definition TagError :: string where [simp]: "TagError = ''error''"
definition TagSystem :: string where [simp]: "TagSystem = ''system''"

definition TagRequestData :: string where [simp]: "TagRequestData = ''request.data''"
definition TagRequestAction :: string where [simp]: "TagRequestAction = ''request.action''"
definition TagResponseSuccess :: string where [simp]: "TagResponseSuccess = ''response.success''"
definition TagResponseError :: string where [simp]: "TagResponseError = ''response.error''"
definition TagResponsePartial :: string where [simp]: "TagResponsePartial = ''response.partial''"
definition TagProgressUpdate :: string where [simp]: "TagProgressUpdate = ''progress.update''"
definition TagProgressStage :: string where [simp]: "TagProgressStage = ''progress.stage''"
definition TagErrorRecoverable :: string where
  [simp]: "TagErrorRecoverable = ''error.recoverable''"
definition TagErrorFatal :: string where [simp]: "TagErrorFatal = ''error.fatal''"
definition TagSystemHeartbeat :: string where [simp]: "TagSystemHeartbeat = ''system.heartbeat''"
definition TagSystemJoin :: string where [simp]: "TagSystemJoin = ''system.join''"
definition TagSystemLeave :: string where [simp]: "TagSystemLeave = ''system.leave''"

definition knownTags :: "string list" where
  "knownTags =
     [TagRequestData, TagRequestAction, TagResponseSuccess, TagResponseError, TagResponsePartial,
      TagContextProvide, TagNoResponse, TagProgressUpdate, TagProgressStage, TagErrorRecoverable,
      TagErrorFatal, TagSystemHeartbeat, TagSystemJoin, TagSystemLeave]"

definition knownFamilies :: "string list" where
  "knownFamilies =
     [TagRequest, TagResponse, TagContextProvide, TagNoResponse, TagProgress, TagError, TagSystem]"

definition ParseTagFamily :: "string \<Rightarrow> string" where
  "ParseTagFamily tag =
     (if tag = [] then []
      else if tag = TagContextProvide \<or> tag = TagNoResponse then tag
      else (case Cut tag CHR ''.'' of (family, _, found) \<Rightarrow>
              if \<not> found then tag else family))"

text \<open>
  The loop ranges over runes; a byte above 0x7F belongs to a rune (or to U+FFFD) outside the
  accepted set, so testing bytes is the same test.
\<close>

definition tag_char :: "char \<Rightarrow> bool" where
  "tag_char r \<longleftrightarrow>
     (CHR ''a'' \<le> r \<and> r \<le> CHR ''z'') \<or> (CHR ''0'' \<le> r \<and> r \<le> CHR ''9'') \<or> r = CHR ''-''"

definition isValidTagToken :: "string \<Rightarrow> bool" where
  "isValidTagToken token = (if token = [] then False else list_all tag_char token)"

definition isValidTagFormat :: "string \<Rightarrow> bool" where
  "isValidTagFormat tag =
     (if TrimSpace tag \<noteq> tag then False else list_all isValidTagToken (Split tag CHR ''.''))"

definition IsValidTag :: "string \<Rightarrow> bool" where
  "IsValidTag tag =
     (if tag = [] then False
      else if tag \<in> set knownTags then True
      else if \<not> isValidTagFormat tag then False
      else if ParseTagFamily tag \<in> set knownFamilies then True
      else True)"

definition RequiresResponse :: "string \<Rightarrow> bool" where
  "RequiresResponse tag \<longleftrightarrow> ParseTagFamily tag = TagRequest"

definition IsTerminal :: "string \<Rightarrow> bool" where
  "IsTerminal tag \<longleftrightarrow>
     tag = TagNoResponse \<or> tag = TagResponseSuccess \<or> tag = TagResponseError"

subsection \<open>The tag grammar\<close>

text \<open>
  The grammar the validator decides: a tag is a token, or a token, a full stop and a tag; a token
  is a non-empty sequence of lower-case letters, digits and hyphens.
\<close>

inductive tag_lang :: "string \<Rightarrow> bool" where
  token: "isValidTagToken t \<Longrightarrow> tag_lang t"
| dotted: "isValidTagToken t \<Longrightarrow> tag_lang u \<Longrightarrow> tag_lang (t @ ''.'' @ u)"

lemma tag_char_not_dot: "\<not> tag_char CHR ''.''"
  by (simp add: tag_char_def less_eq_char_def)

lemma tag_char_not_space: "tag_char c \<Longrightarrow> c \<notin> set space_bytes"
  by (auto simp: tag_char_def less_eq_char_def space_bytes_def space_encodings_def)

lemma token_no_dot: "isValidTagToken t \<Longrightarrow> CHR ''.'' \<notin> set t"
  using tag_char_not_dot by (auto simp: isValidTagToken_def list_all_iff split: if_splits)

lemma tokens_tag_lang: "list_all isValidTagToken ps \<Longrightarrow> ps \<noteq> [] \<Longrightarrow> tag_lang (Join ps ''.'')"
proof (induction ps)
  case (Cons p ps)
  then show ?case
    by (cases "ps = []") (auto simp: Join_Cons intro: tag_lang.intros tag_lang.dotted [simplified])
qed simp

lemma tag_lang_tokens: "tag_lang t \<Longrightarrow> list_all isValidTagToken (Split t CHR ''.'')"
  by (induction rule: tag_lang.induct) (auto simp: Split_no_sep Split_append_sep token_no_dot)

lemma tag_lang_iff: "tag_lang t \<longleftrightarrow> list_all isValidTagToken (Split t CHR ''.'')"
  using tag_lang_tokens tokens_tag_lang [of "Split t CHR ''.''"] by (auto simp: Join_Split)

lemma tag_lang_nonempty: "tag_lang t \<Longrightarrow> t \<noteq> []"
  by (induction rule: tag_lang.induct) (auto simp: isValidTagToken_def split: if_splits)

lemma tag_lang_ends:
  "tag_lang t \<Longrightarrow> t \<noteq> [] \<and> tag_char (hd t) \<and> tag_char (last t)"
proof (induction rule: tag_lang.induct)
  case (token t)
  then show ?case
    by (auto simp: isValidTagToken_def list_all_iff split: if_splits)
next
  case (dotted t u)
  then show ?case
    by (auto simp: isValidTagToken_def list_all_iff hd_append split: if_splits)
qed

lemma tag_lang_trimmed: "tag_lang t \<Longrightarrow> TrimSpace t = t"
  using tag_lang_ends tag_char_not_space by (blast intro: TrimSpace_plain)

lemma isValidTagFormat_iff: "isValidTagFormat t \<longleftrightarrow> tag_lang t"
  using tag_lang_trimmed by (auto simp: isValidTagFormat_def tag_lang_iff)

lemma knownTags_tag_lang: "t \<in> set knownTags \<Longrightarrow> tag_lang t"
  by (auto simp: knownTags_def tag_lang_iff isValidTagToken_def tag_char_def less_eq_char_def)

lemma IsValidTag_tag_lang: "IsValidTag t \<longleftrightarrow> tag_lang t"
  using knownTags_tag_lang tag_lang_nonempty by (auto simp: IsValidTag_def isValidTagFormat_iff)


lemma ParseTagFamily_dotted:
  assumes "CHR ''.'' \<notin> set f"
  shows "ParseTagFamily (f @ CHR ''.'' # r) = f"
proof -
  have "f @ CHR ''.'' # r \<noteq> TagContextProvide" "f @ CHR ''.'' # r \<noteq> TagNoResponse"
    by (auto simp: append_eq_Cons_conv Cons_eq_append_conv)
  then show ?thesis using assms by (simp add: ParseTagFamily_def Cut_found)
qed

lemma ParseTagFamily_plain: "CHR ''.'' \<notin> set t \<Longrightarrow> ParseTagFamily t = t"
  by (simp add: ParseTagFamily_def Cut_not_found)

lemma ParseTagFamily_cases:
  obtains (plain) "CHR ''.'' \<notin> set t" "ParseTagFamily t = t"
  | (dotted) f r where "t = f @ CHR ''.'' # r" "CHR ''.'' \<notin> set f" "ParseTagFamily t = f"
proof (cases "CHR ''.'' \<in> set t")
  case True
  then obtain f r where "t = f @ CHR ''.'' # r" "CHR ''.'' \<notin> set f"
    by (meson split_list_first)
  with ParseTagFamily_dotted that(2) show ?thesis by blast
next
  case False
  with ParseTagFamily_plain that(1) show ?thesis by blast
qed

text \<open>
  The family of a valid tag is its first token: it is itself a valid token, and the tag is the
  family alone or the family, a full stop and another valid tag.
\<close>

theorem ParseTagFamily_first_token:
  assumes "IsValidTag t"
  shows "isValidTagToken (ParseTagFamily t)
     \<and> (t = ParseTagFamily t \<or> (\<exists>u. IsValidTag u \<and> t = ParseTagFamily t @ ''.'' @ u))"
proof -
  have toks: "list_all isValidTagToken (Split t CHR ''.'')"
    using assms by (simp add: IsValidTag_tag_lang tag_lang_iff)
  show ?thesis
  proof (cases t rule: ParseTagFamily_cases)
    case plain
    with toks show ?thesis by (simp add: Split_no_sep)
  next
    case (dotted f r)
    with toks show ?thesis
      by (auto simp: Split_append_sep IsValidTag_tag_lang tag_lang_iff)
  qed
qed

theorem ParseTagFamily_first_token_witness:
  "IsValidTag ''request.data'' \<and> isValidTagToken (ParseTagFamily ''request.data'')"
proof -
  have v: "IsValidTag ''request.data''"
    by (simp add: IsValidTag_def knownTags_def)
  from ParseTagFamily_first_token [OF v] v show ?thesis by blast
qed

text \<open>
  A tag requires a response exactly when it is \<open>request\<close> or starts with \<open>request.\<close>, and no
  terminal tag does; every terminal tag is valid.
\<close>

theorem RequiresResponse_iff_request:
  "(RequiresResponse t \<longleftrightarrow> t = ''request'' \<or> prefix ''request.'' t)
   \<and> (IsTerminal t \<longrightarrow> \<not> RequiresResponse t \<and> IsValidTag t)"
proof
  show "RequiresResponse t \<longleftrightarrow> t = ''request'' \<or> prefix ''request.'' t"
  proof (cases t rule: ParseTagFamily_cases)
    case plain
    then have "\<not> prefix ''request.'' t" by (auto simp: prefix_def)
    with plain show ?thesis by (simp add: RequiresResponse_def)
  next
    case (dotted f r)
    have "f = ''request'' \<longleftrightarrow> prefix ''request.'' t"
    proof
      assume "f = ''request''"
      with dotted show "prefix ''request.'' t" by simp
    next
      assume "prefix ''request.'' t"
      then obtain z where "t = ''request'' @ CHR ''.'' # z" by (auto simp: prefix_def)
      then have "Cut t CHR ''.'' = (''request'', z, True)"
        using Cut_found [of "CHR ''.''" "''request''" z] by simp
      moreover have "Cut t CHR ''.'' = (f, r, True)"
        using dotted Cut_found by simp
      ultimately show "f = ''request''" by simp
    qed
    moreover have "t \<noteq> ''request''" using dotted by (auto simp: append_eq_Cons_conv)
    ultimately show ?thesis using dotted(3) by (simp add: RequiresResponse_def)
  qed
  show "IsTerminal t \<longrightarrow> \<not> RequiresResponse t \<and> IsValidTag t"
    by (auto simp: IsTerminal_def RequiresResponse_def ParseTagFamily_def IsValidTag_def
        knownTags_def)
qed

theorem RequiresResponse_iff_request_witness:
  "IsTerminal ''no-response'' \<and> \<not> RequiresResponse ''no-response''"
proof -
  have "IsTerminal ''no-response''" by (simp add: IsTerminal_def)
  with RequiresResponse_iff_request [of "''no-response''"] show ?thesis by blast
qed

section \<open>Versions\<close>

definition ProtocolVersion :: string where
  "ProtocolVersion = ''1.0.0''"

definition parseVersion :: "string \<Rightarrow> (int \<times> int \<times> int) res" where
  "parseVersion v =
     (case Split v CHR ''.'' of
        [p0, p1, p2] \<Rightarrow>
          (case Atoi p0 of Inl e \<Rightarrow> Fail e | Inr major \<Rightarrow>
           (case Atoi p1 of Inl e \<Rightarrow> Fail e | Inr minor \<Rightarrow>
            (case Atoi p2 of Inl e \<Rightarrow> Fail e | Inr patch \<Rightarrow>
              if major < 0 \<or> minor < 0 \<or> patch < 0
              then Fail (Err ''version numbers must be non-negative'')
              else Ok (major, minor, patch))))
      | _ \<Rightarrow> Fail (Err ''must be semver core format major.minor.patch''))"

definition CompareVersions :: "string \<Rightarrow> string \<Rightarrow> int res" where
  "CompareVersions a b =
     (case parseVersion a of Inl e \<Rightarrow> Fail (Wrap (''invalid version '' @ a) e)
      | Inr (ma, mia, pa) \<Rightarrow>
        (case parseVersion b of Inl e \<Rightarrow> Fail (Wrap (''invalid version '' @ b) e)
         | Inr (mb, mib, pb) \<Rightarrow>
           if ma \<noteq> mb then (if ma < mb then Ok (- 1) else Ok 1)
           else if mia \<noteq> mib then (if mia < mib then Ok (- 1) else Ok 1)
           else if pa \<noteq> pb then (if pa < pb then Ok (- 1) else Ok 1)
           else Ok 0))"

definition IsCompatibleVersion :: "string \<Rightarrow> bool" where
  "IsCompatibleVersion version =
     (case CompareVersions version ProtocolVersion of Inl _ \<Rightarrow> False | Inr cmp \<Rightarrow>
       (case parseVersion version of Inl _ \<Rightarrow> False | Inr (requestedMajor, _, _) \<Rightarrow>
         (case parseVersion ProtocolVersion of Inl _ \<Rightarrow> False | Inr (currentMajor, _, _) \<Rightarrow>
           if requestedMajor \<noteq> currentMajor then False else cmp \<le> 0)))"

text \<open>The specification: comparison of version triples in lexicographic order.\<close>

definition version_less :: "int \<times> int \<times> int \<Rightarrow> int \<times> int \<times> int \<Rightarrow> bool" where
  "version_less v w \<longleftrightarrow>
     (case (v, w) of ((a, b, c), (x, y, z)) \<Rightarrow>
        a < x \<or> (a = x \<and> (b < y \<or> (b = y \<and> c < z))))"

definition print_version :: "int \<times> int \<times> int \<Rightarrow> string" where
  "print_version v = (case v of (a, b, c) \<Rightarrow> Join [Itoa a, Itoa b, Itoa c] ''.'')"

lemma version_less_order:
  "\<not> version_less v v"
  "version_less u v \<Longrightarrow> version_less v w \<Longrightarrow> version_less u w"
  "version_less v w \<or> v = w \<or> version_less w v"
  by (auto simp: version_less_def split: prod.splits)

text \<open>
  C40. On parseable versions \<open>CompareVersions\<close> computes the sign of the lexicographic order on
  (major, minor, patch), and it fails exactly when one of the two does not parse.
\<close>

theorem CompareVersions_refines_order:
  "case parseVersion a of
     Inl _ \<Rightarrow> \<not> is_ok (CompareVersions a b)
   | Inr v \<Rightarrow>
     (case parseVersion b of
        Inl _ \<Rightarrow> \<not> is_ok (CompareVersions a b)
      | Inr w \<Rightarrow> CompareVersions a b =
          Ok (if version_less v w then - 1 else if version_less w v then 1 else 0))"
proof (cases "parseVersion a")
  case (Inr v)
  then show ?thesis
    by (cases v; cases "parseVersion b")
      (auto simp: CompareVersions_def version_less_def split: if_splits)
qed (simp add: CompareVersions_def)

lemma digit_ne_dot: "is_digit c \<Longrightarrow> c \<noteq> CHR ''.''"
  by (auto simp: is_digit_def less_eq_char_def)

lemma dec_digits_no_dot: "CHR ''.'' \<notin> set (dec_digits n)"
  using dec_digits_all_digits [of n] digit_ne_dot
  by (fastforce simp: all_digits_def list_all_iff)

lemma Itoa_no_dot: "CHR ''.'' \<notin> set (Itoa i)"
  by (simp add: Itoa_def dec_digits_no_dot)

text \<open>
  Printing a triple of non-negative 64-bit integers as \<open>major.minor.patch\<close> and parsing it
  gives the triple back.
\<close>

theorem parseVersion_print_version:
  assumes "0 \<le> a" "a \<le> int64_max" "0 \<le> b" "b \<le> int64_max" "0 \<le> c" "c \<le> int64_max"
  shows "parseVersion (print_version (a, b, c)) = Ok (a, b, c)"
proof -
  have "Split (print_version (a, b, c)) CHR ''.'' = [Itoa a, Itoa b, Itoa c]"
    unfolding print_version_def prod.case by (rule Split_Join) (simp_all add: Itoa_no_dot)
  moreover have "int64_min \<le> a" "int64_min \<le> b" "int64_min \<le> c"
    using assms by (simp_all add: int64_min_def)
  ultimately show ?thesis using assms by (simp add: parseVersion_def Atoi_Itoa)
qed

theorem parseVersion_print_version_witness:
  "parseVersion (print_version (1, 20, 3)) = Ok (1, 20, 3)"
  by (rule parseVersion_print_version) (simp_all add: int64_max_def)

lemma parse_ProtocolVersion: "parseVersion ProtocolVersion = Ok (1, 0, 0)"
  by (simp add: parseVersion_def ProtocolVersion_def Atoi_def ParseIntBase10_def all_digits_def
      is_digit_def less_eq_char_def dec_value_def digit_val_def int64_min_def int64_max_def)

lemma parseVersion_nonneg: "parseVersion v = Ok (a, b, c) \<Longrightarrow> 0 \<le> a \<and> 0 \<le> b \<and> 0 \<le> c"
  by (auto simp: parseVersion_def split: list.splits sum.splits if_splits)

text \<open>
  With the current protocol version the compatibility test accepts a version exactly when it
  denotes 1.0.0: older majors, newer minors and newer patches are all refused.
\<close>

theorem IsCompatibleVersion_iff: "IsCompatibleVersion v \<longleftrightarrow> parseVersion v = Ok (1, 0, 0)"
proof (cases "parseVersion v")
  case (Inl e)
  then show ?thesis by (simp add: IsCompatibleVersion_def CompareVersions_def)
next
  case (Inr t)
  obtain a b c where t: "t = (a, b, c)" by (cases t)
  with Inr have "0 \<le> a" "0 \<le> b" "0 \<le> c" using parseVersion_nonneg by auto
  with Inr t show ?thesis
    by (auto simp: IsCompatibleVersion_def CompareVersions_def parse_ProtocolVersion)
qed

section \<open>Envelopes\<close>

definition MetaSysTag :: string where [simp]: "MetaSysTag = ''_tag''"
definition MetaSysAction :: string where [simp]: "MetaSysAction = ''_action''"
definition MetaSysArgs :: string where [simp]: "MetaSysArgs = ''_args''"
definition MetaSysResult :: string where [simp]: "MetaSysResult = ''_result''"
definition MetaSysRequestID :: string where [simp]: "MetaSysRequestID = ''_request_id''"
definition MetaSysCode :: string where [simp]: "MetaSysCode = ''_code''"
definition MetaSysMessage :: string where [simp]: "MetaSysMessage = ''_message''"
definition MetaSysStreamID :: string where [simp]: "MetaSysStreamID = ''_stream_id''"
definition MetaSysUpdate :: string where [simp]: "MetaSysUpdate = ''_update''"
definition MetaSysPercentage :: string where [simp]: "MetaSysPercentage = ''_percentage''"
definition MetaSysReplayed :: string where [simp]: "MetaSysReplayed = ''_replayed''"
definition MetaSysOriginalMessageID :: string where
  [simp]: "MetaSysOriginalMessageID = ''_original_message_id''"
definition MetaSysReplayReason :: string where [simp]: "MetaSysReplayReason = ''_replay_reason''"
definition MetaSysTaskID :: string where [simp]: "MetaSysTaskID = ''_task_id''"
definition MetaSysStatus :: string where [simp]: "MetaSysStatus = ''_status''"

record envelope =
  env_ID :: string
  env_From :: string
  env_To :: string
  env_Tag :: string
  env_Content :: string
  env_Metadata :: anymap
  env_Timestamp :: string

text \<open>\<open>None\<close> is the nil pointer.\<close>

definition EffectiveTag :: "envelope option \<Rightarrow> string" where
  "EffectiveTag p =
     (case p of None \<Rightarrow> [] | Some env \<Rightarrow>
       (let t = TrimSpace (env_Tag env) in
        if t \<noteq> [] then t
        else (case env_Metadata env of None \<Rightarrow> [] | Some md \<Rightarrow>
          (case map_get md MetaSysTag of None \<Rightarrow> [] | Some raw \<Rightarrow>
            (case as_string raw of None \<Rightarrow> [] | Some s \<Rightarrow> TrimSpace s)))))"

definition Validate :: "envelope option \<Rightarrow> unit res" where
  "Validate p =
     (case p of None \<Rightarrow> Fail (Err ''envelope is nil'') | Some e \<Rightarrow>
        if TrimSpace (env_ID e) = [] then Fail (Err ''id is required'')
        else if TrimSpace (env_From e) = [] then Fail (Err ''from is required'')
        else if TrimSpace (env_To e) = [] then Fail (Err ''to is required'')
        else if TrimSpace (env_Timestamp e) = [] then Fail (Err ''timestamp is required'')
        else let tag = EffectiveTag p in
          if tag = []
          then Fail (Err ''tag is required (set Tag field or Metadata[_tag])'')
          else if \<not> IsValidTag tag then Fail (Err (''invalid tag: '' @ tag))
          else (case parse_rfc3339 (env_Timestamp e) of
              None \<Rightarrow> Fail (Wrap ''timestamp must be valid ISO8601/RFC3339''
                              (TimeParseError (env_Timestamp e)))
            | Some _ \<Rightarrow> Ok ()))"

lemma EffectiveTag_trimmed: "TrimSpace (EffectiveTag p) = EffectiveTag p"
  by (auto simp: EffectiveTag_def Let_def split: option.splits)

lemma EffectiveTag_user:
  "TrimSpace (env_Tag e) \<noteq> [] \<Longrightarrow> EffectiveTag (Some e) = TrimSpace (env_Tag e)"
  by (simp add: EffectiveTag_def Let_def)

lemma EffectiveTag_system:
  "TrimSpace (env_Tag e) = [] \<Longrightarrow> index_map (env_Metadata e) MetaSysTag = Some (AStr s) \<Longrightarrow>
     EffectiveTag (Some e) = TrimSpace s"
  by (auto simp: EffectiveTag_def Let_def index_map_def split: option.splits)

lemma parse_rfc3339_Nil: "parse_rfc3339 [] = None"
  by (simp add: parse_rfc3339_def getyear_def)

lemma getyear_Some_nonempty: "getyear s = Some x \<Longrightarrow> s \<noteq> [] \<and> is_digit (hd s)"
  by (cases s) (auto simp: getyear_def split: if_splits)

lemma starts_digit_TrimSpace: "s \<noteq> [] \<Longrightarrow> is_digit (hd s) \<Longrightarrow> TrimSpace s \<noteq> []"
proof -
  assume s: "s \<noteq> []" "is_digit (hd s)"
  then have "\<not> starts_space s"
    using hd_in_space_bytes digit_not_space by blast
  then have "TrimSpace s = trim_right s" by (simp add: TrimSpace_def trim_left_id)
  moreover have "trim_right s \<noteq> []"
    using s by (rule trim_right_keeps_digit)
  ultimately show ?thesis by simp
qed

lemma parse_rfc3339_nonblank: "parse_rfc3339 s = Some t \<Longrightarrow> TrimSpace s \<noteq> []"
  using getyear_Some_nonempty starts_digit_TrimSpace
  by (auto simp: parse_rfc3339_def bind_eq_Some_conv)

lemma Validate_Ok_iff:
  "Validate (Some e) = Ok () \<longleftrightarrow>
     TrimSpace (env_ID e) \<noteq> [] \<and> TrimSpace (env_From e) \<noteq> [] \<and> TrimSpace (env_To e) \<noteq> []
     \<and> tag_lang (EffectiveTag (Some e)) \<and> parse_rfc3339 (env_Timestamp e) \<noteq> None"
  using parse_rfc3339_nonblank tag_lang_nonempty
  by (auto simp: Validate_def Let_def IsValidTag_tag_lang split: option.splits)


text \<open>
  The effective tag is always trimmed; a non-blank user tag wins over the system tag, and a
  blank one falls back to the string stored under \<open>_tag\<close>, the empty tag when there is none.
\<close>

theorem EffectiveTag_precedence:
  "TrimSpace (EffectiveTag (Some e)) = EffectiveTag (Some e)
   \<and> EffectiveTag (Some e) =
      (if TrimSpace (env_Tag e) \<noteq> [] then TrimSpace (env_Tag e)
       else case index_map (env_Metadata e) ''_tag'' of Some (AStr s) \<Rightarrow> TrimSpace s | _ \<Rightarrow> [])"
  by (auto simp: EffectiveTag_trimmed EffectiveTag_def Let_def index_map_def
      split: option.splits any.splits)

end
