(* ===== verification/JsonText.thy ===== *)
theory JsonText
  imports Json GoStrings "HOL-Library.Monad_Syntax"
begin

text \<open>
  The text level of \<open>encoding/json\<close>: the grammar its scanner accepts (nesting up to 10000), the
  decoding of strings, and \<open>Unmarshal\<close> into \<open>any\<close> and into structs. A number is kept as its
  literal until the target says what it becomes. Only whether decoding fails is modelled, not the
  text of its error.
\<close>

section \<open>Parsing\<close>

datatype jvalue =
    JNull
  | JBool bool
  | JNum string
  | JStr string
  | JArr "jvalue list"
  | JObj "(string \<times> jvalue) list"

definition json_space :: "char \<Rightarrow> bool" where
  "json_space c \<longleftrightarrow> c \<in> {CHR '' '', CHR 0x09, CHR 0x0A, CHR 0x0D}"

definition skip_ws :: "string \<Rightarrow> string" where
  "skip_ws s = dropWhile json_space s"

subsection \<open>Strings\<close>

definition hex_val :: "char \<Rightarrow> nat option" where
  "hex_val c =
     (if is_digit c then Some (digit_val c)
      else if CHR ''a'' \<le> c \<and> c \<le> CHR ''f'' then Some (of_char c - 87)
      else if CHR ''A'' \<le> c \<and> c \<le> CHR ''F'' then Some (of_char c - 55)
      else None)"

definition hex4 :: "char \<Rightarrow> char \<Rightarrow> char \<Rightarrow> char \<Rightarrow> nat option" where
  "hex4 a b c d =
     do { x \<leftarrow> hex_val a; y \<leftarrow> hex_val b; z \<leftarrow> hex_val c; v \<leftarrow> hex_val d;
          Some (((x * 16 + y) * 16 + z) * 16 + v) }"

definition utf8_encode :: "nat \<Rightarrow> string" where
  "utf8_encode r =
     (if r < 0x80 then [char_of r]
      else if r < 0x800 then [char_of (0xC0 + r div 64), char_of (0x80 + r mod 64)]
      else if r < 0x10000
      then [char_of (0xE0 + r div 4096), char_of (0x80 + r div 64 mod 64), char_of (0x80 + r mod 64)]
      else [char_of (0xF0 + r div 262144), char_of (0x80 + r div 4096 mod 64),
            char_of (0x80 + r div 64 mod 64), char_of (0x80 + r mod 64)])"

definition surrogate :: "nat \<Rightarrow> bool" where
  "surrogate r \<longleftrightarrow> 0xD800 \<le> r \<and> r < 0xE000"

text \<open>A code unit after \<open>\\u\<close>: a surrogate pair is one rune, a lone surrogate is U+FFFD.\<close>

definition simple_escape :: "char \<Rightarrow> char option" where
  "simple_escape c = map_of
     [(CHR 0x22, CHR 0x22), (CHR 0x5C, CHR 0x5C), (CHR ''/'', CHR ''/''), (CHR ''b'', CHR 0x08),
      (CHR ''f'', CHR 0x0C), (CHR ''n'', CHR 0x0A), (CHR ''r'', CHR 0x0D), (CHR ''t'', CHR 0x09)] c"

text \<open>
  The body of a string literal after its opening quote: the decoded bytes and the rest after the
  closing quote. The argument \<open>hi\<close> is a pending high surrogate.
\<close>

definition flush_hi :: "nat option \<Rightarrow> string" where
  "flush_hi hi = (case hi of None \<Rightarrow> [] | Some _ \<Rightarrow> rune_error)"

definition prepend :: "string \<Rightarrow> (string \<times> string) option \<Rightarrow> (string \<times> string) option" where
  "prepend p r = map_option (\<lambda>(s, rest). (p @ s, rest)) r"

fun parse_chars :: "nat option \<Rightarrow> string \<Rightarrow> (string \<times> string) option" where
  "parse_chars hi [] = None"
| "parse_chars hi (c # s) =
     (if c = CHR 0x22 then Some (flush_hi hi, s)
      else if c = CHR 0x5C then
        (case s of
           [] \<Rightarrow> None
         | e # s1 \<Rightarrow>
             if e = CHR ''u'' then
               (case s1 of
                  a # b # x # y # s2 \<Rightarrow>
                    (case hex4 a b x y of
                       None \<Rightarrow> None
                     | Some u \<Rightarrow>
                         if \<not> surrogate u then prepend (flush_hi hi @ utf8_encode u) (parse_chars None s2)
                         else if u < 0xDC00 then prepend (flush_hi hi) (parse_chars (Some u) s2)
                         else (case hi of
                                 None \<Rightarrow> prepend rune_error (parse_chars None s2)
                               | Some h \<Rightarrow> prepend (utf8_encode (0x10000 + (h - 0xD800) * 1024 + (u - 0xDC00)))
                                             (parse_chars None s2)))
                | _ \<Rightarrow> None)
             else (case simple_escape e of
                     None \<Rightarrow> None
                   | Some k \<Rightarrow> prepend (flush_hi hi @ [k]) (parse_chars None s1)))
      else if c < CHR '' '' then None
      else prepend (flush_hi hi @ [c]) (parse_chars None s))"

text \<open>Bytes that are not UTF-8 become U+FFFD.\<close>

definition parse_string :: "string \<Rightarrow> (string \<times> string) option" where
  "parse_string s = map_option (\<lambda>(d, rest). (sanitize d, rest)) (parse_chars None s)"

subsection \<open>Numbers\<close>

definition digits_of :: "string \<Rightarrow> string" where
  "digits_of s = takeWhile is_digit s"

definition scan_int :: "string \<Rightarrow> string option" where
  "scan_int s =
     (case s of
        [] \<Rightarrow> None
      | c # r \<Rightarrow> if c = CHR ''0'' then Some [c] else if is_digit c then Some (digits_of s) else None)"

definition scan_frac :: "string \<Rightarrow> string option" where
  "scan_frac s =
     (case s of
        c # r \<Rightarrow> if c = CHR ''.'' then (if digits_of r = [] then None else Some (c # digits_of r)) else Some []
      | [] \<Rightarrow> Some [])"

definition scan_exp :: "string \<Rightarrow> string option" where
  "scan_exp s =
     (case s of
        c # r \<Rightarrow>
          if c = CHR ''e'' \<or> c = CHR ''E'' then
            (let sg = (case r of d # _ \<Rightarrow> if d = CHR ''+'' \<or> d = CHR ''-'' then [d] else [] | [] \<Rightarrow> []);
                 ds = digits_of (drop (length sg) r) in
             if ds = [] then None else Some (c # sg @ ds))
          else Some []
      | [] \<Rightarrow> Some [])"

definition parse_number :: "string \<Rightarrow> (string \<times> string) option" where
  "parse_number s =
     (let sg = (case s of c # _ \<Rightarrow> if c = CHR ''-'' then [c] else [] | [] \<Rightarrow> []);
          s1 = drop (length sg) s in
      do { i \<leftarrow> scan_int s1;
           f \<leftarrow> scan_frac (drop (length i) s1);
           e \<leftarrow> scan_exp (drop (length i + length f) s1);
           let lit = sg @ i @ f @ e;
           Some (lit, drop (length lit) s) })"

subsection \<open>Values\<close>

definition max_depth :: nat where "max_depth = 10000"

definition literal :: "string \<Rightarrow> jvalue \<Rightarrow> string \<Rightarrow> (jvalue \<times> string) option" where
  "literal w v s = (if prefix w s then Some (v, drop (length w) s) else None)"

text \<open>
  Every call takes one unit of fuel and passes on a proper suffix of its input at the latest after
  two calls, so that twice the length of the text is enough.
\<close>

fun parse_value :: "nat \<Rightarrow> nat \<Rightarrow> string \<Rightarrow> (jvalue \<times> string) option"
  and parse_elems :: "nat \<Rightarrow> nat \<Rightarrow> string \<Rightarrow> (jvalue list \<times> string) option"
  and parse_members :: "nat \<Rightarrow> nat \<Rightarrow> string \<Rightarrow> ((string \<times> jvalue) list \<times> string) option" where
  "parse_value 0 d s = None"
| "parse_value (Suc n) d s =
     (case skip_ws s of
        [] \<Rightarrow> None
      | c # r \<Rightarrow>
          if c = CHR 0x22 then map_option (\<lambda>(x, t). (JStr x, t)) (parse_string r)
          else if c = CHR ''['' then
            (if max_depth < Suc d then None
             else (case skip_ws r of
                     [] \<Rightarrow> None
                   | e # t \<Rightarrow> if e = CHR '']'' then Some (JArr [], t)
                             else map_option (\<lambda>(vs, u). (JArr vs, u)) (parse_elems n (Suc d) r)))
          else if c = CHR ''{'' then
            (if max_depth < Suc d then None
             else (case skip_ws r of
                     [] \<Rightarrow> None
                   | e # t \<Rightarrow> if e = CHR ''}'' then Some (JObj [], t)
                             else map_option (\<lambda>(ms, u). (JObj ms, u)) (parse_members n (Suc d) r)))
          else if c = CHR ''t'' then literal ''true'' (JBool True) (c # r)
          else if c = CHR ''f'' then literal ''false'' (JBool False) (c # r)
          else if c = CHR ''n'' then literal ''null'' JNull (c # r)
          else map_option (\<lambda>(x, t). (JNum x, t)) (parse_number (c # r)))"
| "parse_elems 0 d s = None"
| "parse_elems (Suc n) d s =
     (case parse_value n d s of
        None \<Rightarrow> None
      | Some (v, r) \<Rightarrow>
          (case skip_ws r of
             [] \<Rightarrow> None
           | c # t \<Rightarrow>
               if c = CHR '']'' then Some ([v], t)
               else if c = CHR '','' then map_option (\<lambda>(vs, u). (v # vs, u)) (parse_elems n d t)
               else None))"
| "parse_members 0 d s = None"
| "parse_members (Suc n) d s =
     (case skip_ws s of
        [] \<Rightarrow> None
      | q # r \<Rightarrow>
          if q \<noteq> CHR 0x22 then None
          else (case parse_string r of
                  None \<Rightarrow> None
                | Some (k, r1) \<Rightarrow>
                    (case skip_ws r1 of
                       [] \<Rightarrow> None
                     | c # r2 \<Rightarrow>
                         if c \<noteq> CHR '':'' then None
                         else (case parse_value n d r2 of
                                 None \<Rightarrow> None
                               | Some (v, r3) \<Rightarrow>
                                   (case skip_ws r3 of
                                      [] \<Rightarrow> None
                                    | e # t \<Rightarrow>
                                        if e = CHR ''}'' then Some ([(k, v)], t)
                                        else if e = CHR '','' then
                                          map_option (\<lambda>(ms, u). ((k, v) # ms, u)) (parse_members n d t)
                                        else None)))))"

definition json_first :: "string \<Rightarrow> (jvalue \<times> string) option" where
  "json_first s = parse_value (Suc (2 * length s)) 0 s"

text \<open>\<open>Decoder.Decode\<close> reads the first value and leaves the rest; \<open>Unmarshal\<close> wants nothing after it.\<close>

definition decode_first :: "string \<Rightarrow> jvalue option" where
  "decode_first s = map_option fst (json_first s)"

definition decode_all :: "string \<Rightarrow> jvalue option" where
  "decode_all s =
     (case json_first s of None \<Rightarrow> None | Some (v, r) \<Rightarrow> if skip_ws r = [] then Some v else None)"

section \<open>Decoding into \<open>any\<close>\<close>

definition num_mantissa :: "string \<Rightarrow> rat" where
  "num_mantissa lit =
     (let body = (if prefix ''-'' lit then drop 1 lit else lit);
          i = digits_of body;
          f = (case drop (length i) body of c # r \<Rightarrow> if c = CHR ''.'' then digits_of r else [] | [] \<Rightarrow> [])
      in (if prefix ''-'' lit then - 1 else 1) * of_nat (dec_value (i @ f)) / 10 ^ length f)"

definition num_exponent :: "string \<Rightarrow> int" where
  "num_exponent lit =
     (case dropWhile (\<lambda>c. c \<noteq> CHR ''e'' \<and> c \<noteq> CHR ''E'') lit of
        [] \<Rightarrow> 0
      | _ # r \<Rightarrow> (case sign_split r of (neg, ds) \<Rightarrow> if neg then - int (dec_value ds) else int (dec_value ds)))"

definition num_value :: "string \<Rightarrow> rat" where
  "num_value lit = num_mantissa lit * 10 powi num_exponent lit"

text \<open>\<open>strconv.ParseFloat\<close> reports a range error beyond the largest finite value.\<close>

definition to_float64 :: "string \<Rightarrow> rat option" where
  "to_float64 lit = (let x = f64_round (num_value lit) in if 2 ^ 1024 \<le> \<bar>x\<bar> then None else Some x)"

fun to_any :: "jvalue \<Rightarrow> any option" where
  "to_any JNull = Some ANil"
| "to_any (JBool b) = Some (ABool b)"
| "to_any (JNum l) = map_option AFloat (to_float64 l)"
| "to_any (JStr s) = Some (AStr s)"
| "to_any (JArr vs) = map_option AList (those (map to_any vs))"
| "to_any (JObj ms) =
     map_option (\<lambda>kvs. AMap (map_from_list kvs))
       (those (map (\<lambda>(k, v). map_option (Pair k) (to_any v)) ms))"

section \<open>Decoding into structs\<close>

text \<open>
  Field names match exactly or after folding letter case, where the Kelvin sign and the long s fold
  to \<open>k\<close> and \<open>s\<close>.
\<close>

fun fold_name :: "string \<Rightarrow> string" where
  "fold_name [] = []"
| "fold_name (c # s) =
     (case s of
        d # t \<Rightarrow>
          if c = CHR 0xC5 \<and> d = CHR 0xBF then CHR ''s'' # fold_name t
          else (case t of
                  e # u \<Rightarrow> if c = CHR 0xE2 \<and> d = CHR 0x84 \<and> e = CHR 0xAA then CHR ''k'' # fold_name u
                          else char_lower c # fold_name s
                | [] \<Rightarrow> char_lower c # fold_name s)
      | [] \<Rightarrow> [char_lower c])"

definition find_field :: "string list \<Rightarrow> string \<Rightarrow> string option" where
  "find_field names k =
     (if k \<in> set names then Some k else find (\<lambda>n. fold_name n = fold_name k) names)"

text \<open>
  The members of an object addressed to known fields, in order; \<open>null\<close> leaves the struct alone. With
  \<open>strict\<close> an unknown key is an error (\<open>DisallowUnknownFields\<close>).
\<close>

definition struct_members :: "bool \<Rightarrow> string list \<Rightarrow> jvalue \<Rightarrow> (string \<times> jvalue) list option" where
  "struct_members strict names v =
     (case v of
        JNull \<Rightarrow> Some []
      | JObj ms \<Rightarrow>
          if strict \<and> list_ex (\<lambda>(k, x). find_field names k = None) ms then None
          else Some (List.map_filter (\<lambda>(k, x). map_option (\<lambda>n. (n, x)) (find_field names k)) ms)
      | _ \<Rightarrow> None)"

definition values_of :: "string \<Rightarrow> (string \<times> jvalue) list \<Rightarrow> jvalue list" where
  "values_of n ms = map snd (filter (\<lambda>(k, x). k = n) ms)"

text \<open>A later member overwrites an earlier one; \<open>null\<close> changes nothing; a map is merged into.\<close>

fun set_string :: "string \<Rightarrow> jvalue list \<Rightarrow> string option" where
  "set_string acc [] = Some acc"
| "set_string acc (v # vs) =
     (case v of JNull \<Rightarrow> set_string acc vs | JStr s \<Rightarrow> set_string s vs | _ \<Rightarrow> None)"

fun set_int :: "int \<Rightarrow> jvalue list \<Rightarrow> int option" where
  "set_int acc [] = Some acc"
| "set_int acc (v # vs) =
     (case v of
        JNull \<Rightarrow> set_int acc vs
      | JNum l \<Rightarrow> (case Atoi l of Inl _ \<Rightarrow> None | Inr i \<Rightarrow> set_int i vs)
      | _ \<Rightarrow> None)"

fun set_any :: "any \<Rightarrow> jvalue list \<Rightarrow> any option" where
  "set_any acc [] = Some acc"
| "set_any acc (v # vs) = Option.bind (to_any v) (\<lambda>a. set_any a vs)"

definition merge_map :: "any gomap \<Rightarrow> (string \<times> any) list \<Rightarrow> any gomap" where
  "merge_map m kvs = fold (\<lambda>(k, v) m. map_put k v m) kvs m"

fun set_map :: "anymap \<Rightarrow> jvalue list \<Rightarrow> anymap option" where
  "set_map acc [] = Some acc"
| "set_map acc (v # vs) =
     (case v of
        JNull \<Rightarrow> set_map None vs
      | JObj ms \<Rightarrow>
          (case those (map (\<lambda>(k, x). map_option (Pair k) (to_any x)) ms) of
             None \<Rightarrow> None
           | Some kvs \<Rightarrow> set_map (Some (merge_map (case acc of None \<Rightarrow> map_make | Some m \<Rightarrow> m) kvs)) vs)
      | _ \<Rightarrow> None)"

definition string_field :: "(string \<times> jvalue) list \<Rightarrow> string \<Rightarrow> string option" where
  "string_field ms n = set_string [] (values_of n ms)"

definition int_field :: "(string \<times> jvalue) list \<Rightarrow> string \<Rightarrow> int option" where
  "int_field ms n = set_int 0 (values_of n ms)"

definition any_field :: "(string \<times> jvalue) list \<Rightarrow> string \<Rightarrow> any option" where
  "any_field ms n = set_any ANil (values_of n ms)"

definition map_field :: "(string \<times> jvalue) list \<Rightarrow> string \<Rightarrow> anymap option" where
  "map_field ms n = set_map None (values_of n ms)"

text \<open>
  Decoding arrays into a slice, with \<open>dec\<close> for an element. The array of a slice is reused: an element
  is decoded into what an earlier array left at its place, also beyond the length of the slice in
  between. An empty array makes a new slice.
\<close>

fun slice_elems :: "('a option \<Rightarrow> jvalue \<Rightarrow> 'a option) \<Rightarrow> 'a list \<Rightarrow> jvalue list \<Rightarrow> 'a list option" where
  "slice_elems dec old [] = Some old"
| "slice_elems dec old (v # vs) =
     (case dec (case old of [] \<Rightarrow> None | x # _ \<Rightarrow> Some x) v of
        None \<Rightarrow> None
      | Some y \<Rightarrow> map_option (Cons y) (slice_elems dec (drop 1 old) vs))"

fun set_slice :: "('a option \<Rightarrow> jvalue \<Rightarrow> 'a option) \<Rightarrow> 'a list \<Rightarrow> nat \<Rightarrow> jvalue list \<Rightarrow> 'a list option" where
  "set_slice dec store n [] = Some (take n store)"
| "set_slice dec store n (v # vs) =
     (case v of
        JNull \<Rightarrow> set_slice dec [] 0 vs
      | JArr xs \<Rightarrow>
          if xs = [] then set_slice dec [] 0 vs
          else (case slice_elems dec store xs of None \<Rightarrow> None | Some st \<Rightarrow> set_slice dec st (length xs) vs)
      | _ \<Rightarrow> None)"

definition string_elem :: "string option \<Rightarrow> jvalue \<Rightarrow> string option" where
  "string_elem old v = set_string (case old of None \<Rightarrow> [] | Some s \<Rightarrow> s) [v]"

definition strings_field :: "(string \<times> jvalue) list \<Rightarrow> string \<Rightarrow> string list option" where
  "strings_field ms n = set_slice string_elem [] 0 (values_of n ms)"

end
