(* ===== verification/JsonPrint.thy ===== *)
theory JsonPrint
  imports JsonText
begin

text \<open>
  Printing: the shortest decimal form of a \<open>float64\<close> in the formats of \<open>strconv.FormatFloat\<close>, the
  text \<open>json.Marshal\<close> writes and the text \<open>fmt.Sprint\<close> prints. Negative zero is not told apart from
  zero, as everywhere in the model.
\<close>

section \<open>Shortest decimals\<close>

text \<open>
  The decimal exponent of a positive rational: 10 to the power \<open>dec_exp x\<close> is the smallest power of
  ten above \<open>x\<close>.
\<close>

definition dec_exp :: "rat \<Rightarrow> int" where
  "dec_exp x =
     (let pq = quotient_of x;
          k = int (length (dec_digits (nat (fst pq)))) - int (length (dec_digits (nat (snd pq))))
      in if 10 powi k \<le> x then k + 1 else k)"

text \<open>
  The decimals next to \<open>x\<close> with \<open>n\<close> digits, as the integer \<open>c\<close> of \<open>c * 10 powi (dec_exp x - n)\<close>.
  A decimal is good when it reads back as \<open>x\<close>; when both are, the nearer one is taken, and the even
  one of two that are equally near.
\<close>

definition reads_back :: "rat \<Rightarrow> int \<Rightarrow> int \<Rightarrow> bool" where
  "reads_back x c e \<longleftrightarrow> f64_round (of_int c * 10 powi e) = x"

definition round_digits :: "rat \<Rightarrow> nat \<Rightarrow> int option" where
  "round_digits x n =
     (let e = dec_exp x - int n; y = x / 10 powi e; lo = \<lfloor>y\<rfloor>; near = rne y;
          far = (if near = lo then lo + 1 else lo)
      in if reads_back x near e then Some near else if reads_back x far e then Some far else None)"

text \<open>
  The shortest good decimal. Seventeen digits are always enough; the bound of the search is the
  length of the longest exact expansion, so that a decimal is found without that argument.
\<close>

definition digits_bound :: nat where "digits_bound = 1500"

definition shortest :: "rat \<Rightarrow> int \<times> int" where
  "shortest x =
     (case find (\<lambda>n. round_digits x n \<noteq> None) [1..<digits_bound] of
        None \<Rightarrow> (0, 0)
      | Some n \<Rightarrow> (case round_digits x n of None \<Rightarrow> (0, 0) | Some c \<Rightarrow> (c, dec_exp x - int n)))"

text \<open>Trailing zeros go into the exponent: digits and the position of the decimal point.\<close>

function strip_zeros :: "nat \<Rightarrow> int \<Rightarrow> nat \<times> int" where
  "strip_zeros c e = (if 0 < c \<and> c mod 10 = 0 then strip_zeros (c div 10) (e + 1) else (c, e))"
  by pat_completeness auto
termination
  by (relation "measure fst") auto

declare strip_zeros.simps [simp del]

definition dec_form :: "rat \<Rightarrow> string \<times> int" where
  "dec_form x =
     (case shortest x of (c, e) \<Rightarrow>
        case strip_zeros (nat c) e of (d, e1) \<Rightarrow> (dec_digits d, int (length (dec_digits d)) + e1))"

text \<open>\<open>FormatFloat(x, 'f', -1, 64)\<close> and \<open>'e'\<close> of a positive number from its digits and point.\<close>

definition fmt_f :: "string \<times> int \<Rightarrow> string" where
  "fmt_f d =
     (case d of (ds, dp) \<Rightarrow>
        if dp \<le> 0 then ''0.'' @ replicate (nat (- dp)) CHR ''0'' @ ds
        else if int (length ds) \<le> dp then ds @ replicate (nat dp - length ds) CHR ''0''
        else take (nat dp) ds @ ''.'' @ drop (nat dp) ds)"

definition exp_digits :: "int \<Rightarrow> string" where
  "exp_digits e =
     (if e < 0 then ''-'' else ''+'') @ (if \<bar>e\<bar> < 10 then ''0'' else []) @ dec_digits (nat \<bar>e\<bar>)"

definition mantissa_text :: "string \<Rightarrow> string" where
  "mantissa_text ds = take 1 ds @ (if length ds \<le> 1 then [] else ''.'' @ drop 1 ds)"

definition fmt_e :: "string \<times> int \<Rightarrow> string" where
  "fmt_e d = (case d of (ds, dp) \<Rightarrow> mantissa_text ds @ ''e'' @ exp_digits (dp - 1))"

definition signed_text :: "rat \<Rightarrow> (rat \<Rightarrow> string) \<Rightarrow> string" where
  "signed_text x f = (if x = 0 then ''0'' else if x < 0 then ''-'' @ f (- x) else f x)"

definition FormatFloat_f :: "rat \<Rightarrow> string" where
  "FormatFloat_f x = signed_text x (\<lambda>y. fmt_f (dec_form y))"

text \<open>\<open>FormatFloat(x, 'g', -1, 64)\<close>, which \<open>%v\<close> uses: the shortest form decides with precision 6.\<close>

definition FormatFloat_g :: "rat \<Rightarrow> string" where
  "FormatFloat_g x =
     signed_text x (\<lambda>y. let d = dec_form y; e = snd d - 1 in if e < - 4 \<or> 6 \<le> e then fmt_e d else fmt_f d)"

text \<open>
  JSON: the \<open>'e'\<close> format below 1e-6 and from 1e21 on, with a one-digit negative exponent written
  without its leading zero.
\<close>

definition json_exp_digits :: "int \<Rightarrow> string" where
  "json_exp_digits e =
     (if e < 0 then ''-'' @ dec_digits (nat (- e))
      else exp_digits e)"

definition float_text :: "rat \<Rightarrow> string" where
  "float_text x =
     signed_text x (\<lambda>y. if y < 1 / 10 ^ 6 \<or> 10 ^ 21 \<le> y
       then (case dec_form y of (ds, dp) \<Rightarrow> mantissa_text ds @ ''e'' @ json_exp_digits (dp - 1))
       else fmt_f (dec_form y))"

section \<open>\<open>json.Marshal\<close>\<close>

definition hex_char :: "nat \<Rightarrow> char" where
  "hex_char d = (if d < 10 then char_of (48 + d) else char_of (87 + d))"

definition u_escape :: "nat \<Rightarrow> string" where
  "u_escape u =
     [CHR 0x5C, CHR ''u'', hex_char (u div 4096 mod 16), hex_char (u div 256 mod 16),
      hex_char (u div 16 mod 16), hex_char (u mod 16)]"

text \<open>
  An ASCII character inside a string: quote, backslash and the control characters are escaped, and
  so are the three characters that matter in HTML.
\<close>

definition escape_ascii :: "char \<Rightarrow> string" where
  "escape_ascii c =
     (case map_of [(CHR 0x22, CHR 0x22), (CHR 0x5C, CHR 0x5C), (CHR 0x08, CHR ''b''), (CHR 0x0C, CHR ''f''),
                   (CHR 0x0A, CHR ''n''), (CHR 0x0D, CHR ''r''), (CHR 0x09, CHR ''t'')] c of
        Some e \<Rightarrow> [CHR 0x5C, e]
      | None \<Rightarrow> if c < CHR '' '' \<or> c \<in> {CHR ''<'', CHR ''>'', CHR ''&''} then u_escape (of_char c) else [c])"

text \<open>Bytes outside a valid encoding become \<open>\ufffd\<close>; U+2028 and U+2029 are escaped.\<close>

definition escape_rune :: "string \<Rightarrow> string" where
  "escape_rune r =
     (if r = [CHR 0xE2, CHR 0x80, CHR 0xA8] then u_escape 0x2028
      else if r = [CHR 0xE2, CHR 0x80, CHR 0xA9] then u_escape 0x2029 else r)"

function escape :: "string \<Rightarrow> string" where
  "escape s =
     (if s = [] then []
      else if rune_len s = 0 then u_escape 0xFFFD @ escape (tl s)
      else if rune_len s = 1 then escape_ascii (hd s) @ escape (tl s)
      else escape_rune (take (rune_len s) s) @ escape (drop (rune_len s) s))"
  by pat_completeness auto
termination
  by (relation "measure length") auto

declare escape.simps [simp del]

definition quote :: "string \<Rightarrow> string" where
  "quote s = [CHR 0x22] @ escape s @ [CHR 0x22]"

definition bracket :: "char \<Rightarrow> string list \<Rightarrow> char \<Rightarrow> string" where
  "bracket l xs r = [l] @ Join xs '','' @ [r]"

definition member_text :: "string \<Rightarrow> string \<Rightarrow> string" where
  "member_text k t = quote k @ '':'' @ t"

text \<open>A map is written in the order of its keys, which is the order the model keeps it in.\<close>

fun json_text :: "any \<Rightarrow> string" where
  "json_text ANil = ''null''"
| "json_text (ABool b) = (if b then ''true'' else ''false'')"
| "json_text (AFloat x) = float_text x"
| "json_text (AInt i) = Itoa i"
| "json_text (AStr s) = quote s"
| "json_text (AList vs) = bracket CHR ''['' (map json_text vs) CHR '']''"
| "json_text (AStrs ss) = bracket CHR ''['' (map quote ss) CHR '']''"
| "json_text (AMap m) = bracket CHR ''{'' (map (\<lambda>(k, v). member_text k (json_text v)) m) CHR ''}''"

text \<open>
  A struct is written with its fields in order; \<open>omitempty\<close> drops the empty ones before.
\<close>

definition struct_text :: "(string \<times> string) list \<Rightarrow> string" where
  "struct_text fs = bracket CHR ''{'' (map (\<lambda>(k, t). member_text k t) fs) CHR ''}''"

definition omit_if :: "bool \<Rightarrow> string \<Rightarrow> string \<Rightarrow> (string \<times> string) list" where
  "omit_if absent k t = (if absent then [] else [(k, t)])"

definition string_text :: "string \<Rightarrow> string \<Rightarrow> (string \<times> string) list" where
  "string_text k s = omit_if (s = []) k (quote s)"

definition any_text :: "string \<Rightarrow> any \<Rightarrow> (string \<times> string) list" where
  "any_text k v = omit_if (v = ANil) k (json_text v)"

definition map_text :: "string \<Rightarrow> anymap \<Rightarrow> (string \<times> string) list" where
  "map_text k m =
     (case m of None \<Rightarrow> [] | Some mm \<Rightarrow> omit_if (mm = []) k (json_text (AMap mm)))"

section \<open>\<open>fmt.Sprint\<close>\<close>

fun sprint :: "any \<Rightarrow> string" where
  "sprint ANil = ''<nil>''"
| "sprint (ABool b) = (if b then ''true'' else ''false'')"
| "sprint (AFloat x) = FormatFloat_g x"
| "sprint (AInt i) = Itoa i"
| "sprint (AStr s) = s"
| "sprint (AList vs) = ''['' @ Join (map sprint vs) '' '' @ '']''"
| "sprint (AStrs ss) = ''['' @ Join ss '' '' @ '']''"
| "sprint (AMap m) = ''map['' @ Join (map (\<lambda>(k, v). k @ '':'' @ sprint v) m) '' '' @ '']''"

text \<open>\<open>int(x)\<close> of a \<open>float64\<close>: truncated; out of range it is the smallest value, as on amd64.\<close>

definition f64_to_int :: "rat \<Rightarrow> int" where
  "f64_to_int x =
     (let t = (if 0 \<le> x then \<lfloor>x\<rfloor> else \<lceil>x\<rceil>) in if int64_min \<le> t \<and> t \<le> int64_max then t else int64_min)"

end
