(* ===== verification/JsonStrings.thy ===== *)
theory JsonStrings
  imports JsonPrint
begin

text \<open>
  Strings survive \<open>json.Marshal\<close> and \<open>json.Unmarshal\<close> up to the replacement of bytes that are not
  UTF-8.
\<close>

lemma prepend_simps [simp]:
  "prepend p None = None" "prepend p (Some (s, rest)) = Some (p @ s, rest)"
  by (simp_all add: prepend_def)

lemma prepend_prepend [simp]: "prepend p (prepend q r) = prepend (p @ q) r"
  by (cases r) (auto simp: prepend_def)

lemma flush_hi_None [simp]: "flush_hi None = []"
  by (simp add: flush_hi_def)

section \<open>Escape sequences\<close>

lemma hex_val_hex_char: "d < 16 \<Longrightarrow> hex_val (hex_char d) = Some d"
proof -
  have "\<forall>d \<in> set [0..<16]. hex_val (hex_char d) = Some d" by code_simp
  then show "d < 16 \<Longrightarrow> ?thesis" by simp
qed

lemma hex4_digits:
  assumes "u < 65536"
  shows "hex4 (hex_char (u div 4096)) (hex_char (u div 256 mod 16)) (hex_char (u div 16 mod 16)) (hex_char (u mod 16)) = Some u"
proof -
  have "u div 4096 * 16 + u div 256 mod 16 = u div 256" "u div 256 * 16 + u div 16 mod 16 = u div 16"
    "u div 16 * 16 + u mod 16 = u"
    using div_mult_mod_eq [of "u div 256" 16] div_mult_mod_eq [of "u div 16" 16] by (simp_all add: div_mult2_eq [symmetric])
  then have "((u div 4096 * 16 + u div 256 mod 16) * 16 + u div 16 mod 16) * 16 + u mod 16 = u"
    by (simp only:)
  moreover have "u div 4096 < 16" using assms by simp
  ultimately show ?thesis by (simp add: hex4_def hex_val_hex_char)
qed

lemma parse_u_escape:
  "u < 65536 \<Longrightarrow> \<not> surrogate u \<Longrightarrow> parse_chars None (u_escape u @ t) = prepend (utf8_encode u) (parse_chars None t)"
  by (simp add: u_escape_def hex4_digits)

definition plain_char :: "char \<Rightarrow> bool" where
  "plain_char c \<longleftrightarrow> CHR '' '' \<le> c \<and> c \<noteq> CHR 0x22 \<and> c \<noteq> CHR 0x5C"

lemma parse_plain: "list_all plain_char r \<Longrightarrow> parse_chars None (r @ t) = prepend r (parse_chars None t)"
proof (induction r)
  case Nil
  then show ?case by (cases "parse_chars None t") auto
next
  case (Cons c r)
  then have "CHR '' '' \<le> c" "c \<noteq> CHR 0x22" "c \<noteq> CHR 0x5C" by (simp_all add: plain_char_def)
  with Cons show ?case by (simp add: leD)
qed

lemma utf8_encode_ascii: "c \<le> CHR 0x7F \<Longrightarrow> utf8_encode (of_char c) = [c]"
  by (simp add: utf8_encode_def less_eq_char_def)

lemma parse_escape_ascii:
  assumes "c \<le> CHR 0x7F"
  shows "parse_chars None (escape_ascii c @ t) = prepend [c] (parse_chars None t)"
proof -
  have "c \<in> {CHR 0x22, CHR 0x5C, CHR 0x08, CHR 0x0C, CHR 0x0A, CHR 0x0D, CHR 0x09}
      \<or> escape_ascii c = u_escape (of_char c) \<or> escape_ascii c = [c] \<and> plain_char c"
    by (cases "c < CHR '' '' \<or> c \<in> {CHR ''<'', CHR ''>'', CHR ''&''}") (auto simp: escape_ascii_def plain_char_def not_less)
  then consider "c \<in> {CHR 0x22, CHR 0x5C, CHR 0x08, CHR 0x0C, CHR 0x0A, CHR 0x0D, CHR 0x09}"
    | "escape_ascii c = u_escape (of_char c)"
    | "escape_ascii c = [c]" "plain_char c"
    by blast
  then show ?thesis
  proof cases
    case 1
    then show ?thesis by (auto simp: escape_ascii_def simple_escape_def)
  next
    case 2
    have "(of_char c :: nat) < 128" using assms by (simp add: less_eq_char_def)
    then have "(of_char c :: nat) < 65536" "\<not> surrogate (of_char c)" by (simp_all add: surrogate_def)
    then show ?thesis unfolding 2 by (simp add: parse_u_escape utf8_encode_ascii [OF assms])
  next
    case 3
    then show ?thesis using parse_plain [of "[c]" t] by simp
  qed
qed

section \<open>Runes\<close>

lemma rune_len_le_4: "rune_len s \<le> 4"
  by (auto simp: rune_len_def split: list.splits)

lemma rune_len_1: "rune_len s = 1 \<Longrightarrow> s \<noteq> [] \<and> hd s \<le> CHR 0x7F \<and> take 1 s = [hd s] \<and> drop 1 s = tl s"
  by (auto simp: rune_len_def split: list.splits if_splits)

lemma rune_bytes_high:
  assumes "1 < rune_len s"
  shows "list_all plain_char (take (rune_len s) s)"
proof -
  have high: "plain_char c" if "CHR 0x80 \<le> c" for c
  proof -
    have "CHR '' '' \<le> c" using that by (rule order_trans [rotated]) (simp add: less_eq_char_def)
    moreover have "c \<noteq> CHR 0x22" "c \<noteq> CHR 0x5C" using that by (auto simp: less_eq_char_def)
    ultimately show ?thesis by (simp add: plain_char_def)
  qed
  have c2: "CHR 0x80 \<le> b" if "cont_byte b" for b using that by (simp add: cont_byte_def)
  have s2: "CHR 0x80 \<le> b" if "second_byte a b" for a b
    using that by (auto simp: second_byte_def cont_byte_def less_eq_char_def split: if_splits)
  have a2: "CHR 0x80 \<le> a" if "\<not> a \<le> CHR 0x7F" for a
    using that by (simp add: less_eq_char_def)
  obtain a b r where s: "s = a # b # r" and a: "\<not> a \<le> CHR 0x7F"
    using assms by (cases s; cases "tl s") (auto simp: rune_len_def split: if_splits)
  show ?thesis
  proof (cases "CHR 0xC2 \<le> a \<and> a \<le> CHR 0xDF")
    case True
    then have "cont_byte b" "rune_len s = 2" using assms s a by (auto simp: rune_len_def split: if_splits)
    then show ?thesis using s a by (simp add: high c2 a2)
  next
    case False
    then obtain c r1 where r: "r = c # r1" using assms s a by (cases r) (auto simp: rune_len_def)
    show ?thesis
    proof (cases "CHR 0xE0 \<le> a \<and> a \<le> CHR 0xEF")
      case True
      then have "second_byte a b" "cont_byte c" "rune_len s = 3"
        using assms s a r False by (auto simp: rune_len_def split: if_splits)
      then show ?thesis using s a r by (simp add: high c2 s2 a2)
    next
      case F3: False
      then obtain d r2 where r1: "r1 = d # r2" using assms s a r False by (cases r1) (auto simp: rune_len_def)
      then have "second_byte a b" "cont_byte c" "cont_byte d" "rune_len s = 4"
        using assms s a r False F3 by (auto simp: rune_len_def split: if_splits)
      then show ?thesis using s a r r1 by (simp add: high c2 s2 a2)
    qed
  qed
qed

lemma parse_escape_rune:
  assumes "1 < rune_len s"
  shows "parse_chars None (escape_rune (take (rune_len s) s) @ t) = prepend (take (rune_len s) s) (parse_chars None t)"
proof -
  have "utf8_encode 0x2028 = [CHR 0xE2, CHR 0x80, CHR 0xA8]" "utf8_encode 0x2029 = [CHR 0xE2, CHR 0x80, CHR 0xA9]"
    by (simp_all add: utf8_encode_def char_of_def bit_0)
  then show ?thesis
    using parse_plain [OF rune_bytes_high [OF assms]]
    by (simp add: escape_rune_def parse_u_escape surrogate_def)
qed

lemma utf8_encode_error: "utf8_encode 0xFFFD = rune_error"
  by (simp add: utf8_encode_def rune_error_def char_of_def bit_0)

lemma parse_escape: "parse_chars None (escape s @ CHR 0x22 # t) = Some (sanitize s, t)"
proof (induction s rule: escape.induct)
  case (1 s)
  consider "s = []" | "s \<noteq> []" "rune_len s = 0" | "s \<noteq> []" "rune_len s = 1" | "s \<noteq> []" "1 < rune_len s" by linarith
  then show ?case
  proof cases
    case 1
    then show ?thesis by (simp add: escape.simps)
  next
    case 2
    with 1(1) show ?thesis
      by (simp add: escape.simps [of s] sanitize.simps [of s] parse_u_escape surrogate_def utf8_encode_error)
  next
    case 3
    with 1(2) rune_len_1 [of s] show ?thesis
      by (simp add: escape.simps [of s] sanitize.simps [of s] parse_escape_ascii)
  next
    case 4
    with 1(3) show ?thesis
      by (simp add: escape.simps [of s] sanitize.simps [of s] parse_escape_rune)
  qed
qed

lemma parse_quoted: "parse_string (escape s @ CHR 0x22 # t) = Some (sanitize s, t)"
  by (simp add: parse_string_def parse_escape)

end
