(* ===== verification/Decimal.thy ===== *)
theory Decimal
  imports JsonPrint
begin

text \<open>
  The decimal text of a finite \<open>float64\<close> reads back as the same number: the search for the shortest
  form succeeds, and each of the formats denotes the decimal that was found.
\<close>

section \<open>The position of the decimal point\<close>

lemma dec_digits_nonempty [simp]: "dec_digits n \<noteq> []"
  using dec_digits_all_digits [of n] by (auto simp: all_digits_def)

lemma dec_digits_bounds:
  assumes "0 < n"
  shows "10 ^ (length (dec_digits n) - 1) \<le> n" "n < 10 ^ length (dec_digits n)"
proof -
  have "0 < n \<longrightarrow> 10 ^ (length (dec_digits n) - 1) \<le> n \<and> n < 10 ^ length (dec_digits n)"
  proof (induction n rule: dec_digits.induct)
    case (1 n)
    show ?case
    proof (cases "n < 10")
      case True
      then show ?thesis by (simp add: dec_digits.simps [of n])
    next
      case False
      define k where "k = length (dec_digits (n div 10))"
      have k: "0 < k" by (simp add: k_def)
      have "10 ^ (k - 1) \<le> n div 10" "n div 10 < 10 ^ k" using 1 False by (simp_all add: k_def)
      then have "10 ^ (k - 1) * 10 \<le> n" "n < 10 ^ k * 10"
        by (simp_all add: less_eq_div_iff_mult_less_eq div_less_iff_less_mult)
      moreover have "length (dec_digits n) = Suc k" using False by (simp add: dec_digits.simps [of n] k_def)
      ultimately show ?thesis using k by (cases k) simp_all
    qed
  qed
  with assms show "10 ^ (length (dec_digits n) - 1) \<le> n" "n < 10 ^ length (dec_digits n)" by simp_all
qed

lemma dec_digits_lead: "0 < n \<Longrightarrow> hd (dec_digits n) \<noteq> CHR ''0''"
proof (induction n rule: dec_digits.induct)
  case (1 n)
  show ?case
  proof (cases "n < 10")
    case True
    then have "hd (dec_digits n) = digit_char n" by (simp add: dec_digits.simps [of n])
    moreover have "digit_char n \<noteq> digit_char 0" using True 1(2) digit_val_digit_char [of 0] digit_val_digit_char [of n] by (metis less_irrefl zero_less_numeral)
    moreover have "digit_char 0 = CHR ''0''" by code_simp
    ultimately show ?thesis by simp
  next
    case False
    then show ?thesis using 1(1) by (simp add: dec_digits.simps [of n])
  qed
qed

lemma dec_exp_bounds:
  assumes "0 < x"
  shows "10 powi (dec_exp x - 1) \<le> x" "x < 10 powi dec_exp x"
proof -
  obtain p q where pq: "quotient_of x = (p, q)" by (cases "quotient_of x")
  have q: "0 < q" using pq by (rule quotient_of_denom_pos)
  have x: "x = of_int p / of_int q" using pq by (rule quotient_of_div)
  with assms q have p: "0 < p" by (simp add: zero_less_divide_iff)
  define a where "a = length (dec_digits (nat p))"
  define b where "b = length (dec_digits (nat q))"
  have pos: "0 < a" "0 < b" by (simp_all add: a_def b_def)
  have np: "of_int p = (of_nat (nat p) :: rat)" "of_int q = (of_nat (nat q) :: rat)"
    using p q by (simp_all add: of_nat_nat)
  have A: "(10::rat) ^ (a - 1) \<le> of_int p" "of_int p < (10::rat) ^ a"
    using dec_digits_bounds [of "nat p"] p
    by (simp_all only: np a_def of_nat_less_numeral_power_cancel_iff numeral_power_le_of_nat_cancel_iff zero_less_nat_eq)
  have B: "(10::rat) ^ (b - 1) \<le> of_int q" "of_int q < (10::rat) ^ b"
    using dec_digits_bounds [of "nat q"] q
    by (simp_all only: np b_def of_nat_less_numeral_power_cancel_iff numeral_power_le_of_nat_cancel_iff zero_less_nat_eq)
  have pw: "(10::rat) powi (int m - int n) = 10 ^ m / 10 ^ n" for m n
    by (simp add: power_int_diff)
  let ?k = "int a - int b"
  have "of_int p / of_int q < (10::rat) ^ a / 10 ^ (b - 1)"
    using A B q p by (intro frac_less) auto
  then have up: "x < 10 powi (?k + 1)"
    using pos(2) pw [of a "b - 1"] by (simp add: x algebra_simps of_nat_diff)
  have "(10::rat) ^ (a - 1) / 10 ^ b \<le> of_int p / of_int q"
    using A B q p by (intro frac_le) auto
  then have low: "10 powi (?k - 1) \<le> x"
    using pos(1) pw [of "a - 1" b] by (simp add: x algebra_simps of_nat_diff)
  have "dec_exp x = (if 10 powi ?k \<le> x then ?k + 1 else ?k)"
    by (simp add: dec_exp_def pq a_def b_def Let_def)
  then show "10 powi (dec_exp x - 1) \<le> x" "x < 10 powi dec_exp x"
    using up low by auto
qed

section \<open>The search succeeds\<close>

lemma scaled_integer:
  assumes "- int n \<le> e"
  shows "of_int m * 2 powi e * 10 ^ n = (of_int (m * 2 ^ nat (e + int n) * 5 ^ n) :: rat)"
proof -
  have "(2::rat) powi (e + int n) = 2 ^ nat (e + int n)" using assms by (simp add: power_int_def)
  moreover have "(2::rat) powi (e + int n) = 2 powi e * 2 ^ n" by (simp add: power_int_add)
  moreover have "(10::rat) ^ n = 2 ^ n * 5 ^ n" by (simp flip: power_mult_distrib)
  ultimately show ?thesis by simp
qed

lemma representable_decimal:
  assumes "representable x"
  obtains n :: nat and z :: int where "n = 1074" "x * 10 ^ n = of_int z"
proof -
  obtain m e where "x = of_int m * 2 powi e" "- int 1074 \<le> e"
    using assms by (auto simp: representable_def)
  then show ?thesis using scaled_integer [of 1074 e m] that by metis
qed

lemma f64_round_pos: "0 < f64_round y \<Longrightarrow> 0 < y"
  using f64_round_mono [of y 0] f64_round_0 by linarith

lemma powi_less_exp: "(10::rat) powi i < 10 powi j \<Longrightarrow> i < j"
  using power_int_increasing [of j i "10::rat"] by (cases "j \<le> i") auto

lemma dec_exp_range:
  assumes "0 < x" "representable x" "x < 2 ^ 1024"
  shows "- 330 < dec_exp x" "dec_exp x < 330"
proof -
  obtain m e where x: "x = of_int m * 2 powi e" and e: "- 1074 \<le> e"
    using assms(2) by (auto simp: representable_def)
  have "0 < m" using assms(1) by (simp add: x zero_less_mult_iff powi_pos less_not_sym)
  then have "1 * 2 powi e \<le> x" unfolding x by (intro mult_right_mono) simp_all
  moreover have "(2::rat) powi - 1074 \<le> 2 powi e" using e by (rule powi_mono)
  moreover have "(10::rat) powi - 330 < 2 powi - 1074" by (simp add: power_int_minus)
  ultimately have "(10::rat) powi - 330 < 10 powi dec_exp x" using dec_exp_bounds(2) [OF assms(1)] by linarith
  then show "- 330 < dec_exp x" by (rule powi_less_exp)
  have "(10::rat) powi (dec_exp x - 1) < 2 ^ 1024" using dec_exp_bounds(1) [OF assms(1)] assms(3) by linarith
  also have "(2::rat) ^ 1024 < 10 powi 329" by simp
  finally have "dec_exp x - 1 < 329" by (rule powi_less_exp)
  then show "dec_exp x < 330" by simp
qed

lemma round_digits_reads_back:
  "round_digits x n = Some c \<Longrightarrow> f64_round (of_int c * 10 powi (dec_exp x - int n)) = x"
  by (auto simp: round_digits_def reads_back_def Let_def split: if_splits)

lemma round_digits_found:
  assumes "0 < x" "representable x" "x < 2 ^ 1024"
  shows "\<exists>n. 1 \<le> n \<and> n < digits_bound \<and> round_digits x n \<noteq> None"
proof -
  obtain k z where k: "k = 1074" and z: "x * 10 ^ k = of_int z" using representable_decimal [OF assms(2)] by metis
  define n where "n = nat (int k + dec_exp x)"
  have n: "1 \<le> n" "n < digits_bound" "int n = int k + dec_exp x"
    using dec_exp_range [OF assms] by (simp_all add: n_def k digits_bound_def)
  then have "x / 10 powi (dec_exp x - int n) = of_int z"
    using z by (simp add: power_int_minus divide_inverse)
  moreover have "of_int z * 10 powi (dec_exp x - int n) = x"
    using n(3) z by (simp add: power_int_minus field_simps)
  ultimately have "round_digits x n = Some z"
    using f64_round_representable [OF assms(2)] by (simp add: round_digits_def reads_back_def Let_def)
  with n show ?thesis by auto
qed

lemma shortest_reads_back:
  assumes "0 < x" "representable x" "x < 2 ^ 1024" "shortest x = (c, e)"
  shows "f64_round (of_int c * 10 powi e) = x" "0 < c"
proof -
  obtain n where "round_digits x n = Some c" "e = dec_exp x - int n"
    using assms(4) round_digits_found [OF assms(1-3)]
    by (auto simp: shortest_def find_None_iff dest: find_Some_prop split: option.splits)
  then show r: "f64_round (of_int c * 10 powi e) = x" using round_digits_reads_back by simp
  then have "0 < of_int c * (10::rat) powi e" using assms(1) f64_round_pos by blast
  then have "0 < (of_int c :: rat)" by (rule zero_less_mult_pos2) simp
  then show "0 < c" by simp
qed

lemma strip_zeros_value:
  "strip_zeros c e = (d, e1) \<Longrightarrow> (of_nat d :: rat) * 10 powi e1 = of_nat c * 10 powi e \<and> (0 < c \<longrightarrow> 0 < d)"
proof (induction c e rule: strip_zeros.induct)
  case (1 c e)
  show ?case
  proof (cases "0 < c \<and> c mod 10 = 0")
    case True
    then have d: "strip_zeros (c div 10) (e + 1) = (d, e1)" using 1(2) by (simp add: strip_zeros.simps [of c])
    have "c = c div 10 * 10" using True by presburger
    then have "(of_nat c :: rat) = of_nat (c div 10) * 10" by (metis of_nat_mult of_nat_numeral)
    moreover have "0 < c div 10" using True by presburger
    ultimately show ?thesis using 1(1) [OF True d] by (simp add: power_int_add)
  next
    case False
    then show ?thesis using 1(2) by (auto simp: strip_zeros.simps [of c])
  qed
qed

lemma dec_form_reads_back:
  assumes "0 < x" "representable x" "x < 2 ^ 1024" "dec_form x = (ds, dp)"
  shows "f64_round (of_nat (dec_value ds) * 10 powi (dp - int (length ds))) = x"
    and "all_digits ds" "hd ds \<noteq> CHR ''0''"
proof -
  obtain c e where s: "shortest x = (c, e)" by fastforce
  obtain d e1 where z: "strip_zeros (nat c) e = (d, e1)" by fastforce
  note c = shortest_reads_back [OF assms(1-3) s]
  have ds: "ds = dec_digits d" "dp = int (length ds) + e1" using assms(4) by (auto simp: dec_form_def s z)
  have "of_nat d * 10 powi e1 = of_int c * (10::rat) powi e" "0 < d"
    using strip_zeros_value [OF z] c(2) by (simp_all add: of_nat_nat)
  with c(1) ds show "f64_round (of_nat (dec_value ds) * 10 powi (dp - int (length ds))) = x"
    "all_digits ds" "hd ds \<noteq> CHR ''0''"
    by (simp_all add: dec_digits_lead)
qed

section \<open>Number literals\<close>

text \<open>
  A literal from its sign, the digits before and after the point, and the sign and digits of its
  exponent.
\<close>

definition lit :: "bool \<Rightarrow> string \<Rightarrow> string \<Rightarrow> (string \<times> string) option \<Rightarrow> string" where
  "lit neg i fd ex =
     (if neg then ''-'' else []) @ i @ (if fd = [] then [] else CHR ''.'' # fd)
     @ (case ex of None \<Rightarrow> [] | Some (sg, ed) \<Rightarrow> CHR ''e'' # sg @ ed)"

definition lit_ok :: "string \<Rightarrow> string \<Rightarrow> (string \<times> string) option \<Rightarrow> bool" where
  "lit_ok i fd ex \<longleftrightarrow>
     all_digits i \<and> (i = ''0'' \<or> hd i \<noteq> CHR ''0'') \<and> list_all is_digit fd
     \<and> (\<forall>sg ed. ex = Some (sg, ed) \<longrightarrow> all_digits ed \<and> sg \<in> {''+'', ''-''})"

definition exp_value :: "(string \<times> string) option \<Rightarrow> int" where
  "exp_value ex =
     (case ex of None \<Rightarrow> 0 | Some (sg, ed) \<Rightarrow> if sg = ''-'' then - int (dec_value ed) else int (dec_value ed))"

definition number_end :: "string \<Rightarrow> bool" where
  "number_end t \<longleftrightarrow> t = [] \<or> \<not> is_digit (hd t) \<and> hd t \<notin> {CHR ''.'', CHR ''e'', CHR ''E''}"

lemma digits_of_append: "list_all is_digit ds \<Longrightarrow> t = [] \<or> \<not> is_digit (hd t) \<Longrightarrow> digits_of (ds @ t) = ds"
  by (induction ds) (cases t; auto simp: digits_of_def)+

lemma not_digit_chars [simp]:
  "\<not> is_digit CHR ''.''" "\<not> is_digit CHR ''e''" "\<not> is_digit CHR ''E''" "\<not> is_digit CHR ''+''" "\<not> is_digit CHR ''-''"
  by (simp_all add: is_digit_def less_eq_char_def)

lemma scan_int_lit:
  assumes "all_digits i" "i = ''0'' \<or> hd i \<noteq> CHR ''0''" "t = [] \<or> \<not> is_digit (hd t)"
  shows "scan_int (i @ t) = Some i"
proof -
  obtain c r where i: "i = c # r" using assms(1) by (cases i) (auto simp: all_digits_def)
  show ?thesis
    using assms digits_of_append [of i t] by (auto simp: scan_int_def i all_digits_def)
qed

lemma scan_frac_lit:
  assumes "list_all is_digit fd" "t = [] \<or> \<not> is_digit (hd t) \<and> hd t \<noteq> CHR ''.''"
  shows "scan_frac ((if fd = [] then [] else CHR ''.'' # fd) @ t) = Some (if fd = [] then [] else CHR ''.'' # fd)"
  using assms digits_of_append [of fd t] by (cases t) (auto simp: scan_frac_def)

lemma scan_exp_lit:
  assumes "\<forall>sg ed. ex = Some (sg, ed) \<longrightarrow> all_digits ed \<and> sg \<in> {''+'', ''-''}" "number_end t"
  shows "scan_exp ((case ex of None \<Rightarrow> [] | Some (sg, ed) \<Rightarrow> CHR ''e'' # sg @ ed) @ t)
    = Some (case ex of None \<Rightarrow> [] | Some (sg, ed) \<Rightarrow> CHR ''e'' # sg @ ed)"
proof (cases ex)
  case None
  then show ?thesis using assms(2) by (cases t) (auto simp: scan_exp_def number_end_def)
next
  case (Some p)
  obtain sg ed where p: "p = (sg, ed)" by (cases p)
  have "all_digits ed" "sg = ''+'' \<or> sg = ''-''" using assms(1) by (auto simp: Some p)
  moreover have "digits_of (ed @ t) = ed"
    using assms(2) \<open>all_digits ed\<close> by (intro digits_of_append) (auto simp: number_end_def all_digits_def)
  ultimately show ?thesis by (auto simp: scan_exp_def Some p all_digits_def Let_def)
qed

lemma parse_number_lit:
  assumes "lit_ok i fd ex" "number_end t"
  shows "parse_number (lit neg i fd ex @ t) = Some (lit neg i fd ex, t)"
proof -
  define f where "f = (if fd = [] then [] else CHR ''.'' # fd)"
  define e where "e = (case ex of None \<Rightarrow> [] | Some (sg, ed) \<Rightarrow> CHR ''e'' # sg @ ed)"
  define sg where "sg = (if neg then ''-'' else [])"
  have l: "lit neg i fd ex = sg @ i @ f @ e" by (simp add: lit_def f_def e_def sg_def)
  have i: "i \<noteq> []" "is_digit (hd i)" "all_digits i" using assms(1) by (cases i; auto simp: lit_ok_def all_digits_def)+
  have "hd i \<noteq> CHR ''-''" using i(2) by auto
  then have sg: "(case sg @ i @ f @ e @ t of c # _ \<Rightarrow> if c = CHR ''-'' then [c] else [] | [] \<Rightarrow> []) = sg"
    using i(1) by (cases i) (auto simp: sg_def)
  have 1: "scan_int (i @ f @ e @ t) = Some i"
    using assms by (intro scan_int_lit) (auto simp: lit_ok_def f_def e_def number_end_def split: option.splits)
  have 2: "scan_frac (f @ e @ t) = Some f"
    unfolding f_def using assms by (intro scan_frac_lit) (auto simp: lit_ok_def e_def number_end_def split: option.splits)
  have 3: "scan_exp (e @ t) = Some e"
    unfolding e_def using assms by (intro scan_exp_lit) (auto simp: lit_ok_def)
  show ?thesis
    unfolding l parse_number_def append_assoc sg Let_def using 1 2 3 by simp
qed

section \<open>The value of a literal\<close>

lemma dec_value_append2: "dec_value (s @ t) = dec_value s * 10 ^ length t + dec_value t"
proof (induction t rule: rev_induct)
  case (snoc c t)
  have "dec_value (s @ t @ [c]) = 10 * dec_value (s @ t) + digit_val c" using dec_value_append [of "s @ t" c] by simp
  then show ?case by (simp add: snoc dec_value_append algebra_simps)
qed (simp add: dec_value_def)

lemma dec_value_zeros [simp]: "dec_value (replicate n CHR ''0'') = 0"
  by (induction n) (simp_all add: dec_value_def digit_val_def)

lemma dec_value_Nil [simp]: "dec_value [] = 0"
  by (simp add: dec_value_def)

lemma dec_value_zero [simp]: "dec_value ''0'' = 0"
  by (simp add: dec_value_def digit_val_def)

lemma num_mantissa_lit:
  assumes "lit_ok i fd ex"
  shows "num_mantissa (lit neg i fd ex) = (if neg then - 1 else 1) * of_nat (dec_value (i @ fd)) / 10 ^ length fd"
proof -
  define e where "e = (case ex of None \<Rightarrow> [] | Some (sg, ed) \<Rightarrow> CHR ''e'' # sg @ ed)"
  define f where "f = (if fd = [] then [] else CHR ''.'' # fd)"
  have i: "i \<noteq> []" "is_digit (hd i)" "list_all is_digit i" "list_all is_digit fd"
    using assms by (cases i; auto simp: lit_ok_def all_digits_def)+
  have "hd i \<noteq> CHR ''-''" using i(2) by auto
  then have body: "(if prefix ''-'' (lit neg i fd ex) then drop 1 (lit neg i fd ex) else lit neg i fd ex) = i @ f @ e"
    and neg: "prefix ''-'' (lit neg i fd ex) = neg"
    using i(1) by (cases i; auto simp: lit_def e_def f_def prefix_def)+
  have d: "digits_of (i @ f @ e) = i"
    using i(3) by (intro digits_of_append) (auto simp: f_def e_def split: option.splits)
  have e: "digits_of (fd @ e) = fd" using i(4) by (intro digits_of_append) (auto simp: e_def split: option.splits)
  have "(case f @ e of c # r \<Rightarrow> if c = CHR ''.'' then digits_of r else [] | [] \<Rightarrow> []) = fd"
    using e by (auto simp: f_def e_def split: option.splits)
  then show ?thesis
    by (simp only: num_mantissa_def Let_def body) (simp add: neg d)
qed

lemma dropWhile_to_exp:
  assumes "\<forall>c \<in> set s. c \<noteq> CHR ''e'' \<and> c \<noteq> CHR ''E''"
  shows "dropWhile (\<lambda>c. c \<noteq> CHR ''e'' \<and> c \<noteq> CHR ''E'') (s @ t) = dropWhile (\<lambda>c. c \<noteq> CHR ''e'' \<and> c \<noteq> CHR ''E'') t"
  using assms by (simp add: dropWhile_append2)

lemma digit_no_exp: "list_all is_digit s \<Longrightarrow> \<forall>c \<in> set s. c \<noteq> CHR ''e'' \<and> c \<noteq> CHR ''E''"
  by (auto simp: list_all_iff)

lemma num_exponent_lit:
  assumes "lit_ok i fd ex"
  shows "num_exponent (lit neg i fd ex) = exp_value ex"
proof -
  define p where "p = (if neg then ''-'' else []) @ i @ (if fd = [] then [] else CHR ''.'' # fd)"
  have "\<forall>c \<in> set p. c \<noteq> CHR ''e'' \<and> c \<noteq> CHR ''E''"
  proof -
    have "list_all is_digit i" "list_all is_digit fd" using assms by (simp_all add: lit_ok_def all_digits_def)
    from digit_no_exp [OF this(1)] digit_no_exp [OF this(2)] show ?thesis
      by (auto simp: p_def simp del: not_None_eq split: if_splits)
  qed
  then have "dropWhile (\<lambda>c. c \<noteq> CHR ''e'' \<and> c \<noteq> CHR ''E'') (p @ t) = dropWhile (\<lambda>c. c \<noteq> CHR ''e'' \<and> c \<noteq> CHR ''E'') t" for t
    by (rule dropWhile_to_exp)
  moreover have "lit neg i fd ex = p @ (case ex of None \<Rightarrow> [] | Some (sg, ed) \<Rightarrow> CHR ''e'' # sg @ ed)"
    by (simp add: lit_def p_def)
  ultimately have d: "dropWhile (\<lambda>c. c \<noteq> CHR ''e'' \<and> c \<noteq> CHR ''E'') (lit neg i fd ex)
      = (case ex of None \<Rightarrow> [] | Some (sg, ed) \<Rightarrow> CHR ''e'' # sg @ ed)"
    by (simp only:) (simp split: option.split)
  show ?thesis
    using assms by (auto simp: num_exponent_def d exp_value_def lit_ok_def split: option.splits)
qed

lemma num_value_lit:
  "lit_ok i fd ex \<Longrightarrow> num_value (lit neg i fd ex)
     = (if neg then - 1 else 1) * of_nat (dec_value (i @ fd)) / 10 ^ length fd * 10 powi exp_value ex"
  by (simp add: num_value_def num_mantissa_lit num_exponent_lit)

section \<open>The formats\<close>

lemma scale_digits:
  "(of_nat v :: rat) / 10 ^ n * 10 powi k = of_nat v * 10 powi (k - int n)"
  by (simp add: power_int_diff)

lemma scale_digits_0:
  assumes "int n = l - dp"
  shows "(of_nat v :: rat) / 10 ^ n = of_nat v * 10 powi (dp - l)"
proof -
  have "dp - l = 0 - int n" using assms by simp
  then show ?thesis using scale_digits [of v n 0] by (simp only: power_int_0_right mult_1_right)
qed

lemma fmt_f_lit:
  assumes "all_digits ds" "hd ds \<noteq> CHR ''0''"
  shows "\<exists>i fd. fmt_f (ds, dp) = lit False i fd None \<and> lit_ok i fd None
    \<and> (of_nat (dec_value (i @ fd)) :: rat) / 10 ^ length fd = of_nat (dec_value ds) * 10 powi (dp - int (length ds))"
proof -
  have ds: "ds \<noteq> []" "list_all is_digit ds" using assms(1) by (simp_all add: all_digits_def)
  have z: "is_digit CHR ''0''" by (simp add: is_digit_def)
  consider "dp \<le> 0" | "0 < dp" "int (length ds) \<le> dp" | "0 < dp" "dp < int (length ds)" by linarith
  then show ?thesis
  proof cases
    case 1
    define fd where "fd = replicate (nat (- dp)) CHR ''0'' @ ds"
    have "fmt_f (ds, dp) = lit False ''0'' fd None" using 1 ds by (simp add: fmt_f_def lit_def fd_def)
    moreover have "lit_ok ''0'' fd None" using ds z by (auto simp: lit_ok_def fd_def all_digits_def list_all_iff)
    moreover have "(of_nat (dec_value (''0'' @ fd)) :: rat) / 10 ^ length fd = of_nat (dec_value ds) * 10 powi (dp - int (length ds))"
    proof -
      have "dec_value (''0'' @ fd) = dec_value ds" unfolding fd_def by (simp only: dec_value_append2 dec_value_zero dec_value_zeros mult_0 add_0)
      moreover have "int (length fd) = int (length ds) - dp" using 1 by (simp add: fd_def)
      ultimately show ?thesis by (simp only: scale_digits_0)
    qed
    ultimately show ?thesis by blast
  next
    case 2
    define i where "i = ds @ replicate (nat dp - length ds) CHR ''0''"
    have "fmt_f (ds, dp) = lit False i [] None" using 2 by (simp add: fmt_f_def lit_def i_def)
    moreover have "lit_ok i [] None" using ds z assms by (auto simp: lit_ok_def i_def all_digits_def list_all_iff)
    moreover have "(of_nat (dec_value i) :: rat) = of_nat (dec_value ds) * 10 powi (dp - int (length ds))"
      using 2 by (simp add: i_def dec_value_append2 power_int_def nat_diff_distrib)
    ultimately show ?thesis by (intro exI [of _ i] exI [of _ "[]"]) simp
  next
    case 3
    define i where "i = take (nat dp) ds"
    define fd where "fd = drop (nat dp) ds"
    have split: "i @ fd = ds" "fd \<noteq> []" "i \<noteq> []" using 3 ds by (simp_all add: i_def fd_def)
    then have "hd i = hd ds" by (metis hd_append2)
    moreover have "list_all is_digit i" "list_all is_digit fd" using ds(2) split(1) by (metis list_all_append)+
    ultimately have ok: "lit_ok i fd None" using split assms(2) by (simp add: lit_ok_def all_digits_def)
    have "fmt_f (ds, dp) = lit False i fd None" using 3 split(2) by (simp add: fmt_f_def lit_def i_def fd_def)
    moreover have "int (length fd) = int (length ds) - dp" using 3 by (simp add: fd_def of_nat_diff)
    then have "(of_nat (dec_value ds) :: rat) / 10 ^ length fd = of_nat (dec_value ds) * 10 powi (dp - int (length ds))"
      by (rule scale_digits_0)
    ultimately show ?thesis using ok split(1) by blast
  qed
qed

lemma exp_parts:
  "\<exists>sg ed. json_exp_digits e = sg @ ed \<and> all_digits ed \<and> sg \<in> {''+'', ''-''} \<and> exp_value (Some (sg, ed)) = e"
proof (cases "e < 0")
  case True
  then show ?thesis
    by (intro exI [of _ "''-''"] exI [of _ "dec_digits (nat (- e))"]) (simp add: json_exp_digits_def exp_value_def)
next
  case False
  define ed where "ed = (if \<bar>e\<bar> < 10 then ''0'' else []) @ dec_digits (nat \<bar>e\<bar>)"
  have "all_digits ed" using dec_digits_all_digits [of "nat \<bar>e\<bar>"] by (simp add: ed_def all_digits_def is_digit_def)
  moreover have "dec_value ed = nat e" using False by (simp add: ed_def dec_value_append2 del: append.simps)
  ultimately show ?thesis using False
    by (intro exI [of _ "''+''"] exI [of _ ed]) (simp add: json_exp_digits_def exp_digits_def exp_value_def ed_def)
qed

lemma exp_form_lit:
  assumes "all_digits ds" "hd ds \<noteq> CHR ''0''"
  shows "\<exists>i fd ex. mantissa_text ds @ ''e'' @ json_exp_digits (dp - 1) = lit False i fd ex \<and> lit_ok i fd ex
    \<and> (of_nat (dec_value (i @ fd)) :: rat) / 10 ^ length fd * 10 powi exp_value ex = of_nat (dec_value ds) * 10 powi (dp - int (length ds))"
proof -
  obtain sg ed where ex: "json_exp_digits (dp - 1) = sg @ ed" "all_digits ed" "sg \<in> {''+'', ''-''}"
      "exp_value (Some (sg, ed)) = dp - 1"
    using exp_parts by blast
  obtain c r where ds: "ds = c # r" using assms(1) by (cases ds) (auto simp: all_digits_def)
  have "mantissa_text ds @ ''e'' @ json_exp_digits (dp - 1) = lit False [c] r (Some (sg, ed))"
    by (auto simp: mantissa_text_def lit_def ds ex(1) length_Suc_conv Suc_le_eq)
  moreover have "lit_ok [c] r (Some (sg, ed))"
    using assms ex by (simp add: lit_ok_def all_digits_def ds)
  moreover have "(of_nat (dec_value ([c] @ r)) :: rat) / 10 ^ length r * 10 powi exp_value (Some (sg, ed))
      = of_nat (dec_value ds) * 10 powi (dp - int (length ds))"
    unfolding ex(4) scale_digits by (simp add: ds algebra_simps)
  ultimately show ?thesis by blast
qed

lemma representable_minus: "representable x \<Longrightarrow> representable (- x)"
proof -
  assume "representable x"
  then obtain m e where "x = of_int m * 2 powi e" "\<bar>m\<bar> < 2 ^ 53" "- 1074 \<le> e" by (auto simp: representable_def)
  then show ?thesis unfolding representable_def by (intro exI [of _ "- m"] exI [of _ e]) simp
qed

text \<open>The text of a number is a literal with its value.\<close>

lemma float_text_lit:
  assumes "representable x" "\<bar>x\<bar> < 2 ^ 1024"
  shows "\<exists>neg i fd ex. float_text x = lit neg i fd ex \<and> lit_ok i fd ex \<and> f64_round (num_value (lit neg i fd ex)) = x"
proof (cases "x = 0")
  case True
  have ok: "lit_ok ''0'' [] None" by (simp add: lit_ok_def all_digits_def is_digit_def)
  have "float_text x = lit False ''0'' [] None" by (simp add: True float_text_def signed_text_def lit_def)
  moreover have "f64_round (num_value (lit False ''0'' [] None)) = x"
    unfolding num_value_lit [OF ok] by (simp add: True)
  ultimately show ?thesis using ok by blast
next
  case False
  define y where "y = \<bar>x\<bar>"
  have y: "0 < y" "representable y" "y < 2 ^ 1024"
    using False assms representable_minus [of x] by (auto simp: y_def abs_if)
  obtain ds dp where d: "dec_form y = (ds, dp)" by fastforce
  note r = dec_form_reads_back [OF y d]
  obtain i fd ex where t: "(if y < 1 / 10 ^ 6 \<or> 10 ^ 21 \<le> y then mantissa_text ds @ ''e'' @ json_exp_digits (dp - 1)
      else fmt_f (ds, dp)) = lit False i fd ex" and ok: "lit_ok i fd ex"
    and v: "(of_nat (dec_value (i @ fd)) :: rat) / 10 ^ length fd * 10 powi exp_value ex
      = of_nat (dec_value ds) * 10 powi (dp - int (length ds))"
  proof (cases "y < 1 / 10 ^ 6 \<or> 10 ^ 21 \<le> y")
    case True
    then show ?thesis using exp_form_lit [OF r(2,3), of dp] that by auto
  next
    case False
    obtain i fd where "fmt_f (ds, dp) = lit False i fd None" "lit_ok i fd None"
        "(of_nat (dec_value (i @ fd)) :: rat) / 10 ^ length fd = of_nat (dec_value ds) * 10 powi (dp - int (length ds))"
      using fmt_f_lit [OF r(2,3)] by blast
    then show ?thesis using False that [of i fd None] by (simp add: exp_value_def)
  qed
  have "float_text x = (if x < 0 then ''-'' else []) @ (if y < 1 / 10 ^ 6 \<or> 10 ^ 21 \<le> y
      then (case dec_form y of (ds, dp) \<Rightarrow> mantissa_text ds @ ''e'' @ json_exp_digits (dp - 1)) else fmt_f (dec_form y))"
    using False by (cases "x < 0") (simp_all add: float_text_def signed_text_def y_def)
  also have "\<dots> = (if x < 0 then ''-'' else []) @ lit False i fd ex"
    by (simp only: d prod.case t [symmetric])
  finally have "float_text x = (if x < 0 then ''-'' else []) @ lit False i fd ex" .
  then have "float_text x = lit (x < 0) i fd ex" by (simp add: lit_def)
  moreover have "num_value (lit (x < 0) i fd ex) = (if x < 0 then - 1 else 1) * (of_nat (dec_value ds) * 10 powi (dp - int (length ds)))"
    unfolding num_value_lit [OF ok] v [symmetric] by simp
  then have "f64_round (num_value (lit (x < 0) i fd ex)) = x"
    using r(1) f64_round_minus by (simp add: y_def abs_if split: if_splits)
  ultimately show ?thesis using ok by blast
qed

lemma to_float64_text:
  assumes "representable x" "\<bar>x\<bar> < 2 ^ 1024"
  shows "to_float64 (float_text x) = Some x"
  using float_text_lit [OF assms] assms(2) by (auto simp: to_float64_def Let_def)

lemma parse_float_text:
  assumes "representable x" "\<bar>x\<bar> < 2 ^ 1024" "number_end t"
  shows "parse_number (float_text x @ t) = Some (float_text x, t)"
  using float_text_lit [OF assms(1,2)] parse_number_lit [OF _ assms(3)] by auto

end
