(* ===== verification/JsonRoundtrip.thy ===== *)
theory JsonRoundtrip
  imports JsonStrings Decimal
begin

text \<open>
  What \<open>json.Marshal\<close> writes, \<open>json.Unmarshal\<close> reads back as the normal form of theory Json. The
  proof goes through the predicate that a text renders a JSON tree.
\<close>

section \<open>Texts that render a tree\<close>

definition renders :: "nat \<Rightarrow> string \<Rightarrow> jvalue \<Rightarrow> bool" where
  "renders d a j \<longleftrightarrow>
     a \<noteq> [] \<and> \<not> json_space (hd a) \<and> hd a \<noteq> CHR '']''
     \<and> (\<forall>n t. number_end t \<longrightarrow> 2 * length a \<le> n \<longrightarrow> parse_value n d (a @ t) = Some (j, t))"

named_theorems renders_intros \<open>texts that render a tree\<close>

lemma rendersD:
  "renders d a j \<Longrightarrow> number_end t \<Longrightarrow> 2 * length a \<le> n \<Longrightarrow> parse_value n d (a @ t) = Some (j, t)"
  by (simp add: renders_def)

lemma number_end_delims [simp]:
  "number_end []" "number_end (CHR '','' # t)" "number_end (CHR '']'' # t)" "number_end (CHR ''}'' # t)"
  by (simp_all add: number_end_def is_digit_def less_eq_char_def)

lemma json_space_chars [simp]:
  "\<not> json_space CHR '',''" "\<not> json_space CHR '']''" "\<not> json_space CHR ''}''" "\<not> json_space CHR '':''"
  "\<not> json_space CHR ''[''" "\<not> json_space CHR ''{''" "\<not> json_space CHR 0x22" "\<not> json_space CHR ''-''"
  "\<not> json_space CHR ''t''" "\<not> json_space CHR ''f''" "\<not> json_space CHR ''n''"
  by (simp_all add: json_space_def)

lemma skip_ws_Cons [simp]: "\<not> json_space c \<Longrightarrow> skip_ws (c # s) = c # s"
  by (simp add: skip_ws_def)

lemma skip_ws_append: "a \<noteq> [] \<Longrightarrow> \<not> json_space (hd a) \<Longrightarrow> skip_ws (a @ t) = a @ t"
  by (cases a) simp_all

lemma rendersI:
  assumes "a = c # r" "\<not> json_space c" "c \<noteq> CHR '']''"
    and "\<And>n t. number_end t \<Longrightarrow> 2 * length a \<le> Suc n \<Longrightarrow> parse_value (Suc n) d (a @ t) = Some (j, t)"
  shows "renders d a j"
  unfolding renders_def using assms(1-3)
proof (intro conjI allI impI)
  fix n t
  assume "number_end t" "2 * length a \<le> n"
  moreover from this assms(1) obtain m where "n = Suc m" by (cases n) auto
  ultimately show "parse_value n d (a @ t) = Some (j, t)" using assms(4) by blast
qed auto

lemma renders_literals [renders_intros]:
  "renders d ''null'' JNull" "renders d ''true'' (JBool True)" "renders d ''false'' (JBool False)"
  by (rule rendersI, rule refl, simp_all add: literal_def)+

lemma renders_quote [renders_intros]: "renders d (quote s) (JStr (sanitize s))"
  by (rule rendersI [of _ "CHR 0x22" "escape s @ [CHR 0x22]"]) (simp_all add: quote_def parse_quoted)

lemma digit_dispatch:
  assumes "is_digit c \<or> c = CHR ''-''"
  shows "\<not> json_space c" "c \<notin> {CHR 0x22, CHR ''['', CHR ''{'', CHR ''t'', CHR ''f'', CHR ''n'', CHR '']''}"
  using assms by (auto simp: is_digit_def json_space_def less_eq_char_def)

lemma renders_lit:
  assumes "lit_ok i fd ex"
  shows "renders d (lit neg i fd ex) (JNum (lit neg i fd ex))"
proof -
  have "is_digit (hd i) \<and> i \<noteq> []" using assms by (cases i) (auto simp: lit_ok_def all_digits_def)
  then obtain c r where l: "lit neg i fd ex = c # r" and c: "is_digit c \<or> c = CHR ''-''"
    by (cases i; cases neg) (auto simp: lit_def)
  note dd = digit_dispatch [OF c]
  show ?thesis
    by (rule rendersI [OF l]) (use parse_number_lit [OF assms, of _ neg] dd in \<open>simp_all add: l\<close>)
qed

lemma renders_float [renders_intros]:
  "representable x \<Longrightarrow> \<bar>x\<bar> < 2 ^ 1024 \<Longrightarrow> renders d (float_text x) (JNum (float_text x))"
  using float_text_lit [of x] renders_lit by fastforce

lemma Itoa_lit: "\<exists>neg i. Itoa k = lit neg i [] None \<and> lit_ok i [] None \<and> num_value (Itoa k) = of_int k"
proof -
  define i where "i = dec_digits (nat \<bar>k\<bar>)"
  have z: "dec_digits 0 = ''0''" by code_simp
  have ok: "lit_ok i [] None"
    using dec_digits_lead [of "nat \<bar>k\<bar>"] z dec_digits_all_digits [of "nat \<bar>k\<bar>"]
    by (cases "k = 0") (simp_all add: lit_ok_def i_def)
  have eq: "Itoa k = lit (k < 0) i [] None" by (simp add: Itoa_def lit_def i_def)
  have "num_value (Itoa k) = of_int k"
    unfolding eq num_value_lit [OF ok] by (simp add: i_def exp_value_def)
  with ok eq show ?thesis by blast
qed

lemma renders_int [renders_intros]: "renders d (Itoa k) (JNum (Itoa k))"
  using Itoa_lit [of k] renders_lit by fastforce

section \<open>Lists and objects\<close>

lemma parse_elems_texts:
  assumes "\<forall>(a, j) \<in> set ps. renders d a j" "ps \<noteq> []" "2 * length (Join (map fst ps) '','') + 1 \<le> n"
  shows "parse_elems n d (Join (map fst ps) '','' @ CHR '']'' # t) = Some (map snd ps, t)"
  using assms
proof (induction ps arbitrary: n)
  case (Cons p ps)
  obtain a j where p: "p = (a, j)" by (cases p)
  obtain m where n: "n = Suc m" using Cons.prems(3) by (cases n) auto
  have r: "renders d a j" using Cons.prems(1) p by simp
  show ?case
  proof (cases ps)
    case Nil
    then show ?thesis using rendersD [OF r, of "CHR '']'' # t" m] Cons.prems(3) by (simp add: p n)
  next
    case (Cons q qs)
    have "parse_value m d (a @ CHR '','' # Join (map fst ps) '','' @ CHR '']'' # t)
        = Some (j, CHR '','' # Join (map fst ps) '','' @ CHR '']'' # t)"
      using Cons.prems(3) by (intro rendersD [OF r]) (simp_all add: p n Cons)
    moreover have "parse_elems m d (Join (map fst ps) '','' @ CHR '']'' # t) = Some (map snd ps, t)"
      using Cons.prems by (intro Cons.IH) (auto simp: p n Cons)
    ultimately show ?thesis by (simp add: p n Cons)
  qed
qed simp

lemma Join_start: "ps \<noteq> [] \<Longrightarrow> hd ps \<noteq> [] \<Longrightarrow> Join ps sep \<noteq> [] \<and> hd (Join ps sep) = hd (hd ps)"
  by (cases ps; cases "tl ps") auto

lemma renders_list:
  assumes "\<forall>(a, j) \<in> set ps. renders (Suc d) a j" "Suc d \<le> max_depth"
  shows "renders d (bracket CHR ''['' (map fst ps) CHR '']'') (JArr (map snd ps))"
proof (rule rendersI [of _ "CHR ''[''" "Join (map fst ps) '','' @ '']''"])
  fix n t
  assume "number_end t" and n: "2 * length (bracket CHR ''['' (map fst ps) CHR '']'') \<le> Suc n"
  show "parse_value (Suc n) d (bracket CHR ''['' (map fst ps) CHR '']'' @ t) = Some (JArr (map snd ps), t)"
  proof (cases ps)
    case Nil
    then show ?thesis using assms(2) by (simp add: bracket_def not_less)
  next
    case (Cons p qs)
    obtain a j where p: "p = (a, j)" by (cases p)
    have "renders (Suc d) a j" using assms(1) Cons p by simp
    then have a: "a \<noteq> []" "\<not> json_space (hd a)" "hd a \<noteq> CHR '']''" by (simp_all add: renders_def)
    define J where "J = Join (map fst ps) '',''"
    have J: "J \<noteq> []" "hd J = hd a" using Join_start [of "map fst ps" "'',''"] a(1) Cons p by (simp_all add: J_def)
    have "parse_elems n (Suc d) (J @ CHR '']'' # t) = Some (map snd ps, t)"
      unfolding J_def using assms(1) n Cons by (intro parse_elems_texts) (auto simp: bracket_def J_def)
    moreover obtain e J' where "J = e # J'" using J(1) by (cases J) auto
    ultimately show ?thesis
      using assms(2) J(2) a by (simp add: bracket_def J_def [symmetric] not_less)
  qed
qed (simp_all add: bracket_def)

lemma parse_members_texts:
  assumes "\<forall>(k, a, j) \<in> set ps. renders d a j" "ps \<noteq> []"
    and "2 * length (Join (map (\<lambda>(k, a, j). member_text k a) ps) '','') + 1 \<le> n"
  shows "parse_members n d (Join (map (\<lambda>(k, a, j). member_text k a) ps) '','' @ CHR ''}'' # t)
    = Some (map (\<lambda>(k, a, j). (sanitize k, j)) ps, t)"
  using assms
proof (induction ps arbitrary: n)
  case (Cons p ps)
  obtain k a j where p: "p = (k, a, j)" by (cases p)
  obtain m where n: "n = Suc m" using Cons.prems(3) by (cases n) auto
  have r: "renders d a j" using Cons.prems(1) p by simp
  have key: "parse_string (escape k @ CHR 0x22 # u) = Some (sanitize k, u)" for u by (rule parse_quoted)
  show ?case
  proof (cases ps)
    case Nil
    then show ?thesis using rendersD [OF r, of "CHR ''}'' # t" m] Cons.prems(3)
      by (simp add: p n member_text_def quote_def key)
  next
    case (Cons q qs)
    define J where "J = Join (map (\<lambda>(k, a, j). member_text k a) ps) '',''"
    have "parse_value m d (a @ CHR '','' # J @ CHR ''}'' # t) = Some (j, CHR '','' # J @ CHR ''}'' # t)"
      using Cons.prems(3) by (intro rendersD [OF r]) (simp_all add: p n Cons member_text_def)
    moreover have "parse_members m d (J @ CHR ''}'' # t) = Some (map (\<lambda>(k, a, j). (sanitize k, j)) ps, t)"
      unfolding J_def using Cons.prems by (intro Cons.IH) (auto simp: p n Cons)
    moreover have "Join (map (\<lambda>(k, a, j). member_text k a) (p # ps)) '','' = member_text k a @ CHR '','' # J"
      by (simp add: p J_def Cons)
    ultimately show ?thesis by (simp add: n member_text_def quote_def key) (simp add: p)
  qed
qed simp

lemma renders_object:
  assumes "\<forall>(k, a, j) \<in> set ps. renders (Suc d) a j" "Suc d \<le> max_depth"
  shows "renders d (bracket CHR ''{'' (map (\<lambda>(k, a, j). member_text k a) ps) CHR ''}'')
    (JObj (map (\<lambda>(k, a, j). (sanitize k, j)) ps))"
proof (rule rendersI [of _ "CHR ''{''" "Join (map (\<lambda>(k, a, j). member_text k a) ps) '','' @ ''}''"])
  fix n t
  assume "number_end t" and n: "2 * length (bracket CHR ''{'' (map (\<lambda>(k, a, j). member_text k a) ps) CHR ''}'') \<le> Suc n"
  define J where "J = Join (map (\<lambda>(k, a, j). member_text k a) ps) '',''"
  show "parse_value (Suc n) d (bracket CHR ''{'' (map (\<lambda>(k, a, j). member_text k a) ps) CHR ''}'' @ t)
      = Some (JObj (map (\<lambda>(k, a, j). (sanitize k, j)) ps), t)"
  proof (cases ps)
    case Nil
    then show ?thesis using assms(2) by (simp add: bracket_def not_less)
  next
    case (Cons p qs)
    obtain k a j where p: "p = (k, a, j)" by (cases p)
    have m: "member_text k a = CHR 0x22 # escape k @ CHR 0x22 # CHR '':'' # a" by (simp add: member_text_def quote_def)
    have J: "J \<noteq> []" "hd J = CHR 0x22"
      using Join_start [of "map (\<lambda>(k, a, j). member_text k a) ps" "'',''"] by (simp_all add: J_def Cons p m)
    then obtain J' where J': "J = CHR 0x22 # J'" by (cases J) auto
    have "parse_members n (Suc d) (J @ CHR ''}'' # t) = Some (map (\<lambda>(k, a, j). (sanitize k, j)) ps, t)"
      unfolding J_def using assms(1) n Cons by (intro parse_members_texts) (auto simp: bracket_def)
    then show ?thesis using assms(2) by (simp add: bracket_def J_def [symmetric] J' not_less)
  qed
qed (simp_all add: bracket_def)

section \<open>Values\<close>

fun jtree :: "any \<Rightarrow> jvalue" where
  "jtree ANil = JNull"
| "jtree (ABool b) = JBool b"
| "jtree (AFloat x) = JNum (float_text x)"
| "jtree (AInt i) = JNum (Itoa i)"
| "jtree (AStr s) = JStr (sanitize s)"
| "jtree (AList vs) = JArr (map jtree vs)"
| "jtree (AStrs ss) = JArr (map (\<lambda>s. JStr (sanitize s)) ss)"
| "jtree (AMap m) = JObj (map (\<lambda>(k, v). (sanitize k, jtree v)) m)"

text \<open>A value of the program: finite \<open>float64\<close>s and \<open>int\<close>s, nested no deeper than \<open>d\<close> levels.\<close>

fun any_ok :: "nat \<Rightarrow> any \<Rightarrow> bool" where
  "any_ok d ANil = True"
| "any_ok d (ABool b) = True"
| "any_ok d (AFloat x) = (f64_round x = x \<and> \<bar>x\<bar> < 2 ^ 1024)"
| "any_ok d (AInt i) = (int64_min \<le> i \<and> i \<le> int64_max)"
| "any_ok d (AStr s) = True"
| "any_ok d (AList vs) = (0 < d \<and> list_all (any_ok (d - 1)) vs)"
| "any_ok d (AStrs ss) = (0 < d)"
| "any_ok d (AMap m) = (0 < d \<and> list_all (\<lambda>(k, v). any_ok (d - 1) v) m)"

lemma renders_json_text:
  assumes "any_ok e v" "d + e \<le> max_depth"
  shows "renders d (json_text v) (jtree v)"
  using assms
proof (induction v arbitrary: d e rule: json_text.induct)
  case (3 x)
  then show ?case using representable_round [of x] by (simp add: renders_float)
next
  case (6 vs)
  have "\<forall>(a, j) \<in> set (map (\<lambda>v. (json_text v, jtree v)) vs). renders (Suc d) a j"
    using 6 by (auto simp: list_all_iff)
  from renders_list [OF this] 6 show ?case by (simp add: comp_def)
next
  case (7 ss)
  have "\<forall>(a, j) \<in> set (map (\<lambda>s. (quote s, JStr (sanitize s))) ss). renders (Suc d) a j"
    by (auto intro: renders_quote)
  from renders_list [OF this] 7 show ?case by (simp add: comp_def)
next
  case (8 m)
  have "\<forall>(k, a, j) \<in> set (map (\<lambda>(k, v). (k, json_text v, jtree v)) m). renders (Suc d) a j"
    using 8 by (fastforce simp: list_all_iff)
  from renders_object [OF this] 8 show ?case by (simp add: comp_def case_prod_unfold)
qed (auto intro: renders_intros)

lemma int_small: "int64_min \<le> i \<Longrightarrow> i \<le> int64_max \<Longrightarrow> \<bar>f64_round (of_int i)\<bar> < 2 ^ 1024"
proof -
  assume i: "int64_min \<le> i" "i \<le> int64_max"
  define b :: rat where "b = 2 ^ 63"
  have "representable b" "representable (- b)"
    unfolding representable_def b_def
    by (rule exI [of _ 1], rule exI [of _ 63], simp) (rule exI [of _ "- 1"], rule exI [of _ 63], simp)
  then have "f64_round b = b" "f64_round (- b) = - b" by (simp_all only: f64_round_representable)
  moreover have "of_int i \<le> b" "- b \<le> of_int i"
  proof -
    have "b = of_int (2 ^ 63)" "- b = of_int (- (2 ^ 63))" by (simp_all add: b_def)
    then show "of_int i \<le> b" "- b \<le> of_int i"
      using i by (simp_all only: of_int_le_iff) (simp_all add: int64_min_def int64_max_def)
  qed
  ultimately have "\<bar>f64_round (of_int i)\<bar> \<le> b"
    using f64_round_mono [of "of_int i" b] f64_round_mono [of "- b" "of_int i"] by (simp add: abs_le_iff minus_le_iff)
  also have "b < 2 ^ 1024" by (simp add: b_def)
  finally show ?thesis .
qed

lemma to_any_jtree: "any_ok e v \<Longrightarrow> to_any (jtree v) = Some (json_norm v)"
proof (induction v arbitrary: e rule: json_text.induct)
  case (3 x)
  then show ?case using to_float64_text [of x] representable_round [of x] by simp
next
  case (4 i)
  then show ?case using Itoa_lit [of i] int_small [of i] by (auto simp: to_float64_def Let_def f64_of_int_def)
next
  case (6 vs)
  then have "those (map (\<lambda>v. to_any (jtree v)) vs) = Some (map json_norm vs)"
    by (intro those_cong) (auto simp: list_all_iff)
  then show ?case by (simp add: comp_def)
next
  case (7 ss)
  then show ?case by (simp add: comp_def those_total)
next
  case (8 m)
  then have "those (map (\<lambda>(k, v). map_option (Pair (sanitize k)) (to_any (jtree v))) m) = Some (map (\<lambda>(k, v). (sanitize k, json_norm v)) m)"
    by (intro those_cong) (fastforce simp: list_all_iff)
  then show ?case by (simp add: comp_def case_prod_unfold)
qed simp_all

lemma decode_all_renders: "renders 0 a j \<Longrightarrow> decode_all a = Some j"
  using rendersD [of 0 a j "[]" "Suc (2 * length a)"] by (simp add: decode_all_def json_first_def skip_ws_def del: parse_value.simps)

lemma decode_json_text: "any_ok max_depth v \<Longrightarrow> decode_all (json_text v) = Some (jtree v)"
  by (intro decode_all_renders renders_json_text) (assumption, simp)

end
