(* ===== verification/JsonStruct.thy ===== *)
theory JsonStruct
  imports JsonRoundtrip
begin

text \<open>
  Structs survive \<open>json.Marshal\<close> and \<open>json.Unmarshal\<close>: the text of a struct decodes field by field,
  and a field that was omitted keeps its zero value.
\<close>

section \<open>Fields and their trees\<close>

definition renders_fields :: "nat \<Rightarrow> (string \<times> string) list \<Rightarrow> (string \<times> jvalue) list \<Rightarrow> bool" where
  "renders_fields d fs js \<longleftrightarrow> list_all2 (\<lambda>(k, a) (k', j). k' = k \<and> renders d a j) fs js"

lemma renders_fields_Nil [renders_intros]: "renders_fields d [] []"
  by (simp add: renders_fields_def)

lemma renders_fields_Cons [renders_intros]:
  "renders d a j \<Longrightarrow> renders_fields d fs js \<Longrightarrow> renders_fields d ((k, a) # fs) ((k, j) # js)"
  by (simp add: renders_fields_def)

lemma renders_fields_append [renders_intros]:
  "renders_fields d fs js \<Longrightarrow> renders_fields d gs ks \<Longrightarrow> renders_fields d (fs @ gs) (js @ ks)"
  unfolding renders_fields_def by (rule list_all2_appendI)

lemma renders_struct:
  assumes "renders_fields (Suc d) fs js" "Suc d \<le> max_depth"
  shows "renders d (struct_text fs) (JObj (map (\<lambda>(k, j). (sanitize k, j)) js))"
proof -
  define ps where "ps = map (\<lambda>((k, a), (k', j)). (k, a, j)) (zip fs js)"
  have "map (\<lambda>(k, a, j). member_text k a) ps = map (\<lambda>(k, t). member_text k t) fs
      \<and> map (\<lambda>(k, a, j). (sanitize k, j)) ps = map (\<lambda>(k, j). (sanitize k, j)) js
      \<and> (\<forall>(k, a, j) \<in> set ps. renders (Suc d) a j)"
    using assms(1) unfolding renders_fields_def ps_def by (induction rule: list_all2_induct) auto
  then show ?thesis using renders_object [of ps d] assms(2) by (simp add: struct_text_def)
qed

definition string_tree :: "string \<Rightarrow> string \<Rightarrow> (string \<times> jvalue) list" where
  "string_tree k s = (if s = [] then [] else [(k, JStr (sanitize s))])"

definition any_tree :: "string \<Rightarrow> any \<Rightarrow> (string \<times> jvalue) list" where
  "any_tree k v = (if v = ANil then [] else [(k, jtree v)])"

definition map_tree :: "string \<Rightarrow> anymap \<Rightarrow> (string \<times> jvalue) list" where
  "map_tree k m = (case m of None \<Rightarrow> [] | Some mm \<Rightarrow> if mm = [] then [] else [(k, jtree (AMap mm))])"

definition int_tree :: "string \<Rightarrow> int \<Rightarrow> (string \<times> jvalue) list" where
  "int_tree k i = (if i = 0 then [] else [(k, JNum (Itoa i))])"

text \<open>Half of the nesting that the decoder accepts is ample for the values of a message.\<close>

definition msg_depth :: nat where "msg_depth = 5000"

definition map_any_ok :: "anymap \<Rightarrow> bool" where
  "map_any_ok m = (case m of None \<Rightarrow> True | Some mm \<Rightarrow> any_ok msg_depth (AMap mm))"

lemma renders_any [renders_intros]: "any_ok msg_depth v \<Longrightarrow> d \<le> 5000 \<Longrightarrow> renders d (json_text v) (jtree v)"
  unfolding msg_depth_def by (erule renders_json_text) (unfold max_depth_def, linarith)

lemma renders_string_text [renders_intros]: "renders_fields d (string_text k s) (string_tree k s)"
  by (auto simp: string_text_def omit_if_def string_tree_def intro: renders_intros)

lemma renders_any_text [renders_intros]:
  "any_ok msg_depth v \<Longrightarrow> d \<le> 5000 \<Longrightarrow> renders_fields d (any_text k v) (any_tree k v)"
  by (auto simp: any_text_def omit_if_def any_tree_def intro: renders_intros)

lemma renders_map_text [renders_intros]:
  "map_any_ok m \<Longrightarrow> d \<le> 5000 \<Longrightarrow> renders_fields d (map_text k m) (map_tree k m)"
  by (auto simp: map_text_def omit_if_def map_tree_def map_any_ok_def simp del: json_text.simps jtree.simps
      intro!: renders_intros split: option.splits)

lemma renders_int_text [renders_intros]: "renders_fields d (omit_if (i = 0) k (Itoa i)) (int_tree k i)"
  by (auto simp: omit_if_def int_tree_def intro: renders_intros)

section \<open>Decoding\<close>

lemma struct_members_known:
  assumes "\<forall>(k, j) \<in> set js. sanitize k = k \<and> k \<in> set names"
  shows "struct_members strict names (JObj (map (\<lambda>(k, j). (sanitize k, j)) js)) = Some js"
proof -
  have id: "map (\<lambda>(k, j). (sanitize k, j)) js = js" using assms by (induction js) auto
  have "List.map_filter (\<lambda>(k, x). map_option (\<lambda>n. (n, x)) (find_field names k)) js = js"
    using assms by (induction js) (auto simp: find_field_def)
  moreover have "\<not> list_ex (\<lambda>(k, x). find_field names k = None) js"
    using assms by (auto simp: list_ex_iff find_field_def)
  ultimately show ?thesis by (simp add: struct_members_def id)
qed

lemma values_of_append [simp]: "values_of n (xs @ ys) = values_of n xs @ values_of n ys"
  by (simp add: values_of_def)

lemma values_of_Cons [simp]: "values_of n ((k, x) # xs) = (if k = n then [x] else []) @ values_of n xs"
  by (simp add: values_of_def)

lemma values_of_Nil [simp]: "values_of n [] = []"
  by (simp add: values_of_def)

lemma values_of_other [simp]:
  "k \<noteq> n \<Longrightarrow> values_of n (string_tree k s) = []" "k \<noteq> n \<Longrightarrow> values_of n (any_tree k v) = []"
  "k \<noteq> n \<Longrightarrow> values_of n (map_tree k m) = []" "k \<noteq> n \<Longrightarrow> values_of n (int_tree k i) = []"
  by (simp_all add: string_tree_def any_tree_def map_tree_def int_tree_def split: option.split)

lemma set_string_tree [simp]: "set_string [] (values_of k (string_tree k s)) = Some (sanitize s)"
  by (simp add: string_tree_def)

lemma set_any_tree: "any_ok d v \<Longrightarrow> set_any ANil (values_of k (any_tree k v)) = Some (json_norm v)"
  by (simp add: any_tree_def to_any_jtree)

lemma set_int_tree: "int64_min \<le> i \<Longrightarrow> i \<le> int64_max \<Longrightarrow> set_int 0 (values_of k (int_tree k i)) = Some i"
  by (simp add: int_tree_def Atoi_Itoa)

text \<open>A map field that is empty is omitted and read back as nil.\<close>

definition omit_norm :: "anymap \<Rightarrow> anymap" where
  "omit_norm m = (case m of None \<Rightarrow> None | Some mm \<Rightarrow> if mm = [] then None else norm_map (Some mm))"

lemma merge_map_make: "merge_map map_make kvs = map_from_list kvs"
  by (simp add: merge_map_def map_from_list_def)

lemma set_map_tree:
  assumes "map_any_ok m"
  shows "set_map None (values_of k (map_tree k m)) = Some (omit_norm m)"
proof (cases m)
  case (Some mm)
  have "those (map (\<lambda>(k, x). map_option (Pair k) (to_any x)) (map (\<lambda>(k, v). (sanitize k, jtree v)) mm))
      = Some (map (\<lambda>(k, v). (sanitize k, json_norm v)) mm)"
    unfolding map_map using assms Some
    by (intro those_cong) (fastforce simp: map_any_ok_def list_all_iff to_any_jtree)
  then show ?thesis by (simp add: Some map_tree_def omit_norm_def norm_map_def merge_map_make)
qed (simp add: map_tree_def omit_norm_def)

lemma tree_keys:
  "\<forall>(k', j) \<in> set (string_tree k s). k' = k" "\<forall>(k', j) \<in> set (any_tree k v). k' = k"
  "\<forall>(k', j) \<in> set (map_tree k m). k' = k" "\<forall>(k', j) \<in> set (int_tree k i). k' = k"
  by (auto simp: string_tree_def any_tree_def map_tree_def int_tree_def split: option.splits)

text \<open>Keys of letters and underscores are not changed by the replacement of bad bytes.\<close>

lemma sanitize_is_ascii: "is_ascii s \<Longrightarrow> sanitize s = s"
  by (induction s) (simp_all add: is_ascii_def)

end
