(* ===== verification/Adapter.thy ===== *)
theory Adapter
  imports Store Uuid Protocol JsonStruct
begin

text \<open>
  \<open>backend/internal/adapter/adapter.go\<close>: the interface of the protocol adapters and the metadata
  they attach to an envelope.
\<close>

record transport_meta =
  tm_ConnectionID :: string
  tm_SourceAddr :: string
  tm_AgentID :: string
  tm_Headers :: "string gomap option"

text \<open>
  An adapter. \<open>Ingest\<close> draws a fresh identifier and reads the clock; \<open>Emit\<close> takes a pointer, where
  \<open>None\<close> is nil.
\<close>

record adapter =
  ad_Name :: string
  ad_Protocol :: string
  ad_Ingest :: "string \<Rightarrow> transport_meta \<Rightarrow> envelope io"
  ad_Emit :: "envelope option \<Rightarrow> string res"
  ad_Validate :: "string \<Rightarrow> unit res"

definition MetaKeyAdapter :: string where [simp]: "MetaKeyAdapter = ''adapter''"
definition MetaKeyAdapterName :: string where [simp]: "MetaKeyAdapterName = ''adapter_name''"
definition MetaKeyAdapterVersion :: string where [simp]: "MetaKeyAdapterVersion = ''adapter_version''"
definition MetaKeyDirection :: string where [simp]: "MetaKeyDirection = ''direction''"
definition MetaKeySourceID :: string where [simp]: "MetaKeySourceID = ''source_id''"
definition MetaKeySourceProtocol :: string where [simp]: "MetaKeySourceProtocol = ''source_protocol''"
definition DirectionInbound :: string where [simp]: "DirectionInbound = ''inbound''"
definition DirectionOutbound :: string where [simp]: "DirectionOutbound = ''outbound''"

definition SetSystemMeta :: "string \<Rightarrow> any \<Rightarrow> envelope \<Rightarrow> envelope" where
  "SetSystemMeta key v env =
     env\<lparr>env_Metadata := Some (map_put key v (case env_Metadata env of None \<Rightarrow> map_make | Some m \<Rightarrow> m))\<rparr>"

definition SetAdapterMetadata :: "string \<Rightarrow> string \<Rightarrow> string \<Rightarrow> string \<Rightarrow> string \<Rightarrow> envelope \<Rightarrow> envelope" where
  "SetAdapterMetadata adapterName version direction sourceID sourceProtocol env =
     SetSystemMeta MetaKeyAdapter (AMap (map_from_list
       [(MetaKeyAdapterName, AStr adapterName), (MetaKeyAdapterVersion, AStr version), (MetaKeyDirection, AStr direction),
        (MetaKeySourceID, AStr sourceID), (MetaKeySourceProtocol, AStr sourceProtocol)])) env"

definition SystemMeta :: "envelope option \<Rightarrow> string \<Rightarrow> any option" where
  "SystemMeta p key = (case p of None \<Rightarrow> None | Some env \<Rightarrow> index_map (env_Metadata env) key)"

definition SystemMetaString :: "envelope option \<Rightarrow> string \<Rightarrow> string" where
  "SystemMetaString p key =
     (case SystemMeta p key of None \<Rightarrow> [] | Some v \<Rightarrow> (case as_string v of None \<Rightarrow> [] | Some s \<Rightarrow> s))"

text \<open>
  What the three \<open>Ingest\<close> methods share: the sender is the authenticated agent or names the
  connection after the protocol, the recipient comes from the header.
\<close>

definition adapter_from :: "string \<Rightarrow> transport_meta \<Rightarrow> string" where
  "adapter_from scheme meta =
     (let agent = TrimSpace (tm_AgentID meta); conn = TrimSpace (tm_ConnectionID meta) in
      if agent \<noteq> [] then agent else scheme @ '':'' @ (if conn = [] then ''unknown'' else conn))"

definition adapter_to :: "transport_meta \<Rightarrow> string" where
  "adapter_to meta =
     (let t = (case tm_Headers meta of
                 None \<Rightarrow> []
               | Some h \<Rightarrow> TrimSpace (case map_get h ''X-Target-Agent'' of None \<Rightarrow> [] | Some s \<Rightarrow> s)) in
      if t = [] then ''broadcast'' else t)"

definition blank_envelope :: "uuid_lib \<Rightarrow> string \<Rightarrow> transport_meta \<Rightarrow> uuid \<Rightarrow> time \<Rightarrow> envelope" where
  "blank_envelope U scheme meta i now =
     \<lparr>env_ID = uuid_String U i, env_From = adapter_from scheme meta, env_To = adapter_to meta, env_Tag = [],
      env_Content = [], env_Metadata = Some map_make, env_Timestamp = format_rfc3339 now\<rparr>"

text \<open>\<open>parseErrorCode\<close>, which the MCP and the gRPC adapter both have.\<close>

definition parseErrorCode :: "any \<Rightarrow> int res" where
  "parseErrorCode raw =
     (case raw of
        AInt i \<Rightarrow> Ok i
      | AFloat x \<Rightarrow> Ok (f64_to_int x)
      | AStr s \<Rightarrow>
          (case Atoi s of
             Inl e \<Rightarrow> Fail (Wrap ''response.error payload.code must be numeric'' e)
           | Inr c \<Rightarrow> Ok c)
      | _ \<Rightarrow> Fail (Err ''response.error payload.code must be numeric''))"

section \<open>The metadata\<close>

lemma SetSystemMeta_simps [simp]:
  "env_ID (SetSystemMeta k v e) = env_ID e" "env_From (SetSystemMeta k v e) = env_From e"
  "env_To (SetSystemMeta k v e) = env_To e" "env_Tag (SetSystemMeta k v e) = env_Tag e"
  "env_Content (SetSystemMeta k v e) = env_Content e" "env_Timestamp (SetSystemMeta k v e) = env_Timestamp e"
  "index_map (env_Metadata (SetSystemMeta k v e)) k' = (if k' = k then Some v else index_map (env_Metadata e) k')"
  by (simp_all add: SetSystemMeta_def split: option.split)

lemma SetAdapterMetadata_simps [simp]:
  "env_ID (SetAdapterMetadata n v d s p e) = env_ID e" "env_From (SetAdapterMetadata n v d s p e) = env_From e"
  "env_To (SetAdapterMetadata n v d s p e) = env_To e" "env_Tag (SetAdapterMetadata n v d s p e) = env_Tag e"
  "env_Content (SetAdapterMetadata n v d s p e) = env_Content e"
  "env_Timestamp (SetAdapterMetadata n v d s p e) = env_Timestamp e"
  "k \<noteq> ''adapter'' \<Longrightarrow> index_map (env_Metadata (SetAdapterMetadata n v d s p e)) k = index_map (env_Metadata e) k"
  by (simp_all add: SetAdapterMetadata_def)

text \<open>What the adapter recorded about the source of an envelope.\<close>

definition adapter_entry :: "envelope \<Rightarrow> string \<Rightarrow> any option" where
  "adapter_entry env key = Option.bind (Option.bind (index_map (env_Metadata env) MetaKeyAdapter) as_map) (\<lambda>m. map_get m key)"

lemma adapter_entry_set:
  "adapter_entry (SetAdapterMetadata n v d s p e) MetaKeyAdapterName = Some (AStr n)"
  "adapter_entry (SetAdapterMetadata n v d s p e) MetaKeyAdapterVersion = Some (AStr v)"
  "adapter_entry (SetAdapterMetadata n v d s p e) MetaKeyDirection = Some (AStr d)"
  "adapter_entry (SetAdapterMetadata n v d s p e) MetaKeySourceID = Some (AStr s)"
  "adapter_entry (SetAdapterMetadata n v d s p e) MetaKeySourceProtocol = Some (AStr p)"
  by (simp_all add: adapter_entry_def SetAdapterMetadata_def map_get_from_list)

lemma EffectiveTag_meta:
  "env_Tag e = [] \<Longrightarrow> index_map (env_Metadata e) MetaSysTag = Some (AStr t) \<Longrightarrow> EffectiveTag (Some e) = TrimSpace t"
  by (auto simp: EffectiveTag_def index_map_def split: option.splits)

lemma knownTags_trimmed: "t \<in> set knownTags \<Longrightarrow> TrimSpace t = t"
proof -
  have "\<forall>t \<in> set knownTags. hd t \<notin> set space_bytes \<and> last t \<notin> set space_bytes" by code_simp
  then show "t \<in> set knownTags \<Longrightarrow> ?thesis" by (auto intro: TrimSpace_plain)
qed

lemma adapter_to_nonblank: "TrimSpace (adapter_to meta) \<noteq> []"
proof -
  have "TrimSpace ''broadcast'' = ''broadcast''" by code_simp
  then show ?thesis by (auto simp: adapter_to_def Let_def split: option.splits)
qed

lemma adapter_from_nonblank:
  "scheme \<noteq> [] \<Longrightarrow> hd scheme \<notin> set space_bytes \<Longrightarrow> TrimSpace (adapter_from scheme meta) \<noteq> []"
  using TrimSpace_nonempty [of "scheme @ _"] by (auto simp: adapter_from_def Let_def)

text \<open>Metadata as the program has it: finite numbers, and values that are not nested absurdly deep.\<close>

definition meta_depth :: nat where "meta_depth = 4000"

definition meta_ok :: "envelope \<Rightarrow> bool" where
  "meta_ok env =
     (case env_Metadata env of None \<Rightarrow> True | Some m \<Rightarrow> list_all (\<lambda>(k, v). any_ok meta_depth v) m)"

lemma any_ok_mono: "any_ok d v \<Longrightarrow> d \<le> e \<Longrightarrow> any_ok e v"
proof (induction d v arbitrary: e rule: any_ok.induct)
  case (6 d vs)
  then have "list_all (any_ok (e - 1)) vs" by (fastforce simp: list_all_iff)
  with 6 show ?case by simp
next
  case (8 d m)
  then have "list_all (\<lambda>(k, v). any_ok (e - 1) v) m" by (fastforce simp: list_all_iff)
  with 8 show ?case by simp
qed auto

lemma meta_ok_deep:
  assumes "meta_ok env" "index_map (env_Metadata env) k = Some v"
  shows "any_ok meta_depth v"
  using assms by (auto simp: meta_ok_def list_all_iff map_get_def dest: map_of_SomeD split: option.splits)

lemma meta_okD:
  assumes "meta_ok env" "index_map (env_Metadata env) k = Some v"
  shows "any_ok msg_depth v"
  using meta_ok_deep [OF assms] by (rule any_ok_mono) (simp add: meta_depth_def msg_depth_def)

lemma parseErrorCode_range:
  assumes "parseErrorCode v = Ok c" "any_ok d v"
  shows "int64_min \<le> c \<and> c \<le> int64_max"
  using assms Atoi_range
  by (auto simp: parseErrorCode_def f64_to_int_def Let_def int64_min_def int64_max_def split: any.splits sum.splits if_splits)

lemma json_norm_eq_ANil [simp]: "json_norm v = ANil \<longleftrightarrow> v = ANil"
  by (cases v) simp_all

section \<open>Blank text stays blank\<close>

lemma trim_left_drops: "\<exists>p. s = p @ trim_left s \<and> set p \<subseteq> set space_bytes"
proof (induction s rule: trim_left.induct)
  case (1 s)
  show ?case
  proof (cases "find (\<lambda>p. prefix p s) space_encodings")
    case None
    then show ?thesis by (subst trim_left.simps) (intro exI [of _ "[]"], simp)
  next
    case (Some p)
    then have p: "p \<in> set space_encodings" "prefix p s" by (auto dest: find_Some_prop)
    then have "set p \<subseteq> set space_bytes" by (auto simp: space_bytes_def)
    moreover obtain q where "drop (length p) s = q @ trim_left (drop (length p) s)" "set q \<subseteq> set space_bytes"
      using 1 [OF Some] by blast
    moreover have "trim_left s = trim_left (drop (length p) s)" using Some by (subst trim_left.simps) simp
    moreover have "s = p @ drop (length p) s" using p(2) by (rule prefix_drop_length)
    ultimately have "s = (p @ q) @ trim_left s" "set (p @ q) \<subseteq> set space_bytes"
      by (simp_all only: append_assoc set_append Un_least)
    then show ?thesis by blast
  qed
qed

lemma TrimSpace_Nil_bytes: "TrimSpace s = [] \<Longrightarrow> set s \<subseteq> set space_bytes"
proof -
  assume "TrimSpace s = []"
  then have "set (trim_left s) \<subseteq> set space_bytes" using trim_right_drops [of "trim_left s"] by (simp add: TrimSpace_def)
  moreover obtain p where "s = p @ trim_left s" "set p \<subseteq> set space_bytes" using trim_left_drops by blast
  ultimately show ?thesis by (metis Un_least set_append)
qed

lemma sanitize_no_error: "CHR 0xEF \<notin> set (sanitize s) \<Longrightarrow> sanitize s = s"
proof (induction s rule: sanitize.induct)
  case (1 s)
  show ?case
  proof (cases "s = []")
    case False
    then have "rune_len s \<noteq> 0" using 1(3) by (auto simp: sanitize.simps [of s] rune_error_def split: if_splits)
    with False 1 show ?thesis by (simp add: sanitize.simps [of s])
  qed simp
qed

text \<open>Replacing bad bytes makes no text blank.\<close>

lemma TrimSpace_sanitize: "TrimSpace s \<noteq> [] \<Longrightarrow> TrimSpace (sanitize s) \<noteq> []"
proof
  assume s: "TrimSpace s \<noteq> []" "TrimSpace (sanitize s) = []"
  have "CHR 0xEF \<notin> set space_bytes" by code_simp
  then have "sanitize s = s" using TrimSpace_Nil_bytes [OF s(2)] sanitize_no_error by blast
  with s show False by simp
qed

section \<open>The contract of \<open>Ingest\<close>\<close>

text \<open>
  The shape that the three \<open>Ingest\<close> methods have in common: validation, decoding, a blank envelope
  with a fresh identifier and the time, the protocol's own part (\<open>fill\<close>), the adapter's metadata and
  the check of the result.
\<close>

definition ingest_shape where
  "ingest_shape name version prot err validate decode source fill U raw meta =
     bindE (liftE (validate raw)) (\<lambda>_::unit.
     case decode raw of
       None \<Rightarrow> failE (Wrap err (Err ''decode''))
     | Some msg \<Rightarrow>
         bindE uuid_New (\<lambda>i.
         bindE time_Now (\<lambda>now.
         bindE (liftE (fill msg (source msg) (blank_envelope U name meta i now))) (\<lambda>env0.
         bindE (wrapE ''ingested envelope invalid''
                  (liftE (Validate (Some (SetAdapterMetadata name version DirectionInbound (source msg) prot env0))))) (\<lambda>_.
         returnE (SetAdapterMetadata name version DirectionInbound (source msg) prot env0))))))"

text \<open>
  What a protocol's own part promises: it leaves the header of the envelope alone, sets a known
  system tag, and accepts only what validation accepts.
\<close>

locale ingesting =
  fixes name version prot err :: string
    and validate :: "string \<Rightarrow> unit res" and decode :: "string \<Rightarrow> 'm option"
    and source :: "'m \<Rightarrow> string" and fill :: "'m \<Rightarrow> string \<Rightarrow> envelope \<Rightarrow> envelope res"
    and ingest :: "uuid_lib \<Rightarrow> string \<Rightarrow> transport_meta \<Rightarrow> envelope io"
  assumes shape: "ingest U raw meta = ingest_shape name version prot err validate decode source fill U raw meta"
    and name_visible: "name \<noteq> [] \<and> hd name \<notin> set space_bytes"
    and fill_header: "fill msg s e = Ok e' \<Longrightarrow>
      env_ID e' = env_ID e \<and> env_From e' = env_From e \<and> env_To e' = env_To e \<and> env_Tag e' = env_Tag e
      \<and> env_Timestamp e' = env_Timestamp e"
    and fill_tag: "fill msg s e = Ok e' \<Longrightarrow> \<exists>t \<in> set knownTags. index_map (env_Metadata e') MetaSysTag = Some (AStr t)"
begin

lemma ingest_reads: "reads (ingest U raw meta)"
  unfolding shape ingest_shape_def by (auto intro!: reads_intros split: option.splits)

text \<open>The envelope that an accepted message becomes.\<close>

definition ingested :: "uuid_lib \<Rightarrow> transport_meta \<Rightarrow> 'm \<Rightarrow> uuid \<Rightarrow> time \<Rightarrow> envelope \<Rightarrow> bool" where
  "ingested U meta msg i now env \<longleftrightarrow>
     (\<exists>env0. fill msg (source msg) (blank_envelope U name meta i now) = Ok env0
        \<and> env = SetAdapterMetadata name version DirectionInbound (source msg) prot env0)"

lemma ingested_facts:
  assumes "ingested U meta msg i now env"
  shows "env_ID env = uuid_String U i" "env_From env = adapter_from name meta" "env_To env = adapter_to meta"
    "env_Tag env = []" "env_Timestamp env = format_rfc3339 now" "EffectiveTag (Some env) \<in> set knownTags"
    "adapter_entry env MetaKeyAdapterName = Some (AStr name)" "adapter_entry env MetaKeySourceProtocol = Some (AStr prot)"
    "adapter_entry env MetaKeySourceID = Some (AStr (source msg))"
proof -
  obtain env0 where f: "fill msg (source msg) (blank_envelope U name meta i now) = Ok env0"
    and env: "env = SetAdapterMetadata name version DirectionInbound (source msg) prot env0"
    using assms by (auto simp: ingested_def)
  show "env_ID env = uuid_String U i" "env_From env = adapter_from name meta" "env_To env = adapter_to meta"
    "env_Tag env = []" "env_Timestamp env = format_rfc3339 now"
    using fill_header [OF f] by (simp_all add: env blank_envelope_def)
  obtain t where t: "t \<in> set knownTags" "index_map (env_Metadata env0) MetaSysTag = Some (AStr t)"
    using fill_tag [OF f] by blast
  then have "EffectiveTag (Some env) = t"
    using EffectiveTag_meta [of env t] knownTags_trimmed [OF t(1)] \<open>env_Tag env = []\<close> by (simp add: env)
  then show "EffectiveTag (Some env) \<in> set knownTags" using t(1) by simp
qed (use assms in \<open>auto simp: ingested_def adapter_entry_set simp del: MetaKeyAdapterName_def MetaKeySourceProtocol_def MetaKeySourceID_def\<close>)

lemma ingest_Ok:
  assumes "ingest U raw meta w = (Ok env, w')"
  shows "validate raw = Ok ()" "Validate (Some env) = Ok ()" "w_db w' = w_db w"
    "\<exists>msg. decode raw = Some msg \<and> ingested U meta msg (w_uuid w (w_uuids_used w)) (w_clock w (w_clock_reads w)) env"
proof -
  show "w_db w' = w_db w" by (rule readsD [OF ingest_reads assms])
  have "validate raw = Ok () \<and> Validate (Some env) = Ok ()
    \<and> (\<exists>msg. decode raw = Some msg \<and> ingested U meta msg (w_uuid w (w_uuids_used w)) (w_clock w (w_clock_reads w)) env)"
    using assms unfolding shape ingest_shape_def ingested_def
    by (auto simp: bindE_Inr uuid_New_def time_Now_def split: option.splits)
  then show "validate raw = Ok ()" "Validate (Some env) = Ok ()"
    "\<exists>msg. decode raw = Some msg \<and> ingested U meta msg (w_uuid w (w_uuids_used w)) (w_clock w (w_clock_reads w)) env"
    by blast+
qed

text \<open>The final check never fails: what \<open>fill\<close> accepts is delivered.\<close>

lemma ingest_total:
  assumes "validate raw = Ok ()" "decode raw = Some msg" "uuid_laws U" "time_ok (w_clock w (w_clock_reads w))"
    and "fill msg (source msg) (blank_envelope U name meta (w_uuid w (w_uuids_used w)) (w_clock w (w_clock_reads w))) = Ok env0"
  shows "\<exists>w'. ingest U raw meta w = (Ok (SetAdapterMetadata name version DirectionInbound (source msg) prot env0), w')"
proof -
  define env where "env = SetAdapterMetadata name version DirectionInbound (source msg) prot env0"
  have "ingested U meta msg (w_uuid w (w_uuids_used w)) (w_clock w (w_clock_reads w)) env"
    using assms(5) by (auto simp: ingested_def env_def)
  note facts = ingested_facts [OF this]
  have "Validate (Some env) = Ok ()"
    unfolding Validate_Ok_iff
    using facts adapter_to_nonblank adapter_from_nonblank name_visible knownTags_tag_lang
      TrimSpace_uuid [OF assms(3)] uuid_lawsD(3) [OF assms(3)] parse_format_rfc3339 [OF assms(4)] by auto
  then show ?thesis
    using assms(1,2,5)
    by (simp add: shape ingest_shape_def bindE_def liftE_def uuid_New_def time_Now_def wrapE_def returnE_def env_def)
qed

text \<open>An accepted message: the facts that the rest of the server relies on.\<close>

lemma ingest_accepted:
  assumes "ingest U raw meta w = (Ok env, w')"
  shows "validate raw = Ok () \<and> Validate (Some env) = Ok () \<and> w_db w' = w_db w
    \<and> env_ID env = uuid_String U (w_uuid w (w_uuids_used w)) \<and> env_From env = adapter_from name meta
    \<and> env_To env = adapter_to meta \<and> EffectiveTag (Some env) \<in> set knownTags
    \<and> adapter_entry env MetaKeyAdapterName = Some (AStr name) \<and> adapter_entry env MetaKeySourceProtocol = Some (AStr prot)"
proof -
  obtain msg where "ingested U meta msg (w_uuid w (w_uuids_used w)) (w_clock w (w_clock_reads w)) env"
    using ingest_Ok(4) [OF assms] by blast
  note ingested_facts [OF this]
  with ingest_Ok(1-3) [OF assms] show ?thesis by blast
qed

end

end
