(* ===== verification/Mcp.thy ===== *)
theory Mcp
  imports Adapter
begin

text \<open>
  \<open>backend/internal/adapter/mcp/mcp.go\<close>: JSON-RPC messages of the Model Context Protocol to and from
  envelopes.
\<close>

section \<open>Messages\<close>

record jsonRPCError =
  rpc_Code :: int
  rpc_Message :: string
  rpc_Data :: any

record jsonRPCMessage =
  rpc_JSONRPC :: string
  rpc_ID :: any
  rpc_Method :: string
  rpc_Params :: anymap
  rpc_Result :: any
  rpc_Error :: "jsonRPCError option"

definition decode_rpc_error :: "jsonRPCError option \<Rightarrow> jvalue \<Rightarrow> jsonRPCError option" where
  "decode_rpc_error acc v =
     do { let e = (case acc of None \<Rightarrow> \<lparr>rpc_Code = 0, rpc_Message = [], rpc_Data = ANil\<rparr> | Some e \<Rightarrow> e);
          ms \<leftarrow> struct_members False [''code'', ''message'', ''data''] v;
          c \<leftarrow> set_int (rpc_Code e) (values_of ''code'' ms);
          m \<leftarrow> set_string (rpc_Message e) (values_of ''message'' ms);
          d \<leftarrow> set_any (rpc_Data e) (values_of ''data'' ms);
          Some \<lparr>rpc_Code = c, rpc_Message = m, rpc_Data = d\<rparr> }"

text \<open>A pointer field: \<open>null\<close> makes it nil, a value is decoded into what it points to.\<close>

fun set_rpc_error :: "jsonRPCError option \<Rightarrow> jvalue list \<Rightarrow> jsonRPCError option option" where
  "set_rpc_error acc [] = Some acc"
| "set_rpc_error acc (v # vs) =
     (if v = JNull then set_rpc_error None vs
      else Option.bind (decode_rpc_error acc v) (\<lambda>e. set_rpc_error (Some e) vs))"

definition unmarshal_rpc :: "string \<Rightarrow> jsonRPCMessage option" where
  "unmarshal_rpc raw =
     do { v \<leftarrow> decode_all raw;
          ms \<leftarrow> struct_members False [''jsonrpc'', ''id'', ''method'', ''params'', ''result'', ''error''] v;
          j \<leftarrow> string_field ms ''jsonrpc''; i \<leftarrow> any_field ms ''id''; m \<leftarrow> string_field ms ''method'';
          p \<leftarrow> map_field ms ''params''; r \<leftarrow> any_field ms ''result'';
          e \<leftarrow> set_rpc_error None (values_of ''error'' ms);
          Some \<lparr>rpc_JSONRPC = j, rpc_ID = i, rpc_Method = m, rpc_Params = p, rpc_Result = r, rpc_Error = e\<rparr> }"

definition rpc_error_text :: "jsonRPCError \<Rightarrow> string" where
  "rpc_error_text e =
     struct_text ([(''code'', Itoa (rpc_Code e)), (''message'', quote (rpc_Message e))] @ any_text ''data'' (rpc_Data e))"

definition marshal_rpc :: "jsonRPCMessage \<Rightarrow> string" where
  "marshal_rpc msg =
     struct_text
       ([(''jsonrpc'', quote (rpc_JSONRPC msg))] @ any_text ''id'' (rpc_ID msg) @ string_text ''method'' (rpc_Method msg)
        @ map_text ''params'' (rpc_Params msg) @ any_text ''result'' (rpc_Result msg)
        @ (case rpc_Error msg of None \<Rightarrow> [] | Some e \<Rightarrow> [(''error'', rpc_error_text e)]))"

section \<open>Operations\<close>

definition mcp_Name :: string where "mcp_Name = ''mcp''"
definition mcp_Protocol :: string where "mcp_Protocol = ''json-rpc''"
definition mcp_version :: string where "mcp_version = ''1.0.0''"

definition mcp_Validate :: "string \<Rightarrow> unit res" where
  "mcp_Validate raw =
     (if raw = [] then Fail (Err ''raw message is empty'')
      else (case unmarshal_rpc raw of
              None \<Rightarrow> Fail (Wrap ''invalid json'' (Err ''decode''))
            | Some msg \<Rightarrow>
                if TrimSpace (rpc_JSONRPC msg) = [] then Fail (Err ''jsonrpc field is required'')
                else if rpc_JSONRPC msg \<noteq> ''2.0'' then Fail (Err (''invalid jsonrpc version: '' @ rpc_JSONRPC msg))
                else if TrimSpace (rpc_Method msg) = [] \<and> rpc_Result msg = ANil \<and> rpc_Error msg = None
                then Fail (Err ''json-rpc message must include method, result, or error'')
                else Ok ()))"

definition sourceIDFromJSONRPCID :: "any \<Rightarrow> string" where
  "sourceIDFromJSONRPCID i =
     (case i of
        ANil \<Rightarrow> []
      | AStr s \<Rightarrow> s
      | AFloat v \<Rightarrow> if v = f64_of_int (f64_to_int v) then Itoa (f64_to_int v) else FormatFloat_f v
      | _ \<Rightarrow> sprint i)"

definition buildNotificationSummary :: "string \<Rightarrow> anymap \<Rightarrow> string" where
  "buildNotificationSummary mth params =
     (case params of
        None \<Rightarrow> TrimSpace mth
      | Some m \<Rightarrow> if m = [] then TrimSpace mth else TrimSpace mth @ '' '' @ json_text (AMap m))"

definition set_request_id :: "string \<Rightarrow> envelope \<Rightarrow> envelope" where
  "set_request_id sourceID env = (if sourceID \<noteq> [] then SetSystemMeta MetaSysRequestID (AStr sourceID) env else env)"

definition mcp_fill :: "jsonRPCMessage \<Rightarrow> string \<Rightarrow> envelope \<Rightarrow> envelope res" where
  "mcp_fill msg sourceID env =
     (case rpc_Error msg of
        Some e \<Rightarrow>
          if rpc_ID msg = ANil then Fail (Err ''json-rpc error message missing id'')
          else Ok (set_request_id sourceID (SetSystemMeta MetaSysMessage (AStr (rpc_Message e))
                     (SetSystemMeta MetaSysCode (AStr (Itoa (rpc_Code e)))
                       (SetSystemMeta MetaSysTag (AStr TagResponseError) env))))
      | None \<Rightarrow>
          if rpc_Result msg \<noteq> ANil then
            if rpc_ID msg = ANil then Fail (Err ''json-rpc result message missing id'')
            else Ok (SetSystemMeta MetaSysResult (rpc_Result msg)
                      (set_request_id sourceID (SetSystemMeta MetaSysTag (AStr TagResponseSuccess) env)))
          else if TrimSpace (rpc_Method msg) \<noteq> [] \<and> rpc_ID msg = ANil then
            Ok ((SetSystemMeta MetaSysTag (AStr TagContextProvide) env)
                  \<lparr>env_Content := buildNotificationSummary (rpc_Method msg) (rpc_Params msg)\<rparr>)
          else if rpc_Method msg = ''tools/call'' \<and> rpc_ID msg \<noteq> ANil then
            (case index_map (rpc_Params msg) ''name'' of
               None \<Rightarrow> Fail (Err ''tools/call params.name is required'')
             | Some nameRaw \<Rightarrow>
                 (case as_string nameRaw of
                    None \<Rightarrow> Fail (Err ''tools/call params.name must be a non-empty string'')
                  | Some action \<Rightarrow>
                      if TrimSpace action = [] then Fail (Err ''tools/call params.name must be a non-empty string'')
                      else Ok (SetSystemMeta MetaSysArgs
                                 (case index_map (rpc_Params msg) ''arguments'' of
                                    Some args \<Rightarrow> args | None \<Rightarrow> AMap map_make)
                                 (SetSystemMeta MetaSysAction (AStr action)
                                   (SetSystemMeta MetaSysTag (AStr TagRequestAction) env)))))
          else Fail (Err ''unsupported mcp message shape''))"

definition mcp_Ingest :: "uuid_lib \<Rightarrow> string \<Rightarrow> transport_meta \<Rightarrow> envelope io" where
  "mcp_Ingest U raw meta =
     bindE (liftE (mcp_Validate raw)) (\<lambda>_.
     case unmarshal_rpc raw of
       None \<Rightarrow> failE (Wrap ''unmarshal json-rpc message'' (Err ''decode''))
     | Some msg \<Rightarrow>
         let sourceID = sourceIDFromJSONRPCID (rpc_ID msg) in
         bindE uuid_New (\<lambda>i.
         bindE time_Now (\<lambda>now.
         bindE (liftE (mcp_fill msg sourceID (blank_envelope U mcp_Name meta i now))) (\<lambda>env0.
         let env = SetAdapterMetadata mcp_Name mcp_version DirectionInbound sourceID mcp_Protocol env0 in
         bindE (wrapE ''ingested envelope invalid'' (liftE (Validate (Some env)))) (\<lambda>_.
         returnE env)))))"

definition mcp_requestIDForEmit :: "envelope \<Rightarrow> any" where
  "mcp_requestIDForEmit env =
     (case SystemMeta (Some env) MetaSysRequestID of
        Some r \<Rightarrow> if r \<noteq> ANil then r else AStr (env_ID env)
      | None \<Rightarrow> AStr (env_ID env))"

definition blank_rpc :: jsonRPCMessage where
  "blank_rpc = \<lparr>rpc_JSONRPC = ''2.0'', rpc_ID = ANil, rpc_Method = [], rpc_Params = None, rpc_Result = ANil, rpc_Error = None\<rparr>"

definition mcp_message :: "envelope \<Rightarrow> jsonRPCMessage res" where
  "mcp_message env =
     (let tag = EffectiveTag (Some env); p = Some env in
      if tag = TagRequestAction then
        (let action = SystemMetaString p MetaSysAction in
         if TrimSpace action = [] then Fail (Err ''request.action metadata.action is required'')
         else Ok (blank_rpc\<lparr>rpc_ID := mcp_requestIDForEmit env, rpc_Method := ''tools/call'',
                    rpc_Params := Some (map_put ''arguments''
                       (case SystemMeta p MetaSysArgs of Some args \<Rightarrow> args | None \<Rightarrow> AMap map_make)
                       (map_put ''name'' (AStr action) map_make))\<rparr>))
      else if tag = TagResponseSuccess then
        (case SystemMeta p MetaSysResult of
           None \<Rightarrow> Fail (Err ''response.success metadata.result is required'')
         | Some r \<Rightarrow> Ok (blank_rpc\<lparr>rpc_ID := mcp_requestIDForEmit env, rpc_Result := r\<rparr>))
      else if tag = TagResponseError then
        (case SystemMeta p MetaSysCode of
           None \<Rightarrow> Fail (Err ''response.error metadata.code is required'')
         | Some codeRaw \<Rightarrow>
             (case parseErrorCode codeRaw of
                Inl e \<Rightarrow> Fail e
              | Inr code \<Rightarrow>
                  let m = SystemMetaString p MetaSysMessage in
                  if TrimSpace m = [] then Fail (Err ''response.error metadata.message must be a non-empty string'')
                  else Ok (blank_rpc\<lparr>rpc_ID := mcp_requestIDForEmit env,
                             rpc_Error := Some \<lparr>rpc_Code = code, rpc_Message = m, rpc_Data = ANil\<rparr>\<rparr>)))
      else Fail (Err (''unsupported envelope tag for mcp emit: '' @ tag)))"

definition mcp_Emit :: "envelope option \<Rightarrow> string res" where
  "mcp_Emit p =
     (case p of
        None \<Rightarrow> Fail (Err ''envelope is nil'')
      | Some env \<Rightarrow> (case mcp_message env of Inl e \<Rightarrow> Fail e | Inr msg \<Rightarrow> Ok (marshal_rpc msg)))"

definition NewMCPAdapter :: "uuid_lib \<Rightarrow> adapter" where
  "NewMCPAdapter U =
     \<lparr>ad_Name = mcp_Name, ad_Protocol = mcp_Protocol, ad_Ingest = mcp_Ingest U, ad_Emit = mcp_Emit,
      ad_Validate = mcp_Validate\<rparr>"

section \<open>The contract\<close>

lemma set_request_id_simps [simp]:
  "env_ID (set_request_id s e) = env_ID e" "env_From (set_request_id s e) = env_From e"
  "env_To (set_request_id s e) = env_To e" "env_Tag (set_request_id s e) = env_Tag e"
  "env_Content (set_request_id s e) = env_Content e" "env_Timestamp (set_request_id s e) = env_Timestamp e"
  "k \<noteq> ''_request_id'' \<Longrightarrow> index_map (env_Metadata (set_request_id s e)) k = index_map (env_Metadata e) k"
  by (simp_all add: set_request_id_def)

lemma mcp_fill_header:
  "mcp_fill msg s e = Ok e' \<Longrightarrow>
     env_ID e' = env_ID e \<and> env_From e' = env_From e \<and> env_To e' = env_To e \<and> env_Tag e' = env_Tag e
     \<and> env_Timestamp e' = env_Timestamp e"
  by (auto simp: mcp_fill_def split: option.splits if_splits)

lemma mcp_fill_tag:
  "mcp_fill msg s e = Ok e' \<Longrightarrow> \<exists>t \<in> set knownTags. index_map (env_Metadata e') MetaSysTag = Some (AStr t)"
  by (auto simp: mcp_fill_def knownTags_def split: option.splits if_splits)

interpretation mcp: ingesting mcp_Name mcp_version mcp_Protocol "''unmarshal json-rpc message''" mcp_Validate unmarshal_rpc
  "\<lambda>msg. sourceIDFromJSONRPCID (rpc_ID msg)" mcp_fill mcp_Ingest
proof
  show "mcp_Ingest U raw meta = ingest_shape mcp_Name mcp_version mcp_Protocol ''unmarshal json-rpc message'' mcp_Validate
      unmarshal_rpc (\<lambda>msg. sourceIDFromJSONRPCID (rpc_ID msg)) mcp_fill U raw meta" for U raw meta
    by (simp only: mcp_Ingest_def ingest_shape_def Let_def)
  show "mcp_Name \<noteq> [] \<and> hd mcp_Name \<notin> set space_bytes" by code_simp
qed (fact mcp_fill_header mcp_fill_tag)+

section \<open>Round trips\<close>

definition rpc_ok :: "jsonRPCMessage \<Rightarrow> bool" where
  "rpc_ok msg \<longleftrightarrow>
     any_ok msg_depth (rpc_ID msg) \<and> any_ok msg_depth (rpc_Result msg) \<and> map_any_ok (rpc_Params msg)
     \<and> (\<forall>e. rpc_Error msg = Some e \<longrightarrow>
          int64_min \<le> rpc_Code e \<and> rpc_Code e \<le> int64_max \<and> any_ok msg_depth (rpc_Data e))"

definition rpc_norm :: "jsonRPCMessage \<Rightarrow> jsonRPCMessage" where
  "rpc_norm msg =
     \<lparr>rpc_JSONRPC = sanitize (rpc_JSONRPC msg), rpc_ID = json_norm (rpc_ID msg), rpc_Method = sanitize (rpc_Method msg),
      rpc_Params = omit_norm (rpc_Params msg), rpc_Result = json_norm (rpc_Result msg),
      rpc_Error = map_option (\<lambda>e. \<lparr>rpc_Code = rpc_Code e, rpc_Message = sanitize (rpc_Message e), rpc_Data = json_norm (rpc_Data e)\<rparr>)
        (rpc_Error msg)\<rparr>"

definition rpc_error_fields :: "jsonRPCError \<Rightarrow> (string \<times> jvalue) list" where
  "rpc_error_fields e =
     [(''code'', JNum (Itoa (rpc_Code e))), (''message'', JStr (sanitize (rpc_Message e)))] @ any_tree ''data'' (rpc_Data e)"

definition rpc_fields :: "jsonRPCMessage \<Rightarrow> (string \<times> jvalue) list" where
  "rpc_fields msg =
     [(''jsonrpc'', JStr (sanitize (rpc_JSONRPC msg)))] @ any_tree ''id'' (rpc_ID msg) @ string_tree ''method'' (rpc_Method msg)
     @ map_tree ''params'' (rpc_Params msg) @ any_tree ''result'' (rpc_Result msg)
     @ (case rpc_Error msg of None \<Rightarrow> []
        | Some e \<Rightarrow> [(''error'', JObj (map (\<lambda>(k, j). (sanitize k, j)) (rpc_error_fields e)))])"

lemma ascii_keys:
  "sanitize ''jsonrpc'' = ''jsonrpc''" "sanitize ''id'' = ''id''" "sanitize ''method'' = ''method''"
  "sanitize ''params'' = ''params''" "sanitize ''result'' = ''result''" "sanitize ''error'' = ''error''"
  "sanitize ''code'' = ''code''" "sanitize ''message'' = ''message''" "sanitize ''data'' = ''data''"
  by (rule sanitize_is_ascii, code_simp)+

lemma rpc_error_renders:
  assumes "any_ok msg_depth (rpc_Data e)"
  shows "renders 1 (rpc_error_text e) (JObj (map (\<lambda>(k, j). (sanitize k, j)) (rpc_error_fields e)))"
  unfolding rpc_error_text_def rpc_error_fields_def
  by (intro renders_struct renders_intros assms) (simp_all add: max_depth_def)

lemma rpc_renders:
  assumes "rpc_ok msg"
  shows "renders 0 (marshal_rpc msg) (JObj (map (\<lambda>(k, j). (sanitize k, j)) (rpc_fields msg)))"
proof -
  have "renders_fields 1 (case rpc_Error msg of None \<Rightarrow> [] | Some e \<Rightarrow> [(''error'', rpc_error_text e)])
    (case rpc_Error msg of None \<Rightarrow> [] | Some e \<Rightarrow> [(''error'', JObj (map (\<lambda>(k, j). (sanitize k, j)) (rpc_error_fields e)))])"
    using assms rpc_error_renders by (auto simp: rpc_ok_def intro!: renders_intros split: option.splits)
  then show ?thesis
    unfolding marshal_rpc_def rpc_fields_def
    using assms by (intro renders_struct renders_intros) (simp_all add: rpc_ok_def max_depth_def)
qed

lemma decode_rpc_error_fields:
  assumes "int64_min \<le> rpc_Code e" "rpc_Code e \<le> int64_max" "any_ok msg_depth (rpc_Data e)"
  shows "decode_rpc_error None (JObj (map (\<lambda>(k, j). (sanitize k, j)) (rpc_error_fields e)))
    = Some \<lparr>rpc_Code = rpc_Code e, rpc_Message = sanitize (rpc_Message e), rpc_Data = json_norm (rpc_Data e)\<rparr>"
proof -
  have "struct_members False [''code'', ''message'', ''data''] (JObj (map (\<lambda>(k, j). (sanitize k, j)) (rpc_error_fields e)))
      = Some (rpc_error_fields e)"
    by (rule struct_members_known) (auto simp: rpc_error_fields_def ascii_keys any_tree_def)
  then show ?thesis
    using assms by (simp add: decode_rpc_error_def) (simp add: rpc_error_fields_def Atoi_Itoa set_any_tree)
qed

lemma unmarshal_marshal_rpc:
  assumes "rpc_ok msg"
  shows "unmarshal_rpc (marshal_rpc msg) = Some (rpc_norm msg)"
proof -
  define ms where "ms = rpc_fields msg"
  have "struct_members False [''jsonrpc'', ''id'', ''method'', ''params'', ''result'', ''error'']
      (JObj (map (\<lambda>(k, j). (sanitize k, j)) ms)) = Some ms"
    unfolding ms_def
    by (rule struct_members_known)
      (auto simp: rpc_fields_def ascii_keys any_tree_def string_tree_def map_tree_def split: option.splits)
  moreover have "decode_all (marshal_rpc msg) = Some (JObj (map (\<lambda>(k, j). (sanitize k, j)) ms))"
    unfolding ms_def by (rule decode_all_renders [OF rpc_renders [OF assms]])
  moreover have "string_field ms ''jsonrpc'' = Some (sanitize (rpc_JSONRPC msg))"
    "string_field ms ''method'' = Some (sanitize (rpc_Method msg))"
    by (simp_all add: ms_def rpc_fields_def string_field_def split: option.split)
  moreover have "any_field ms ''id'' = Some (json_norm (rpc_ID msg))" "any_field ms ''result'' = Some (json_norm (rpc_Result msg))"
    using assms by (simp_all add: ms_def rpc_fields_def any_field_def rpc_ok_def set_any_tree [of msg_depth] split: option.split)
  moreover have "map_field ms ''params'' = Some (omit_norm (rpc_Params msg))"
    using assms by (simp add: ms_def rpc_fields_def map_field_def rpc_ok_def set_map_tree split: option.split)
  moreover have "set_rpc_error None (values_of ''error'' ms) = Some (rpc_Error (rpc_norm msg))"
    using assms by (cases "rpc_Error msg") (simp_all add: ms_def rpc_fields_def rpc_norm_def rpc_ok_def decode_rpc_error_fields)
  ultimately show ?thesis by (simp add: unmarshal_rpc_def rpc_norm_def)
qed

definition mcp_args :: "envelope \<Rightarrow> any" where
  "mcp_args env = (case SystemMeta (Some env) MetaSysArgs of Some args \<Rightarrow> args | None \<Rightarrow> AMap map_make)"

text \<open>The three kinds of envelopes that are emitted.\<close>

lemma mcp_message_cases:
  assumes "mcp_message env = Ok msg"
  obtains
    (request) "EffectiveTag (Some env) = TagRequestAction" "TrimSpace (SystemMetaString (Some env) MetaSysAction) \<noteq> []"
      "msg = blank_rpc\<lparr>rpc_ID := mcp_requestIDForEmit env, rpc_Method := ''tools/call'', rpc_Params := Some (map_put ''arguments''
         (mcp_args env) (map_put ''name'' (AStr (SystemMetaString (Some env) MetaSysAction)) map_make))\<rparr>"
  | (success) r where "EffectiveTag (Some env) = TagResponseSuccess" "SystemMeta (Some env) MetaSysResult = Some r"
      "msg = blank_rpc\<lparr>rpc_ID := mcp_requestIDForEmit env, rpc_Result := r\<rparr>"
  | (error) c code where "EffectiveTag (Some env) = TagResponseError" "SystemMeta (Some env) MetaSysCode = Some c"
      "parseErrorCode c = Ok code"
      "msg = blank_rpc\<lparr>rpc_ID := mcp_requestIDForEmit env, rpc_Error := Some \<lparr>rpc_Code = code,
         rpc_Message = SystemMetaString (Some env) MetaSysMessage, rpc_Data = ANil\<rparr>\<rparr>"
  using assms
  by (auto simp: mcp_message_def Let_def mcp_args_def split: option.splits sum.splits if_splits)

lemma mcp_request_id_ok: "meta_ok env \<Longrightarrow> any_ok msg_depth (mcp_requestIDForEmit env)"
  using meta_okD by (auto simp: mcp_requestIDForEmit_def SystemMeta_def split: option.splits)

lemma mcp_request_id_nonnil: "mcp_requestIDForEmit env \<noteq> ANil"
  by (auto simp: mcp_requestIDForEmit_def split: option.splits)

lemma mcp_message_ok:
  assumes "mcp_message env = Ok msg" "meta_ok env"
  shows "rpc_ok msg"
  using assms(1)
proof (cases rule: mcp_message_cases)
  case request
  have "any_ok meta_depth (mcp_args env)"
    using meta_ok_deep [OF assms(2)] by (auto simp: mcp_args_def SystemMeta_def map_make_def meta_depth_def split: option.splits)
  then have "any_ok (msg_depth - 1) (mcp_args env)" by (rule any_ok_mono) (simp add: meta_depth_def msg_depth_def)
  moreover have "0 < msg_depth" by (simp add: msg_depth_def)
  ultimately show ?thesis
    using mcp_request_id_ok [OF assms(2)]
    by (simp add: request(3) rpc_ok_def blank_rpc_def map_any_ok_def map_make_def)
next
  case (success r)
  then show ?thesis
    using mcp_request_id_ok [OF assms(2)] meta_okD [OF assms(2)]
    by (simp add: rpc_ok_def blank_rpc_def map_any_ok_def SystemMeta_def)
next
  case (error c code)
  then have "any_ok msg_depth c" using meta_okD [OF assms(2)] by (simp add: SystemMeta_def)
  then show ?thesis
    using mcp_request_id_ok [OF assms(2)] parseErrorCode_range [OF error(3)]
    by (simp add: error(4) rpc_ok_def blank_rpc_def map_any_ok_def)
qed

lemma mcp_fill_norm:
  assumes "mcp_message env = Ok msg"
    and "SystemMeta (Some env) MetaSysResult \<noteq> Some ANil"
  shows "\<exists>e'. mcp_fill (rpc_norm msg) s e = Ok e'
    \<and> index_map (env_Metadata e') MetaSysTag = Some (AStr (EffectiveTag (Some env)))
    \<and> (EffectiveTag (Some env) = TagRequestAction \<longrightarrow>
         index_map (env_Metadata e') MetaSysAction = Some (AStr (sanitize (SystemMetaString (Some env) MetaSysAction)))
         \<and> index_map (env_Metadata e') MetaSysArgs = Some (json_norm (mcp_args env)))
    \<and> (EffectiveTag (Some env) = TagResponseSuccess \<longrightarrow>
         index_map (env_Metadata e') MetaSysResult = map_option json_norm (SystemMeta (Some env) MetaSysResult))
    \<and> (EffectiveTag (Some env) = TagResponseError \<longrightarrow>
         index_map (env_Metadata e') MetaSysMessage = Some (AStr (sanitize (SystemMetaString (Some env) MetaSysMessage)))
         \<and> (\<exists>c code. SystemMeta (Some env) MetaSysCode = Some c \<and> parseErrorCode c = Ok code
              \<and> index_map (env_Metadata e') MetaSysCode = Some (AStr (Itoa code))))"
  using assms(1)
proof (cases rule: mcp_message_cases)
  case request
  define m where "m = map_put ''arguments'' (mcp_args env) (map_put ''name'' (AStr (SystemMetaString (Some env) MetaSysAction)) map_make)"
  have "map_ok m" by (simp add: m_def)
  moreover have "\<forall>k \<in> fst ` set m. utf8_valid k"
    by (simp add: m_def map_make_def less_eq_char_def)
  ultimately have ix: "index_map (norm_map (Some m)) k = map_option json_norm (map_get m k)" for k
    by (rule index_norm_map)
  define act where "act = SystemMetaString (Some env) MetaSysAction"
  have params: "index_map (norm_map (Some m)) ''name'' = Some (AStr (sanitize act))"
      "index_map (norm_map (Some m)) ''arguments'' = Some (json_norm (mcp_args env))"
    unfolding ix by (simp_all add: m_def act_def)
  have "m \<noteq> []" by (simp add: m_def map_make_def)
  moreover have "sanitize ''tools/call'' = ''tools/call''" by (rule sanitize_is_ascii) code_simp
  ultimately have norm: "rpc_Error (rpc_norm msg) = None" "rpc_Result (rpc_norm msg) = ANil"
      "rpc_ID (rpc_norm msg) \<noteq> ANil" "rpc_Method (rpc_norm msg) = ''tools/call''" "rpc_Params (rpc_norm msg) = norm_map (Some m)"
    using mcp_request_id_nonnil [of env]
    by (simp_all add: request(3) m_def rpc_norm_def blank_rpc_def omit_norm_def)
  show ?thesis
    using request(1) TrimSpace_sanitize [OF request(2)] unfolding act_def [symmetric] by (simp add: mcp_fill_def norm params)
next
  case (success r)
  then show ?thesis using assms(2) mcp_request_id_nonnil [of env]
    by (simp add: mcp_fill_def rpc_norm_def blank_rpc_def)
next
  case (error c code)
  then show ?thesis using mcp_request_id_nonnil [of env]
    by (simp add: mcp_fill_def rpc_norm_def blank_rpc_def)
qed

lemma mcp_Validate_norm:
  assumes "mcp_message env = Ok msg" "meta_ok env" "SystemMeta (Some env) MetaSysResult \<noteq> Some ANil"
  shows "mcp_Validate (marshal_rpc msg) = Ok ()"
proof -
  have "marshal_rpc msg \<noteq> []" using rpc_renders [OF mcp_message_ok [OF assms(1,2)]] by (simp add: renders_def)
  moreover have "rpc_JSONRPC (rpc_norm msg) = ''2.0''"
  proof -
    have v: "sanitize ''2.0'' = ''2.0''" by (rule sanitize_is_ascii) code_simp
    show ?thesis using assms(1) by (cases rule: mcp_message_cases) (simp_all add: v rpc_norm_def blank_rpc_def)
  qed
  moreover have "TrimSpace ''2.0'' \<noteq> []" by code_simp
  moreover have "TrimSpace (rpc_Method (rpc_norm msg)) \<noteq> [] \<or> rpc_Result (rpc_norm msg) \<noteq> ANil \<or> rpc_Error (rpc_norm msg) \<noteq> None"
  proof -
    have v: "sanitize ''tools/call'' = ''tools/call''" by (rule sanitize_is_ascii) code_simp
    have "TrimSpace ''tools/call'' \<noteq> []" by code_simp
    with assms(3) show ?thesis
      using assms(1) by - (erule mcp_message_cases, simp_all add: v rpc_norm_def blank_rpc_def)
  qed
  ultimately show ?thesis
    by (auto simp: mcp_Validate_def unmarshal_marshal_rpc [OF mcp_message_ok [OF assms(1,2)]])
qed


definition sample_error_env :: envelope where
  "sample_error_env = \<lparr>env_ID = ''e1'', env_From = ''x'', env_To = ''y'', env_Tag = ''response.error'', env_Content = [],
     env_Metadata = Some [(''_code'', AStr ''404''), (''_message'', AStr ''not found'')], env_Timestamp = []\<rparr>"


end
