(* ===== verification/Grpc.thy ===== *)
theory Grpc
  imports Adapter
begin

text \<open>
  \<open>backend/internal/adapter/grpc/grpc.go\<close>: the JSON form of unary calls, their results and stream
  messages, to and from envelopes.
\<close>

section \<open>Messages\<close>

record grpcMessage =
  gm_Type :: string
  gm_Service :: string
  gm_Method :: string
  gm_RequestID :: string
  gm_StreamID :: string
  gm_Status :: string
  gm_Code :: int
  gm_Message :: string
  gm_Body :: anymap

definition unmarshal_grpc :: "string \<Rightarrow> grpcMessage option" where
  "unmarshal_grpc raw =
     do { v \<leftarrow> decode_all raw;
          ms \<leftarrow> struct_members False [''type'', ''service'', ''method'', ''request_id'', ''stream_id'', ''status'',
                  ''code'', ''message'', ''body''] v;
          t \<leftarrow> string_field ms ''type''; s \<leftarrow> string_field ms ''service''; m \<leftarrow> string_field ms ''method'';
          r \<leftarrow> string_field ms ''request_id''; i \<leftarrow> string_field ms ''stream_id''; st \<leftarrow> string_field ms ''status'';
          c \<leftarrow> int_field ms ''code''; g \<leftarrow> string_field ms ''message''; b \<leftarrow> map_field ms ''body'';
          Some \<lparr>gm_Type = t, gm_Service = s, gm_Method = m, gm_RequestID = r, gm_StreamID = i, gm_Status = st,
                gm_Code = c, gm_Message = g, gm_Body = b\<rparr> }"

definition marshal_grpc :: "grpcMessage \<Rightarrow> string" where
  "marshal_grpc msg =
     struct_text
       ([(''type'', quote (gm_Type msg))] @ string_text ''service'' (gm_Service msg) @ string_text ''method'' (gm_Method msg)
        @ string_text ''request_id'' (gm_RequestID msg) @ string_text ''stream_id'' (gm_StreamID msg)
        @ string_text ''status'' (gm_Status msg) @ omit_if (gm_Code msg = 0) ''code'' (Itoa (gm_Code msg))
        @ string_text ''message'' (gm_Message msg) @ map_text ''body'' (gm_Body msg))"

section \<open>Operations\<close>

definition grpc_Name :: string where "grpc_Name = ''grpc''"
definition grpc_Protocol :: string where "grpc_Protocol = ''grpc-json''"
definition grpc_version :: string where "grpc_version = ''1.0.0''"

definition grpc_Validate :: "string \<Rightarrow> unit res" where
  "grpc_Validate raw =
     (if raw = [] then Fail (Err ''raw message is empty'')
      else (case unmarshal_grpc raw of
              None \<Rightarrow> Fail (Wrap ''invalid json'' (Err ''decode''))
            | Some msg \<Rightarrow>
                let msgType = TrimSpace (gm_Type msg) in
                if msgType = [] then Fail (Err ''type field is required'')
                else if msgType = ''unary'' then
                  (let hasService = (TrimSpace (gm_Service msg) \<noteq> []); hasMethod = (TrimSpace (gm_Method msg) \<noteq> []);
                       status = TrimSpace (gm_Status msg); hasStatus = (status \<noteq> []) in
                   if hasService \<noteq> hasMethod then Fail (Err ''unary call must include both service and method'')
                   else if \<not> hasStatus \<and> \<not> hasService
                   then Fail (Err ''unary message must include service+method or status'')
                   else if hasStatus \<and> status \<noteq> ''OK'' \<and> status \<noteq> ''ERROR''
                   then Fail (Err (''invalid unary status: '' @ status))
                   else Ok ())
                else if msgType = ''stream'' then
                  (if TrimSpace (gm_StreamID msg) = [] then Fail (Err ''stream_id field is required for stream messages'')
                   else Ok ())
                else Fail (Err (''invalid type: '' @ msgType))))"

definition numericAsFloat64 :: "any \<Rightarrow> rat option" where
  "numericAsFloat64 raw = (case raw of AInt i \<Rightarrow> Some (f64_of_int i) | AFloat x \<Rightarrow> Some x | _ \<Rightarrow> None)"

definition grpc_set_request_id :: "string \<Rightarrow> envelope \<Rightarrow> envelope" where
  "grpc_set_request_id sourceID env = (if sourceID \<noteq> [] then SetSystemMeta MetaSysRequestID (AStr sourceID) env else env)"

definition body_any :: "anymap \<Rightarrow> any" where
  "body_any b = AMap (case b of None \<Rightarrow> map_make | Some m \<Rightarrow> m)"

definition set_percentage :: "anymap \<Rightarrow> envelope \<Rightarrow> envelope" where
  "set_percentage b env =
     (case Option.bind (index_map b ''progress'') numericAsFloat64 of
        None \<Rightarrow> env
      | Some x \<Rightarrow> SetSystemMeta MetaSysPercentage (AFloat x) env)"

definition grpc_fill :: "grpcMessage \<Rightarrow> string \<Rightarrow> envelope \<Rightarrow> envelope res" where
  "grpc_fill msg sourceID env =
     (let msgType = TrimSpace (gm_Type msg); status = TrimSpace (gm_Status msg);
          service = TrimSpace (gm_Service msg); mth = TrimSpace (gm_Method msg) in
      if msgType = ''unary'' \<and> service \<noteq> [] \<and> mth \<noteq> [] \<and> status = [] then
        Ok (SetSystemMeta MetaSysArgs (body_any (gm_Body msg))
             (SetSystemMeta MetaSysAction (AStr (service @ ''/'' @ mth))
               (SetSystemMeta MetaSysTag (AStr TagRequestAction) env)))
      else if msgType = ''unary'' \<and> status = ''OK'' then
        Ok (grpc_set_request_id sourceID (SetSystemMeta MetaSysResult (body_any (gm_Body msg))
             (SetSystemMeta MetaSysTag (AStr TagResponseSuccess) env)))
      else if msgType = ''unary'' \<and> status = ''ERROR'' then
        Ok (grpc_set_request_id sourceID (SetSystemMeta MetaSysMessage (AStr (gm_Message msg))
             (SetSystemMeta MetaSysCode (AInt (gm_Code msg)) (SetSystemMeta MetaSysTag (AStr TagResponseError) env))))
      else if msgType = ''stream'' then
        Ok (SetSystemMeta MetaSysStreamID (AStr (gm_StreamID msg)) (grpc_set_request_id sourceID
             (set_percentage (gm_Body msg) (SetSystemMeta MetaSysUpdate (body_any (gm_Body msg))
               (SetSystemMeta MetaSysTag (AStr TagProgressUpdate) env)))))
      else Fail (Err ''unsupported grpc message shape''))"

definition grpc_Ingest :: "uuid_lib \<Rightarrow> string \<Rightarrow> transport_meta \<Rightarrow> envelope io" where
  "grpc_Ingest U raw meta =
     bindE (liftE (grpc_Validate raw)) (\<lambda>_.
     case unmarshal_grpc raw of
       None \<Rightarrow> failE (Wrap ''unmarshal grpc message'' (Err ''decode''))
     | Some msg \<Rightarrow>
         let sourceID = TrimSpace (gm_RequestID msg) in
         bindE uuid_New (\<lambda>i.
         bindE time_Now (\<lambda>now.
         bindE (liftE (grpc_fill msg sourceID (blank_envelope U grpc_Name meta i now))) (\<lambda>env0.
         let env = SetAdapterMetadata grpc_Name grpc_version DirectionInbound sourceID grpc_Protocol env0 in
         bindE (wrapE ''ingested envelope invalid'' (liftE (Validate (Some env)))) (\<lambda>_.
         returnE env)))))"

definition grpc_requestIDForEmit :: "envelope \<Rightarrow> string" where
  "grpc_requestIDForEmit env =
     (let r = SystemMetaString (Some env) MetaSysRequestID in if TrimSpace r \<noteq> [] then r else env_ID env)"

definition streamIDForEmit :: "envelope \<Rightarrow> string" where
  "streamIDForEmit env =
     (let r = SystemMetaString (Some env) MetaSysStreamID in if TrimSpace r \<noteq> [] then r else env_ID env)"

definition normalizeBody :: "any \<Rightarrow> string \<Rightarrow> any gomap res" where
  "normalizeBody raw field =
     (case raw of ANil \<Rightarrow> Ok map_make | AMap m \<Rightarrow> Ok m | _ \<Rightarrow> Fail (Err (field @ '' must be an object'')))"

definition blank_grpc :: grpcMessage where
  "blank_grpc = \<lparr>gm_Type = [], gm_Service = [], gm_Method = [], gm_RequestID = [], gm_StreamID = [], gm_Status = [],
     gm_Code = 0, gm_Message = [], gm_Body = None\<rparr>"

text \<open>
  The body of a progress message. The loop over the content's map assigns into \<open>msg.Body\<close>, which is
  nil there: a non-empty map makes it panic.
\<close>

definition progress_body :: "envelope \<Rightarrow> any gomap res" where
  "progress_body env =
     (case (case SystemMeta (Some env) MetaSysUpdate of
              Some u \<Rightarrow> normalizeBody u ''progress payload.update''
            | None \<Rightarrow>
                if env_Content env \<noteq> []
                then (case Option.bind (decode_all (env_Content env)) (\<lambda>v. set_map None [v]) of
                        None \<Rightarrow> Ok map_make
                      | Some None \<Rightarrow> Ok map_make
                      | Some (Some m) \<Rightarrow> if m = [] then Ok map_make else Fail (Panic ''assignment to entry in nil map''))
                else Ok map_make) of
        Inl e \<Rightarrow> Fail e
      | Inr body \<Rightarrow>
          Ok (if map_get body ''progress'' = None
              then (case Option.bind (SystemMeta (Some env) MetaSysPercentage) numericAsFloat64 of
                      None \<Rightarrow> body
                    | Some pct \<Rightarrow> map_put ''progress'' (AFloat pct) body)
              else body))"

definition grpc_message :: "envelope \<Rightarrow> grpcMessage res" where
  "grpc_message env =
     (let tag = EffectiveTag (Some env); p = Some env; rid = grpc_requestIDForEmit env in
      if tag = TagRequestAction then
        (let action = SystemMetaString p MetaSysAction in
         if TrimSpace action = [] then Fail (Err ''request.action metadata.action is required'')
         else (case Cut (TrimSpace action) CHR ''/'' of (service, mth, found) \<Rightarrow>
                 if \<not> found \<or> TrimSpace service = [] \<or> TrimSpace mth = []
                 then Fail (Err ''request.action payload.action must be in service/method format'')
                 else (case (case SystemMeta p MetaSysArgs of
                               Some args \<Rightarrow> normalizeBody args ''request.action payload.args''
                             | None \<Rightarrow> Ok map_make) of
                         Inl e \<Rightarrow> Fail e
                       | Inr body \<Rightarrow>
                           Ok (blank_grpc\<lparr>gm_Type := ''unary'', gm_Service := TrimSpace service, gm_Method := TrimSpace mth,
                                 gm_RequestID := rid, gm_Body := Some body\<rparr>))))
      else if tag = TagResponseSuccess then
        (case SystemMeta p MetaSysResult of
           None \<Rightarrow> Fail (Err ''response.success metadata.result is required'')
         | Some r \<Rightarrow>
             (case normalizeBody r ''response.success payload.result'' of
                Inl e \<Rightarrow> Fail e
              | Inr body \<Rightarrow> Ok (blank_grpc\<lparr>gm_Type := ''unary'', gm_RequestID := rid, gm_Status := ''OK'',
                              gm_Body := Some body\<rparr>)))
      else if tag = TagResponseError then
        (case SystemMeta p MetaSysCode of
           None \<Rightarrow> Fail (Err ''response.error metadata.code is required'')
         | Some codeRaw \<Rightarrow>
             let m = SystemMetaString p MetaSysMessage in
             if TrimSpace m = [] then Fail (Err ''response.error metadata.message must be a non-empty string'')
             else (case parseErrorCode codeRaw of
                     Inl e \<Rightarrow> Fail e
                   | Inr code \<Rightarrow> Ok (blank_grpc\<lparr>gm_Type := ''unary'', gm_RequestID := rid, gm_Status := ''ERROR'',
                                   gm_Code := code, gm_Message := m\<rparr>)))
      else if ParseTagFamily tag = TagProgress then
        (case progress_body env of
           Inl e \<Rightarrow> Fail e
         | Inr body \<Rightarrow> Ok (blank_grpc\<lparr>gm_Type := ''stream'', gm_RequestID := rid, gm_StreamID := streamIDForEmit env,
                         gm_Body := Some body\<rparr>))
      else Fail (Err (''unsupported envelope tag for grpc emit: '' @ tag)))"

definition grpc_Emit :: "envelope option \<Rightarrow> string res" where
  "grpc_Emit p =
     (case p of
        None \<Rightarrow> Fail (Err ''envelope is nil'')
      | Some env \<Rightarrow> (case grpc_message env of Inl e \<Rightarrow> Fail e | Inr msg \<Rightarrow> Ok (marshal_grpc msg)))"

definition NewGRPCAdapter :: "uuid_lib \<Rightarrow> adapter" where
  "NewGRPCAdapter U =
     \<lparr>ad_Name = grpc_Name, ad_Protocol = grpc_Protocol, ad_Ingest = grpc_Ingest U, ad_Emit = grpc_Emit,
      ad_Validate = grpc_Validate\<rparr>"

section \<open>The contract\<close>

lemma grpc_set_request_id_simps [simp]:
  "env_ID (grpc_set_request_id s e) = env_ID e" "env_From (grpc_set_request_id s e) = env_From e"
  "env_To (grpc_set_request_id s e) = env_To e" "env_Tag (grpc_set_request_id s e) = env_Tag e"
  "env_Timestamp (grpc_set_request_id s e) = env_Timestamp e"
  "k \<noteq> ''_request_id'' \<Longrightarrow> index_map (env_Metadata (grpc_set_request_id s e)) k = index_map (env_Metadata e) k"
  by (simp_all add: grpc_set_request_id_def)

lemma set_percentage_simps [simp]:
  "env_ID (set_percentage b e) = env_ID e" "env_From (set_percentage b e) = env_From e"
  "env_To (set_percentage b e) = env_To e" "env_Tag (set_percentage b e) = env_Tag e"
  "env_Timestamp (set_percentage b e) = env_Timestamp e"
  "k \<noteq> ''_percentage'' \<Longrightarrow> index_map (env_Metadata (set_percentage b e)) k = index_map (env_Metadata e) k"
  by (simp_all add: set_percentage_def split: option.split)

lemma grpc_fill_header:
  "grpc_fill msg s e = Ok e' \<Longrightarrow>
     env_ID e' = env_ID e \<and> env_From e' = env_From e \<and> env_To e' = env_To e \<and> env_Tag e' = env_Tag e
     \<and> env_Timestamp e' = env_Timestamp e"
  by (auto simp: grpc_fill_def Let_def split: if_splits)

lemma grpc_fill_tag:
  "grpc_fill msg s e = Ok e' \<Longrightarrow> \<exists>t \<in> set knownTags. index_map (env_Metadata e') MetaSysTag = Some (AStr t)"
  by (auto simp: grpc_fill_def Let_def knownTags_def split: if_splits)

interpretation grpc: ingesting grpc_Name grpc_version grpc_Protocol "''unmarshal grpc message''" grpc_Validate unmarshal_grpc
  "\<lambda>msg. TrimSpace (gm_RequestID msg)" grpc_fill grpc_Ingest
proof
  show "grpc_Ingest U raw meta = ingest_shape grpc_Name grpc_version grpc_Protocol ''unmarshal grpc message'' grpc_Validate
      unmarshal_grpc (\<lambda>msg. TrimSpace (gm_RequestID msg)) grpc_fill U raw meta" for U raw meta
    by (simp only: grpc_Ingest_def ingest_shape_def Let_def)
  show "grpc_Name \<noteq> [] \<and> hd grpc_Name \<notin> set space_bytes" by code_simp
qed (fact grpc_fill_header grpc_fill_tag)+

section \<open>Round trips\<close>

definition grpc_ok :: "grpcMessage \<Rightarrow> bool" where
  "grpc_ok msg \<longleftrightarrow> int64_min \<le> gm_Code msg \<and> gm_Code msg \<le> int64_max \<and> map_any_ok (gm_Body msg)"

definition grpc_norm :: "grpcMessage \<Rightarrow> grpcMessage" where
  "grpc_norm msg =
     \<lparr>gm_Type = sanitize (gm_Type msg), gm_Service = sanitize (gm_Service msg), gm_Method = sanitize (gm_Method msg),
      gm_RequestID = sanitize (gm_RequestID msg), gm_StreamID = sanitize (gm_StreamID msg),
      gm_Status = sanitize (gm_Status msg), gm_Code = gm_Code msg, gm_Message = sanitize (gm_Message msg),
      gm_Body = omit_norm (gm_Body msg)\<rparr>"

definition grpc_fields :: "grpcMessage \<Rightarrow> (string \<times> jvalue) list" where
  "grpc_fields msg =
     [(''type'', JStr (sanitize (gm_Type msg)))] @ string_tree ''service'' (gm_Service msg) @ string_tree ''method'' (gm_Method msg)
     @ string_tree ''request_id'' (gm_RequestID msg) @ string_tree ''stream_id'' (gm_StreamID msg)
     @ string_tree ''status'' (gm_Status msg) @ int_tree ''code'' (gm_Code msg)
     @ string_tree ''message'' (gm_Message msg) @ map_tree ''body'' (gm_Body msg)"

lemma grpc_keys:
  "sanitize ''type'' = ''type''" "sanitize ''service'' = ''service''" "sanitize ''method'' = ''method''"
  "sanitize ''request_id'' = ''request_id''" "sanitize ''stream_id'' = ''stream_id''" "sanitize ''status'' = ''status''"
  "sanitize ''code'' = ''code''" "sanitize ''message'' = ''message''" "sanitize ''body'' = ''body''"
  by (rule sanitize_is_ascii, code_simp)+

lemma unmarshal_marshal_grpc:
  assumes "grpc_ok msg"
  shows "marshal_grpc msg \<noteq> []" "unmarshal_grpc (marshal_grpc msg) = Some (grpc_norm msg)"
proof -
  define ms where "ms = grpc_fields msg"
  have r: "renders 0 (marshal_grpc msg) (JObj (map (\<lambda>(k, j). (sanitize k, j)) ms))"
    unfolding marshal_grpc_def ms_def grpc_fields_def
    using assms by (intro renders_struct renders_intros) (simp_all add: grpc_ok_def max_depth_def)
  then show "marshal_grpc msg \<noteq> []" by (simp add: renders_def)
  have "decode_all (marshal_grpc msg) = Some (JObj (map (\<lambda>(k, j). (sanitize k, j)) ms))" by (rule decode_all_renders [OF r])
  moreover have "struct_members False [''type'', ''service'', ''method'', ''request_id'', ''stream_id'', ''status'',
      ''code'', ''message'', ''body''] (JObj (map (\<lambda>(k, j). (sanitize k, j)) ms)) = Some ms"
    unfolding ms_def
    by (rule struct_members_known)
      (auto simp: grpc_fields_def grpc_keys int_tree_def string_tree_def map_tree_def split: option.splits)
  moreover have "string_field ms ''type'' = Some (sanitize (gm_Type msg))"
    "string_field ms ''service'' = Some (sanitize (gm_Service msg))" "string_field ms ''method'' = Some (sanitize (gm_Method msg))"
    "string_field ms ''request_id'' = Some (sanitize (gm_RequestID msg))"
    "string_field ms ''stream_id'' = Some (sanitize (gm_StreamID msg))" "string_field ms ''status'' = Some (sanitize (gm_Status msg))"
    "string_field ms ''message'' = Some (sanitize (gm_Message msg))"
    by (simp_all add: ms_def grpc_fields_def string_field_def)
  moreover have "int_field ms ''code'' = Some (gm_Code msg)"
    using assms by (simp add: ms_def grpc_fields_def int_field_def grpc_ok_def set_int_tree)
  moreover have "map_field ms ''body'' = Some (omit_norm (gm_Body msg))"
    using assms by (simp add: ms_def grpc_fields_def map_field_def grpc_ok_def set_map_tree)
  ultimately show "unmarshal_grpc (marshal_grpc msg) = Some (grpc_norm msg)"
    by (simp add: unmarshal_grpc_def grpc_norm_def)
qed

text \<open>The four kinds of envelopes that are emitted.\<close>

lemma grpc_message_cases:
  assumes "grpc_message env = Ok msg"
  obtains
    (request) svc mth body where "EffectiveTag (Some env) = TagRequestAction"
      "Cut (TrimSpace (SystemMetaString (Some env) MetaSysAction)) CHR ''/'' = (svc, mth, True)"
      "TrimSpace svc \<noteq> []" "TrimSpace mth \<noteq> []"
      "(case SystemMeta (Some env) MetaSysArgs of Some args \<Rightarrow> normalizeBody args ''request.action payload.args''
         | None \<Rightarrow> Ok map_make) = Ok body"
      "msg = blank_grpc\<lparr>gm_Type := ''unary'', gm_Service := TrimSpace svc, gm_Method := TrimSpace mth,
         gm_RequestID := grpc_requestIDForEmit env, gm_Body := Some body\<rparr>"
  | (success) r body where "EffectiveTag (Some env) = TagResponseSuccess" "SystemMeta (Some env) MetaSysResult = Some r"
      "normalizeBody r ''response.success payload.result'' = Ok body"
      "msg = blank_grpc\<lparr>gm_Type := ''unary'', gm_RequestID := grpc_requestIDForEmit env, gm_Status := ''OK'',
         gm_Body := Some body\<rparr>"
  | (error) c code where "EffectiveTag (Some env) = TagResponseError" "SystemMeta (Some env) MetaSysCode = Some c"
      "parseErrorCode c = Ok code"
      "msg = blank_grpc\<lparr>gm_Type := ''unary'', gm_RequestID := grpc_requestIDForEmit env, gm_Status := ''ERROR'',
         gm_Code := code, gm_Message := SystemMetaString (Some env) MetaSysMessage\<rparr>"
  | (progress) body where "ParseTagFamily (EffectiveTag (Some env)) = TagProgress" "progress_body env = Ok body"
      "msg = blank_grpc\<lparr>gm_Type := ''stream'', gm_RequestID := grpc_requestIDForEmit env,
         gm_StreamID := streamIDForEmit env, gm_Body := Some body\<rparr>"
proof -
  define tag where "tag = EffectiveTag (Some env)"
  consider "tag = TagRequestAction" | "tag = TagResponseSuccess" | "tag = TagResponseError"
    | "tag \<notin> {TagRequestAction, TagResponseSuccess, TagResponseError}" "ParseTagFamily tag = TagProgress"
    using assms by (fastforce simp: grpc_message_def tag_def [symmetric] Let_def split: if_splits)
  then show thesis
  proof cases
    case 1
    obtain svc mth found where cut: "Cut (TrimSpace (SystemMetaString (Some env) MetaSysAction)) CHR ''/'' = (svc, mth, found)"
      using prod_cases3 by blast
    define args where "args = (case SystemMeta (Some env) MetaSysArgs of
      Some args \<Rightarrow> normalizeBody args ''request.action payload.args'' | None \<Rightarrow> Ok map_make)"
    have m: "grpc_message env = (if TrimSpace (SystemMetaString (Some env) MetaSysAction) = []
       then Fail (Err ''request.action metadata.action is required'')
       else if \<not> found \<or> TrimSpace svc = [] \<or> TrimSpace mth = []
       then Fail (Err ''request.action payload.action must be in service/method format'')
       else case args of Inl e \<Rightarrow> Fail e
         | Inr body \<Rightarrow> Ok (blank_grpc\<lparr>gm_Type := ''unary'', gm_Service := TrimSpace svc, gm_Method := TrimSpace mth,
             gm_RequestID := grpc_requestIDForEmit env, gm_Body := Some body\<rparr>))"
      unfolding grpc_message_def Let_def tag_def [symmetric] cut args_def [symmetric] using 1 by simp
    then show thesis
      using request [of svc mth, unfolded args_def [symmetric]] 1 cut assms
      by (cases args) (auto simp: tag_def split: if_splits)
  next
    case 2
    then show thesis
      using assms success unfolding grpc_message_def Let_def tag_def [symmetric]
      by (auto split: option.splits sum.splits)
  next
    case 3
    then show thesis
      using assms error unfolding grpc_message_def Let_def tag_def [symmetric]
      by (auto split: option.splits sum.splits if_splits)
  next
    case 4
    then show thesis
      using assms progress unfolding grpc_message_def Let_def tag_def [symmetric]
      by (auto split: sum.splits)
  qed
qed

lemma body_any_norm: "body_any (omit_norm (Some b)) = json_norm (AMap b)"
  by (cases "b = []") (simp_all add: body_any_def omit_norm_def norm_map_def map_from_list_def)

lemma normalizeBody_ok: "normalizeBody v f = Ok b \<Longrightarrow> any_ok meta_depth v \<Longrightarrow> any_ok meta_depth (AMap b)"
  by (auto simp: normalizeBody_def map_make_def meta_depth_def split: any.splits)

lemma body_map_ok: "any_ok meta_depth (AMap b) \<Longrightarrow> map_any_ok (Some b)"
  unfolding map_any_ok_def option.case by (erule any_ok_mono) (simp add: meta_depth_def msg_depth_def)

lemma any_ok_put:
  assumes "any_ok d (AMap m)" "any_ok (d - 1) v"
  shows "any_ok d (AMap (map_put k v m))"
proof -
  have "set (map_put k v m) \<subseteq> insert (k, v) (set m)" for m :: "any gomap"
    by (induction m rule: map_put.induct) auto
  then show ?thesis using assms by (fastforce simp: list_all_iff)
qed

lemma numericAsFloat64_ok: "numericAsFloat64 v = Some x \<Longrightarrow> any_ok d v \<Longrightarrow> any_ok e (AFloat x)"
  using int_small by (auto simp: numericAsFloat64_def f64_of_int_def split: any.splits)

lemma progress_body_ok:
  assumes "progress_body env = Ok body" "meta_ok env"
  shows "any_ok meta_depth (AMap body)"
proof -
  obtain b where b: "(case SystemMeta (Some env) MetaSysUpdate of
              Some u \<Rightarrow> normalizeBody u ''progress payload.update''
            | None \<Rightarrow>
                if env_Content env \<noteq> []
                then (case Option.bind (decode_all (env_Content env)) (\<lambda>v. set_map None [v]) of
                        None \<Rightarrow> Ok map_make
                      | Some None \<Rightarrow> Ok map_make
                      | Some (Some m) \<Rightarrow> if m = [] then Ok map_make else Fail (Panic ''assignment to entry in nil map''))
                else Ok map_make) = Ok b"
    and body: "body = b \<or> (\<exists>pct. Option.bind (SystemMeta (Some env) MetaSysPercentage) numericAsFloat64 = Some pct
      \<and> body = map_put ''progress'' (AFloat pct) b)"
    using assms(1) by (auto simp: progress_body_def split: sum.splits option.splits if_splits)
  have make: "any_ok meta_depth (AMap map_make)" by (simp add: map_make_def meta_depth_def)
  have "any_ok meta_depth (AMap b)"
    using b make normalizeBody_ok meta_ok_deep [OF assms(2)]
    by (auto simp: SystemMeta_def split: option.splits if_splits)
  moreover have "any_ok e (AFloat pct)" if "Option.bind (SystemMeta (Some env) MetaSysPercentage) numericAsFloat64 = Some pct" for e pct
    using that numericAsFloat64_ok meta_ok_deep [OF assms(2)] unfolding SystemMeta_def option.case bind_eq_Some_conv by metis
  ultimately show ?thesis using body any_ok_put by blast
qed

lemma grpc_message_ok:
  assumes "grpc_message env = Ok msg" "meta_ok env"
  shows "grpc_ok msg"
  using assms(1)
proof (cases rule: grpc_message_cases)
  case (request svc mth body)
  have "any_ok meta_depth (AMap body)"
    using request(5) normalizeBody_ok meta_ok_deep [OF assms(2)]
    by (auto simp: SystemMeta_def map_make_def meta_depth_def split: option.splits)
  from body_map_ok [OF this] show ?thesis by (simp add: request(6) grpc_ok_def blank_grpc_def int64_min_def int64_max_def)
next
  case (success r body)
  have "any_ok meta_depth (AMap body)"
    using success(2,3) normalizeBody_ok meta_ok_deep [OF assms(2)] by (auto simp: SystemMeta_def)
  from body_map_ok [OF this] show ?thesis by (simp add: success(4) grpc_ok_def blank_grpc_def int64_min_def int64_max_def)
next
  case (error c code)
  then have "any_ok msg_depth c" using meta_okD [OF assms(2)] by (simp add: SystemMeta_def)
  from parseErrorCode_range [OF error(3) this] show ?thesis
    by (simp add: error(4) grpc_ok_def blank_grpc_def map_any_ok_def)
next
  case (progress body)
  from body_map_ok [OF progress_body_ok [OF progress(2) assms(2)]] show ?thesis
    by (simp add: progress(3) grpc_ok_def blank_grpc_def int64_min_def int64_max_def)
qed

lemma streamID_nonblank: "TrimSpace (env_ID env) \<noteq> [] \<Longrightarrow> TrimSpace (streamIDForEmit env) \<noteq> []"
  by (simp add: streamIDForEmit_def Let_def)

lemma grpc_words:
  "sanitize ''unary'' = ''unary''" "sanitize ''stream'' = ''stream''" "sanitize ''OK'' = ''OK''" "sanitize ''ERROR'' = ''ERROR''"
  by (rule sanitize_is_ascii, code_simp)+

lemma grpc_words_trimmed:
  "TrimSpace ''unary'' = ''unary''" "TrimSpace ''stream'' = ''stream''" "TrimSpace ''OK'' = ''OK''" "TrimSpace ''ERROR'' = ''ERROR''"
  by code_simp+

definition grpc_body :: "envelope \<Rightarrow> string \<Rightarrow> any" where
  "grpc_body env k = (case SystemMeta (Some env) k of Some (AMap m) \<Rightarrow> AMap m | _ \<Rightarrow> AMap map_make)"

lemma normalizeBody_body: "SystemMeta (Some env) k = Some v \<Longrightarrow> normalizeBody v f = Ok b \<Longrightarrow> AMap b = grpc_body env k"
  by (auto simp: normalizeBody_def grpc_body_def split: any.splits)

lemma grpc_Validate_norm:
  assumes "grpc_message env = Ok msg" "meta_ok env" "TrimSpace (env_ID env) \<noteq> []"
  shows "grpc_Validate (marshal_grpc msg) = Ok ()"
proof -
  note u = unmarshal_marshal_grpc [OF grpc_message_ok [OF assms(1,2)]]
  show ?thesis
    using assms(1)
  proof (cases rule: grpc_message_cases)
    case (request svc mth body)
    have "TrimSpace (sanitize (TrimSpace svc)) \<noteq> []" "TrimSpace (sanitize (TrimSpace mth)) \<noteq> []"
      using request(3,4) TrimSpace_sanitize by (metis TrimSpace_idem)+
    then show ?thesis
      using u by (simp add: grpc_Validate_def Let_def) (simp add: request(6) grpc_norm_def blank_grpc_def grpc_words grpc_words_trimmed)
  next
    case (progress body)
    then show ?thesis
      using u TrimSpace_sanitize [OF streamID_nonblank [OF assms(3)]]
      by (simp add: grpc_Validate_def Let_def) (simp add: progress(3) grpc_norm_def blank_grpc_def grpc_words grpc_words_trimmed)
  qed (use u in \<open>simp add: grpc_Validate_def Let_def\<close>, simp add: grpc_norm_def blank_grpc_def grpc_words grpc_words_trimmed)+
qed

text \<open>
  What survives the way through the protocol, in terms of the lookup \<open>f\<close> of the metadata that
  arrives.
\<close>

definition grpc_carried :: "envelope \<Rightarrow> (string \<Rightarrow> any option) \<Rightarrow> bool" where
  "grpc_carried env f \<longleftrightarrow>
     (EffectiveTag (Some env) = TagRequestAction \<longrightarrow>
         f MetaSysArgs = Some (json_norm (grpc_body env MetaSysArgs))
         \<and> (\<exists>svc mth. Cut (TrimSpace (SystemMetaString (Some env) MetaSysAction)) CHR ''/'' = (svc, mth, True)
              \<and> f MetaSysAction = Some (AStr (TrimSpace (sanitize (TrimSpace svc)) @ ''/'' @ TrimSpace (sanitize (TrimSpace mth))))))
     \<and> (EffectiveTag (Some env) = TagResponseSuccess \<longrightarrow>
         f MetaSysResult = Some (json_norm (grpc_body env MetaSysResult)))
     \<and> (EffectiveTag (Some env) = TagResponseError \<longrightarrow>
         f MetaSysMessage = Some (AStr (sanitize (SystemMetaString (Some env) MetaSysMessage)))
         \<and> (\<exists>c code. SystemMeta (Some env) MetaSysCode = Some c \<and> parseErrorCode c = Ok code \<and> f MetaSysCode = Some (AInt code)))
     \<and> (ParseTagFamily (EffectiveTag (Some env)) = TagProgress \<longrightarrow>
         (\<exists>body. progress_body env = Ok body \<and> f MetaSysUpdate = Some (json_norm (AMap body))))"

definition grpc_tag :: "string \<Rightarrow> string" where
  "grpc_tag tag = (if ParseTagFamily tag = TagProgress then TagProgressUpdate else tag)"

lemma grpc_fill_norm:
  assumes "grpc_message env = Ok msg"
  shows "\<exists>e'. grpc_fill (grpc_norm msg) s e = Ok e'
    \<and> index_map (env_Metadata e') MetaSysTag = Some (AStr (grpc_tag (EffectiveTag (Some env))))
    \<and> grpc_carried env (index_map (env_Metadata e'))"
proof -
  have fam: "ParseTagFamily ''request.action'' = ''request''" "ParseTagFamily ''response.success'' = ''response''"
    "ParseTagFamily ''response.error'' = ''response''" by code_simp+
  show ?thesis
    using assms
  proof (cases rule: grpc_message_cases)
    case (request svc mth body)
    have ne: "TrimSpace (sanitize (TrimSpace svc)) \<noteq> []" "TrimSpace (sanitize (TrimSpace mth)) \<noteq> []"
      using request(3,4) TrimSpace_sanitize by (metis TrimSpace_idem)+
    have "AMap body = grpc_body env MetaSysArgs"
      using request(5) normalizeBody_body by (auto simp: grpc_body_def split: option.splits)
    then have "body_any (omit_norm (Some body)) = json_norm (grpc_body env MetaSysArgs)" by (simp only: body_any_norm)
    then show ?thesis
      using request(1,2) ne fam
      by (simp add: request(6) grpc_carried_def grpc_tag_def grpc_fill_def grpc_norm_def blank_grpc_def grpc_words grpc_words_trimmed)
  next
    case (success r body)
    have "AMap body = grpc_body env MetaSysResult" using success(2,3) by (rule normalizeBody_body)
    then have "body_any (omit_norm (Some body)) = json_norm (grpc_body env MetaSysResult)" by (simp only: body_any_norm)
    then show ?thesis
      using success(1) fam by (simp add: success(4) grpc_carried_def grpc_tag_def grpc_fill_def grpc_norm_def blank_grpc_def grpc_words grpc_words_trimmed)
  next
    case (error c code)
    then show ?thesis
      using fam by (simp add: grpc_carried_def grpc_tag_def grpc_fill_def grpc_norm_def blank_grpc_def grpc_words grpc_words_trimmed)
  next
    case (progress body)
    then have "EffectiveTag (Some env) \<notin> {TagRequestAction, TagResponseSuccess, TagResponseError}" using fam by auto
    then show ?thesis
      using progress(1,2) by (simp add: progress(3) grpc_carried_def grpc_tag_def grpc_fill_def grpc_norm_def blank_grpc_def grpc_words grpc_words_trimmed body_any_norm
          del: json_norm.simps)
  qed
qed

text \<open>
  C12. The gRPC adapter reads back what it writes: an envelope with an identifier that it emits is
  accepted by its own \<open>Ingest\<close>, which keeps the effective tag (every progress tag becomes
  \<open>progress.update\<close>) and, up to the normal form that JSON gives to values, the service and method
  with the arguments, the result, the error code and message, or the progress body.
\<close>

theorem grpc_roundtrip:
  assumes "grpc_Emit (Some env) = Ok raw" "meta_ok env" "uuid_laws U" "time_ok (w_clock w (w_clock_reads w))"
    and "TrimSpace (env_ID env) \<noteq> []"
  shows "\<exists>env' w'. grpc_Ingest U raw meta w = (Ok env', w')
    \<and> EffectiveTag (Some env') = grpc_tag (EffectiveTag (Some env)) \<and> grpc_carried env (SystemMeta (Some env'))"
proof -
  obtain msg where msg: "grpc_message env = Ok msg" and raw: "raw = marshal_grpc msg"
    using assms(1) by (auto simp: grpc_Emit_def split: sum.splits)
  note dec = unmarshal_marshal_grpc(2) [OF grpc_message_ok [OF msg assms(2)]]
  define src where "src = TrimSpace (gm_RequestID (grpc_norm msg))"
  define e where "e = blank_envelope U grpc_Name meta (w_uuid w (w_uuids_used w)) (w_clock w (w_clock_reads w))"
  obtain e' where fill: "grpc_fill (grpc_norm msg) src e = Ok e'"
    and tag: "index_map (env_Metadata e') MetaSysTag = Some (AStr (grpc_tag (EffectiveTag (Some env))))"
    and carried: "grpc_carried env (index_map (env_Metadata e'))"
    using grpc_fill_norm [OF msg, of src e] by blast
  define env' where "env' = SetAdapterMetadata grpc_Name grpc_version DirectionInbound src grpc_Protocol e'"
  have run: "\<exists>w'. grpc_Ingest U raw meta w = (Ok env', w')"
    unfolding env'_def src_def raw
    by (rule grpc.ingest_total [OF grpc_Validate_norm [OF msg assms(2,5)] dec assms(3,4)]) (use fill in \<open>simp add: e_def src_def\<close>)
  have "env_Tag env' = []" using grpc_fill_header [OF fill] by (simp add: env'_def e_def blank_envelope_def)
  moreover have "index_map (env_Metadata env') MetaSysTag = Some (AStr (grpc_tag (EffectiveTag (Some env))))"
    using tag by (simp add: env'_def)
  moreover have "TrimSpace (grpc_tag (EffectiveTag (Some env))) = grpc_tag (EffectiveTag (Some env))"
  proof -
    have "TrimSpace TagProgressUpdate = TagProgressUpdate" by code_simp
    then show ?thesis by (simp only: grpc_tag_def EffectiveTag_trimmed split: if_split) simp
  qed
  ultimately have "EffectiveTag (Some env') = grpc_tag (EffectiveTag (Some env))" by (simp only: EffectiveTag_meta)
  moreover have "grpc_carried env (SystemMeta (Some env'))"
  proof -
    have "SystemMeta (Some env') k = index_map (env_Metadata e') k" if "k \<noteq> ''adapter''" for k
      using that by (simp add: SystemMeta_def env'_def)
    with carried show ?thesis by (simp add: grpc_carried_def)
  qed
  ultimately show ?thesis using run by blast
qed

definition sample_progress_env :: envelope where
  "sample_progress_env = \<lparr>env_ID = ''e1'', env_From = ''x'', env_To = ''y'', env_Tag = ''progress.stage'', env_Content = [],
     env_Metadata = Some [(''_percentage'', AInt 40)], env_Timestamp = []\<rparr>"

theorem grpc_roundtrip_witness:
  "\<exists>raw env' w'. grpc_Emit (Some sample_progress_env) = Ok raw
     \<and> grpc_Ingest canonical raw \<lparr>tm_ConnectionID = ''c'', tm_SourceAddr = [], tm_AgentID = [], tm_Headers = None\<rparr>
         (clear_world empty_db) = (Ok env', w')
     \<and> EffectiveTag (Some env') = ''progress.update''"
proof -
  define meta where "meta = \<lparr>tm_ConnectionID = ''c'', tm_SourceAddr = [], tm_AgentID = [], tm_Headers = None\<rparr>"
  have "is_ok (grpc_message sample_progress_env)" by code_simp
  then obtain raw where emit: "grpc_Emit (Some sample_progress_env) = Ok raw" by (auto simp: is_ok_iff grpc_Emit_def)
  have "time_ok (w_clock (clear_world empty_db) (w_clock_reads (clear_world empty_db)))"
    by (simp add: clear_world_def time_ok_def nanos_def)
  moreover have "meta_ok sample_progress_env" by code_simp
  moreover have "TrimSpace (env_ID sample_progress_env) \<noteq> []" by code_simp
  ultimately obtain env' w' where run: "grpc_Ingest canonical raw meta (clear_world empty_db) = (Ok env', w')"
    and t: "EffectiveTag (Some env') = grpc_tag (EffectiveTag (Some sample_progress_env))"
    using grpc_roundtrip [OF emit _ canonical_laws, of "clear_world empty_db" meta] by blast
  have "grpc_tag (EffectiveTag (Some sample_progress_env)) = ''progress.update''" by code_simp
  with emit run t show ?thesis unfolding meta_def by auto
qed

text \<open>
  C33. A progress envelope without an update whose content is a non-empty JSON object makes \<open>Emit\<close>
  panic: the loop that copies the content assigns into a nil map.
\<close>

theorem grpc_emit_panics:
  assumes "ParseTagFamily (EffectiveTag (Some env)) = TagProgress" "SystemMeta (Some env) MetaSysUpdate = None"
    and "Option.bind (decode_all (env_Content env)) (\<lambda>v. set_map None [v]) = Some (Some m)" "m \<noteq> []"
  shows "\<exists>s. grpc_Emit (Some env) = Fail (Panic s)"
proof -
  have fam: "ParseTagFamily ''request.action'' = ''request''" "ParseTagFamily ''response.success'' = ''response''"
    "ParseTagFamily ''response.error'' = ''response''" by code_simp+
  then have tag: "EffectiveTag (Some env) \<notin> {TagRequestAction, TagResponseSuccess, TagResponseError}" using assms(1) by auto
  have "env_Content env \<noteq> []" using assms(3) by (auto simp: decode_all_def json_first_def skip_ws_def)
  then have "progress_body env = Fail (Panic ''assignment to entry in nil map'')"
    unfolding progress_body_def assms(2,3) using assms(4) by simp
  then show ?thesis using tag assms(1) by (simp add: grpc_Emit_def grpc_message_def Let_def)
qed

theorem grpc_emit_panics_witness:
  "\<exists>s. grpc_Emit (Some (sample_progress_env\<lparr>env_Content := json_text (AMap [(''stage'', AStr ''two'')])\<rparr>)) = Fail (Panic s)"
proof (rule grpc_emit_panics)
  have "any_ok max_depth (AMap [(''stage'', AStr ''two'')])" by (simp add: max_depth_def)
  then show "Option.bind (decode_all (env_Content (sample_progress_env\<lparr>env_Content := json_text (AMap [(''stage'', AStr ''two'')])\<rparr>)))
      (\<lambda>v. set_map None [v]) = Some (Some (merge_map map_make [(sanitize ''stage'', AStr (sanitize ''two''))]))"
    by (simp add: decode_json_text del: json_text.simps)
  show "merge_map map_make [(sanitize ''stage'', AStr (sanitize ''two''))] \<noteq> []"
    by (simp add: merge_map_def map_make_def)
qed code_simp+

end
