(* ===== verification/A2a.thy ===== *)
theory A2a
  imports Adapter
begin

text \<open>
  \<open>backend/internal/adapter/a2a/a2a.go\<close>: messages of the Agent2Agent protocol to and from envelopes.
  The argument \<open>ulower\<close> is \<open>strings.ToLower\<close> on text that is not ASCII.
\<close>

section \<open>Messages and helpers\<close>

record a2aMessage =
  am_Method :: string
  am_ID :: any
  am_Params :: anymap

definition unmarshal_a2a :: "string \<Rightarrow> a2aMessage option" where
  "unmarshal_a2a raw =
     do { v \<leftarrow> decode_all raw;
          ms \<leftarrow> struct_members False [''method'', ''id'', ''params''] v;
          m \<leftarrow> string_field ms ''method''; i \<leftarrow> any_field ms ''id''; p \<leftarrow> map_field ms ''params'';
          Some \<lparr>am_Method = m, am_ID = i, am_Params = p\<rparr> }"

definition marshal_a2a :: "a2aMessage \<Rightarrow> string" where
  "marshal_a2a msg =
     struct_text ([(''method'', quote (am_Method msg))] @ any_text ''id'' (am_ID msg) @ map_text ''params'' (am_Params msg))"

text \<open>\<open>m[k]\<close> of a \<open>map[string]any\<close>: nil when the key is absent.\<close>

definition index_nil :: "anymap \<Rightarrow> string \<Rightarrow> any" where
  "index_nil m k = (case index_map m k of None \<Rightarrow> ANil | Some v \<Rightarrow> v)"

definition asString :: "any \<Rightarrow> string" where
  "asString v = (case v of ANil \<Rightarrow> [] | AStr s \<Rightarrow> s | _ \<Rightarrow> sprint v)"

definition nestedMap :: "anymap \<Rightarrow> string \<Rightarrow> any gomap option" where
  "nestedMap parent key = Option.bind (index_map parent key) as_map"

definition sourceIDFromA2AID :: "any \<Rightarrow> string" where
  "sourceIDFromA2AID i = (if i = ANil then [] else sprint i)"

definition hasAnyToken :: "string \<Rightarrow> string list \<Rightarrow> bool" where
  "hasAnyToken text toks = list_ex (Contains text) toks"

definition dataIntentTokens :: "string list" where
  "dataIntentTokens = [''data'', ''fetch'', ''retrieve'', ''lookup'', ''search'', ''find'', ''query'', ''list'', ''show'',
     ''read'', ''load'', ''pull'', ''report'']"

definition mustMarshalString :: "any \<Rightarrow> string" where
  "mustMarshalString v = json_text v"

text \<open>
  The error of \<open>Unmarshal\<close> is ignored here: a content that is no JSON object leaves the map empty,
  and a number out of range, the only value of a parsed text that cannot be decoded, becomes nil.
  \<open>null\<close> makes the map nil, which reads like the empty map.
\<close>

fun to_any_lenient :: "jvalue \<Rightarrow> any" where
  "to_any_lenient JNull = ANil"
| "to_any_lenient (JBool b) = ABool b"
| "to_any_lenient (JNum l) = (case to_float64 l of None \<Rightarrow> ANil | Some x \<Rightarrow> AFloat x)"
| "to_any_lenient (JStr s) = AStr s"
| "to_any_lenient (JArr vs) = AList (map to_any_lenient vs)"
| "to_any_lenient (JObj ms) = AMap (map_from_list (map (\<lambda>(k, v). (k, to_any_lenient v)) ms))"

definition parseContentMap :: "string \<Rightarrow> any gomap" where
  "parseContentMap content =
     (if content = [] then map_make
      else (case decode_all content of
              Some (JObj ms) \<Rightarrow> merge_map map_make (map (\<lambda>(k, v). (k, to_any_lenient v)) ms)
            | _ \<Rightarrow> map_make))"

definition part_text :: "any \<Rightarrow> string option" where
  "part_text partRaw =
     (case as_map partRaw of
        None \<Rightarrow> None
      | Some part \<Rightarrow>
          if TrimSpace (asString (index_nil (Some part) ''type'')) \<noteq> ''text'' then None
          else let t = TrimSpace (asString (index_nil (Some part) ''text'')) in if t \<noteq> [] then Some t else None)"

definition extractA2AMessageText :: "any gomap \<Rightarrow> string" where
  "extractA2AMessageText message =
     (let plain = TrimSpace (asString (index_nil (Some message) ''text'')) in
      case map_get message ''parts'' of
        Some (AList parts) \<Rightarrow>
          (let texts = List.map_filter part_text parts in if texts = [] then plain else Join texts [CHR 0x0A])
      | _ \<Rightarrow> plain)"

definition extractCapabilities :: "(string \<Rightarrow> string) \<Rightarrow> anymap \<Rightarrow> string list" where
  "extractCapabilities ulower params =
     (case index_map params ''capabilities'' of
        Some (AList items) \<Rightarrow>
          map (ToLower ulower) (filter (\<lambda>v. v \<noteq> []) (map (\<lambda>i. TrimSpace (asString i)) items))
      | _ \<Rightarrow> [])"

section \<open>Ingest\<close>

definition put_if :: "string \<Rightarrow> any option \<Rightarrow> any gomap \<Rightarrow> any gomap" where
  "put_if k v m = (case v of None \<Rightarrow> m | Some x \<Rightarrow> map_put k x m)"

definition ingestMessageSend :: "(string \<Rightarrow> string) \<Rightarrow> anymap \<Rightarrow> (string \<times> any gomap) res" where
  "ingestMessageSend ulower params =
     (case nestedMap params ''message'' of
        None \<Rightarrow> Fail (Err ''message/send params.message is required'')
      | Some message \<Rightarrow>
          let text = extractA2AMessageText message;
              capabilities = extractCapabilities ulower params;
              intent = ToLower ulower (text @ '' '' @ Join capabilities '' '');
              tag = (if hasAnyToken intent dataIntentTokens then TagRequestData else TagRequestAction);
              payload = map_from_list [(''message'', AStr text), (''raw_message'', AMap message)] in
          Ok (tag, put_if ''context_id'' (map_get message ''contextId'')
                     (put_if ''task_id'' (map_get message ''taskId'')
                       (put_if ''message_id'' (map_get message ''messageId'') payload))))"

definition ingestAgentCard :: "(string \<Rightarrow> string) \<Rightarrow> anymap \<Rightarrow> any gomap res" where
  "ingestAgentCard ulower params =
     (let name = TrimSpace (asString (index_nil params ''name'')) in
      if name = [] then Fail (Err ''agent/card params.name is required'')
      else Ok (map_from_list
        [(''name'', AStr name), (''description'', AStr (TrimSpace (asString (index_nil params ''description'')))),
         (''capabilities'', AStrs (extractCapabilities ulower params)),
         (''endpoint'', AStr (TrimSpace (asString (index_nil params ''endpoint''))))]))"

definition ingestTaskCreate :: "anymap \<Rightarrow> any gomap res" where
  "ingestTaskCreate params =
     (let taskID = TrimSpace (asString (index_nil params ''taskId''));
          status = TrimSpace (asString (index_nil params ''status'')) in
      if taskID = [] then Fail (Err ''task/create params.taskId is required'')
      else Ok (put_if ''result'' (index_map params ''result'')
                 (put_if ''status'' (if status \<noteq> [] then Some (AStr status) else None)
                   (map_from_list [(''action'', AStr ''task.create''), (''task_id'', AStr taskID)]))))"

text \<open>A failed task takes message and code from its result, where that is an object, and defaults.\<close>

definition failed_payload :: "any gomap \<Rightarrow> any gomap" where
  "failed_payload payload =
     (let p1 = (case map_get payload ''result'' of
                  Some (AMap r) \<Rightarrow> put_if ''code'' (map_get r ''code'') (put_if ''message'' (map_get r ''message'') payload)
                | _ \<Rightarrow> payload);
          p2 = (if map_get p1 ''message'' = None then map_put ''message'' (AStr ''task failed'') p1 else p1)
      in if map_get p2 ''code'' = None then map_put ''code'' (AStr ''failed'') p2 else p2)"

definition ingestTaskUpdate :: "anymap \<Rightarrow> (string \<times> any gomap) res" where
  "ingestTaskUpdate params =
     (let taskID = TrimSpace (asString (index_nil params ''taskId''));
          status = TrimSpace (asString (index_nil params ''status'')) in
      if taskID = [] then Fail (Err ''task/update params.taskId is required'')
      else if status = [] then Fail (Err ''task/update params.status is required'')
      else let payload = put_if ''result'' (index_map params ''result'')
                 (map_from_list [(''task_id'', AStr taskID), (''status'', AStr status)]) in
        if status = ''completed'' then Ok (TagResponseSuccess, payload)
        else if status = ''failed'' then Ok (TagResponseError, failed_payload payload)
        else if status = ''in_progress'' then Ok (TagProgressUpdate, payload)
        else Fail (Err (''unsupported task/update status: '' @ status)))"

definition a2a_Name :: string where "a2a_Name = ''a2a''"
definition a2a_Protocol :: string where "a2a_Protocol = ''a2a-json''"
definition a2a_version :: string where "a2a_version = ''1.0.0''"

definition a2a_Validate :: "string \<Rightarrow> unit res" where
  "a2a_Validate raw =
     (if raw = [] then Fail (Err ''raw message is empty'')
      else (case unmarshal_a2a raw of
              None \<Rightarrow> Fail (Wrap ''invalid json'' (Err ''decode''))
            | Some msg \<Rightarrow>
                let mth = TrimSpace (am_Method msg) in
                if mth = [] then Fail (Err ''method field is required'')
                else if mth \<in> {''message/send'', ''agent/card'', ''task/create'', ''task/update''} then Ok ()
                else Fail (Err (''unsupported a2a method: '' @ am_Method msg))))"

text \<open>
  A payload entry that becomes system metadata: set on the envelope and deleted from the payload.
\<close>

definition move_meta :: "string \<Rightarrow> string \<Rightarrow> envelope \<times> any gomap \<Rightarrow> envelope \<times> any gomap" where
  "move_meta k key ep =
     (case ep of (env, payload) \<Rightarrow>
        case map_get payload k of
          None \<Rightarrow> (env, payload)
        | Some v \<Rightarrow> (SetSystemMeta key v env, map_delete k payload))"

definition with_content :: "envelope \<times> any gomap \<Rightarrow> envelope" where
  "with_content ep = (fst ep)\<lparr>env_Content := mustMarshalString (AMap (snd ep))\<rparr>"

definition a2a_fill :: "(string \<Rightarrow> string) \<Rightarrow> a2aMessage \<Rightarrow> envelope \<Rightarrow> envelope res" where
  "a2a_fill ulower msg env =
     (let params = am_Params msg in
      if am_Method msg = ''message/send'' then
        (case ingestMessageSend ulower params of
           Inl e \<Rightarrow> Fail e
         | Inr (tag, payload) \<Rightarrow> Ok (with_content (SetSystemMeta MetaSysTag (AStr tag) env, payload)))
      else if am_Method msg = ''agent/card'' then
        (case ingestAgentCard ulower params of
           Inl e \<Rightarrow> Fail e
         | Inr payload \<Rightarrow> Ok (with_content (SetSystemMeta MetaSysTag (AStr TagContextProvide) env, payload)))
      else if am_Method msg = ''task/create'' then
        (case ingestTaskCreate params of
           Inl e \<Rightarrow> Fail e
         | Inr payload \<Rightarrow>
             Ok (with_content (move_meta ''result'' MetaSysResult (move_meta ''status'' MetaSysStatus
               (move_meta ''task_id'' MetaSysTaskID (move_meta ''action'' MetaSysAction
                 (SetSystemMeta MetaSysTag (AStr TagRequestAction) env, payload)))))))
      else if am_Method msg = ''task/update'' then
        (case ingestTaskUpdate params of
           Inl e \<Rightarrow> Fail e
         | Inr (tag, payload) \<Rightarrow>
             Ok (with_content (move_meta ''code'' MetaSysCode (move_meta ''message'' MetaSysMessage
               (move_meta ''result'' MetaSysResult (move_meta ''status'' MetaSysStatus
                 (move_meta ''task_id'' MetaSysTaskID (SetSystemMeta MetaSysTag (AStr tag) env, payload))))))))
      else Fail (Err (''unsupported a2a method: '' @ am_Method msg)))"

definition a2a_Ingest :: "(string \<Rightarrow> string) \<Rightarrow> uuid_lib \<Rightarrow> string \<Rightarrow> transport_meta \<Rightarrow> envelope io" where
  "a2a_Ingest ulower U raw meta =
     bindE (liftE (a2a_Validate raw)) (\<lambda>_.
     case unmarshal_a2a raw of
       None \<Rightarrow> failE (Wrap ''unmarshal a2a message'' (Err ''decode''))
     | Some msg \<Rightarrow>
         let sourceID = sourceIDFromA2AID (am_ID msg) in
         bindE uuid_New (\<lambda>i.
         bindE time_Now (\<lambda>now.
         bindE (liftE (a2a_fill ulower msg (blank_envelope U a2a_Name meta i now))) (\<lambda>env0.
         let env = SetAdapterMetadata a2a_Name a2a_version DirectionInbound sourceID a2a_Protocol env0 in
         bindE (wrapE ''ingested envelope invalid'' (liftE (Validate (Some env)))) (\<lambda>_.
         returnE env)))))"

section \<open>Emit\<close>

definition a2a_requestIDForEmit :: "envelope \<Rightarrow> any" where
  "a2a_requestIDForEmit env =
     (case SystemMeta (Some env) MetaSysRequestID of
        Some r \<Rightarrow> if r \<noteq> ANil then r else AStr (env_ID env)
      | None \<Rightarrow> AStr (env_ID env))"

text \<open>The first non-empty string of a list, or the default.\<close>

definition first_of :: "string list \<Rightarrow> string \<Rightarrow> string" where
  "first_of ss d = (case find (\<lambda>s. s \<noteq> []) ss of None \<Rightarrow> d | Some s \<Rightarrow> s)"

definition taskIDForEmit :: "envelope \<Rightarrow> string" where
  "taskIDForEmit env =
     first_of [TrimSpace (SystemMetaString (Some env) MetaSysTaskID), TrimSpace (SystemMetaString (Some env) MetaSysRequestID)]
       (env_ID env)"

definition outboundMessageText :: "envelope \<Rightarrow> string" where
  "outboundMessageText env =
     first_of [TrimSpace (SystemMetaString (Some env) MetaSysMessage),
               TrimSpace (asString (index_nil (Some (parseContentMap (env_Content env))) ''message'')),
               TrimSpace (SystemMetaString (Some env) MetaSysAction), env_Content env]
       (EffectiveTag (Some env))"

definition buildOutboundMessagePayload :: "envelope \<Rightarrow> any gomap" where
  "buildOutboundMessagePayload env =
     (let message = map_from_list
            [(''role'', AStr ''user''),
             (''parts'', AList [AMap (map_from_list [(''type'', AStr ''text''), (''text'', AStr (outboundMessageText env))])]),
             (''messageId'', AStr (env_ID env))];
          taskID = TrimSpace (SystemMetaString (Some env) MetaSysTaskID);
          contextID = TrimSpace (asString (index_nil (Some (parseContentMap (env_Content env))) ''context_id'')) in
      put_if ''contextId'' (if contextID \<noteq> [] then Some (AStr contextID) else None)
        (put_if ''taskId'' (if taskID \<noteq> [] then Some (AStr taskID) else None) message))"

definition update_params :: "envelope \<Rightarrow> string \<Rightarrow> any option \<Rightarrow> any gomap" where
  "update_params env status result =
     put_if ''result'' result (map_from_list [(''taskId'', AStr (taskIDForEmit env)), (''status'', AStr status)])"

definition error_result :: "envelope \<Rightarrow> any option" where
  "error_result env =
     (let m = SystemMetaString (Some env) MetaSysMessage;
          r = put_if ''message'' (if m \<noteq> [] then Some (AStr m) else None)
                (put_if ''code'' (SystemMeta (Some env) MetaSysCode) map_make) in
      if r = [] then None else Some (AMap r))"

definition progress_result :: "envelope \<Rightarrow> any option" where
  "progress_result env =
     (case SystemMeta (Some env) MetaSysResult of
        Some r \<Rightarrow> Some r
      | None \<Rightarrow>
          let content = parseContentMap (env_Content env) in
          if content = [] then None
          else (case map_get content ''progress'' of Some p \<Rightarrow> Some p | None \<Rightarrow> Some (AMap content)))"

definition a2a_message :: "envelope \<Rightarrow> a2aMessage res" where
  "a2a_message env =
     (let tag = EffectiveTag (Some env); i = a2a_requestIDForEmit env;
          update = (\<lambda>status result. Ok \<lparr>am_Method = ''task/update'', am_ID = i,
                      am_Params = Some (update_params env status result)\<rparr>) in
      if HasPrefix tag (TagRequest @ ''.'') then
        Ok \<lparr>am_Method = ''message/send'', am_ID = i,
            am_Params = Some (map_put ''message'' (AMap (buildOutboundMessagePayload env)) map_make)\<rparr>
      else if tag = TagResponseSuccess then update ''completed'' (SystemMeta (Some env) MetaSysResult)
      else if tag = TagResponseError then update ''failed'' (error_result env)
      else if HasPrefix tag (TagProgress @ ''.'') then update ''in_progress'' (progress_result env)
      else if tag = TagContextProvide then Fail (Err ''unsupported envelope tag for a2a emit: context-provide'')
      else Fail (Err (''unsupported envelope tag for a2a emit: '' @ tag)))"

definition a2a_Emit :: "envelope option \<Rightarrow> string res" where
  "a2a_Emit p =
     (case p of
        None \<Rightarrow> Fail (Err ''envelope is nil'')
      | Some env \<Rightarrow> (case a2a_message env of Inl e \<Rightarrow> Fail e | Inr msg \<Rightarrow> Ok (marshal_a2a msg)))"

definition NewA2AAdapter :: "(string \<Rightarrow> string) \<Rightarrow> uuid_lib \<Rightarrow> adapter" where
  "NewA2AAdapter ulower U =
     \<lparr>ad_Name = a2a_Name, ad_Protocol = a2a_Protocol, ad_Ingest = a2a_Ingest ulower U, ad_Emit = a2a_Emit,
      ad_Validate = a2a_Validate\<rparr>"

section \<open>The contract\<close>

lemma move_meta_simps [simp]:
  "env_ID (fst (move_meta k key ep)) = env_ID (fst ep)" "env_From (fst (move_meta k key ep)) = env_From (fst ep)"
  "env_To (fst (move_meta k key ep)) = env_To (fst ep)" "env_Tag (fst (move_meta k key ep)) = env_Tag (fst ep)"
  "env_Timestamp (fst (move_meta k key ep)) = env_Timestamp (fst ep)"
  "index_map (env_Metadata (fst (move_meta k key ep))) key' =
     (if key' = key \<and> map_get (snd ep) k \<noteq> None then map_get (snd ep) k else index_map (env_Metadata (fst ep)) key')"
  "map_get (snd (move_meta k key ep)) k' = (if k' = k then None else map_get (snd ep) k')"
  by (auto simp: move_meta_def split: prod.split option.split)

lemma with_content_simps [simp]:
  "env_ID (with_content ep) = env_ID (fst ep)" "env_From (with_content ep) = env_From (fst ep)"
  "env_To (with_content ep) = env_To (fst ep)" "env_Tag (with_content ep) = env_Tag (fst ep)"
  "env_Timestamp (with_content ep) = env_Timestamp (fst ep)" "env_Metadata (with_content ep) = env_Metadata (fst ep)"
  by (simp_all add: with_content_def)

lemma a2a_fill_header:
  "a2a_fill ulower msg e = Ok e' \<Longrightarrow>
     env_ID e' = env_ID e \<and> env_From e' = env_From e \<and> env_To e' = env_To e \<and> env_Tag e' = env_Tag e
     \<and> env_Timestamp e' = env_Timestamp e"
  by (auto simp: a2a_fill_def Let_def split: if_splits sum.splits)

lemma a2a_tags:
  "ingestMessageSend ulower params = Ok (t, p) \<Longrightarrow> t \<in> set knownTags"
  "ingestTaskUpdate params = Ok (t, p) \<Longrightarrow> t \<in> set knownTags"
  by (auto simp: ingestMessageSend_def ingestTaskUpdate_def Let_def knownTags_def split: option.splits if_splits)

lemma a2a_fill_tag:
  "a2a_fill ulower msg e = Ok e' \<Longrightarrow> \<exists>t \<in> set knownTags. index_map (env_Metadata e') MetaSysTag = Some (AStr t)"
  by (auto simp: a2a_fill_def Let_def dest: a2a_tags split: if_splits sum.splits)
    (simp_all add: knownTags_def)

interpretation a2a: ingesting a2a_Name a2a_version a2a_Protocol "''unmarshal a2a message''" a2a_Validate unmarshal_a2a
  "\<lambda>msg. sourceIDFromA2AID (am_ID msg)" "\<lambda>msg s. a2a_fill ulower msg" "a2a_Ingest ulower" for ulower
proof
  show "a2a_Ingest ulower U raw meta = ingest_shape a2a_Name a2a_version a2a_Protocol ''unmarshal a2a message'' a2a_Validate
      unmarshal_a2a (\<lambda>msg. sourceIDFromA2AID (am_ID msg)) (\<lambda>msg s. a2a_fill ulower msg) U raw meta" for U raw meta
    by (simp only: a2a_Ingest_def ingest_shape_def Let_def)
  show "a2a_Name \<noteq> [] \<and> hd a2a_Name \<notin> set space_bytes" by code_simp
qed (fact a2a_fill_header a2a_fill_tag)+

section \<open>Content\<close>

lemma lenient_jtree: "any_ok e v \<Longrightarrow> to_any_lenient (jtree v) = json_norm v"
proof (induction v arbitrary: e rule: json_text.induct)
  case (3 x)
  from to_any_jtree [OF this] show ?case by auto
next
  case (4 i)
  from to_any_jtree [OF this] show ?case by auto
next
  case (6 vs)
  then show ?case by (auto simp: list_all_iff)
next
  case (8 m)
  then have "map (\<lambda>(k, v). (k, to_any_lenient v)) (map (\<lambda>(k, v). (sanitize k, jtree v)) m)
      = map (\<lambda>(k, v). (sanitize k, json_norm v)) m" by (fastforce simp: list_all_iff)
  then show ?case by (simp only: jtree.simps to_any_lenient.simps json_norm.simps)
qed auto

text \<open>
  The payload that \<open>Ingest\<close> stores as JSON text in the content is the payload that \<open>Emit\<close> reads
  back: parsing the marshalled map yields its JSON normal form.
\<close>

theorem content_roundtrip:
  assumes "any_ok max_depth (AMap m)"
  shows "parseContentMap (mustMarshalString (AMap m)) = map_from_list (map (\<lambda>(k, v). (sanitize k, json_norm v)) m)"
proof -
  have dec: "decode_all (json_text (AMap m)) = Some (jtree (AMap m))" by (rule decode_json_text [OF assms])
  have "map (\<lambda>(k, v). (k, to_any_lenient v)) (map (\<lambda>(k, v). (sanitize k, jtree v)) m)
      = map (\<lambda>(k, v). (sanitize k, json_norm v)) m"
    using assms by (fastforce simp: list_all_iff intro: lenient_jtree)
  moreover have "json_text (AMap m) \<noteq> []" by (simp add: bracket_def)
  ultimately show ?thesis
    by (simp only: parseContentMap_def mustMarshalString_def dec jtree.simps jvalue.case option.case if_False merge_map_make)
qed

theorem content_roundtrip_witness:
  "parseContentMap (mustMarshalString (AMap [(''n'', AInt 3), (''s'', AStr ''x'')])) = [(''n'', AFloat 3), (''s'', AStr ''x'')]"
proof -
  have "any_ok max_depth (AMap [(''n'', AInt 3), (''s'', AStr ''x'')])"
    by (simp add: max_depth_def int64_min_def int64_max_def)
  moreover have "f64_of_int 3 = 3" using f64_round_of_int [of 3] by (simp add: f64_of_int_def)
  ultimately show ?thesis
    using content_roundtrip [of "[(''n'', AInt 3), (''s'', AStr ''x'')]"]
    by (simp add: sanitize_is_ascii is_ascii_def less_eq_char_def map_from_list_def map_make_def)
qed

end
