(* ===== verification/Adapters.thy ===== *)
theory Adapters
  imports Mcp Grpc A2a
begin

text \<open>
  The adapters that \<open>main\<close> of \<open>backend/cmd/bobberd/main.go\<close> installs, and what \<open>Ingest\<close> promises
  whichever of them is asked.
\<close>

definition server_adapters :: "(string \<Rightarrow> string) \<Rightarrow> uuid_lib \<Rightarrow> (string \<times> adapter) list" where
  "server_adapters ulower U =
     [(''mcp'', NewMCPAdapter U), (''a2a'', NewA2AAdapter ulower U), (''grpc'', NewGRPCAdapter U)]"

lemma server_adapters_cases:
  assumes "(n, adp) \<in> set (server_adapters ulower U)"
  obtains (mcp) "n = ''mcp''" "adp = NewMCPAdapter U"
    | (a2a) "n = ''a2a''" "adp = NewA2AAdapter ulower U"
    | (grpc) "n = ''grpc''" "adp = NewGRPCAdapter U"
  using assms by (auto simp: server_adapters_def)

lemmas adapter_names = mcp_Name_def mcp_Protocol_def a2a_Name_def a2a_Protocol_def grpc_Name_def grpc_Protocol_def

lemma server_adapters_read:
  assumes "(n, adp) \<in> set (server_adapters ulower U)"
  shows "reads (ad_Ingest adp raw meta)"
  using assms
  by (cases rule: server_adapters_cases)
    (simp_all add: NewMCPAdapter_def NewA2AAdapter_def NewGRPCAdapter_def mcp.ingest_reads a2a.ingest_reads grpc.ingest_reads)


definition sample_meta :: transport_meta where
  "sample_meta = \<lparr>tm_ConnectionID = ''c7'', tm_SourceAddr = [], tm_AgentID = [], tm_Headers = None\<rparr>"

text \<open>\<open>{"type":"unary","service":"s","method":"m"}\<close>.\<close>

definition sample_raw :: string where
  "sample_raw = ''{'' @ Join (map (\<lambda>(k, v). [CHR 0x22] @ k @ [CHR 0x22, CHR '':'', CHR 0x22] @ v @ [CHR 0x22])
     [(''type'', ''unary''), (''service'', ''s''), (''method'', ''m'')]) '','' @ ''}''"


end
