(* ===== verification/Server.thy ===== *)
theory Server
  imports Auth Adapters
begin

text \<open>
  \<open>backend/cmd/bobberd/main.go\<close>: authentication, the HTTP handlers, rate limiting and the
  persistence of messages, and the routing table. A handler takes the context that authentication
  made and the request, and returns the response it writes.
\<close>

section \<open>Requests, responses and the application\<close>

text \<open>
  The libraries the server is linked with: Unicode lower-casing, UUIDs, cryptography, and the HTTP
  handler of Prometheus (the text and the status that it answers).
\<close>

record libs =
  lib_lower :: "string \<Rightarrow> string"
  lib_uuid :: uuid_lib
  lib_crypto :: crypto_lib
  lib_promhttp :: "(string \<times> string) list \<Rightarrow> string \<Rightarrow> string \<times> nat"

text \<open>Header, path and query lookups yield the empty string for what is absent.\<close>

record request =
  rq_Header :: "string \<Rightarrow> string"
  rq_PathValue :: "string \<Rightarrow> string"
  rq_Query :: "string \<Rightarrow> string"
  rq_Body :: string
  rq_RemoteAddr :: string

text \<open>The values the middleware stores under \<open>ctxUserID\<close> and \<open>ctxAgentID\<close>.\<close>

record req_context =
  ctxUserID :: "string option"
  ctxAgentID :: "string option"

text \<open>
  A response is its status and the value \<open>writeJSON\<close> encodes; an error body holds the error whose
  text is sent, a text body the text that the metrics handler writes.
\<close>

datatype body = ErrorBody go_error | JsonBody any | TextBody string

record response =
  rs_Status :: nat
  rs_Body :: body

type_synonym handler = "req_context \<Rightarrow> request \<Rightarrow> response io"

text \<open>
  The application object; its rate limiter is a field of the world. \<open>ap_registry\<close> and \<open>ap_conv\<close>
  say that the services are there with their database.
\<close>

record app =
  ap_authSvc :: auth_service
  ap_registrySvc :: bool
  ap_convSvc :: bool
  ap_adapters :: "(string \<times> adapter) list"
  ap_metrics :: bool

definition writeJSON :: "nat \<Rightarrow> any \<Rightarrow> response" where
  "writeJSON status data = \<lparr>rs_Status = status, rs_Body = JsonBody data\<rparr>"

definition writeError :: "nat \<Rightarrow> go_error \<Rightarrow> response" where
  "writeError status e = \<lparr>rs_Status = status, rs_Body = ErrorBody e\<rparr>"

text \<open>\<open>x, err := m; if err != nil { writeError(w, status, ...); return }\<close>.\<close>

definition orError :: "'a io \<Rightarrow> (go_error \<Rightarrow> response) \<Rightarrow> ('a \<Rightarrow> response io) \<Rightarrow> response io" where
  "orError m f k = tryE m (\<lambda>r. case r of Inl e \<Rightarrow> returnE (f e) | Inr x \<Rightarrow> k x)"

text \<open>
  \<open>readJSON\<close>: the first JSON value of the body, with unknown fields refused, decoded by \<open>dec\<close>.
\<close>

definition readJSON :: "request \<Rightarrow> (jvalue \<Rightarrow> 'a option) \<Rightarrow> 'a io" where
  "readJSON r dec =
     liftE (case Option.bind (decode_first (rq_Body r)) dec of
              None \<Rightarrow> Fail (Wrap ''invalid json'' (Err ''decode''))
            | Some x \<Rightarrow> Ok x)"

definition bearerToken :: "string \<Rightarrow> string" where
  "bearerToken header =
     (case Cut (TrimSpace header) CHR '' '' of (a, b, found) \<Rightarrow>
        if \<not> found \<or> \<not> EqualFold a ''bearer'' then [] else TrimSpace b)"

definition contextString :: "string option \<Rightarrow> string" where
  "contextString v = TrimSpace (case v of None \<Rightarrow> [] | Some s \<Rightarrow> s)"

section \<open>Authentication\<close>

definition authenticate :: "libs \<Rightarrow> app \<Rightarrow> request \<Rightarrow> bool \<Rightarrow> bool \<Rightarrow> req_context io" where
  "authenticate L a r allowJWT allowAgentSecret =
     (let token = bearerToken (rq_Header r ''Authorization'');
          agentID = TrimSpace (rq_Header r ''X-Agent-ID'');
          secret = TrimSpace (rq_Header r ''X-API-Secret'');
          bySecret =
            (if allowAgentSecret \<and> agentID \<noteq> [] \<and> secret \<noteq> []
             then tryE (ValidateAPISecret (lib_uuid L) (lib_crypto L) (ap_authSvc a) agentID secret) (\<lambda>res.
               case res of
                 Inr agent \<Rightarrow> returnE \<lparr>ctxUserID = Some [], ctxAgentID = Some (uuid_String (lib_uuid L) (a_ID agent))\<rparr>
               | Inl _ \<Rightarrow> failE (Err ''invalid credentials''))
             else failE (Err ''invalid credentials''))
      in if allowJWT \<and> token \<noteq> []
         then tryE (ValidateJWT (lib_crypto L) (ap_authSvc a) token) (\<lambda>res.
           case res of
             Inr userID \<Rightarrow> returnE \<lparr>ctxUserID = Some userID, ctxAgentID = None\<rparr>
           | Inl _ \<Rightarrow> bySecret)
         else bySecret)"

definition requireAuth :: "libs \<Rightarrow> app \<Rightarrow> bool \<Rightarrow> bool \<Rightarrow> handler \<Rightarrow> request \<Rightarrow> response io" where
  "requireAuth L a allowJWT allowAgentSecret next r =
     orError (authenticate L a r allowJWT allowAgentSecret) (writeError 401) (\<lambda>cx. next cx r)"

definition requireJWT :: "libs \<Rightarrow> app \<Rightarrow> handler \<Rightarrow> request \<Rightarrow> response io" where
  "requireJWT L a next r = requireAuth L a True False next r"

section \<open>JSON forms\<close>

text \<open>\<open>time.Time\<close> as JSON: RFC 3339 with the fraction's trailing zeros removed.\<close>

definition rfc3339nano :: "time \<Rightarrow> string" where
  "rfc3339nano t =
     (let frac = rev (dropWhile (\<lambda>c. c = CHR ''0'') (rev (fixed_digits 9 (nat (t mod nanos))))) in
      butlast (format_rfc3339 t) @ (if frac = [] then [] else CHR ''.'' # frac) @ ''Z'')"

definition time_json :: "time \<Rightarrow> any" where
  "time_json t = AStr (rfc3339nano t)"

definition uuid_json :: "libs \<Rightarrow> uuid \<Rightarrow> any" where
  "uuid_json L u = AStr (uuid_String (lib_uuid L) u)"

definition obj :: "(string \<times> any) list \<Rightarrow> any" where
  "obj kvs = AMap (map_from_list kvs)"

text \<open>A pointer field with \<open>omitempty\<close>.\<close>

definition omitempty :: "string \<Rightarrow> any option \<Rightarrow> (string \<times> any) list" where
  "omitempty k v = (case v of None \<Rightarrow> [] | Some x \<Rightarrow> [(k, x)])"

definition agent_json :: "libs \<Rightarrow> agent \<Rightarrow> any" where
  "agent_json L a = obj [(''id'', uuid_json L (a_ID a)), (''display_name'', AStr (a_DisplayName a)),
     (''owner_user_id'', uuid_json L (a_OwnerUserID a)), (''created_at'', time_json (a_CreatedAt a))]"

definition group_json :: "libs \<Rightarrow> chat_group \<Rightarrow> any" where
  "group_json L g = obj ([(''id'', uuid_json L (g_ID g)), (''name'', AStr (g_Name g)),
     (''owner_id'', uuid_json L (g_OwnerID g))] @ omitempty ''conversation_id'' (map_option (uuid_json L) (g_ConversationID g))
     @ [(''created_at'', time_json (g_CreatedAt g))])"

definition item_json :: "libs \<Rightarrow> list_item \<Rightarrow> any" where
  "item_json L i = obj ([(''id'', uuid_json L (li_ID i)), (''reference_id'', uuid_json L (li_ReferenceID i)),
     (''reference_type'', AStr (li_ReferenceType i)), (''name'', AStr (li_Name i))]
     @ omitempty ''last_message_at'' (map_option time_json (li_LastMessageAt i)))"

definition anymap_json :: "anymap \<Rightarrow> any" where
  "anymap_json m = (case m of None \<Rightarrow> ANil | Some mm \<Rightarrow> AMap mm)"

definition message_json :: "libs \<Rightarrow> message \<Rightarrow> any" where
  "message_json L m = obj [(''id'', uuid_json L (m_ID m)), (''from_id'', uuid_json L (m_FromID m)),
     (''conversation_id'', uuid_json L (m_ConversationID m)), (''participant_kind'', AStr (m_ParticipantKind m)),
     (''tag'', AStr (m_Tag m)), (''content'', AStr (m_Content m)), (''metadata'', anymap_json (m_Metadata m)),
     (''timestamp'', time_json (m_Timestamp m))]"

definition request_json :: "libs \<Rightarrow> connection_request \<Rightarrow> any" where
  "request_json L r = obj [(''id'', uuid_json L (cr_ID r)), (''sender_id'', uuid_json L (cr_SenderID r)),
     (''from_id'', uuid_json L (cr_FromID r)), (''from_kind'', AStr (cr_FromKind r)),
     (''to_id'', uuid_json L (cr_ToID r)), (''to_kind'', AStr (cr_ToKind r)), (''status'', AStr (cr_Status r)),
     (''created_at'', time_json (cr_CreatedAt r)), (''updated_at'', time_json (cr_UpdatedAt r))]"

definition entry_json :: "libs \<Rightarrow> blacklist_entry \<Rightarrow> any" where
  "entry_json L b = obj [(''id'', uuid_json L (bl_ID b)), (''from_id'', uuid_json L (bl_FromID b)),
     (''from_kind'', AStr (bl_FromKind b)), (''to_id'', uuid_json L (bl_ToID b)), (''to_kind'', AStr (bl_ToKind b)),
     (''created_at'', time_json (bl_CreatedAt b))]"

section \<open>Accounts\<close>

definition handleRegister :: "libs \<Rightarrow> app \<Rightarrow> request \<Rightarrow> response io" where
  "handleRegister L a r =
     orError (readJSON r (\<lambda>v. do { ms \<leftarrow> struct_members True [''email'', ''password''] v;
                e \<leftarrow> string_field ms ''email''; p \<leftarrow> string_field ms ''password''; Some (e, p) }))
       (writeError 400) (\<lambda>(email, password).
     orError (RegisterUser (lib_lower L) (lib_crypto L) (ap_authSvc a) email password) (writeError 400) (\<lambda>user.
     returnE (writeJSON 201 (obj [(''id'', uuid_json L (u_ID user)), (''email'', AStr (u_Email user)),
       (''created_at'', time_json (u_CreatedAt user))]))))"

definition handleLogin :: "libs \<Rightarrow> app \<Rightarrow> request \<Rightarrow> response io" where
  "handleLogin L a r =
     orError (readJSON r (\<lambda>v. do { ms \<leftarrow> struct_members True [''email'', ''password''] v;
                e \<leftarrow> string_field ms ''email''; p \<leftarrow> string_field ms ''password''; Some (e, p) }))
       (writeError 400) (\<lambda>(email, password).
     orError (LoginUser (lib_lower L) (lib_uuid L) (lib_crypto L) (ap_authSvc a) email password) (writeError 401) (\<lambda>(token, user).
     returnE (writeJSON 200 (obj [(''access_token'', AStr token), (''expires_in'', AInt 3600),
       (''user'', obj [(''id'', uuid_json L (u_ID user)), (''email'', AStr (u_Email user)),
                       (''created_at'', time_json (u_CreatedAt user))])]))))"

definition handleVerifyEmail :: "libs \<Rightarrow> app \<Rightarrow> request \<Rightarrow> response io" where
  "handleVerifyEmail L a r =
     orError (readJSON r (\<lambda>v. do { ms \<leftarrow> struct_members True [''token''] v; string_field ms ''token'' }))
       (writeError 400) (\<lambda>token.
     orError (VerifyEmail (ap_authSvc a) token) (writeError 400) (\<lambda>user.
     returnE (writeJSON 200 (obj [(''verified'', ABool True), (''user_id'', uuid_json L (u_ID user)),
       (''email'', AStr (u_Email user))]))))"

definition handleResendVerification :: "libs \<Rightarrow> app \<Rightarrow> request \<Rightarrow> response io" where
  "handleResendVerification L a r =
     orError (readJSON r (\<lambda>v. do { ms \<leftarrow> struct_members True [''email''] v; string_field ms ''email'' }))
       (writeError 400) (\<lambda>email.
     orError (ResendVerification (lib_lower L) (ap_authSvc a) email) (writeError 400) (\<lambda>_.
     returnE (writeJSON 200 (obj [(''sent'', ABool True)]))))"

definition handleWhoAmI :: "libs \<Rightarrow> app \<Rightarrow> handler" where
  "handleWhoAmI L a cx r =
     orError (liftE (uuid_Parse (lib_uuid L) (contextString (ctxUserID cx))))
       (\<lambda>_. writeError 400 (Err ''invalid user context'')) (\<lambda>userID.
     orError (Users_GetByID userID) (writeError 400) (\<lambda>user.
     orError (Agents_ListByOwner userID) (writeError 400) (\<lambda>agents.
     returnE (writeJSON 200 (obj [(''user_id'', uuid_json L (u_ID user)), (''email'', AStr (u_Email user)),
       (''agents'', AList (map (agent_json L) agents))])))))"

section \<open>Agents and the registry\<close>

definition handleCreateAgent :: "libs \<Rightarrow> app \<Rightarrow> handler" where
  "handleCreateAgent L a cx r =
     orError (readJSON r (\<lambda>v. do { ms \<leftarrow> struct_members True [''display_name''] v; string_field ms ''display_name'' }))
       (writeError 400) (\<lambda>displayName.
     orError (CreateAgent (lib_uuid L) (lib_crypto L) (ap_authSvc a) (contextString (ctxUserID cx)) displayName)
       (writeError 400) (\<lambda>(agent, secret).
     returnE (writeJSON 201 (obj [(''id'', uuid_json L (a_ID agent)), (''api_secret'', AStr secret),
       (''created_at'', time_json (a_CreatedAt agent)), (''display_name'', AStr (a_DisplayName agent))]))))"

definition handleGetAgent :: "libs \<Rightarrow> app \<Rightarrow> handler" where
  "handleGetAgent L a cx r =
     orError (GetAgent (lib_uuid L) (ap_registrySvc a) (rq_PathValue r ''id'')) (writeError 404) (\<lambda>agent.
     returnE (writeJSON 200 (obj [(''id'', uuid_json L (a_ID agent)), (''display_name'', AStr (a_DisplayName agent)),
       (''owner_user_id'', uuid_json L (a_OwnerUserID agent)), (''created_at'', time_json (a_CreatedAt agent))])))"

text \<open>The identity of the caller in \<open>handleEntityInfo\<close>; a value that does not parse is the nil UUID.\<close>

definition caller_identity :: "libs \<Rightarrow> req_context \<Rightarrow> uuid \<times> string" where
  "caller_identity L cx =
     (let parsed = (\<lambda>s. case uuid_Parse (lib_uuid L) s of Inl _ \<Rightarrow> uuid_Nil | Inr i \<Rightarrow> i) in
      if contextString (ctxAgentID cx) \<noteq> [] then (parsed (contextString (ctxAgentID cx)), ParticipantTypeAgent)
      else if contextString (ctxUserID cx) \<noteq> [] then (parsed (contextString (ctxUserID cx)), ParticipantTypeUser)
      else (uuid_Nil, []))"

definition resolveDirectConvID :: "libs \<Rightarrow> app \<Rightarrow> req_context \<Rightarrow> uuid \<Rightarrow> string \<Rightarrow> uuid option io" where
  "resolveDirectConvID L a cx targetID targetKind =
     (case caller_identity L cx of (callerID, callerKind) \<Rightarrow>
        if callerID = uuid_Nil then returnE None
        else tryE (GetOrCreateDirect (lib_uuid L) (ap_convSvc a) callerID targetID callerKind targetKind) (\<lambda>res.
          case res of Inl _ \<Rightarrow> returnE None | Inr conv \<Rightarrow> returnE (Some (c_ID conv))))"

definition conv_field :: "libs \<Rightarrow> uuid option \<Rightarrow> (string \<times> any) list" where
  "conv_field L c = omitempty ''conversation_id'' (map_option (uuid_json L) c)"

definition handleEntityInfo :: "libs \<Rightarrow> app \<Rightarrow> handler" where
  "handleEntityInfo L a cx r =
     orError (liftE (uuid_Parse (lib_uuid L) (rq_PathValue r ''id''))) (\<lambda>_. writeError 400 (Err ''invalid id'')) (\<lambda>uid.
     tryE (Agents_GetByID uid) (\<lambda>ra. case ra of
       Inr agent \<Rightarrow>
         bindE (resolveDirectConvID L a cx (a_ID agent) ParticipantTypeAgent) (\<lambda>conv.
         returnE (writeJSON 200 (obj ([(''type'', AStr ''agent''), (''id'', uuid_json L (a_ID agent)),
           (''display_name'', AStr (a_DisplayName agent)), (''owner_user_id'', uuid_json L (a_OwnerUserID agent)),
           (''created_at'', time_json (a_CreatedAt agent))] @ conv_field L conv))))
     | Inl _ \<Rightarrow> tryE (Users_GetByID uid) (\<lambda>ru. case ru of
         Inr user \<Rightarrow>
           bindE (resolveDirectConvID L a cx (u_ID user) ParticipantTypeUser) (\<lambda>conv.
           returnE (writeJSON 200 (obj ([(''type'', AStr ''user''), (''id'', uuid_json L (u_ID user)),
             (''email'', AStr (u_Email user)), (''email_verified'', ABool (u_EmailVerified user)),
             (''created_at'', time_json (u_CreatedAt user))] @ conv_field L conv))))
       | Inl _ \<Rightarrow> tryE (Groups_GetByID uid) (\<lambda>rg. case rg of
           Inr grp \<Rightarrow>
             returnE (writeJSON 200 (obj ([(''type'', AStr ''group''), (''id'', uuid_json L (g_ID grp)),
               (''name'', AStr (g_Name grp)), (''owner_id'', uuid_json L (g_OwnerID grp)),
               (''created_at'', time_json (g_CreatedAt grp))] @ conv_field L (g_ConversationID grp))))
         | Inl _ \<Rightarrow> returnE (writeError 404 (Err ''entity not found''))))))"

definition handleDeleteAgent :: "libs \<Rightarrow> app \<Rightarrow> handler" where
  "handleDeleteAgent L a cx r =
     (let i = rq_PathValue r ''id'' in
      orError (GetAgent (lib_uuid L) (ap_registrySvc a) i) (writeError 404) (\<lambda>_.
      orError (Deregister (lib_uuid L) (ap_registrySvc a) i) (writeError 400) (\<lambda>_.
      returnE (writeJSON 200 (obj [(''deleted'', ABool True), (''id'', AStr i)])))))"

definition handleRotateSecret :: "libs \<Rightarrow> app \<Rightarrow> handler" where
  "handleRotateSecret L a cx r =
     (let i = rq_PathValue r ''id'' in
      orError (RotateSecret (lib_uuid L) (lib_crypto L) (ap_authSvc a) i) (writeError 400) (\<lambda>secret.
      returnE (writeJSON 200 (obj [(''id'', AStr i), (''api_secret'', AStr secret)]))))"

definition handleDiscover :: "libs \<Rightarrow> app \<Rightarrow> handler" where
  "handleDiscover L a cx r =
     orError (readJSON r (\<lambda>v. do { ms \<leftarrow> struct_members True [''supported_tags'', ''limit''] v;
                ts \<leftarrow> strings_field ms ''supported_tags''; n \<leftarrow> int_field ms ''limit''; Some (ts, n) }))
       (writeError 400) (\<lambda>(tags, limit).
     orError (Discover (ap_registrySvc a) \<lparr>dq_SupportedTags = tags, dq_Limit = limit\<rparr>) (writeError 400) (\<lambda>agents.
     returnE (writeJSON 200 (obj [(''agents'', AList (map (agent_json L) agents))]))))"

section \<open>Conversations and groups\<close>

definition quoted :: "string \<Rightarrow> string" where "quoted s = [CHR 0x27] @ s @ [CHR 0x27]"

definition handleListConversations :: "libs \<Rightarrow> app \<Rightarrow> handler" where
  "handleListConversations L a cx r =
     orError (liftE (uuid_Parse (lib_uuid L) (contextString (ctxUserID cx))))
       (\<lambda>_. writeError 401 (Err ''invalid user context'')) (\<lambda>userID.
     let raw = rq_Query r ''type'' in
     if raw \<noteq> [] \<and> raw \<noteq> ConversationTypeDirect \<and> raw \<noteq> ConversationTypeGroup
     then returnE (writeError 400 (Err (''type must be '' @ quoted ''direct'' @ '' or '' @ quoted ''group'')))
     else
       orError (ListConversationItems (ap_convSvc a) userID ParticipantTypeUser (if raw = [] then None else Some raw))
         (writeError 500) (\<lambda>items.
       returnE (writeJSON 200 (obj [(''conversations'', AList (map (item_json L) items))]))))"

definition handleCreateGroup :: "libs \<Rightarrow> app \<Rightarrow> handler" where
  "handleCreateGroup L a cx r =
     orError (readJSON r (\<lambda>v. do { ms \<leftarrow> struct_members True [''name''] v; string_field ms ''name'' }))
       (writeError 400) (\<lambda>name.
     orError (CreateGroup (lib_uuid L) (ap_convSvc a) name (contextString (ctxUserID cx))) (writeError 400) (\<lambda>group.
     returnE (writeJSON 201 (group_json L group))))"

definition handleLeaveGroup :: "libs \<Rightarrow> app \<Rightarrow> handler" where
  "handleLeaveGroup L a cx r =
     (let i = rq_PathValue r ''id'' in
      orError (readJSON r (\<lambda>v. do { ms \<leftarrow> struct_members True [''participant_id'', ''participant_kind''] v;
                 p \<leftarrow> string_field ms ''participant_id''; k \<leftarrow> string_field ms ''participant_kind''; Some (p, k) }))
        (writeError 400) (\<lambda>(pid, kind).
      let who = (if pid \<noteq> [] then (pid, kind)
                 else if contextString (ctxAgentID cx) \<noteq> [] then (contextString (ctxAgentID cx), ParticipantTypeAgent)
                 else (contextString (ctxUserID cx), ParticipantTypeUser)) in
      orError (LeaveGroup (lib_uuid L) (ap_convSvc a) i (fst who) (snd who)) (writeError 400) (\<lambda>_.
      returnE (writeJSON 200 (obj [(''group_id'', AStr i), (''left'', ABool True)])))))"

text \<open>The optional query parameters of \<open>handlePollMessages\<close>, in the order they are checked.\<close>

definition poll_limit :: "request \<Rightarrow> int res" where
  "poll_limit r =
     (let raw = TrimSpace (rq_Query r ''limit'') in
      if raw = [] then Ok 50
      else case Atoi raw of
        Inl _ \<Rightarrow> Fail (Err ''invalid limit'')
      | Inr n \<Rightarrow> if n \<le> 0 then Fail (Err ''invalid limit'') else Ok n)"

definition poll_since_ts :: "request \<Rightarrow> time option res" where
  "poll_since_ts r =
     (let raw = TrimSpace (rq_Query r ''since_ts'') in
      if raw = [] then Ok None
      else case parse_rfc3339 raw of None \<Rightarrow> Fail (Err ''invalid since_ts'') | Some t \<Rightarrow> Ok (Some t))"

definition poll_since_id :: "libs \<Rightarrow> request \<Rightarrow> uuid option res" where
  "poll_since_id L r =
     (let raw = TrimSpace (rq_Query r ''since_id'') in
      if raw = [] then Ok None
      else case uuid_Parse (lib_uuid L) raw of Inl _ \<Rightarrow> Fail (Err ''invalid since_id'') | Inr i \<Rightarrow> Ok (Some i))"

definition handlePollMessages :: "libs \<Rightarrow> app \<Rightarrow> handler" where
  "handlePollMessages L a cx r =
     (let convRaw = TrimSpace (rq_Query r ''conversation_id'') in
      if convRaw = [] then returnE (writeError 400 (Err ''conversation_id is required''))
      else
        orError (liftE (uuid_Parse (lib_uuid L) convRaw)) (\<lambda>_. writeError 400 (Err ''invalid conversation_id'')) (\<lambda>convID.
        orError (liftE (poll_limit r)) (writeError 400) (\<lambda>limit.
        orError (liftE (poll_since_ts r)) (writeError 400) (\<lambda>sinceTS.
        orError (liftE (poll_since_id L r)) (writeError 400) (\<lambda>sinceID.
        orError (Messages_GetByConversation convID limit sinceTS sinceID) (writeError 400) (\<lambda>msgs.
        returnE (writeJSON 200 (obj [(''messages'', AList (map (message_json L) msgs))]))))))))"

section \<open>Connection requests and the blacklist\<close>

text \<open>The kind of an entity: agents first, then groups, then users.\<close>

definition entity_kind :: "uuid \<Rightarrow> string option io" where
  "entity_kind i =
     tryE (Agents_GetByID i) (\<lambda>ra. if is_ok ra then returnE (Some EntityTypeAgent)
     else tryE (Groups_GetByID i) (\<lambda>rg. if is_ok rg then returnE (Some EntityTypeGroup)
     else tryE (Users_GetByID i) (\<lambda>ru. if is_ok ru then returnE (Some EntityTypeUser)
     else returnE None)))"

definition handleConnectionRequest :: "libs \<Rightarrow> app \<Rightarrow> handler" where
  "handleConnectionRequest L a cx r =
     orError (readJSON r (\<lambda>v. do { ms \<leftarrow> struct_members True [''target_id'', ''from_id'', ''from_kind''] v;
                t \<leftarrow> string_field ms ''target_id''; f \<leftarrow> string_field ms ''from_id'';
                k \<leftarrow> string_field ms ''from_kind''; Some (t, f, k) }))
       (writeError 400) (\<lambda>(target, from, kind).
     orError (liftE (uuid_Parse (lib_uuid L) (contextString (ctxAgentID cx))))
       (\<lambda>_. writeError 400 (Err ''invalid agent context'')) (\<lambda>agentID.
     orError (liftE (uuid_Parse (lib_uuid L) (TrimSpace target))) (\<lambda>_. writeError 400 (Err ''invalid target_id'')) (\<lambda>targetID.
     orError (if from \<noteq> [] \<and> kind \<noteq> []
              then bindE (liftE (uuid_Parse (lib_uuid L) (TrimSpace from))) (\<lambda>p. returnE (p, kind))
              else returnE (agentID, EntityTypeAgent))
       (\<lambda>_. writeError 400 (Err ''invalid from_id'')) (\<lambda>(fromID, fromKind).
     bindE (entity_kind targetID) (\<lambda>toKind. case toKind of
       None \<Rightarrow> returnE (writeError 404 (Err ''target not found''))
     | Some tk \<Rightarrow>
         orError (ConnectionRequests_Create \<lparr>cr_ID = uuid_Nil, cr_SenderID = agentID, cr_FromID = fromID,
                    cr_FromKind = fromKind, cr_ToID = targetID, cr_ToKind = tk, cr_Status = StatusPending,
                    cr_CreatedAt = zero_time, cr_UpdatedAt = zero_time\<rparr>)
           (writeError 400) (\<lambda>created.
         returnE (writeJSON 201 (obj [(''request'', request_json L created)]))))))))"

definition handleConnectionInbox :: "libs \<Rightarrow> app \<Rightarrow> handler" where
  "handleConnectionInbox L a cx r =
     orError (liftE (uuid_Parse (lib_uuid L) (contextString (ctxAgentID cx))))
       (\<lambda>_. writeError 400 (Err ''invalid agent context'')) (\<lambda>agentID.
     orError (ConnectionRequests_GetPendingByTarget agentID EntityTypeAgent) (writeError 400) (\<lambda>requests.
     orError (ListUnreadConversations (ap_convSvc a) agentID ParticipantTypeAgent) (writeError 500) (\<lambda>unreads.
     returnE (writeJSON 200 (obj [(''requests'', AList (map (request_json L) requests)),
       (''unreads'', AList (map (item_json L) unreads))])))))"

definition decide :: "libs \<Rightarrow> string \<Rightarrow> request \<Rightarrow> response io" where
  "decide L status r =
     orError (liftE (uuid_Parse (lib_uuid L) (TrimSpace (rq_PathValue r ''id''))))
       (\<lambda>_. writeError 400 (Err ''invalid id'')) (\<lambda>requestID.
     orError (ConnectionRequests_UpdateStatus requestID status) (writeError 400) (\<lambda>_.
     returnE (writeJSON 200 (obj [(''request_id'', uuid_json L requestID), (''status'', AStr status)]))))"

definition handleConnectionAccept :: "libs \<Rightarrow> app \<Rightarrow> handler" where
  "handleConnectionAccept L a cx r = decide L StatusAccepted r"

definition handleConnectionReject :: "libs \<Rightarrow> app \<Rightarrow> handler" where
  "handleConnectionReject L a cx r = decide L StatusRejected r"

text \<open>The calling entity of the blacklist handlers.\<close>

definition caller_entity :: "libs \<Rightarrow> req_context \<Rightarrow> (uuid \<times> string) res" where
  "caller_entity L cx =
     (if contextString (ctxAgentID cx) \<noteq> [] then
        (case uuid_Parse (lib_uuid L) (contextString (ctxAgentID cx)) of
           Inl _ \<Rightarrow> Fail (Err ''invalid agent context'') | Inr i \<Rightarrow> Ok (i, EntityTypeAgent))
      else
        (case uuid_Parse (lib_uuid L) (contextString (ctxUserID cx)) of
           Inl _ \<Rightarrow> Fail (Err ''invalid user context'') | Inr i \<Rightarrow> Ok (i, EntityTypeUser)))"

definition handleListBlacklist :: "libs \<Rightarrow> app \<Rightarrow> handler" where
  "handleListBlacklist L a cx r =
     orError (liftE (caller_entity L cx)) (writeError 400) (\<lambda>(fromID, fromKind).
     orError (Blacklist_ListByEntity fromID fromKind) (writeError 500) (\<lambda>entries.
     returnE (writeJSON 200 (obj [(''entries'', AList (map (entry_json L) entries))]))))"

definition handleBlacklist :: "libs \<Rightarrow> app \<Rightarrow> handler" where
  "handleBlacklist L a cx r =
     orError (readJSON r (\<lambda>v. do { ms \<leftarrow> struct_members True [''target_id''] v; string_field ms ''target_id'' }))
       (writeError 400) (\<lambda>target.
     orError (liftE (uuid_Parse (lib_uuid L) (TrimSpace target))) (\<lambda>_. writeError 400 (Err ''invalid target_id'')) (\<lambda>targetID.
     orError (liftE (caller_entity L cx)) (writeError 400) (\<lambda>(fromID, fromKind).
     bindE (entity_kind targetID) (\<lambda>toKind. case toKind of
       None \<Rightarrow> returnE (writeError 404 (Err ''target not found''))
     | Some tk \<Rightarrow>
         orError (Blacklist_Create \<lparr>bl_ID = uuid_Nil, bl_FromID = fromID, bl_FromKind = fromKind, bl_ToID = targetID,
                    bl_ToKind = tk, bl_CreatedAt = zero_time\<rparr>) (writeError 400) (\<lambda>entry.
         returnE (writeJSON 201 (obj [(''entry'', entry_json L entry)])))))))"

definition handleUnblacklist :: "libs \<Rightarrow> app \<Rightarrow> handler" where
  "handleUnblacklist L a cx r =
     orError (liftE (uuid_Parse (lib_uuid L) (TrimSpace (rq_PathValue r ''id''))))
       (\<lambda>_. writeError 400 (Err ''invalid id'')) (\<lambda>targetID.
     orError (liftE (caller_entity L cx)) (writeError 400) (\<lambda>(fromID, fromKind).
     bindE (entity_kind targetID) (\<lambda>toKind. case toKind of
       None \<Rightarrow> returnE (writeError 404 (Err ''target not found''))
     | Some tk \<Rightarrow>
         orError (Blacklist_Delete fromID fromKind targetID tk) (writeError 400) (\<lambda>_.
         returnE (writeJSON 200 (obj [(''removed'', ABool True), (''target_id'', uuid_json L targetID)]))))))"

section \<open>Messages\<close>

definition participant_kind_of :: "uuid \<Rightarrow> string io" where
  "participant_kind_of i =
     tryE (Agents_GetByID i) (\<lambda>r. returnE (if is_ok r then ParticipantTypeAgent else ParticipantTypeUser))"

text \<open>The conversation a message to \<open>toID\<close> belongs to.\<close>

definition resolve_conversation :: "libs \<Rightarrow> app \<Rightarrow> uuid \<Rightarrow> string \<Rightarrow> uuid \<Rightarrow> uuid io" where
  "resolve_conversation L a fromID fromKind toID =
     tryE (Groups_GetByID toID) (\<lambda>rg.
       case (case rg of Inl _ \<Rightarrow> None | Inr g \<Rightarrow> g_ConversationID g) of
         Some cid \<Rightarrow> returnE cid
       | None \<Rightarrow>
           bindE (participant_kind_of toID) (\<lambda>toKind.
           bindE (wrapE ''resolve conversation''
                    (GetOrCreateDirect (lib_uuid L) (ap_convSvc a) fromID toID fromKind toKind)) (\<lambda>conv.
           returnE (c_ID conv))))"

definition defaultPersistMessage :: "libs \<Rightarrow> app \<Rightarrow> envelope \<Rightarrow> uuid io" where
  "defaultPersistMessage L a env =
     bindE (wrapE ''invalid from id'' (liftE (uuid_Parse (lib_uuid L) (env_From env)))) (\<lambda>fromID.
     bindE (wrapE ''invalid message id'' (liftE (uuid_Parse (lib_uuid L) (env_ID env)))) (\<lambda>msgID.
     bindE (case parse_rfc3339 (env_Timestamp env) of None \<Rightarrow> time_Now | Some t \<Rightarrow> returnE t) (\<lambda>ts.
     bindE (participant_kind_of fromID) (\<lambda>fromKind.
     bindE (wrapE ''invalid to id'' (liftE (uuid_Parse (lib_uuid L) (env_To env)))) (\<lambda>toID.
     bindE (resolve_conversation L a fromID fromKind toID) (\<lambda>cid.
     bindE (wrapE ''save message'' (Messages_Save \<lparr>m_ID = msgID, m_FromID = fromID, m_ConversationID = cid,
              m_ParticipantKind = fromKind, m_Tag = env_Tag env, m_Content = env_Content env,
              m_Metadata = env_Metadata env, m_Timestamp = ts\<rparr>)) (\<lambda>_.
     returnE cid)))))))"

text \<open>
  One check of the limiter: a nil limiter allows everything, and a refusal is counted and reported.
\<close>

definition check_limit :: "app \<Rightarrow> string \<Rightarrow> string \<Rightarrow> unit io" where
  "check_limit a dimension key w =
     (case w_limiter w of
        None \<Rightarrow> (Ok (), w)
      | Some l \<Rightarrow>
          bindE (limiter_Allow l dimension key) (\<lambda>ok.
            if ok then returnE ()
            else if ap_metrics a then bindE (count_limited dimension key) (\<lambda>_. failE ErrRateLimited)
            else failE ErrRateLimited) w)"

definition publishAndAudit :: "libs \<Rightarrow> app \<Rightarrow> envelope \<Rightarrow> uuid io" where
  "publishAndAudit L a env =
     bindE (check_limit a DimensionAgent (AgentKey (env_From env))) (\<lambda>_.
     bindE (if HasPrefix (env_To env) ''group:''
            then check_limit a DimensionGroup (GroupKey (TrimPrefix (env_To env) ''group:''))
            else returnE ()) (\<lambda>_.
     bindE (check_limit a DimensionTag (TagKey (EffectiveTag (Some env)))) (\<lambda>_.
     defaultPersistMessage L a env)))"

definition publish_error :: "go_error \<Rightarrow> response" where
  "publish_error e =
     (if errors_Is e ErrRateLimited then writeError 429 (Err ''rate limited'') else writeError 500 e)"

record send_request =
  sr_To :: string
  sr_Tag :: string
  sr_Content :: string
  sr_Metadata :: anymap

definition send_fields :: "jvalue \<Rightarrow> send_request option" where
  "send_fields v =
     do { ms \<leftarrow> struct_members True [''to'', ''tag'', ''content'', ''metadata''] v;
          t \<leftarrow> string_field ms ''to''; g \<leftarrow> string_field ms ''tag''; c \<leftarrow> string_field ms ''content'';
          m \<leftarrow> map_field ms ''metadata''; Some \<lparr>sr_To = t, sr_Tag = g, sr_Content = c, sr_Metadata = m\<rparr> }"

definition sender_of :: "req_context \<Rightarrow> string" where
  "sender_of cx =
     (if contextString (ctxAgentID cx) = [] then contextString (ctxUserID cx) else contextString (ctxAgentID cx))"

definition send_envelope :: "libs \<Rightarrow> req_context \<Rightarrow> send_request \<Rightarrow> uuid \<Rightarrow> time \<Rightarrow> envelope" where
  "send_envelope L cx req messageID now =
     \<lparr>env_ID = uuid_String (lib_uuid L) messageID, env_From = sender_of cx, env_To = sr_To req,
      env_Tag = sr_Tag req, env_Content = sr_Content req,
      env_Metadata = Some (case sr_Metadata req of None \<Rightarrow> map_make | Some m \<Rightarrow> m),
      env_Timestamp = format_rfc3339 now\<rparr>"

definition handleSendMessage :: "libs \<Rightarrow> app \<Rightarrow> handler" where
  "handleSendMessage L a cx r =
     orError (readJSON r send_fields) (writeError 400) (\<lambda>req.
     if TrimSpace (sr_To req) = [] then returnE (writeError 400 (Err ''to is required''))
     else if TrimSpace (sr_Tag req) = [] then returnE (writeError 400 (Err ''tag is required''))
     else if sender_of cx = [] then returnE (writeError 400 (Err ''unable to determine sender identity''))
     else
       bindE uuid_New (\<lambda>messageID.
       bindE time_Now (\<lambda>now.
       let env = send_envelope L cx req messageID now in
       orError (liftE (Validate (Some env))) (writeError 400) (\<lambda>_.
       orError (publishAndAudit L a env) publish_error (\<lambda>cid.
       returnE (writeJSON 202 (obj [(''sent'', ABool True), (''message_id'', AStr (env_ID env)),
         (''conversation_id'', uuid_json L cid)])))))))"

definition replay_metadata :: "libs \<Rightarrow> message \<Rightarrow> string \<Rightarrow> any gomap" where
  "replay_metadata L original reason =
     (let m0 = (case m_Metadata original of None \<Rightarrow> map_make | Some m \<Rightarrow> m);
          m1 = map_put MetaSysReplayed (ABool True) m0;
          m2 = map_put MetaSysOriginalMessageID (uuid_json L (m_ID original)) m1;
          m3 = map_put MetaSysReplayReason (AStr (TrimSpace reason)) m2 in
      if m_Tag original \<noteq> [] then map_put MetaSysTag (AStr (m_Tag original)) m3 else m3)"

definition replay_envelope :: "libs \<Rightarrow> message \<Rightarrow> string \<Rightarrow> uuid \<Rightarrow> time \<Rightarrow> envelope" where
  "replay_envelope L original reason newMessageID now =
     \<lparr>env_ID = uuid_String (lib_uuid L) newMessageID, env_From = uuid_String (lib_uuid L) (m_FromID original),
      env_To = uuid_String (lib_uuid L) (m_ConversationID original), env_Tag = [],
      env_Content = m_Content original, env_Metadata = Some (replay_metadata L original reason),
      env_Timestamp = format_rfc3339 now\<rparr>"

definition handleReplayMessage :: "libs \<Rightarrow> app \<Rightarrow> handler" where
  "handleReplayMessage L a cx r =
     orError (readJSON r (\<lambda>v. do { ms \<leftarrow> struct_members True [''reason''] v; string_field ms ''reason'' }))
       (writeError 400) (\<lambda>reason.
     orError (liftE (uuid_Parse (lib_uuid L) (TrimSpace (rq_PathValue r ''id''))))
       (\<lambda>_. writeError 400 (Err ''invalid message id'')) (\<lambda>originalID.
     orError (query (\<lambda>d. one_row (filter (\<lambda>m. m_ID m = originalID) (t_messages d))))
       (\<lambda>e. if errors_Is e ErrNoRows then writeError 404 (Err ''message not found'')
            else writeError 500 (Err ''failed to load message'')) (\<lambda>original.
     bindE uuid_New (\<lambda>newMessageID.
     bindE time_Now (\<lambda>now.
     let env = replay_envelope L original reason newMessageID now in
     orError (publishAndAudit L a env) publish_error (\<lambda>_.
     returnE (writeJSON 202 (obj [(''replayed'', ABool True), (''new_message_id'', AStr (env_ID env)),
       (''original_message_id'', uuid_json L (m_ID original))]))))))))"

text \<open>\<open>io.LimitReader(r.Body, 1<<20)\<close>: the rest of a longer body is not read.\<close>

definition handleAdapterIngest :: "libs \<Rightarrow> app \<Rightarrow> handler" where
  "handleAdapterIngest L a cx r =
     (let name = TrimSpace (rq_PathValue r ''name''); body = take (2 ^ 20) (rq_Body r) in
      case map_of (ap_adapters a) name of
        None \<Rightarrow> returnE (writeError 404 (Err (''adapter '' @ name @ '' not found'')))
      | Some adp \<Rightarrow>
          if body = [] then returnE (writeError 400 (Err ''request body is empty''))
          else let target = TrimSpace (rq_Header r ''X-Target-Agent'');
                   meta = \<lparr>tm_ConnectionID = TrimSpace (rq_Header r ''X-Connection-ID''),
                           tm_SourceAddr = rq_RemoteAddr r, tm_AgentID = contextString (ctxAgentID cx),
                           tm_Headers = Some (if target \<noteq> [] then map_put ''X-Target-Agent'' target map_make else map_make)\<rparr> in
            orError (ad_Ingest adp body meta) (writeError 422) (\<lambda>env0.
            let env = env0\<lparr>env_Metadata := Some (case env_Metadata env0 of None \<Rightarrow> map_make | Some m \<Rightarrow> m)\<rparr> in
            orError (publishAndAudit L a env) publish_error (\<lambda>_.
            returnE (writeJSON 202 (obj [(''accepted'', ABool True), (''adapter'', AStr name),
              (''message_id'', AStr (env_ID env)), (''tag'', AStr (env_Tag env))])))))"

definition handleListAdapters :: "libs \<Rightarrow> app \<Rightarrow> handler" where
  "handleListAdapters L a cx r =
     returnE (writeJSON 200 (obj [(''adapters'', AList (map (\<lambda>(n, adp).
       obj [(''name'', AStr (ad_Name adp)), (''protocol'', AStr (ad_Protocol adp))]) (ap_adapters a)))]))"

definition handleHealth :: "libs \<Rightarrow> app \<Rightarrow> request \<Rightarrow> response io" where
  "handleHealth L a r =
     bindE time_Now (\<lambda>now.
     returnE (writeJSON 200 (obj [(''status'', AStr ''ok''), (''time'', time_json now),
       (''version'', AStr ProtocolVersion)])))"

text \<open>The handler of \<open>promhttp\<close> for the registry: a text made from what was counted and the accepted format.\<close>

definition handleMetrics :: "libs \<Rightarrow> app \<Rightarrow> request \<Rightarrow> response io" where
  "handleMetrics L a r w =
     (case lib_promhttp L (w_limited w) (rq_Header r ''Accept'') of (t, st) \<Rightarrow> (Ok \<lparr>rs_Status = st, rs_Body = TextBody t\<rparr>, w))"

end
