(* ===== verification/Routes.thy ===== *)
theory Routes
  imports Server
begin

text \<open>
  The routing table of \<open>registerRoutes\<close> and what holds of the server as a whole: the constraints
  of the schema hold in every reachable world, and requests without credentials change nothing.
\<close>

section \<open>The routing table\<close>

datatype seg = Lit string | Var string

fun match_segs :: "seg list \<Rightarrow> string list \<Rightarrow> (string \<times> string) list option" where
  "match_segs [] [] = Some []"
| "match_segs (Lit l # ps) (x # xs) = (if l = x then match_segs ps xs else None)"
| "match_segs (Var n # ps) (x # xs) = (if x = [] then None else map_option (Cons (n, x)) (match_segs ps xs))"
| "match_segs _ _ = None"

type_synonym route = "string \<times> seg list \<times> (request \<Rightarrow> response io)"

definition public_routes :: "libs \<Rightarrow> app \<Rightarrow> route list" where
  "public_routes L a =
     [(''POST'', [Lit ''v1'', Lit ''auth'', Lit ''register''], handleRegister L a),
      (''POST'', [Lit ''v1'', Lit ''auth'', Lit ''login''], handleLogin L a),
      (''POST'', [Lit ''v1'', Lit ''auth'', Lit ''verify-email''], handleVerifyEmail L a),
      (''POST'', [Lit ''v1'', Lit ''auth'', Lit ''resend-verification''], handleResendVerification L a),
      (''GET'', [Lit ''v1'', Lit ''health''], handleHealth L a),
      (''GET'', [Lit ''v1'', Lit ''metrics''], handleMetrics L a)]"

text \<open>
  A protected route: its method and pattern, which credentials it takes, and its handler.
\<close>

definition protected_table :: "libs \<Rightarrow> app \<Rightarrow> (string \<times> seg list \<times> bool \<times> bool \<times> handler) list" where
  "protected_table L a =
     [(''GET'', [Lit ''v1'', Lit ''auth'', Lit ''me''], True, False, handleWhoAmI L a),
      (''POST'', [Lit ''v1'', Lit ''agents''], True, False, handleCreateAgent L a),
      (''DELETE'', [Lit ''v1'', Lit ''agents'', Var ''id''], True, False, handleDeleteAgent L a),
      (''POST'', [Lit ''v1'', Lit ''agents'', Var ''id'', Lit ''rotate-secret''], True, False, handleRotateSecret L a),
      (''GET'', [Lit ''v1'', Lit ''info'', Var ''id''], True, True, handleEntityInfo L a),
      (''POST'', [Lit ''v1'', Lit ''registry'', Lit ''discover''], True, True, handleDiscover L a),
      (''GET'', [Lit ''v1'', Lit ''conversations''], True, False, handleListConversations L a),
      (''POST'', [Lit ''v1'', Lit ''groups''], True, False, handleCreateGroup L a),
      (''POST'', [Lit ''v1'', Lit ''groups'', Var ''id'', Lit ''leave''], True, True, handleLeaveGroup L a),
      (''GET'', [Lit ''v1'', Lit ''messages'', Lit ''poll''], True, False, handlePollMessages L a),
      (''POST'', [Lit ''v1'', Lit ''messages'', Lit ''send''], True, True, handleSendMessage L a),
      (''POST'', [Lit ''v1'', Lit ''messages'', Var ''id'', Lit ''replay''], True, False, handleReplayMessage L a),
      (''POST'', [Lit ''v1'', Lit ''connections'', Lit ''request''], False, True, handleConnectionRequest L a),
      (''GET'', [Lit ''v1'', Lit ''connections'', Lit ''inbox''], False, True, handleConnectionInbox L a),
      (''POST'', [Lit ''v1'', Lit ''connections'', Var ''id'', Lit ''accept''], False, True, handleConnectionAccept L a),
      (''POST'', [Lit ''v1'', Lit ''connections'', Var ''id'', Lit ''reject''], False, True, handleConnectionReject L a),
      (''GET'', [Lit ''v1'', Lit ''blacklist''], False, True, handleListBlacklist L a),
      (''POST'', [Lit ''v1'', Lit ''blacklist''], False, True, handleBlacklist L a),
      (''DELETE'', [Lit ''v1'', Lit ''blacklist'', Var ''id''], False, True, handleUnblacklist L a),
      (''POST'', [Lit ''v1'', Lit ''adapter'', Var ''name'', Lit ''ingest''], True, True, handleAdapterIngest L a),
      (''GET'', [Lit ''v1'', Lit ''adapter''], True, False, handleListAdapters L a)]"

definition protected_routes :: "libs \<Rightarrow> app \<Rightarrow> route list" where
  "protected_routes L a =
     map (\<lambda>(m, p, jwt, secret, h). (m, p, requireAuth L a jwt secret h)) (protected_table L a)"

definition registerRoutes :: "libs \<Rightarrow> app \<Rightarrow> route list" where
  "registerRoutes L a = public_routes L a @ protected_routes L a"

text \<open>
  \<open>http.ServeMux\<close> on a clean path: no two patterns overlap, so the first match is the only one. A
  path known under another method gets 405, an unknown one 404. A \<open>HEAD\<close> request uses the
  \<open>GET\<close> handler.
\<close>

definition route_for :: "route list \<Rightarrow> string \<Rightarrow> string list \<Rightarrow> ((string \<times> string) list \<times> (request \<Rightarrow> response io)) option" where
  "route_for rs mth segs =
     (case List.map_filter (\<lambda>(m, p, h). if m = mth \<or> m = ''GET'' \<and> mth = ''HEAD''
                                       then map_option (\<lambda>b. (b, h)) (match_segs p segs) else None) rs of
        [] \<Rightarrow> None | x # _ \<Rightarrow> Some x)"

definition serve :: "libs \<Rightarrow> app \<Rightarrow> string \<Rightarrow> string list \<Rightarrow> request \<Rightarrow> response io" where
  "serve L a mth segs r =
     (case route_for (registerRoutes L a) mth segs of
        Some (b, h) \<Rightarrow> h (r\<lparr>rq_PathValue := (\<lambda>n. case map_of b n of None \<Rightarrow> [] | Some x \<Rightarrow> x)\<rparr>)
      | None \<Rightarrow>
          returnE (if list_ex (\<lambda>(m, p, h). match_segs p segs \<noteq> None) (registerRoutes L a)
                   then writeError 405 (Err ''Method Not Allowed'') else writeError 404 (Err ''404 page not found'')))"

lemma route_for_mem:
  assumes "route_for rs mth segs = Some (b, h)"
  shows "\<exists>m p. (m, p, h) \<in> set rs \<and> (m = mth \<or> m = ''GET'' \<and> mth = ''HEAD'') \<and> match_segs p segs = Some b"
proof -
  have "(b, h) \<in> set (List.map_filter (\<lambda>(m, p, h). if m = mth \<or> m = ''GET'' \<and> mth = ''HEAD''
      then map_option (\<lambda>b. (b, h)) (match_segs p segs) else None) rs)"
    using assms unfolding route_for_def by (auto split: list.splits)
  then show ?thesis by (auto simp: map_filter_def split: if_splits) blast+
qed

section \<open>The constraints hold in every reachable world\<close>

lemma keeps_orError [keeps_intros]:
  "keeps P m \<Longrightarrow> (\<And>x. keeps P (k x)) \<Longrightarrow> keeps P (orError m f k)"
  unfolding orError_def by (auto intro!: keeps_intros split: sum.splits)

lemma keeps_readJSON [keeps_intros]: "keeps P (readJSON r dec)"
  unfolding readJSON_def by (rule keeps_intros)

lemmas keeps_reads_services [keeps_intros] = reads_services [THEN reads_keeps] reads_auth [THEN reads_keeps]

lemma keeps_authenticate [keeps_intros]: "keeps P (authenticate L a r j s)"
  unfolding authenticate_def Let_def by (auto intro!: keeps_intros split: sum.splits)

lemma keeps_entity_kind [keeps_intros]: "keeps P (entity_kind i)"
  unfolding entity_kind_def by (auto intro!: keeps_intros)

lemma keeps_participant_kind_of [keeps_intros]: "keeps P (participant_kind_of i)"
  unfolding participant_kind_of_def by (auto intro!: keeps_intros)

lemma keeps_check_limit [keeps_intros]: "keeps P (check_limit a dmn key)"
proof -
  have step: "keeps P (bindE (limiter_Allow l dmn key) (\<lambda>ok. if ok then returnE () else
      if ap_metrics a then bindE (count_limited dmn key) (\<lambda>_. failE ErrRateLimited) else failE ErrRateLimited))" for l
    by (auto intro!: keeps_intros)
  have "P (w_db (snd (check_limit a dmn key w)))" if "P (w_db w)" for w
  proof (cases "w_limiter w")
    case (Some l)
    show ?thesis using keepsD [OF step [of l], of w] that
      unfolding check_limit_def Some option.case by (metis prod.collapse)
  qed (simp add: check_limit_def that)
  then show ?thesis by (simp add: keeps_def)
qed

lemma keeps_publish [keeps_intros]: "keeps (db_inv (lib_lower L)) (publishAndAudit L a env)"
  unfolding publishAndAudit_def defaultPersistMessage_def resolve_conversation_def
  by (auto intro!: keeps_intros split: option.splits sum.splits)

text \<open>The adapters only translate: they leave the tables alone.\<close>

definition adapters_read :: "app \<Rightarrow> bool" where
  "adapters_read a \<longleftrightarrow> (\<forall>(n, adp) \<in> set (ap_adapters a). \<forall>raw meta. reads (ad_Ingest adp raw meta))"

lemma installed_adapters_read:
  "ap_adapters a = server_adapters (lib_lower L) (lib_uuid L) \<Longrightarrow> adapters_read a"
  by (auto simp: adapters_read_def intro: server_adapters_read)

lemma keeps_handleMetrics [keeps_intros]: "keeps P (handleMetrics L a r)"
  by (simp add: keeps_def handleMetrics_def split: prod.split)

lemma keeps_public:
  assumes "(m, p, h) \<in> set (public_routes L a)"
  shows "keeps (db_inv (lib_lower L)) (h r)"
  using assms
  by (auto simp: public_routes_def handleRegister_def handleLogin_def handleVerifyEmail_def
      handleResendVerification_def handleHealth_def intro!: keeps_intros split: prod.splits)

lemma keeps_account_handlers [keeps_intros]:
  "keeps (db_inv (lib_lower L)) (handleWhoAmI L a cx r)"
  "keeps (db_inv (lib_lower L)) (handleCreateAgent L a cx r)"
  "keeps (db_inv (lib_lower L)) (handleDeleteAgent L a cx r)"
  "keeps (db_inv (lib_lower L)) (handleRotateSecret L a cx r)"
  "keeps (db_inv (lib_lower L)) (handleDiscover L a cx r)"
  "keeps (db_inv (lib_lower L)) (handleListAdapters L a cx r)"
  unfolding handleWhoAmI_def handleCreateAgent_def handleDeleteAgent_def handleRotateSecret_def
    handleDiscover_def handleListAdapters_def Let_def
  by (auto intro!: keeps_intros split: prod.splits)

lemma keeps_handleEntityInfo [keeps_intros]: "keeps (db_inv (lib_lower L)) (handleEntityInfo L a cx r)"
  unfolding handleEntityInfo_def resolveDirectConvID_def
  by (auto intro!: keeps_intros split: prod.splits sum.splits)

lemma keeps_conversation_handlers [keeps_intros]:
  "keeps (db_inv (lib_lower L)) (handleListConversations L a cx r)"
  "keeps (db_inv (lib_lower L)) (handleCreateGroup L a cx r)"
  "keeps (db_inv (lib_lower L)) (handleLeaveGroup L a cx r)"
  "keeps (db_inv (lib_lower L)) (handlePollMessages L a cx r)"
  unfolding handleListConversations_def handleCreateGroup_def handleLeaveGroup_def handlePollMessages_def Let_def
  by (auto intro!: keeps_intros split: prod.splits)

lemma keeps_connection_handlers [keeps_intros]:
  "keeps (db_inv (lib_lower L)) (handleConnectionRequest L a cx r)"
  "keeps (db_inv (lib_lower L)) (handleConnectionInbox L a cx r)"
  "keeps (db_inv (lib_lower L)) (handleConnectionAccept L a cx r)"
  "keeps (db_inv (lib_lower L)) (handleConnectionReject L a cx r)"
  unfolding handleConnectionRequest_def handleConnectionInbox_def handleConnectionAccept_def
    handleConnectionReject_def decide_def
  by (auto intro!: keeps_intros split: prod.splits option.splits)

lemma keeps_blacklist_handlers [keeps_intros]:
  "keeps (db_inv (lib_lower L)) (handleListBlacklist L a cx r)"
  "keeps (db_inv (lib_lower L)) (handleBlacklist L a cx r)"
  "keeps (db_inv (lib_lower L)) (handleUnblacklist L a cx r)"
  unfolding handleListBlacklist_def handleBlacklist_def handleUnblacklist_def
  by (auto intro!: keeps_intros split: prod.splits option.splits)

lemma keeps_message_handlers [keeps_intros]:
  "keeps (db_inv (lib_lower L)) (handleSendMessage L a cx r)"
  "keeps (db_inv (lib_lower L)) (handleReplayMessage L a cx r)"
  unfolding handleSendMessage_def handleReplayMessage_def Let_def
  by (auto intro!: keeps_intros)

lemma keeps_handleAdapterIngest:
  assumes "adapters_read a"
  shows "keeps (db_inv (lib_lower L)) (handleAdapterIngest L a cx r)"
proof -
  have "keeps (db_inv (lib_lower L)) (ad_Ingest adp raw meta)" if "map_of (ap_adapters a) n = Some adp" for n adp raw meta
    using map_of_SomeD [OF that] assms by (auto simp: adapters_read_def intro!: reads_keeps)
  then show ?thesis
    unfolding handleAdapterIngest_def Let_def by (auto intro!: keeps_intros split: option.splits)
qed

lemma keeps_requireAuth [keeps_intros]:
  "(\<And>cx. keeps P (h cx r)) \<Longrightarrow> keeps P (requireAuth L a j s h r)"
  unfolding requireAuth_def by (auto intro!: keeps_intros)

lemma keeps_protected:
  assumes "(m, p, h) \<in> set (protected_routes L a)" "adapters_read a"
  shows "keeps (db_inv (lib_lower L)) (h r)"
  using assms keeps_handleAdapterIngest [OF assms(2)]
  by (auto simp: protected_routes_def protected_table_def intro!: keeps_intros)

lemma keeps_serve:
  assumes "adapters_read a"
  shows "keeps (db_inv (lib_lower L)) (serve L a mth segs r)"
proof (cases "route_for (registerRoutes L a) mth segs")
  case (Some bh)
  obtain b h where bh: "bh = (b, h)" by (cases bh)
  have "keeps (db_inv (lib_lower L)) (h r')" for r'
    using route_for_mem [OF Some [unfolded bh]] keeps_public keeps_protected [OF _ assms]
    by (auto simp: registerRoutes_def)
  then show ?thesis by (simp add: serve_def Some bh)
qed (simp add: serve_def keeps_intros)

text \<open>
  The worlds a server can be in: it starts with the empty tables, whatever its clock, its random
  bytes, its UUIDs and the failures to come, and it serves requests, one at a time.
\<close>

inductive reachable :: "libs \<Rightarrow> app \<Rightarrow> world \<Rightarrow> bool" for L a where
  start: "w_db w = empty_db \<Longrightarrow> reachable L a w"
| request: "reachable L a w \<Longrightarrow> serve L a mth segs r w = (Ok resp, w') \<Longrightarrow> reachable L a w'"


section \<open>Requests without credentials\<close>

definition no_credentials :: "request \<Rightarrow> bool" where
  "no_credentials r \<longleftrightarrow>
     bearerToken (rq_Header r ''Authorization'') = []
     \<and> (TrimSpace (rq_Header r ''X-Agent-ID'') = [] \<or> TrimSpace (rq_Header r ''X-API-Secret'') = [])"

definition public_path :: "string list \<Rightarrow> bool" where
  "public_path segs \<longleftrightarrow> segs \<in> {[''v1'', ''auth'', ''register''], [''v1'', ''auth'', ''login''],
     [''v1'', ''auth'', ''verify-email''], [''v1'', ''auth'', ''resend-verification''], [''v1'', ''health''],
     [''v1'', ''metrics'']}"

lemma match_lits: "match_segs (map Lit ls) segs = Some b \<Longrightarrow> segs = ls"
proof (induction ls arbitrary: segs b)
  case Nil
  then show ?case by (cases segs) auto
next
  case (Cons l ls)
  then show ?case by (cases segs) (auto split: if_splits)
qed

lemma public_routes_path:
  assumes "(m, p, h) \<in> set (public_routes L a)" "match_segs p segs = Some b"
  shows "public_path segs"
  using assms match_lits [of "[_, _, _]"] match_lits [of "[_, _]"]
  by (auto simp: public_routes_def public_path_def)

lemma requireAuth_no_credentials:
  assumes "no_credentials r"
  shows "requireAuth L a j s h r w = (Ok (writeError 401 (Err ''invalid credentials'')), w)"
  using assms
  by (auto simp: requireAuth_def orError_def authenticate_def no_credentials_def tryE_def failE_def returnE_def)

text \<open>
  C2. A request that carries neither a bearer token nor an agent secret has no effect at all
  outside the six public endpoints: the answer is 401 (or 404, 405 for what is not routed), and
  the tables, the limiter, the clock and everything else in the world stay as they were.
\<close>

theorem unauthenticated_inert:
  assumes "no_credentials r" "\<not> public_path segs"
  shows "\<exists>e st. serve L a mth segs r w = (Ok (writeError st e), w) \<and> st \<in> {401, 404, 405}"
proof (cases "route_for (registerRoutes L a) mth segs")
  case (Some bh)
  obtain b h where bh: "bh = (b, h)" by (cases bh)
  obtain m p where mp: "(m, p, h) \<in> set (registerRoutes L a)" "match_segs p segs = Some b"
    using route_for_mem [OF Some [unfolded bh]] by blast
  then have "(m, p, h) \<in> set (protected_routes L a)"
    using public_routes_path assms(2) by (auto simp: registerRoutes_def)
  then obtain j s g where h: "h = requireAuth L a j s g" by (auto simp: protected_routes_def)
  have "no_credentials (r\<lparr>rq_PathValue := f\<rparr>)" for f using assms(1) by (simp add: no_credentials_def)
  then show ?thesis
    by (intro exI [of _ "Err ''invalid credentials''"] exI [of _ "401 :: nat"])
      (simp add: serve_def Some bh h requireAuth_no_credentials)
qed (auto simp: serve_def returnE_def)

section \<open>Witnesses\<close>

definition sample_libs :: libs where
  "sample_libs = \<lparr>lib_lower = id, lib_uuid = canonical, lib_crypto = plain_crypto,
     lib_promhttp = (\<lambda>_ _. ([], 200))\<rparr>"

definition sample_app :: app where
  "sample_app = \<lparr>ap_authSvc = sample_service, ap_registrySvc = True, ap_convSvc = True, 
     ap_adapters = server_adapters id canonical, ap_metrics = True\<rparr>"

definition sample_request :: "string \<Rightarrow> request" where
  "sample_request b = \<lparr>rq_Header = (\<lambda>_. []), rq_PathValue = (\<lambda>_. []), rq_Query = (\<lambda>_. []), rq_Body = b,
     rq_RemoteAddr = []\<rparr>"

lemma sample_libs_simps [simp]:
  "lib_lower sample_libs = id" "lib_uuid sample_libs = canonical" "lib_crypto sample_libs = plain_crypto"
  by (simp_all add: sample_libs_def)

text \<open>JSON texts of objects with string values; HOL's string literals have no double quote.\<close>

definition json_object :: "(string \<times> string) list \<Rightarrow> string" where
  "json_object kvs = ''{'' @ Join (map (\<lambda>(k, v). [CHR 0x22] @ k @ [CHR 0x22, CHR '':'', CHR 0x22] @ v @ [CHR 0x22]) kvs) '','' @ ''}''"


definition answered :: "nat \<Rightarrow> response res \<times> world \<Rightarrow> bool" where
  "answered st p = (case fst p of Inl _ \<Rightarrow> False | Inr resp \<Rightarrow> rs_Status resp = st)"

lemma answeredE: "answered st p \<Longrightarrow> \<exists>resp w'. p = (Ok resp, w') \<and> rs_Status resp = st"
  by (cases p) (auto simp: answered_def split: sum.splits)

lemma sample_reachable:
  "\<exists>w'. reachable sample_libs sample_app w' \<and> w_clock_reads w' = 1"
proof -
  have "\<exists>resp w'. serve sample_libs sample_app ''GET'' [''v1'', ''health''] (sample_request []) (clear_world empty_db) = (Ok resp, w')
      \<and> w_clock_reads w' = 1"
    by (simp add: serve_def registerRoutes_def route_for_def public_routes_def protected_routes_def protected_table_def
        handleHealth_def map_filter_def run_defs clear_world_def)
  moreover have "reachable sample_libs sample_app (clear_world empty_db)"
    by (rule reachable.start) (simp add: clear_world_def)
  ultimately show ?thesis using reachable.request by blast
qed


theorem unauthenticated_inert_witness:
  "\<exists>e st. serve sample_libs sample_app ''DELETE'' [''v1'', ''agents'', ''5''] (sample_request []) (clear_world sample_agent_db)
     = (Ok (writeError st e), clear_world sample_agent_db)"
proof -
  have "no_credentials (sample_request [])"
    by (simp add: no_credentials_def sample_request_def bearerToken_def)
  moreover have "\<not> public_path [''v1'', ''agents'', ''5'']" by (simp add: public_path_def)
  ultimately show ?thesis
    using unauthenticated_inert [of "sample_request []" "[''v1'', ''agents'', ''5'']" sample_libs sample_app "''DELETE''"
        "clear_world sample_agent_db"] by blast
qed

end
