(* ===== verification/Messaging.thy ===== *)
theory Messaging
  imports Routes "HOL-Library.Code_Target_Nat"
begin

text \<open>
  The path of a message through the server: rate limiting, the choice of its conversation, its
  storage, and replaying.
\<close>

section \<open>Persisting a message\<close>

lemma reads_participant_kind_of [reads_intros]: "reads (participant_kind_of i)"
  unfolding participant_kind_of_def by (auto intro!: reads_intros)

lemma participant_kind_of_Inr: "participant_kind_of i w = (Inr k, w') \<Longrightarrow> k \<in> set participant_kinds"
  by (auto simp: participant_kind_of_def tryE_def participant_kinds_def split: prod.splits)

text \<open>Where a message from \<open>from\<close> to \<open>to\<close> belongs.\<close>

definition belongs :: "uuid \<Rightarrow> uuid \<Rightarrow> db \<Rightarrow> uuid \<Rightarrow> bool" where
  "belongs from to d cid \<longleftrightarrow>
     (\<exists>g \<in> set (t_groups d). g_ID g = to \<and> g_ConversationID g = Some cid)
     \<or> from \<noteq> to \<and> (\<exists>c \<in> set (t_conversations d). c_ID c = cid \<and> pair_row (min from to) (max from to) c)"

lemma pair_row_not_self:
  assumes "db_inv ulower d" "c \<in> set (t_conversations d)" "pair_row (min i j) (max i j) c"
  shows "i \<noteq> j"
proof -
  have "check_direct_ids c" using assms(1,2) by (simp add: db_inv_def conversations_ok_def)
  then have "min i j < max i j" using assms(3) by (rule check_direct_less)
  then show ?thesis by auto
qed

lemma resolve_conversation_Inr:
  assumes inv: "db_inv ulower (w_db w)" and U: "uuid_laws (lib_uuid L)"
    and run: "resolve_conversation L a from fk to w = (Inr cid, w')"
  shows "belongs from to (w_db w') cid \<and> t_messages (w_db w') = t_messages (w_db w)
    \<and> t_groups (w_db w') = t_groups (w_db w) \<and> db_inv ulower (w_db w')"
proof -
  obtain rg w1 where g: "Groups_GetByID to w = (rg, w1)" by fastforce
  have w1: "w_db w1 = w_db w" by (rule readsD [OF reads_methods(6) g])
  show ?thesis
  proof (cases "case rg of Inl _ \<Rightarrow> None | Inr g \<Rightarrow> g_ConversationID g")
    case None
    obtain tk conv w2 where k: "participant_kind_of to w1 = (Inr tk, w2)"
      and dir: "GetOrCreateDirect (lib_uuid L) (ap_convSvc a) from to fk tk w2 = (Inr conv, w')" and cid: "cid = c_ID conv"
      using run by (auto simp: resolve_conversation_def tryE_def g None bindE_Inr)
    have w2: "w_db w2 = w_db w" using readsD [OF reads_participant_kind_of k] w1 by simp
    have inv': "db_inv ulower (w_db w')" by (rule keepsD [OF keeps_services(6) dir]) (simp add: w2 inv)
    note cs = GetOrCreateDirect_cases [OF _ order_pair_min_max [OF U] dir, of ulower, unfolded w2, OF inv]
    have "conv \<in> set (t_conversations (w_db w'))" using cs by (auto simp: direct_created_def)
    moreover have "pair_row (min from to) (max from to) conv" using cs by simp
    ultimately have "belongs from to (w_db w') cid"
      using pair_row_not_self [OF inv'] by (auto simp: belongs_def cid)
    then show ?thesis using cs inv' by (auto simp: direct_created_def)
  next
    case (Some c)
    then obtain gr where rg: "rg = Inr gr" "g_ConversationID gr = Some c" by (cases rg) auto
    have "gr \<in> set (t_groups (w_db w)) \<and> g_ID gr = to"
      using g by (auto simp: Groups_GetByID_def rg dest!: query_Inr one_row_Inr)
    moreover have "cid = c" "w' = w1" using run by (auto simp: resolve_conversation_def tryE_def g Some)
    ultimately show ?thesis using rg inv by (auto simp: belongs_def w1)
  qed
qed

lemma Messages_Save_Inr:
  assumes "Messages_Save m w = (Inr out, w')"
  shows "\<exists>t. (t = m_Timestamp m \<or> m_Timestamp m = zero_time) \<and> out = saved_row m t
    \<and> w_db w' = set_last_message out ((w_db w)\<lparr>t_messages := t_messages (w_db w) @ [out]\<rparr>)
    \<and> m_ConversationID m \<in> c_ID ` set (t_conversations (w_db w))"
proof -
  have sv: "out = x \<and> d' = set_last_message x (d\<lparr>t_messages := t_messages d @ [x]\<rparr>)
      \<and> m_ConversationID x \<in> c_ID ` set (t_conversations d)"
    if "save_tables x d = Inr (out, d')" for x d d'
    using that by (auto simp: save_tables_def insert_message_def split: if_splits)
  obtain t where t: "t = m_Timestamp m \<or> m_Timestamp m = zero_time"
      and saved: "save_tables (saved_row m t) (w_db w) = Inr (out, w_db w')"
    using Messages_Save_cases [OF assms] by auto
  have "m_ConversationID (saved_row m t) = m_ConversationID m" by (simp add: saved_row_def)
  with t sv [OF saved] show ?thesis by (intro exI [of _ t]) simp
qed

lemma belongs_set_last_message:
  "belongs from to (set_last_message m (d\<lparr>t_messages := ms\<rparr>)) cid = belongs from to d cid"
proof -
  define f where "f = (\<lambda>c::conversation. if c_ID c = m_ConversationID m
    then c\<lparr>c_LastMessageID := Some (m_ID m), c_LastMessageAt := Some (m_Timestamp m)\<rparr> else c)"
  have "c_ID (f c) = c_ID c" "pair_row l h (f c) = pair_row l h c" for c l h
    by (simp_all add: f_def pair_row_def)
  moreover have "t_conversations (set_last_message m (d\<lparr>t_messages := ms\<rparr>)) = map f (t_conversations d)"
      "t_groups (set_last_message m (d\<lparr>t_messages := ms\<rparr>)) = t_groups d"
    by (simp_all add: set_last_message_def f_def)
  ultimately show ?thesis by (simp add: belongs_def)
qed

text \<open>The row that a persisted envelope becomes.\<close>

definition stored_as :: "uuid_lib \<Rightarrow> envelope \<Rightarrow> uuid \<Rightarrow> message \<Rightarrow> bool" where
  "stored_as U env cid m \<longleftrightarrow>
     uuid_Parse U (env_ID env) = Ok (m_ID m) \<and> uuid_Parse U (env_From env) = Ok (m_FromID m)
     \<and> m_ConversationID m = cid \<and> m_Tag m = env_Tag env \<and> m_Content m = env_Content env
     \<and> m_Metadata m = norm_map (env_Metadata env)
     \<and> m_ParticipantKind m \<in> set participant_kinds"

lemma defaultPersistMessage_Inr:
  assumes inv: "db_inv ulower (w_db w)" and U: "uuid_laws (lib_uuid L)"
    and run: "defaultPersistMessage L a env w = (Inr cid, w')"
  shows "\<exists>m to. stored_as (lib_uuid L) env cid m \<and> uuid_Parse (lib_uuid L) (env_To env) = Ok to
    \<and> belongs (m_FromID m) to (w_db w') cid
    \<and> t_messages (w_db w') = t_messages (w_db w) @ [m]
    \<and> (\<exists>c \<in> set (t_conversations (w_db w')). c_ID c = cid \<and> c_LastMessageID c = Some (m_ID m))"
proof -
  obtain fid mid ts fk to out w1 w2 w3 where ids: "uuid_Parse (lib_uuid L) (env_From env) = Ok fid"
      "uuid_Parse (lib_uuid L) (env_ID env) = Ok mid" "uuid_Parse (lib_uuid L) (env_To env) = Ok to"
    and time: "(case parse_rfc3339 (env_Timestamp env) of None \<Rightarrow> time_Now | Some t \<Rightarrow> returnE t) w = (Inr ts, w1)"
    and kind: "participant_kind_of fid w1 = (Inr fk, w2)"
    and res: "resolve_conversation L a fid fk to w2 = (Inr cid, w3)"
    and save: "Messages_Save \<lparr>m_ID = mid, m_FromID = fid, m_ConversationID = cid, m_ParticipantKind = fk,
      m_Tag = env_Tag env, m_Content = env_Content env, m_Metadata = env_Metadata env, m_Timestamp = ts\<rparr> w3 = (Inr out, w')"
    using run by (auto simp: defaultPersistMessage_def bindE_Inr)
  have "w_db w1 = w_db w" using time by (auto simp: time_Now_def split: option.splits)
  then have w2: "w_db w2 = w_db w" using readsD [OF reads_participant_kind_of kind] by simp
  note rc = resolve_conversation_Inr [OF _ U res, of ulower, unfolded w2, OF inv]
  obtain t where out: "out = saved_row \<lparr>m_ID = mid, m_FromID = fid, m_ConversationID = cid, m_ParticipantKind = fk,
      m_Tag = env_Tag env, m_Content = env_Content env, m_Metadata = env_Metadata env, m_Timestamp = ts\<rparr> t"
    and db: "w_db w' = set_last_message out ((w_db w3)\<lparr>t_messages := t_messages (w_db w3) @ [out]\<rparr>)"
    and cid: "cid \<in> c_ID ` set (t_conversations (w_db w3))"
    using Messages_Save_Inr [OF save] by auto
  have "stored_as (lib_uuid L) env cid out"
    using ids participant_kind_of_Inr [OF kind] by (simp add: stored_as_def out saved_row_def)
  moreover have "belongs (m_FromID out) to (w_db w') cid"
    using rc by (simp add: db belongs_set_last_message out saved_row_def)
  moreover have "t_messages (w_db w') = t_messages (w_db w) @ [out]"
    using rc by (simp add: db set_last_message_def)
  moreover have "\<exists>c \<in> set (t_conversations (w_db w')). c_ID c = cid \<and> c_LastMessageID c = Some (m_ID out)"
  proof -
    obtain c where "c \<in> set (t_conversations (w_db w3))" "c_ID c = cid" using cid by auto
    moreover have "m_ConversationID out = cid" by (simp add: out saved_row_def)
    ultimately have "c\<lparr>c_LastMessageID := Some (m_ID out), c_LastMessageAt := Some (m_Timestamp out)\<rparr>
        \<in> set (t_conversations (w_db w'))"
      by (auto simp: db set_last_message_def image_iff intro!: bexI [of _ c])
    then show ?thesis by (rule bexI [rotated]) (simp add: \<open>c_ID c = cid\<close>)
  qed
  ultimately show ?thesis using ids(3) by blast
qed

section \<open>Rate limiting\<close>

lemma check_limit_Inr:
  assumes "check_limit a dmn key w = (Inr u, w')"
  shows "w_db w' = w_db w \<and> w_clock w' = w_clock w
    \<and> (case w_limiter w of
         None \<Rightarrow> w_limiter w' = None
       | Some l \<Rightarrow> fst (Allow l (w_clock w (w_clock_reads w)) dmn key)
                   \<and> w_limiter w' = Some (snd (Allow l (w_clock w (w_clock_reads w)) dmn key))
                   \<and> w_clock_reads w' = Suc (w_clock_reads w))"
  using assms
  by (cases "w_limiter w")
    (auto simp: check_limit_def bindE_Inr limiter_Allow_def time_Now_def split: prod.splits if_splits)

lemma check_limit_refused:
  assumes "w_limiter w = Some l" "\<not> fst (Allow l (w_clock w (w_clock_reads w)) dmn key)"
  shows "\<exists>w'. check_limit a dmn key w = (Fail ErrRateLimited, w') \<and> w_db w' = w_db w
    \<and> w_limiter w' = Some (snd (Allow l (w_clock w (w_clock_reads w)) dmn key))
    \<and> w_limited w' = w_limited w @ (if ap_metrics a then [(dmn, key)] else [])"
  using assms
  by (auto simp: check_limit_def bindE_def limiter_Allow_def time_Now_def count_limited_def failE_def
      split: prod.splits)

text \<open>
  C7. An envelope whose sender has used up its allowance is not stored: publishing fails with the
  rate-limit error, the tables are unchanged, the limiter keeps the state of the refusing call and
  the refusal is counted once, under the sender's key.
\<close>

theorem publish_refused:
  assumes "w_limiter w = Some l"
    and "\<not> fst (Allow l (w_clock w (w_clock_reads w)) DimensionAgent (AgentKey (env_From env)))"
  shows "\<exists>w'. publishAndAudit L a env w = (Fail ErrRateLimited, w') \<and> w_db w' = w_db w
    \<and> w_limiter w' = Some (snd (Allow l (w_clock w (w_clock_reads w)) DimensionAgent (AgentKey (env_From env))))
    \<and> w_limited w' = w_limited w @ (if ap_metrics a then [(DimensionAgent, AgentKey (env_From env))] else [])"
proof -
  obtain w' where "check_limit a DimensionAgent (AgentKey (env_From env)) w = (Fail ErrRateLimited, w')"
      "w_db w' = w_db w"
      "w_limiter w' = Some (snd (Allow l (w_clock w (w_clock_reads w)) DimensionAgent (AgentKey (env_From env))))"
      "w_limited w' = w_limited w @ (if ap_metrics a then [(DimensionAgent, AgentKey (env_From env))] else [])"
    using check_limit_refused [OF assms] by blast
  then show ?thesis by (simp add: publishAndAudit_def bindE_def)
qed


lemma publish_persist:
  assumes "publishAndAudit L a env w = (Inr cid, w')"
  shows "\<exists>w1. w_db w1 = w_db w \<and> defaultPersistMessage L a env w1 = (Inr cid, w')"
proof -
  obtain u1 w1 u2 w2 u3 w3 where steps: "check_limit a DimensionAgent (AgentKey (env_From env)) w = (Inr u1, w1)"
      "(if HasPrefix (env_To env) ''group:'' then check_limit a DimensionGroup (GroupKey (TrimPrefix (env_To env) ''group:''))
        else returnE ()) w1 = (Inr u2, w2)"
      "check_limit a DimensionTag (TagKey (EffectiveTag (Some env))) w2 = (Inr u3, w3)"
      "defaultPersistMessage L a env w3 = (Inr cid, w')"
    using assms by (auto simp: publishAndAudit_def bindE_Inr)
  have "w_db w2 = w_db w1" using steps(2) check_limit_Inr by (auto split: if_splits)
  then have "w_db w3 = w_db w" using check_limit_Inr [OF steps(1)] check_limit_Inr [OF steps(3)] by simp
  with steps(4) show ?thesis by blast
qed

lemma publish_unlimited:
  "w_limiter w = None \<Longrightarrow> publishAndAudit L a env w = defaultPersistMessage L a env w"
  by (simp add: publishAndAudit_def bindE_def check_limit_def returnE_def)

text \<open>
  C31. The per-group limit never protects a stored message: it is consulted only for a recipient
  that starts with \<open>group:\<close>, and such a recipient is no UUID, so publishing it fails.
\<close>

theorem group_limit_unreachable:
  assumes "\<And>s. \<not> is_ok (uuid_Parse (lib_uuid L) (''group:'' @ s))" "HasPrefix (env_To env) ''group:''"
  shows "\<not> is_ok (fst (publishAndAudit L a env w))"
proof
  assume "is_ok (fst (publishAndAudit L a env w))"
  then obtain cid w' where "publishAndAudit L a env w = (Inr cid, w')"
    by (metis is_ok_iff prod.collapse)
  then obtain w1 where run: "defaultPersistMessage L a env w1 = (Inr cid, w')"
    using publish_persist by blast
  obtain s where "env_To env = ''group:'' @ s" using assms(2) by (auto simp: HasPrefix_def prefix_def)
  moreover have "is_ok (uuid_Parse (lib_uuid L) (env_To env))"
    using run by (auto simp: defaultPersistMessage_def bindE_Inr is_ok_iff)
  ultimately show False using assms(1) [of s] by simp
qed

section \<open>Sending\<close>

lemma orError_status:
  assumes "orError m f k w = (Ok resp, w')" "\<And>e. rs_Status (f e) \<noteq> rs_Status resp"
  obtains x w1 where "m w = (Inr x, w1)" "k x w1 = (Ok resp, w')"
  using assms by (auto simp: orError_def tryE_def split: prod.splits sum.splits)

lemma publish_error_status: "rs_Status (publish_error e) \<noteq> 202"
  by (simp add: publish_error_def writeError_def)

lemma writeError_status [simp]: "rs_Status (writeError st e) = st"
  by (simp add: writeError_def)

lemma writeJSON_status [simp]: "rs_Status (writeJSON st v) = st"
  by (simp add: writeJSON_def)

text \<open>
  C3. A message the server accepts (status 202) is the body's: exactly one row is added, with the
  authenticated caller as sender, the tag and content of the body and its metadata as JSON, in the
  conversation of the named group or the direct conversation of sender and recipient, whose last
  message it becomes.
\<close>

theorem send_stores_message:
  assumes "db_inv ulower (w_db w)" "uuid_laws (lib_uuid L)"
    and "handleSendMessage L a cx r w = (Ok resp, w')" "rs_Status resp = 202"
  shows "\<exists>req m to. Option.bind (decode_first (rq_Body r)) send_fields = Some req
    \<and> t_messages (w_db w') = t_messages (w_db w) @ [m]
    \<and> uuid_Parse (lib_uuid L) (sender_of cx) = Ok (m_FromID m)
    \<and> uuid_Parse (lib_uuid L) (sr_To req) = Ok to \<and> belongs (m_FromID m) to (w_db w') (m_ConversationID m)
    \<and> m_Tag m = sr_Tag req \<and> m_Content m = sr_Content req
    \<and> m_Metadata m = norm_map (Some (case sr_Metadata req of None \<Rightarrow> map_make | Some x \<Rightarrow> x))
    \<and> (\<exists>c \<in> set (t_conversations (w_db w')). c_ID c = m_ConversationID m \<and> c_LastMessageID c = Some (m_ID m))"
proof -
  obtain req where req: "Option.bind (decode_first (rq_Body r)) send_fields = Some req"
    using assms(3,4) by (cases "Option.bind (decode_first (rq_Body r)) send_fields")
      (auto simp: handleSendMessage_def orError_def tryE_def readJSON_def liftE_def returnE_def)
  define i where "i = w_uuid w (w_uuids_used w)"
  define now where "now = w_clock w (w_clock_reads w)"
  define w1 where "w1 = w\<lparr>w_uuids_used := Suc (w_uuids_used w), w_clock_reads := Suc (w_clock_reads w)\<rparr>"
  have w1: "w_db w1 = w_db w" by (simp add: w1_def)
  have "readJSON r send_fields w = (Inr req, w)" by (simp add: readJSON_def req)
  then have pub: "orError (publishAndAudit L a (send_envelope L cx req i now)) publish_error (\<lambda>cid.
       returnE (writeJSON 202 (obj [(''sent'', ABool True), (''message_id'', AStr (env_ID (send_envelope L cx req i now))),
         (''conversation_id'', uuid_json L cid)]))) w1 = (Ok resp, w')"
    using assms(3,4)
    by (auto simp: handleSendMessage_def orError_def [of "readJSON r send_fields"] orError_def [of "liftE _"] tryE_def
        bindE_Inr uuid_New_def time_Now_def Let_def liftE_def i_def now_def w1_def split: if_splits sum.splits)
  obtain cid w2 where "publishAndAudit L a (send_envelope L cx req i now) w1 = (Inr cid, w2)" "w' = w2"
    using pub publish_error_status assms(4) by (auto elim!: orError_status)
  then obtain w3 where w3: "w_db w3 = w_db w1" and run: "defaultPersistMessage L a (send_envelope L cx req i now) w3 = (Inr cid, w')"
    using publish_persist by blast
  have inv: "db_inv ulower (w_db w3)" using assms(1) w1 w3 by simp
  from defaultPersistMessage_Inr [OF inv assms(2) run] show ?thesis
    using req w1 w3 by (auto simp: stored_as_def send_envelope_def)
qed

section \<open>Witnesses\<close>

definition sample_send :: send_request where
  "sample_send = \<lparr>sr_To = uuid_String canonical 9, sr_Tag = ''data'', sr_Content = ''hi'', sr_Metadata = None\<rparr>"

definition sample_caller :: req_context where
  "sample_caller = \<lparr>ctxUserID = Some (uuid_String canonical 1), ctxAgentID = None\<rparr>"

definition send_body :: string where
  "send_body = json_object [(''to'', ''00000000-0000-0000-0000-000000000009''), (''tag'', ''data''), (''content'', ''hi'')]"

lemma send_body_decodes: "Option.bind (decode_first send_body) send_fields = Some sample_send"
proof -
  have "uuid_String canonical 9 = ''00000000-0000-0000-0000-000000000009''" by code_simp
  moreover have "Option.bind (decode_first send_body) send_fields = Some \<lparr>sr_To = ''00000000-0000-0000-0000-000000000009'', sr_Tag = ''data'', sr_Content = ''hi'', sr_Metadata = None\<rparr>"
    by code_simp
  ultimately show ?thesis by (simp add: sample_send_def)
qed

lemma sample_timestamp: "parse_rfc3339 (format_rfc3339 (1700000000 * nanos)) = Some (1700000000 * nanos)"
  using parse_format_rfc3339 [of "1700000000 * nanos"] by (simp add: time_ok_def nanos_def)

lemmas sample_timestamp' = sample_timestamp [unfolded nanos_def, simplified]

lemma sample_sender: "sender_of sample_caller = uuid_String canonical 1"
  by (simp add: sender_of_def contextString_def sample_caller_def TrimSpace_uuid [OF canonical_laws])

lemma sample_envelope_valid:
  "Validate (Some (send_envelope sample_libs sample_caller sample_send 1 (1700000000 * nanos))) = Ok ()"
proof -
  have "IsValidTag ''data''" "TrimSpace ''data'' = ''data''" by code_simp+
  moreover have "TrimSpace (format_rfc3339 (1700000000 * nanos)) \<noteq> []"
    by code_simp
  ultimately show ?thesis
    by (simp add: Validate_def EffectiveTag_def send_envelope_def sample_send_def sample_sender sample_timestamp
        TrimSpace_uuid [OF canonical_laws])
qed

lemma sample_persist:
  "is_ok (fst (defaultPersistMessage sample_libs sample_app (send_envelope sample_libs sample_caller sample_send 1 (1700000000 * nanos))
     ((clear_world sample_db)\<lparr>w_uuids_used := 1, w_clock_reads := 1\<rparr>)))"
  by (simp add: defaultPersistMessage_def clear_world_def run_defs send_envelope_def sample_sender sample_send_def sample_timestamp'
     participant_kind_of_def resolve_conversation_def Agents_GetByID_def Groups_GetByID_def sample_db_def empty_db_def sample_group_def
     Messages_Save_def insert_message_def participant_kinds_def set_last_message_def is_ok_iff zero_time_def nanos_def scan_defs)

lemma sample_sent:
  "answered 202 (handleSendMessage sample_libs sample_app sample_caller (sample_request send_body) (clear_world sample_db))"
proof -
  have t: "TrimSpace ''data'' = ''data''" by code_simp
  have w: "uuid_New (clear_world sample_db) = (Ok 1, (clear_world sample_db)\<lparr>w_uuids_used := 1\<rparr>)"
      "time_Now ((clear_world sample_db)\<lparr>w_uuids_used := 1\<rparr>)
        = (Ok (1700000000 * nanos), (clear_world sample_db)\<lparr>w_uuids_used := 1, w_clock_reads := 1\<rparr>)"
    by (simp_all add: uuid_New_def time_Now_def clear_world_def)
  have lim: "w_limiter ((clear_world sample_db)\<lparr>w_uuids_used := 1, w_clock_reads := 1\<rparr>) = None" by (simp add: clear_world_def)
  obtain cid w' where p: "publishAndAudit sample_libs sample_app (send_envelope sample_libs sample_caller sample_send 1 (1700000000 * nanos))
      ((clear_world sample_db)\<lparr>w_uuids_used := 1, w_clock_reads := 1\<rparr>) = (Inr cid, w')"
    using sample_persist unfolding publish_unlimited [OF lim] by (metis is_ok_iff prod.collapse)
  show ?thesis
    by (simp add: handleSendMessage_def orError_def readJSON_def sample_request_def send_body_decodes bindE_def tryE_def liftE_def
      w sample_envelope_valid p returnE_def answered_def Let_def del: One_nat_def)
      (simp add: sample_send_def t sample_sender TrimSpace_uuid [OF canonical_laws])
qed

theorem send_stores_message_witness:
  "\<exists>resp w' m. handleSendMessage sample_libs sample_app sample_caller (sample_request send_body) (clear_world sample_db)
     = (Ok resp, w') \<and> t_messages (w_db w') = [m] \<and> m_FromID m = 1 \<and> m_Content m = ''hi''"
proof -
  obtain resp w' where run: "handleSendMessage sample_libs sample_app sample_caller (sample_request send_body)
      (clear_world sample_db) = (Ok resp, w')" "rs_Status resp = 202"
    using answeredE [OF sample_sent] by blast
  have "db_inv id (w_db (clear_world sample_db))" by (simp add: clear_world_def sample_db_inv)
  from send_stores_message [OF this _ run] canonical_laws run(1) show ?thesis
    by (auto simp: sample_sender sample_request_def send_body_decodes sample_send_def clear_world_def sample_db_def empty_db_def)
qed

text \<open>A limiter whose only bucket is used up, at the time of the first reading of the clock.\<close>

definition spent_limiter :: "string \<Rightarrow> limiter" where
  "spent_limiter key = (New DefaultConfig)\<lparr>buckets := [(key,
     \<lparr>tokens = 0, maxBurst = 1000, rate = 100, lastFill = 1700000000 * nanos\<rparr>)]\<rparr>"

definition sample_env :: "string \<Rightarrow> envelope" where
  "sample_env to = \<lparr>env_ID = uuid_String canonical 7, env_From = uuid_String canonical 1, env_To = to, env_Tag = ''data'',
     env_Content = ''hi'', env_Metadata = None, env_Timestamp = format_rfc3339 (1700000000 * nanos)\<rparr>"

theorem publish_refused_witness:
  "\<exists>w'. publishAndAudit sample_libs sample_app (sample_env (uuid_String canonical 9))
       ((clear_world sample_db)\<lparr>w_limiter := Some (spent_limiter (full_key ''agent'' (AgentKey (uuid_String canonical 1))))\<rparr>)
     = (Fail ErrRateLimited, w') \<and> w_db w' = sample_db"
proof -
  define w where "w = (clear_world sample_db)\<lparr>w_limiter := Some (spent_limiter (full_key ''agent'' (AgentKey (uuid_String canonical 1))))\<rparr>"
  have "w_limiter w = Some (spent_limiter (full_key ''agent'' (AgentKey (uuid_String canonical 1))))"
    by (simp add: w_def)
  moreover have "\<not> fst (Allow (spent_limiter (full_key ''agent'' (AgentKey (uuid_String canonical 1))))
      (w_clock w (w_clock_reads w)) DimensionAgent (AgentKey (env_From (sample_env (uuid_String canonical 9)))))"
    by (simp add: Allow_def spent_limiter_def sample_env_def New_def DefaultConfig_def rateFor_def Let_def refill_def
        time_Sub_def Seconds_def w_def clear_world_def map_get_def f64_of_int_def f64_add_def f64_mul_def f64_div_def
        int64_min_def int64_max_def)
  ultimately have "\<exists>w'. publishAndAudit sample_libs sample_app (sample_env (uuid_String canonical 9)) w = (Fail ErrRateLimited, w')
      \<and> w_db w' = w_db w"
    using publish_refused by blast
  then show ?thesis by (simp add: w_def clear_world_def)
qed

lemma sample_publish:
  "\<exists>w'. publishAndAudit sample_libs sample_app (sample_env (uuid_String canonical 9))
       ((clear_world sample_db)\<lparr>w_limiter := Some (New DefaultConfig)\<rparr>) = (Ok 8, w')"
  by (simp add: publishAndAudit_def check_limit_def limiter_Allow_def Allow_def New_def DefaultConfig_def rateFor_def Let_def
      HasPrefix_def defaultPersistMessage_def clear_world_def run_defs sample_env_def sample_timestamp' nanos_def
      participant_kind_of_def resolve_conversation_def Agents_GetByID_def Groups_GetByID_def sample_db_def empty_db_def
      sample_group_def Messages_Save_def insert_message_def participant_kinds_def set_last_message_def zero_time_def scan_defs full_key_def
      AgentKey_def TagKey_def map_make_def map_get_def)


lemma canonical_no_group: "\<not> is_ok (uuid_Parse canonical (''group:'' @ s))"
proof -
  have "char_lower CHR ''g'' = CHR ''g''" "sextet hex_alphabet CHR ''g'' = None" by code_simp+
  then show ?thesis by (simp add: canonical_def canonical_Parse_def hex_digits_value_def is_ok_iff)
qed

theorem group_limit_unreachable_witness:
  "\<not> is_ok (fst (publishAndAudit sample_libs sample_app (sample_env ''group:9'') (clear_world sample_db)))"
  by (rule group_limit_unreachable) (simp_all add: canonical_no_group sample_env_def HasPrefix_def del: append.simps)

end
