(* ===== verification/Replay.thy ===== *)
theory Replay
  imports Messaging
begin

text \<open>
  Replaying a stored message: what the copy keeps, and which conversation it lands in.
\<close>

text \<open>The message row that an accepted replay copies and the run of the publication.\<close>

lemma handleReplayMessage_202:
  assumes "handleReplayMessage L a cx r w = (Ok resp, w')" "rs_Status resp = 202"
  shows "\<exists>reason original i now cid w1. original \<in> set (t_messages (w_db w))
    \<and> uuid_Parse (lib_uuid L) (TrimSpace (rq_PathValue r ''id'')) = Ok (m_ID original)
    \<and> w_db w1 = w_db w \<and> i = w_uuid w (w_uuids_used w) \<and> now = w_clock w (w_clock_reads w)
    \<and> defaultPersistMessage L a (replay_envelope L original reason i now) w1 = (Inr cid, w')"
proof -
  obtain reason oid original w0 where o: "uuid_Parse (lib_uuid L) (TrimSpace (rq_PathValue r ''id'')) = Ok oid"
      "query (\<lambda>d. one_row (filter (\<lambda>m. m_ID m = oid) (t_messages d))) w = (Inr original, w0)"
    and pub: "orError (publishAndAudit L a (replay_envelope L original reason (w_uuid w0 (w_uuids_used w0)) (w_clock w0 (w_clock_reads w0))))
       publish_error (\<lambda>_. returnE (writeJSON 202 (obj [(''replayed'', ABool True),
         (''new_message_id'', AStr (env_ID (replay_envelope L original reason (w_uuid w0 (w_uuids_used w0)) (w_clock w0 (w_clock_reads w0))))),
         (''original_message_id'', uuid_json L (m_ID original))])))
       (w0\<lparr>w_uuids_used := Suc (w_uuids_used w0), w_clock_reads := Suc (w_clock_reads w0)\<rparr>) = (Ok resp, w')"
    using assms
    by (auto simp: handleReplayMessage_def readJSON_def liftE_def uuid_New_def time_Now_def bindE_Inr Let_def
        elim!: orError_status split: option.splits if_splits)
  define w1 where "w1 = w0\<lparr>w_uuids_used := Suc (w_uuids_used w0), w_clock_reads := Suc (w_clock_reads w0)\<rparr>"
  define env where "env = replay_envelope L original reason (w_uuid w0 (w_uuids_used w0)) (w_clock w0 (w_clock_reads w0))"
  have row: "original \<in> set (t_messages (w_db w)) \<and> m_ID original = oid"
    using o(2) by (auto dest!: query_Inr one_row_Inr)
  have frame: "w_db w0 = w_db w" "w_uuid w0 = w_uuid w" "w_uuids_used w0 = w_uuids_used w"
      "w_clock w0 = w_clock w" "w_clock_reads w0 = w_clock_reads w"
    using o(2) by (auto simp: query_def stmt_def Let_def split: fault.splits sum.splits)
  obtain cid where "publishAndAudit L a env w1 = (Inr cid, w')"
    using pub [folded w1_def, folded env_def] publish_error_status assms(2) by (auto elim!: orError_status)
  then obtain w3 where "w_db w3 = w_db w1" "defaultPersistMessage L a env w3 = (Inr cid, w')"
    using publish_persist by blast
  then show ?thesis using row o(1) frame
    by (intro exI [of _ reason] exI [of _ original] exI [of _ "w_uuid w (w_uuids_used w)"]
        exI [of _ "w_clock w (w_clock_reads w)"] exI [of _ cid] exI [of _ w3]) (simp add: w1_def env_def)
qed

lemma replay_stored:
  assumes "db_inv ulower (w_db w)" "uuid_laws (lib_uuid L)"
    and "handleReplayMessage L a cx r w = (Ok resp, w')" "rs_Status resp = 202"
  obtains original reason m where "original \<in> set (t_messages (w_db w))"
    "uuid_Parse (lib_uuid L) (TrimSpace (rq_PathValue r ''id'')) = Ok (m_ID original)"
    "t_messages (w_db w') = t_messages (w_db w) @ [m]" "m_ID m = w_uuid w (w_uuids_used w)"
    "m_FromID m = m_FromID original" "m_Content m = m_Content original" "m_Tag m = []"
    "m_Metadata m = norm_map (Some (replay_metadata L original reason))"
    "belongs (m_FromID original) (m_ConversationID original) (w_db w') (m_ConversationID m)"
proof -
  obtain reason original i now cid w1 where run: "original \<in> set (t_messages (w_db w))"
      "uuid_Parse (lib_uuid L) (TrimSpace (rq_PathValue r ''id'')) = Ok (m_ID original)" "w_db w1 = w_db w"
      "i = w_uuid w (w_uuids_used w)" "defaultPersistMessage L a (replay_envelope L original reason i now) w1 = (Inr cid, w')"
    using handleReplayMessage_202 [OF assms(3,4)] by blast
  obtain m to where m: "stored_as (lib_uuid L) (replay_envelope L original reason i now) cid m"
      "uuid_Parse (lib_uuid L) (env_To (replay_envelope L original reason i now)) = Ok to"
      "belongs (m_FromID m) to (w_db w') cid" "t_messages (w_db w') = t_messages (w_db w) @ [m]"
    using defaultPersistMessage_Inr [OF _ assms(2) run(5), of ulower] assms(1) run(3) by auto
  show ?thesis
    by (rule that [of original m reason])
      (use run m in \<open>simp_all add: stored_as_def replay_envelope_def uuid_lawsD(1) [OF assms(2)]\<close>)
qed


text \<open>
  C23. The copy of a replay does not go where the original is. The handler addresses it to the
  conversation's identifier, which is looked up as a recipient: unless a group has that identifier,
  the copy lands in the direct conversation between the original's sender and the conversation's
  identifier, and this is another conversation unless the original's was already such a pair.
\<close>

theorem replay_misrouted:
  assumes "db_inv ulower (w_db w)" "uuid_laws (lib_uuid L)"
    and "handleReplayMessage L a cx r w = (Ok resp, w')" "rs_Status resp = 202"
    and "g_ID ` set (t_groups (w_db w')) \<inter> c_ID ` set (t_conversations (w_db w)) = {}"
  shows "\<exists>original m c. original \<in> set (t_messages (w_db w))
    \<and> uuid_Parse (lib_uuid L) (TrimSpace (rq_PathValue r ''id'')) = Ok (m_ID original)
    \<and> t_messages (w_db w') = t_messages (w_db w) @ [m]
    \<and> c \<in> set (t_conversations (w_db w')) \<and> m_ConversationID m = c_ID c
    \<and> {c_IDLow c, c_IDHigh c} = {Some (m_FromID original), Some (m_ConversationID original)}"
proof (rule replay_stored [OF assms(1-4)])
  fix original reason m
  assume row: "original \<in> set (t_messages (w_db w))"
      "uuid_Parse (lib_uuid L) (TrimSpace (rq_PathValue r ''id'')) = Ok (m_ID original)"
      "t_messages (w_db w') = t_messages (w_db w) @ [m]"
    and there: "belongs (m_FromID original) (m_ConversationID original) (w_db w') (m_ConversationID m)"
  have "m_ConversationID original \<in> c_ID ` set (t_conversations (w_db w))"
    using assms(1) row(1) by (auto simp: db_inv_def table_defs)
  then have "m_ConversationID original \<notin> g_ID ` set (t_groups (w_db w'))" using assms(5) by blast
  then obtain c where "c \<in> set (t_conversations (w_db w'))" "c_ID c = m_ConversationID m"
      "pair_row (min (m_FromID original) (m_ConversationID original)) (max (m_FromID original) (m_ConversationID original)) c"
    using there unfolding belongs_def by (metis image_eqI)
  with row show ?thesis
    by (intro exI [of _ original] exI [of _ m] exI [of _ c]) (auto simp: pair_row_def min_def max_def)
qed

text \<open>
  A replay is limited under the tag of the original: the effective tag of the copy is the
  effective tag of the original row, also when the original is itself a replay, whose tag is in its
  metadata.
\<close>

lemma replay_effective_tag:
  assumes "m_Tag original = [] \<or> TrimSpace (m_Tag original) \<noteq> []"
  shows "EffectiveTag (Some (replay_envelope L original reason i now))
    = EffectiveTag (Some \<lparr>env_ID = x, env_From = y, env_To = z, env_Tag = m_Tag original, env_Content = ct,
        env_Metadata = m_Metadata original, env_Timestamp = ts\<rparr>)"
  using assms
  by (auto simp: EffectiveTag_def replay_envelope_def replay_metadata_def Let_def split: option.splits)

section \<open>Witnesses\<close>

definition sample_message :: message where
  "sample_message = \<lparr>m_ID = 40, m_FromID = 2, m_ConversationID = 8, m_ParticipantKind = ''user'', m_Tag = ''data'',
     m_Content = ''hi'', m_Metadata = None, m_Timestamp = 0\<rparr>"

definition sample_message_db :: db where
  "sample_message_db = sample_db\<lparr>t_messages := [sample_message]\<rparr>"

definition sample_replay :: request where
  "sample_replay = (sample_request (json_object [(''reason'', ''lost'')]))\<lparr>rq_PathValue := (\<lambda>_. uuid_String canonical 40)\<rparr>"

lemma sample_message_db_inv: "db_inv id sample_message_db"
  using sample_db_inv
  by (simp add: sample_message_db_def sample_message_def db_inv_def table_defs)
    (simp add: sample_db_def participant_kinds_def empty_db_def)

lemma sample_reason:
  "Option.bind (decode_first (rq_Body sample_replay)) (\<lambda>v. do { ms \<leftarrow> struct_members True [''reason''] v; string_field ms ''reason'' })
     = Some ''lost''"
  by (simp only: sample_replay_def sample_request_def request.simps) code_simp

lemma sample_replayed:
  "\<exists>resp w'. handleReplayMessage sample_libs sample_app sample_caller sample_replay (clear_world sample_message_db) = (Ok resp, w')
     \<and> rs_Status resp = 202 \<and> t_groups (w_db w') = [sample_group]"
proof -
  define w where "w = (clear_world sample_message_db)\<lparr>w_stmts := 1, w_uuids_used := 1, w_clock_reads := 1\<rparr>"
  define env where "env = replay_envelope sample_libs sample_message ''lost'' 1 (1700000000 * nanos)"
  have "\<exists>cid w'. defaultPersistMessage sample_libs sample_app env w = (Inr cid, w') \<and> t_groups (w_db w') = [sample_group]"
    by (simp add: defaultPersistMessage_def w_def env_def clear_world_def run_defs replay_envelope_def sample_timestamp'
      participant_kind_of_def resolve_conversation_def Agents_GetByID_def Groups_GetByID_def sample_db_def empty_db_def sample_group_def
      Messages_Save_def insert_message_def set_last_message_def zero_time_def nanos_def scan_defs sample_message_db_def sample_message_def
      GetOrCreateDirect_def order_pair_min_max [OF canonical_laws] min_def max_def uuid_Nil_def
      Conversations_GetDirectByPair_def Conversations_Create_def Participants_Add_def
      insert_conversation_def blank_conversation_def insert_participant_def check_direct_ids_def
      same_pair_def group_ref_ok_def participant_kinds_def new_participant_def participant_in_def same_participant_def sample_app_def)
  then obtain cid w' where p: "publishAndAudit sample_libs sample_app env w = (Inr cid, w')" "t_groups (w_db w') = [sample_group]"
    using publish_unlimited [of w] by (auto simp: w_def clear_world_def)
  have q: "query (\<lambda>d. one_row (filter (\<lambda>m. m_ID m = 40) (t_messages d))) (clear_world sample_message_db)
      = (Ok sample_message, (clear_world sample_message_db)\<lparr>w_stmts := 1\<rparr>)"
    by (simp add: clear_query clear_world_def sample_message_db_def sample_message_def one_row_def)
  have u: "uuid_New ((clear_world sample_message_db)\<lparr>w_stmts := 1\<rparr>) = (Ok 1, (clear_world sample_message_db)\<lparr>w_stmts := 1, w_uuids_used := 1\<rparr>)"
      "time_Now ((clear_world sample_message_db)\<lparr>w_stmts := 1, w_uuids_used := 1\<rparr>) = (Ok (1700000000 * nanos), w)"
    by (simp_all add: uuid_New_def time_Now_def clear_world_def w_def)
  have path: "rq_PathValue sample_replay x = uuid_String canonical 40" for x by (simp add: sample_replay_def)
  show ?thesis
    by (simp add: handleReplayMessage_def orError_def readJSON_def sample_reason bindE_def tryE_def liftE_def q path u p
        env_def [symmetric] returnE_def TrimSpace_uuid [OF canonical_laws] Let_def del: One_nat_def)
qed


theorem replay_misrouted_witness:
  "\<exists>resp w' m c. handleReplayMessage sample_libs sample_app sample_caller sample_replay (clear_world sample_message_db) = (Ok resp, w')
     \<and> t_messages (w_db w') = [sample_message, m] \<and> c \<in> set (t_conversations (w_db w')) \<and> m_ConversationID m = c_ID c
     \<and> {c_IDLow c, c_IDHigh c} = {Some 2, Some 8}"
proof -
  obtain resp w' where run: "handleReplayMessage sample_libs sample_app sample_caller sample_replay (clear_world sample_message_db)
      = (Ok resp, w')" "rs_Status resp = 202" "t_groups (w_db w') = [sample_group]"
    using sample_replayed by blast
  have db: "w_db (clear_world sample_message_db) = sample_message_db" by (simp add: clear_world_def)
  have msgs: "t_messages sample_message_db = [sample_message]" by (simp add: sample_message_db_def)
  have ids: "m_FromID sample_message = 2" "m_ConversationID sample_message = 8" by (simp_all add: sample_message_def)
  have "db_inv id (w_db (clear_world sample_message_db))" by (simp add: clear_world_def sample_message_db_inv)
  moreover have "g_ID ` set (t_groups (w_db w')) \<inter> c_ID ` set (t_conversations (w_db (clear_world sample_message_db))) = {}"
    by (simp add: run(3) clear_world_def sample_message_db_def sample_db_def sample_group_def)
  moreover have "uuid_laws (lib_uuid sample_libs)" by (simp add: canonical_laws)
  ultimately show ?thesis
    using replay_misrouted [OF _ _ run(1,2), of id] run(1) unfolding db msgs by (auto simp: ids)
qed

end
