(* ===== verification/Blindness.thy ===== *)
theory Blindness
  imports Messaging
begin

text \<open>
  The blacklist is written and listed but never consulted: no operation on the path of a message
  depends on it. An operation is blind when replacing the blacklist beforehand only replaces it in
  the resulting tables.
\<close>

definition block_with :: "blacklist_entry list \<Rightarrow> db \<Rightarrow> db" where
  "block_with b d = d\<lparr>t_blacklist := b\<rparr>"

definition set_blacklist :: "blacklist_entry list \<Rightarrow> world \<Rightarrow> world" where
  "set_blacklist b w = w\<lparr>w_db := block_with b (w_db w)\<rparr>"

definition blind :: "'a io \<Rightarrow> bool" where
  "blind m \<longleftrightarrow> (\<forall>w b. m (set_blacklist b w) = (fst (m w), set_blacklist b (snd (m w))))"

named_theorems blind_intros \<open>operations that do not depend on the blacklist\<close>

lemma block_with_simps [simp]:
  "t_users (block_with b d) = t_users d" "t_agents (block_with b d) = t_agents d"
  "t_conversations (block_with b d) = t_conversations d" "t_participants (block_with b d) = t_participants d"
  "t_groups (block_with b d) = t_groups d" "t_messages (block_with b d) = t_messages d"
  "t_requests (block_with b d) = t_requests d"
  by (simp_all add: block_with_def)

lemma set_blacklist_simps [simp]:
  "w_db (set_blacklist b w) = block_with b (w_db w)" "w_uuid (set_blacklist b w) = w_uuid w"
  "w_uuids_used (set_blacklist b w) = w_uuids_used w" "w_clock (set_blacklist b w) = w_clock w"
  "w_clock_reads (set_blacklist b w) = w_clock_reads w" "w_fault (set_blacklist b w) = w_fault w"
  "w_stmts (set_blacklist b w) = w_stmts w" "w_limiter (set_blacklist b w) = w_limiter w"
  "w_limited (set_blacklist b w) = w_limited w"
  by (simp_all add: set_blacklist_def)

lemma blindD: "blind m \<Longrightarrow> m (set_blacklist b w) = (fst (m w), set_blacklist b (snd (m w)))"
  by (simp add: blind_def)

lemma blind_returnE [blind_intros]: "blind (returnE x)"
  by (simp add: blind_def returnE_def)

lemma blind_failE [blind_intros]: "blind (failE e)"
  by (simp add: blind_def failE_def)

lemma blind_liftE [blind_intros]: "blind (liftE r)"
  by (simp add: blind_def liftE_def)

lemma blind_time_Now [blind_intros]: "blind time_Now"
  by (simp add: blind_def time_Now_def set_blacklist_def)

lemma blind_uuid_New [blind_intros]: "blind uuid_New"
  by (simp add: blind_def uuid_New_def set_blacklist_def)

lemma blind_count_limited [blind_intros]: "blind (count_limited dmn key)"
  by (simp add: blind_def count_limited_def set_blacklist_def)

lemma blind_limiter_Allow [blind_intros]: "blind (limiter_Allow l dmn key)"
  by (simp add: blind_def limiter_Allow_def bindE_def time_Now_def set_blacklist_def split: prod.splits)

lemma blind_wrapE [blind_intros]: "blind m \<Longrightarrow> blind (wrapE msg m)"
  unfolding blind_def wrapE_def by (auto split: prod.splits sum.splits)

lemma blind_scanE [blind_intros]: "blind m \<Longrightarrow> blind (scanE msg m)"
  unfolding blind_def scanE_def by (auto split: prod.splits sum.splits)

lemma blind_tryE [blind_intros]: "blind m \<Longrightarrow> (\<And>r. blind (f r)) \<Longrightarrow> blind (tryE m f)"
  unfolding blind_def tryE_def by (auto split: prod.splits)

text \<open>Sequencing, where the first part may return tables.\<close>

lemma blind_bindE_gen:
  assumes "\<And>w b. m (set_blacklist b w) = (map_sum id (g b) (fst (m w)), set_blacklist b (snd (m w)))"
    and "\<And>x w b. f (g b x) (set_blacklist b w) = (fst (f x w), set_blacklist b (snd (f x w)))"
  shows "blind (bindE m f)"
  unfolding blind_def bindE_def using assms by (auto split: prod.splits sum.splits)

lemma blind_bindE [blind_intros]: "blind m \<Longrightarrow> (\<And>x. blind (f x)) \<Longrightarrow> blind (bindE m f)"
  unfolding blind_def bindE_def by (auto split: prod.splits sum.splits)

lemma blind_stmt:
  assumes "\<And>d b. q (block_with b d) = map_sum id (\<lambda>(x, d'). (x, block_with b d')) (q d)"
  shows "blind (stmt q)"
  unfolding blind_def stmt_def Let_def
  by (auto simp: assms set_blacklist_def split: fault.splits sum.splits)

lemma query_gen:
  assumes "\<And>d b. q (block_with b d) = map_sum id (g b) (q d)"
  shows "query q (set_blacklist b w) = (map_sum id (g b) (fst (query q w)), set_blacklist b (snd (query q w)))"
  unfolding query_def stmt_def Let_def
  by (auto simp: assms set_blacklist_def split: fault.splits sum.splits)

lemma blind_query [blind_intros]:
  assumes "\<And>d b. q (block_with b d) = q d"
  shows "blind (query q)"
  using query_gen [of q "\<lambda>_ x. x"] assms by (simp add: blind_def sum.map_ident id_def)

lemma blind_new_id [blind_intros]: "blind (new_id i)"
  by (simp add: new_id_def blind_intros)

lemma blind_new_time [blind_intros]: "blind (new_time t)"
  by (simp add: new_time_def blind_intros)

lemma blind_insert_conversation [blind_intros]: "blind (stmt (insert_conversation c))"
  by (rule blind_stmt) (auto simp: insert_conversation_def group_ref_ok_iff block_with_def)

lemma blind_insert_participant [blind_intros]: "blind (stmt (insert_participant p))"
  by (rule blind_stmt) (auto simp: insert_participant_def participant_in_def block_with_def)

lemma blind_gets [blind_intros]:
  "blind (Agents_GetByID i)" "blind (Groups_GetByID i)" "blind (Conversations_GetDirectByPair i j)"
  unfolding Agents_GetByID_def Groups_GetByID_def Conversations_GetDirectByPair_def scan_defs
  by (intro blind_intros; simp)+

lemma blind_creates [blind_intros]: "blind (Conversations_Create c)" "blind (Participants_Add p)"
  unfolding Conversations_Create_def Participants_Add_def scan_defs by (intro blind_intros)+

lemma blind_GetOrCreateDirect [blind_intros]: "blind (GetOrCreateDirect U svc i j k l)"
  unfolding GetOrCreateDirect_def by (auto intro!: blind_intros split: sum.splits prod.splits)

lemma set_last_message_block: "set_last_message m (block_with b d) = block_with b (set_last_message m d)"
  by (simp add: set_last_message_def block_with_def)

lemma insert_message_block:
  "insert_message m (block_with b d) = map_sum id (\<lambda>(x, d'). (x, block_with b d')) (insert_message m d)"
  by (auto simp: insert_message_def block_with_def)

lemma scan_insert_message:
  "scanE msg (query (insert_message m)) (set_blacklist b w) =
     (map_sum id (\<lambda>(x, d'). (x, block_with b d')) (fst (scanE msg (query (insert_message m)) w)),
      set_blacklist b (snd (scanE msg (query (insert_message m)) w)))"
  using query_gen [of "insert_message m" "\<lambda>b (x, d'). (x, block_with b d')" b w, OF insert_message_block]
  by (auto simp: scanE_def split: prod.splits sum.splits)

text \<open>The tail of the transaction, which carries the tables of the snapshot.\<close>

lemma save_tail_blind:
  fixes msg1 msg2 :: string and out :: message
  defines "tail \<equiv> (\<lambda>d1. bindE (wrapE msg1 (query (\<lambda>_. Ok (set_last_message out d1)))) (\<lambda>d2.
     bindE (wrapE msg2 (stmt (\<lambda>_. Ok ((), d2)))) (\<lambda>_. returnE out)))"
  shows "tail (block_with b d1) (set_blacklist b w) = (fst (tail d1 w), set_blacklist b (snd (tail d1 w)))"
  unfolding tail_def
  by (auto simp: bindE_def wrapE_def query_def stmt_def Let_def returnE_def set_last_message_def set_blacklist_def
      block_with_def split: fault.splits)

lemma blind_Messages_Save [blind_intros]: "blind (Messages_Save m)"
  unfolding Messages_Save_def scan_defs
  by (intro blind_bindE blind_new_time blind_wrapE blind_query blind_bindE_gen
      [where g = "\<lambda>b (x, d'). (x, block_with b d')"] scan_insert_message)
    (auto simp: save_tail_blind)

lemma blind_check_limit [blind_intros]: "blind (check_limit a dmn key)"
proof -
  have step: "blind (bindE (limiter_Allow l dmn key) (\<lambda>ok. if ok then returnE () else
      if ap_metrics a then bindE (count_limited dmn key) (\<lambda>_. failE ErrRateLimited) else failE ErrRateLimited))" for l
    by (auto intro!: blind_intros)
  have "check_limit a dmn key (set_blacklist b w) =
      (fst (check_limit a dmn key w), set_blacklist b (snd (check_limit a dmn key w)))" for b w
    using blindD [OF step] by (cases "w_limiter w") (simp_all only: check_limit_def set_blacklist_simps option.case fst_conv snd_conv)
  then show ?thesis by (simp add: blind_def)
qed

lemma blind_publish [blind_intros]: "blind (publishAndAudit L a env)"
  unfolding publishAndAudit_def defaultPersistMessage_def resolve_conversation_def participant_kind_of_def
  by (auto intro!: blind_intros split: option.splits sum.splits)

lemma blind_orError [blind_intros]: "blind m \<Longrightarrow> (\<And>x. blind (k x)) \<Longrightarrow> blind (orError m f k)"
  unfolding orError_def by (auto intro!: blind_intros split: sum.splits)

text \<open>
  C8. Blocking has no effect on messages: whatever the blacklist holds, sending gives the same
  response and the same tables apart from the blacklist itself, so a blocked sender's messages are
  stored and delivered like any other.
\<close>

theorem send_ignores_blacklist:
  "handleSendMessage L a cx r (set_blacklist b w)
     = (fst (handleSendMessage L a cx r w), set_blacklist b (snd (handleSendMessage L a cx r w)))"
proof -
  have "blind (handleSendMessage L a cx r)"
    unfolding handleSendMessage_def readJSON_def Let_def by (auto intro!: blind_intros)
  then show ?thesis by (rule blindD)
qed

end
