(* ===== verification/Url.thy ===== *)
theory Url
  imports JsonText
begin

text \<open>
  Go's \<open>net/url\<close> as the clients use it: \<open>url.Parse\<close> and \<open>URL.String\<close>, with escaping, user information,
  hosts in brackets and fragments. Only whether an error occurs and which kind is modelled, not the
  quoting in its text. The argument \<open>ulower\<close> is \<open>strings.ToLower\<close> on text that is not ASCII.
\<close>

section \<open>Escaping\<close>

datatype url_mode = EncodePath | EncodeHost | EncodeZone | EncodeUserPassword | EncodeQueryComponent | EncodeFragment

abbreviation char_between :: "char \<Rightarrow> char \<Rightarrow> char \<Rightarrow> bool" where
  "char_between lo hi c \<equiv> lo \<le> c \<and> c \<le> hi"

definition alphanum :: "char \<Rightarrow> bool" where
  "alphanum c \<longleftrightarrow> char_between CHR ''a'' CHR ''z'' c \<or> char_between CHR ''A'' CHR ''Z'' c \<or> is_digit c"

definition shouldEscape :: "url_mode \<Rightarrow> char \<Rightarrow> bool" where
  "shouldEscape md c =
     (if alphanum c then False
      else if (md = EncodeHost \<or> md = EncodeZone) \<and> c \<in> set (''!$&()*+,;=:[]<>'' @ [CHR 0x27, CHR 0x22]) then False
      else if c \<in> set ''-_.~'' then False
      else if c \<in> set ''$&+,/:;=?@'' \<and> md = EncodePath then c = CHR ''?''
      else if c \<in> set ''$&+,/:;=?@'' \<and> md = EncodeUserPassword then c \<in> set ''@/?:''
      else if c \<in> set ''$&+,/:;=?@'' \<and> md = EncodeFragment then False
      else if md = EncodeFragment \<and> c \<in> set ''!()*'' then False
      else True)"

definition upper_hex :: "nat \<Rightarrow> char" where
  "upper_hex n = ''0123456789ABCDEF'' ! n"

definition url_escape :: "url_mode \<Rightarrow> string \<Rightarrow> string" where
  "url_escape md s =
     concat (map (\<lambda>c. if shouldEscape md c
                      then [CHR ''%'', upper_hex (of_char c div 16), upper_hex (of_char c mod 16)] else [c]) s)"

definition consR :: "char \<Rightarrow> string res \<Rightarrow> string res" where
  "consR c r = (case r of Inl e \<Rightarrow> Inl e | Inr s \<Rightarrow> Inr (c # s))"

definition percent25 :: "char \<Rightarrow> char \<Rightarrow> bool" where
  "percent25 a b \<longleftrightarrow> a = CHR ''2'' \<and> b = CHR ''5''"

text \<open>In a host only \<open>%25\<close> and bytes above 0x7F may be escaped, in a zone also what a host may hold.\<close>

definition escape_allowed :: "url_mode \<Rightarrow> char \<Rightarrow> char \<Rightarrow> nat \<Rightarrow> nat \<Rightarrow> bool" where
  "escape_allowed md a b x y \<longleftrightarrow>
     (md = EncodeHost \<longrightarrow> 8 \<le> x \<or> percent25 a b)
     \<and> (md = EncodeZone \<longrightarrow>
          percent25 a b \<or> char_of (16 * x + y) = CHR '' '' \<or> \<not> shouldEscape EncodeHost (char_of (16 * x + y)))"

fun url_unescape :: "url_mode \<Rightarrow> string \<Rightarrow> string res" where
  "url_unescape md [] = Ok []"
| "url_unescape md (c # s) =
     (if c = CHR ''%''
      then (case s of
              a # b # r \<Rightarrow>
                (case (hex_val a, hex_val b) of
                   (Some x, Some y) \<Rightarrow>
                     if escape_allowed md a b x y then consR (char_of (16 * x + y)) (url_unescape md r)
                     else Fail (Err (''invalid URL escape '' @ [c, a, b]))
                 | _ \<Rightarrow> Fail (Err (''invalid URL escape '' @ [c, a, b])))
            | _ \<Rightarrow> Fail (Err (''invalid URL escape '' @ c # s)))
      else if (md = EncodeHost \<or> md = EncodeZone) \<and> c < CHR 0x80 \<and> shouldEscape md c
      then Fail (Err (''invalid character '' @ [c] @ '' in host name''))
      else consR (if c = CHR ''+'' \<and> md = EncodeQueryComponent then CHR '' '' else c) (url_unescape md s))"

definition validEncoded :: "url_mode \<Rightarrow> string \<Rightarrow> bool" where
  "validEncoded md s =
     list_all (\<lambda>c. c \<in> set (''!$&()*+,;=:@[]%'' @ [CHR 0x27]) \<or> \<not> shouldEscape md c) s"

section \<open>URLs\<close>

record userinfo =
  ui_username :: string
  ui_password :: "string option"

record url =
  url_Scheme :: string
  url_Opaque :: string
  url_User :: "userinfo option"
  url_Host :: string
  url_Path :: string
  url_RawPath :: string
  url_OmitHost :: bool
  url_ForceQuery :: bool
  url_RawQuery :: string
  url_Fragment :: string
  url_RawFragment :: string

definition blank_url :: url where
  "blank_url = \<lparr>url_Scheme = [], url_Opaque = [], url_User = None, url_Host = [], url_Path = [], url_RawPath = [],
     url_OmitHost = False, url_ForceQuery = False, url_RawQuery = [], url_Fragment = [], url_RawFragment = []\<rparr>"

text \<open>The text before and after the last occurrence of a character.\<close>

definition cut_last :: "string \<Rightarrow> char \<Rightarrow> (string \<times> string) option" where
  "cut_last s c = (case Cut (rev s) c of (a, b, found) \<Rightarrow> if found then Some (rev b, rev a) else None)"

text \<open>The text before and from the first occurrence of a string.\<close>

fun cut_sub :: "string \<Rightarrow> string \<Rightarrow> (string \<times> string) option" where
  "cut_sub [] t = (if t = [] then Some ([], []) else None)"
| "cut_sub (c # s) t =
     (if prefix t (c # s) then Some ([], c # s) else map_option (\<lambda>(a, b). (c # a, b)) (cut_sub s t))"

fun scheme_from :: "bool \<Rightarrow> string \<Rightarrow> string \<Rightarrow> string \<Rightarrow> (string \<times> string) res" where
  "scheme_from first raw acc [] = Ok ([], raw)"
| "scheme_from first raw acc (c # s) =
     (if alphanum c \<and> \<not> is_digit c then scheme_from False raw (acc @ [c]) s
      else if is_digit c \<or> c \<in> set ''+-.''
      then if first then Ok ([], raw) else scheme_from False raw (acc @ [c]) s
      else if c = CHR '':'' then if first then Fail (Err ''missing protocol scheme'') else Ok (acc, s)
      else Ok ([], raw))"

definition getScheme :: "string \<Rightarrow> (string \<times> string) res" where
  "getScheme raw = scheme_from True raw [] raw"

definition validOptionalPort :: "string \<Rightarrow> bool" where
  "validOptionalPort s = (case s of [] \<Rightarrow> True | c # p \<Rightarrow> c = CHR '':'' \<and> list_all is_digit p)"

definition validUserinfo :: "string \<Rightarrow> bool" where
  "validUserinfo s = list_all (\<lambda>c. alphanum c \<or> c \<in> set (''-._:~!$&()*+,;=%@'' @ [CHR 0x27])) s"

definition bind_res :: "'a res \<Rightarrow> ('a \<Rightarrow> 'b res) \<Rightarrow> 'b res" where
  "bind_res r f = (case r of Inl e \<Rightarrow> Inl e | Inr x \<Rightarrow> f x)"

definition parseHost :: "string \<Rightarrow> string res" where
  "parseHost host =
     (if HasPrefix host ''['' then
        (case cut_last host CHR '']'' of
           None \<Rightarrow> Fail (Err (''missing '' @ [CHR 0x27, CHR '']'', CHR 0x27] @ '' in host''))
         | Some (pre, colonPort) \<Rightarrow>
             if \<not> validOptionalPort colonPort then Fail (Err (''invalid port '' @ colonPort @ '' after host''))
             else (case cut_sub pre ''%25'' of
                     None \<Rightarrow> url_unescape EncodeHost host
                   | Some (h1, zone) \<Rightarrow>
                       bind_res (url_unescape EncodeHost h1) (\<lambda>a.
                       bind_res (url_unescape EncodeZone zone) (\<lambda>b.
                       bind_res (url_unescape EncodeHost ('']'' @ colonPort)) (\<lambda>c. Ok (a @ b @ c))))))
      else (case cut_last host CHR '':'' of
              None \<Rightarrow> url_unescape EncodeHost host
            | Some (h, port) \<Rightarrow>
                if \<not> validOptionalPort (CHR '':'' # port) then Fail (Err (''invalid port '' @ CHR '':'' # port @ '' after host''))
                else url_unescape EncodeHost host))"

definition parseAuthority :: "string \<Rightarrow> (userinfo option \<times> string) res" where
  "parseAuthority authority =
     (case cut_last authority CHR ''@'' of
        None \<Rightarrow> bind_res (parseHost authority) (\<lambda>h. Ok (None, h))
      | Some (ui, hostport) \<Rightarrow>
          bind_res (parseHost hostport) (\<lambda>h.
          if \<not> validUserinfo ui then Fail (Err ''net/url: invalid userinfo'')
          else (case Cut ui CHR '':'' of (name, pass, found) \<Rightarrow>
            bind_res (url_unescape EncodeUserPassword name) (\<lambda>n.
            if \<not> found then Ok (Some \<lparr>ui_username = n, ui_password = None\<rparr>, h)
            else bind_res (url_unescape EncodeUserPassword pass) (\<lambda>p.
              Ok (Some \<lparr>ui_username = n, ui_password = Some p\<rparr>, h))))))"

definition setPath :: "string \<Rightarrow> url \<Rightarrow> url res" where
  "setPath p u =
     bind_res (url_unescape EncodePath p) (\<lambda>path.
     Ok (u\<lparr>url_Path := path, url_RawPath := (if p = url_escape EncodePath path then [] else p)\<rparr>))"

definition setFragment :: "string \<Rightarrow> url \<Rightarrow> url res" where
  "setFragment f u =
     bind_res (url_unescape EncodeFragment f) (\<lambda>frag.
     Ok (u\<lparr>url_Fragment := frag, url_RawFragment := (if f = url_escape EncodeFragment frag then [] else f)\<rparr>))"

definition split_query :: "string \<Rightarrow> string \<times> bool \<times> string" where
  "split_query rest =
     (if HasSuffix rest ''?'' \<and> count_list rest CHR ''?'' = 1 then (butlast rest, True, [])
      else (case Cut rest CHR ''?'' of (a, b, _) \<Rightarrow> (a, False, b)))"

definition parse_rest :: "url \<Rightarrow> string \<Rightarrow> url res" where
  "parse_rest u rest =
     (if \<not> HasPrefix rest ''/'' \<and> url_Scheme u \<noteq> [] then Ok (u\<lparr>url_Opaque := rest\<rparr>)
      else if \<not> HasPrefix rest ''/'' \<and> Contains (fst (Cut rest CHR ''/'')) '':''
      then Fail (Err ''first path segment in URL cannot contain colon'')
      else if (url_Scheme u \<noteq> [] \<or> \<not> HasPrefix rest ''///'') \<and> HasPrefix rest ''//'' then
        (case Cut (drop 2 rest) CHR ''/'' of (authority, r, found) \<Rightarrow>
           bind_res (parseAuthority authority) (\<lambda>(user, host).
           setPath (if found then CHR ''/'' # r else []) (u\<lparr>url_User := user, url_Host := host\<rparr>)))
      else setPath rest (if url_Scheme u \<noteq> [] \<and> HasPrefix rest ''/'' then u\<lparr>url_OmitHost := True\<rparr> else u))"

definition url_parse :: "(string \<Rightarrow> string) \<Rightarrow> string \<Rightarrow> url res" where
  "url_parse ulower raw =
     (if list_ex (\<lambda>c. c < CHR '' '' \<or> c = CHR 0x7F) raw then Fail (Err ''net/url: invalid control character in URL'')
      else if raw = ''*'' then Ok (blank_url\<lparr>url_Path := ''*''\<rparr>)
      else bind_res (getScheme raw) (\<lambda>(scheme, rest).
        case split_query rest of (rest, force, query) \<Rightarrow>
          parse_rest (blank_url\<lparr>url_Scheme := ToLower ulower scheme, url_ForceQuery := force, url_RawQuery := query\<rparr>) rest))"

definition url_Parse :: "(string \<Rightarrow> string) \<Rightarrow> string \<Rightarrow> url res" where
  "url_Parse ulower raw =
     (case Cut raw CHR ''#'' of (u, frag, _) \<Rightarrow>
        case url_parse ulower u of
          Inl e \<Rightarrow> Fail (Wrap (''parse '' @ u) e)
        | Inr x \<Rightarrow>
            if frag = [] then Ok x
            else (case setFragment frag x of Inl e \<Rightarrow> Fail (Wrap (''parse '' @ raw) e) | Inr y \<Rightarrow> Ok y))"

section \<open>Printing\<close>

definition keep_raw :: "url_mode \<Rightarrow> string \<Rightarrow> string \<Rightarrow> bool" where
  "keep_raw md raw decoded \<longleftrightarrow> raw \<noteq> [] \<and> validEncoded md raw \<and> url_unescape md raw = Ok decoded"

definition EscapedPath :: "url \<Rightarrow> string" where
  "EscapedPath u =
     (if keep_raw EncodePath (url_RawPath u) (url_Path u) then url_RawPath u
      else if url_Path u = ''*'' then ''*''
      else url_escape EncodePath (url_Path u))"

definition EscapedFragment :: "url \<Rightarrow> string" where
  "EscapedFragment u =
     (if keep_raw EncodeFragment (url_RawFragment u) (url_Fragment u) then url_RawFragment u
      else url_escape EncodeFragment (url_Fragment u))"

definition userinfo_String :: "userinfo \<Rightarrow> string" where
  "userinfo_String ui =
     url_escape EncodeUserPassword (ui_username ui)
     @ (case ui_password ui of None \<Rightarrow> [] | Some p \<Rightarrow> '':'' @ url_escape EncodeUserPassword p)"

definition authority_text :: "url \<Rightarrow> string" where
  "authority_text u =
     (if url_Scheme u = [] \<and> url_Host u = [] \<and> url_User u = None then []
      else if url_OmitHost u \<and> url_Host u = [] \<and> url_User u = None then []
      else (if url_Host u \<noteq> [] \<or> url_Path u \<noteq> [] \<or> url_User u \<noteq> None then ''//'' else [])
        @ (case url_User u of None \<Rightarrow> [] | Some ui \<Rightarrow> userinfo_String ui @ ''@'')
        @ url_escape EncodeHost (url_Host u))"

definition url_String :: "url \<Rightarrow> string" where
  "url_String u =
     (let scheme = (if url_Scheme u \<noteq> [] then url_Scheme u @ '':'' else []);
          path = EscapedPath u; start = scheme @ authority_text u @
            (if path \<noteq> [] \<and> \<not> HasPrefix path ''/'' \<and> url_Host u \<noteq> [] then ''/'' else []) in
      (if url_Opaque u \<noteq> [] then scheme @ url_Opaque u
       else start @ (if start = [] \<and> Contains (fst (Cut path CHR ''/'')) '':'' then ''./'' else []) @ path)
      @ (if url_ForceQuery u \<or> url_RawQuery u \<noteq> [] then CHR ''?'' # url_RawQuery u else [])
      @ (if url_Fragment u \<noteq> [] then CHR ''#'' # EscapedFragment u else []))"

text \<open>
  \<open>URL.Query().Get(key)\<close>: the value of the first well-formed pair with the key, the empty string when
  there is none. A pair with a semicolon or a bad escape is left out.
\<close>

definition query_pair :: "string \<Rightarrow> (string \<times> string) option" where
  "query_pair part =
     (if part = [] \<or> Contains part '';'' then None
      else (case Cut part CHR ''='' of (k, v, _) \<Rightarrow>
              case (url_unescape EncodeQueryComponent k, url_unescape EncodeQueryComponent v) of
                (Inr k', Inr v') \<Rightarrow> Some (k', v')
              | _ \<Rightarrow> None))"

definition query_Get :: "string \<Rightarrow> string \<Rightarrow> string" where
  "query_Get raw key =
     (case map_of (List.map_filter query_pair (Split raw CHR ''&'')) key of None \<Rightarrow> [] | Some v \<Rightarrow> v)"

section \<open>Plain URLs\<close>

text \<open>
  The URLs of a server's endpoints: \<open>http\<close> or \<open>https\<close>, a host name or address with an optional port, a
  path of unreserved characters and colons, and a query.
\<close>

definition url_char :: "char \<Rightarrow> bool" where
  "url_char c \<longleftrightarrow> alphanum c \<or> c \<in> set ''-_.~''"

definition host_ok :: "string \<Rightarrow> bool" where
  "host_ok h \<longleftrightarrow>
     h \<noteq> [] \<and> list_all (\<lambda>c. url_char c \<or> c = CHR '':'') h
     \<and> (case cut_last h CHR '':'' of None \<Rightarrow> True | Some (n, p) \<Rightarrow> list_all is_digit p)"

definition path_ok :: "string \<Rightarrow> bool" where
  "path_ok p \<longleftrightarrow> (p = [] \<or> hd p = CHR ''/'') \<and> list_all (\<lambda>c. url_char c \<or> c = CHR ''/'' \<or> c = CHR '':'') p"

definition query_ok :: "string \<Rightarrow> bool" where
  "query_ok q \<longleftrightarrow> list_all (\<lambda>c. CHR '' '' \<le> c \<and> c \<noteq> CHR 0x7F \<and> c \<noteq> CHR ''#'' \<and> c \<noteq> CHR ''?'') q"

definition endpoint_url :: "string \<Rightarrow> string \<Rightarrow> string \<Rightarrow> string \<Rightarrow> url" where
  "endpoint_url scheme h p q = blank_url\<lparr>url_Scheme := scheme, url_Host := h, url_Path := p, url_RawQuery := q\<rparr>"

definition endpoint_text :: "string \<Rightarrow> string \<Rightarrow> string \<Rightarrow> string \<Rightarrow> string" where
  "endpoint_text scheme h p q = scheme @ ''://'' @ h @ p @ (if q = [] then [] else CHR ''?'' # q)"

lemma url_char_facts:
  assumes "url_char c"
  shows "\<not> shouldEscape md c" "CHR '' '' \<le> c" "c \<noteq> CHR 0x7F" "c \<notin> set ''%#?/:@[''"
proof -
  have "\<forall>c. url_char c \<longrightarrow> CHR '' '' \<le> c \<and> c \<noteq> CHR 0x7F \<and> c \<notin> set ''%#?/:@[''"
    by (auto simp: url_char_def alphanum_def is_digit_def less_eq_char_def)
  with assms show "CHR '' '' \<le> c" "c \<noteq> CHR 0x7F" "c \<notin> set ''%#?/:@[''" by blast+
  show "\<not> shouldEscape md c" using assms by (auto simp: url_char_def shouldEscape_def)
qed

lemma url_unescape_plain:
  "list_all (\<lambda>c. c \<noteq> CHR ''%'' \<and> \<not> shouldEscape md c) s \<Longrightarrow> md \<noteq> EncodeQueryComponent \<Longrightarrow> url_unescape md s = Ok s"
  by (induction s) (auto simp: consR_def)

lemma url_escape_plain: "list_all (\<lambda>c. \<not> shouldEscape md c) s \<Longrightarrow> url_escape md s = s"
  by (induction s) (auto simp: url_escape_def)

lemma Cut_absent: "c \<notin> set s \<Longrightarrow> Cut s c = (s, [], False)"
  by (induction s) auto

lemma Cut_first: "c \<notin> set s \<Longrightarrow> Cut (s @ c # r) c = (s, r, True)"
  by (induction s) auto

lemma cut_last_absent: "c \<notin> set s \<Longrightarrow> cut_last s c = None"
  by (simp add: cut_last_def Cut_absent)

lemma scheme_from_letters:
  "list_all (\<lambda>c. alphanum c \<and> \<not> is_digit c) s \<Longrightarrow> s \<noteq> [] \<or> \<not> first
   \<Longrightarrow> scheme_from first raw acc (s @ CHR '':'' # r) = Ok (acc @ s, r)"
proof (induction s arbitrary: first acc)
  case Nil
  then show ?case by (simp add: alphanum_def is_digit_def less_eq_char_def)
qed auto

lemma slash_colon_unescaped: "\<not> shouldEscape EncodePath CHR ''/''" "\<not> shouldEscape EncodeHost CHR '':''" "\<not> shouldEscape EncodePath CHR '':''"
  by code_simp+

lemma path_escapes:
  assumes "path_ok p"
  shows "url_unescape EncodePath p = Ok p" "url_escape EncodePath p = p"
proof -
  have "c \<noteq> CHR ''%'' \<and> \<not> shouldEscape EncodePath c" if "c \<in> set p" for c
  proof -
    have "url_char c \<or> c = CHR ''/'' \<or> c = CHR '':''" using that assms by (auto simp: path_ok_def list_all_iff)
    then show ?thesis using url_char_facts(1,4) [of c] slash_colon_unescaped(1,3) by auto
  qed
  then show "url_unescape EncodePath p = Ok p" "url_escape EncodePath p = p"
    by (auto simp: list_all_iff intro!: url_unescape_plain url_escape_plain)
qed

lemma host_escapes:
  assumes "host_ok h"
  shows "url_unescape EncodeHost h = Ok h" "url_escape EncodeHost h = h"
proof -
  have "c \<noteq> CHR ''%'' \<and> \<not> shouldEscape EncodeHost c" if "c \<in> set h" for c
  proof -
    have "url_char c \<or> c = CHR '':''" using that assms by (auto simp: host_ok_def list_all_iff)
    then show ?thesis using url_char_facts(1,4) [of c] slash_colon_unescaped(2) by auto
  qed
  then show "url_unescape EncodeHost h = Ok h" "url_escape EncodeHost h = h"
    by (auto simp: list_all_iff intro!: url_unescape_plain url_escape_plain)
qed

lemma host_chars: "host_ok h \<Longrightarrow> c \<in> set ''%#?/@['' \<Longrightarrow> c \<notin> set h"
  using url_char_facts(4) by (fastforce simp: host_ok_def list_all_iff)

lemma parseHost_ok: "host_ok h \<Longrightarrow> parseHost h = Ok h"
  using host_chars [of h "CHR ''[''"] host_escapes [of h]
  by (cases h) (auto simp: parseHost_def HasPrefix_def host_ok_def validOptionalPort_def split: option.splits)

lemma parseAuthority_ok: "host_ok h \<Longrightarrow> parseAuthority h = Ok (None, h)"
  using host_chars [of h "CHR ''@''"] by (simp add: parseAuthority_def cut_last_absent parseHost_ok bind_res_def)

lemma path_chars: "path_ok p \<Longrightarrow> c \<in> set ''%#?'' \<Longrightarrow> c \<notin> set p"
  using url_char_facts(4) by (fastforce simp: path_ok_def list_all_iff)

lemma Cut_host_path:
  "host_ok h \<Longrightarrow> path_ok p \<Longrightarrow> Cut (h @ p) CHR ''/'' = (h, tl p, p \<noteq> [])"
  using host_chars [of h "CHR ''/''"] Cut_first [of "CHR ''/''" h] by (cases p) (auto simp: path_ok_def Cut_absent)

lemma parse_rest_endpoint:
  assumes "host_ok h" "path_ok p" "url_Scheme u \<noteq> []"
  shows "parse_rest u (''//'' @ h @ p) = Ok (u\<lparr>url_User := None, url_Host := h, url_Path := p, url_RawPath := []\<rparr>)"
proof -
  have "(if p \<noteq> [] then CHR ''/'' # tl p else []) = p" using assms(2) by (cases p) (auto simp: path_ok_def)
  then show ?thesis
    using assms path_escapes
    by (simp add: parse_rest_def HasPrefix_def Cut_host_path parseAuthority_ok bind_res_def setPath_def)
qed

definition web_scheme :: "string \<Rightarrow> bool" where "web_scheme s \<longleftrightarrow> s = ''http'' \<or> s = ''https''"

lemma web_scheme_facts:
  assumes "web_scheme s"
  shows "list_all (\<lambda>c. alphanum c \<and> \<not> is_digit c) s" "s \<noteq> []" "ToLower ulower s = s" "list_all url_char s"
  using assms by (auto simp: web_scheme_def alphanum_def is_digit_def less_eq_char_def ToLower_def is_ascii_def char_lower_def
      is_upper_def url_char_def)

lemma split_query_endpoint:
  assumes "CHR ''?'' \<notin> set s" "query_ok q"
  shows "split_query (s @ (if q = [] then [] else CHR ''?'' # q)) = (s, False, q)"
proof -
  have nq: "CHR ''?'' \<notin> set q" using assms(2) by (auto simp: query_ok_def list_all_iff)
  have "\<not> HasSuffix (s @ (if q = [] then [] else CHR ''?'' # q)) ''?''"
  proof
    assume "HasSuffix (s @ (if q = [] then [] else CHR ''?'' # q)) ''?''"
    then obtain zs where "s @ (if q = [] then [] else CHR ''?'' # q) = zs @ ''?''" by (auto simp: HasSuffix_def suffix_def)
    then have "last (s @ (if q = [] then [] else CHR ''?'' # q)) = CHR ''?'' \<and> s @ (if q = [] then [] else CHR ''?'' # q) \<noteq> []"
      by (simp only: last_snoc snoc_eq_iff_butlast) simp
    with assms(1) nq show False by (cases "q = []") (auto dest: last_in_set)
  qed
  then show ?thesis using assms(1) by (auto simp: split_query_def Cut_absent Cut_first)
qed

text \<open>Such a text parses to its parts, and the parts print as the text.\<close>

lemma url_Parse_endpoint:
  assumes "web_scheme s" "host_ok h" "path_ok p" "query_ok q"
  shows "url_Parse ulower (endpoint_text s h p q) = Ok (endpoint_url s h p q)"
proof -
  note sf = web_scheme_facts [OF assms(1)]
  have hc: "url_char c \<or> c = CHR '':'' \<or> c = CHR ''/''" if "c \<in> set (s @ ''://'' @ h @ p)" for c
    using that sf(4) assms(2,3) by (auto simp: list_all_iff host_ok_def path_ok_def)
  have safe: "CHR '' '' \<le> c \<and> c \<noteq> CHR 0x7F \<and> c \<noteq> CHR ''#''" if c: "c \<in> set (endpoint_text s h p q)" for c
  proof -
    consider "c \<in> set (s @ ''://'' @ h @ p)" | "c = CHR ''?''" | "c \<in> set q"
      using c by (cases "q = []") (auto simp: endpoint_text_def)
    then show ?thesis
    proof cases
      case 1
      from hc [OF this] url_char_facts(2-4) [of c] show ?thesis by (auto simp: less_eq_char_def)
    next
      case 2
      then show ?thesis by (simp add: less_eq_char_def)
    next
      case 3
      with assms(4) show ?thesis by (simp add: query_ok_def list_all_iff)
    qed
  qed
  have noq: "CHR ''?'' \<notin> set (''//'' @ h @ p)"
    using host_chars [OF assms(2)] path_chars [OF assms(3)] by simp
  have "getScheme (endpoint_text s h p q) = Ok (s, ''//'' @ h @ p @ (if q = [] then [] else CHR ''?'' # q))"
    using scheme_from_letters [OF sf(1), of True "endpoint_text s h p q" "[]"] sf(2) by (simp add: getScheme_def endpoint_text_def)
  moreover have "\<not> list_ex (\<lambda>c. c < CHR '' '' \<or> c = CHR 0x7F) (endpoint_text s h p q)"
    using safe by (auto simp: list_ex_iff not_less)
  moreover have "endpoint_text s h p q \<noteq> ''*''" using assms(1) by (auto simp: endpoint_text_def web_scheme_def)
  moreover have "CHR ''#'' \<notin> set (endpoint_text s h p q)" using safe by blast
  ultimately show ?thesis
    using split_query_endpoint [OF noq assms(4)] parse_rest_endpoint [OF assms(2,3)] sf(2,3)
    by (simp add: url_Parse_def url_parse_def Cut_absent bind_res_def endpoint_url_def blank_url_def)
qed

lemma url_String_endpoint:
  assumes "web_scheme s" "host_ok h" "path_ok p"
  shows "url_String (endpoint_url s h p q) = endpoint_text s h p q"
proof -
  have "h \<noteq> []" using assms(2) by (simp add: host_ok_def)
  moreover have "p \<noteq> [] \<Longrightarrow> prefix ''/'' p \<and> p \<noteq> ''*''" using assms(3) by (cases p) (auto simp: path_ok_def)
  ultimately show ?thesis
    using web_scheme_facts(2) [OF assms(1)] host_escapes [OF assms(2)] path_escapes [OF assms(3)]
    by (cases "p = []") (auto simp: url_String_def endpoint_url_def endpoint_text_def blank_url_def EscapedPath_def keep_raw_def
        authority_text_def HasPrefix_def)
qed

end
