(* ===== verification/Http.thy ===== *)
theory Http
  imports Url Routes
begin

text \<open>
  HTTP as the clients use it (\<open>http.NewRequest\<close>, \<open>Client.Do\<close>) and the way a request reaches the server.
  What answers a request is a parameter of the clients: the network and the server behind it.
\<close>

record http_request =
  hr_Method :: string
  hr_URL :: url
  hr_Header :: "string gomap"
  hr_Body :: string
  hr_Timeout :: int

text \<open>
  The body of a response is read until its end or an error. The bytes before the error are available.
\<close>

record http_response =
  hs_StatusCode :: nat
  hs_Body :: string
  hs_ReadErr :: "go_error option"

type_synonym transport = "http_request \<Rightarrow> http_response res"

definition hasPort :: "string \<Rightarrow> bool" where
  "hasPort host = (case cut_last host CHR '':'' of None \<Rightarrow> False | Some (h, p) \<Rightarrow> CHR '']'' \<notin> set p)"

definition removeEmptyPort :: "string \<Rightarrow> string" where
  "removeEmptyPort host = (if hasPort host \<and> HasSuffix host '':'' then butlast host else host)"

definition NewRequest :: "(string \<Rightarrow> string) \<Rightarrow> string \<Rightarrow> string \<Rightarrow> string \<Rightarrow> http_request res" where
  "NewRequest ulower mth raw body =
     bind_res (url_Parse ulower raw) (\<lambda>u.
     Ok \<lparr>hr_Method = mth, hr_URL = u\<lparr>url_Host := removeEmptyPort (url_Host u)\<rparr>, hr_Header = map_make, hr_Body = body,
         hr_Timeout = 0\<rparr>)"

definition set_header :: "string \<Rightarrow> string \<Rightarrow> http_request \<Rightarrow> http_request" where
  "set_header k v r = r\<lparr>hr_Header := map_put k v (hr_Header r)\<rparr>"

definition set_timeout :: "int \<Rightarrow> http_request \<Rightarrow> http_request" where
  "set_timeout t r = r\<lparr>hr_Timeout := t\<rparr>"

text \<open>\<open>io.ReadAll\<close>.\<close>

definition ReadAll :: "http_response \<Rightarrow> string res" where
  "ReadAll resp = (case hs_ReadErr resp of None \<Rightarrow> Ok (hs_Body resp) | Some e \<Rightarrow> Fail e)"

text \<open>
  \<open>json.NewDecoder(body).Decode(&m)\<close> for a map: the first value of the stream. An object ends with its
  brace; \<open>null\<close> is complete only when the stream ends or goes on, so a failing stream yields its error.
\<close>

definition decode_map :: "http_response \<Rightarrow> anymap res" where
  "decode_map resp =
     (case (decode_first (hs_Body resp), hs_ReadErr resp) of
        (Some (JObj ms), _) \<Rightarrow>
          (case set_map (Some map_make) [JObj ms] of Some m \<Rightarrow> Ok m | None \<Rightarrow> Fail (Err ''json: cannot unmarshal''))
      | (_, Some e) \<Rightarrow> Fail e
      | (Some v, None) \<Rightarrow>
          (case set_map (Some map_make) [v] of Some m \<Rightarrow> Ok m | None \<Rightarrow> Fail (Err ''json: cannot unmarshal''))
      | (None, None) \<Rightarrow> Fail (Err ''json: syntax''))"

section \<open>At the server\<close>

definition path_segments :: "string \<Rightarrow> string list" where
  "path_segments p = Split (drop 1 p) CHR ''/''"

text \<open>The request as the handlers see it; the header and query lookups of absent names are empty.\<close>

definition received :: "string \<Rightarrow> http_request \<Rightarrow> request" where
  "received addr q =
     \<lparr>rq_Header = (\<lambda>k. case map_get (hr_Header q) k of None \<Rightarrow> [] | Some v \<Rightarrow> v), rq_PathValue = (\<lambda>_. []),
      rq_Query = query_Get (url_RawQuery (hr_URL q)), rq_Body = hr_Body q, rq_RemoteAddr = addr\<rparr>"

definition handled :: "libs \<Rightarrow> app \<Rightarrow> string \<Rightarrow> http_request \<Rightarrow> response io" where
  "handled L a addr q = serve L a (hr_Method q) (path_segments (url_Path (hr_URL q))) (received addr q)"

lemma set_header_simps [simp]:
  "hr_Method (set_header k v r) = hr_Method r" "hr_URL (set_header k v r) = hr_URL r" "hr_Body (set_header k v r) = hr_Body r"
  "map_get (hr_Header (set_header k v r)) k' = (if k' = k then Some v else map_get (hr_Header r) k')"
  by (simp_all add: set_header_def)

lemma set_timeout_simps [simp]:
  "hr_Method (set_timeout t r) = hr_Method r" "hr_URL (set_timeout t r) = hr_URL r" "hr_Body (set_timeout t r) = hr_Body r"
  "hr_Header (set_timeout t r) = hr_Header r"
  by (simp_all add: set_timeout_def)

lemma removeEmptyPort_plain: "\<not> HasSuffix h '':'' \<Longrightarrow> removeEmptyPort h = h"
  by (simp add: removeEmptyPort_def)

lemma NewRequest_endpoint:
  assumes "web_scheme s" "host_ok h" "\<not> HasSuffix h '':''" "path_ok p" "query_ok q"
  shows "NewRequest ulower mth (endpoint_text s h p q) body =
    Ok \<lparr>hr_Method = mth, hr_URL = endpoint_url s h p q, hr_Header = map_make, hr_Body = body, hr_Timeout = 0\<rparr>"
  using assms
  by (simp add: NewRequest_def url_Parse_endpoint bind_res_def removeEmptyPort_plain endpoint_url_def)

end
