(* ===== verification/Sdk.thy ===== *)
theory Sdk
  imports Http
begin

text \<open>
  \<open>backend/pkg/sdk\<close>: the Go client library. Viper's view of the configuration, the environment and
  what answers HTTP requests are arguments.
\<close>

section \<open>Types\<close>

record sdk_config =
  sc_BackendURL :: string
  sc_AgentID :: string
  sc_APISecret :: string
  sc_DisplayName :: string
  sc_HeartbeatInterval :: int
  sc_RequestTimeout :: int

record sdk_message =
  sm_ID :: string
  sm_From :: string
  sm_To :: string
  sm_ParticipantKind :: string
  sm_Tag :: string
  sm_Content :: string
  sm_Metadata :: anymap
  sm_Timestamp :: string

record sdk_query =
  sd_SupportedTags :: "string list"
  sd_Status :: "string list"
  sd_Limit :: int

record agent_profile =
  pr_ID :: string
  pr_DisplayName :: string
  pr_Status :: string
  pr_LatencyEstimateMS :: int

type_synonym message_handler = "sdk_message \<Rightarrow> unit res"

text \<open>The channel \<open>done\<close> is made by \<open>NewClient\<close>; \<open>ct_done\<close> says that it is closed.\<close>

record client =
  ct_config :: sdk_config
  ct_handler :: "message_handler option"
  ct_done :: bool

section \<open>Configuration\<close>

definition defaultHeartbeatInterval :: int where "defaultHeartbeatInterval = 30 * nanos"
definition defaultRequestTimeout :: int where "defaultRequestTimeout = 30 * nanos"

text \<open>\<open>time.Duration(ms) * time.Millisecond\<close> on 64 bits.\<close>

definition milliseconds :: "int \<Rightarrow> int" where
  "milliseconds ms = int64_wrap (ms * 1000000)"

definition validateConfig :: "sdk_config \<Rightarrow> unit res" where
  "validateConfig conf =
     (if TrimSpace (sc_BackendURL conf) = [] then Fail (Err ''backend_url is required'')
      else if TrimSpace (sc_AgentID conf) = [] then Fail (Err ''agent_id is required'')
      else if TrimSpace (sc_APISecret conf) = [] then Fail (Err ''api_secret is required'')
      else if sc_HeartbeatInterval conf \<le> 0 then Fail (Err ''heartbeat_interval must be positive'')
      else if sc_RequestTimeout conf \<le> 0 then Fail (Err ''request_timeout must be positive'')
      else Ok ())"

text \<open>What Viper answers after reading the file, with the environment bound as \<open>LoadConfig\<close> binds it.\<close>

record viper_values =
  vv_ReadInConfig :: "unit res"
  vv_GetString :: "string \<Rightarrow> string"
  vv_GetInt :: "string \<Rightarrow> int"

definition LoadConfig :: "viper_values \<Rightarrow> sdk_config res" where
  "LoadConfig v =
     (case vv_ReadInConfig v of
        Inl e \<Rightarrow> Fail (Wrap ''read config'' e)
      | Inr _ \<Rightarrow>
          let heartbeatMS = vv_GetInt v ''heartbeat_interval_ms''; requestTimeoutMS = vv_GetInt v ''request_timeout_ms'';
              conf = \<lparr>sc_BackendURL = TrimSpace (vv_GetString v ''backend_url''), sc_AgentID = TrimSpace (vv_GetString v ''agent_id''),
                     sc_APISecret = TrimSpace (vv_GetString v ''api_secret''),
                     sc_DisplayName = TrimSpace (vv_GetString v ''display_name''),
                     sc_HeartbeatInterval = (if heartbeatMS > 0 then milliseconds heartbeatMS else defaultHeartbeatInterval),
                     sc_RequestTimeout = (if requestTimeoutMS > 0 then milliseconds requestTimeoutMS else defaultRequestTimeout)\<rparr> in
          bind_res (validateConfig conf) (\<lambda>_. Ok conf))"

definition envPositiveInt :: "(string \<Rightarrow> string) \<Rightarrow> string \<Rightarrow> int option" where
  "envPositiveInt env key =
     (let raw = TrimSpace (env key) in
      if raw = [] then None
      else (case Atoi raw of Inl _ \<Rightarrow> None | Inr v \<Rightarrow> if v \<le> 0 then None else Some v))"

definition LoadConfigFromEnv :: "(string \<Rightarrow> string) \<Rightarrow> sdk_config" where
  "LoadConfigFromEnv env =
     \<lparr>sc_BackendURL = TrimSpace (env ''BOBBERCHAT_BACKEND_URL''), sc_AgentID = TrimSpace (env ''BOBBERCHAT_AGENT_ID''),
      sc_APISecret = TrimSpace (env ''BOBBERCHAT_API_SECRET''), sc_DisplayName = TrimSpace (env ''BOBBERCHAT_DISPLAY_NAME''),
      sc_HeartbeatInterval = (case envPositiveInt env ''BOBBERCHAT_HEARTBEAT_INTERVAL_MS'' of
         Some ms \<Rightarrow> milliseconds ms | None \<Rightarrow> defaultHeartbeatInterval),
      sc_RequestTimeout = (case envPositiveInt env ''BOBBERCHAT_REQUEST_TIMEOUT_MS'' of
         Some ms \<Rightarrow> milliseconds ms | None \<Rightarrow> defaultRequestTimeout)\<rparr>"

section \<open>Messages\<close>

definition NewMessage :: "uuid_lib \<Rightarrow> string \<Rightarrow> string \<Rightarrow> string \<Rightarrow> string \<Rightarrow> sdk_message io" where
  "NewMessage U from to tag content =
     bindE uuid_New (\<lambda>i. bindE time_Now (\<lambda>now.
     returnE \<lparr>sm_ID = uuid_String U i, sm_From = from, sm_To = to, sm_ParticipantKind = [], sm_Tag = tag, sm_Content = content,
              sm_Metadata = Some (map_put ''protocol_version'' (AStr ''1.0.0'') map_make), sm_Timestamp = format_rfc3339 now\<rparr>))"

definition NewRequestMessage :: "uuid_lib \<Rightarrow> string \<Rightarrow> string \<Rightarrow> string \<Rightarrow> sdk_message io" where
  "NewRequestMessage U from to content = NewMessage U from to TagRequestData content"

definition NewResponseMessage :: "uuid_lib \<Rightarrow> string \<Rightarrow> string \<Rightarrow> string \<Rightarrow> string \<Rightarrow> sdk_message io" where
  "NewResponseMessage U from to requestID content =
     bindE (NewMessage U from to TagResponseSuccess content) (\<lambda>msg.
     returnE (msg\<lparr>sm_Metadata := map_option (map_put ''request_id'' (AStr requestID)) (sm_Metadata msg)\<rparr>))"

section \<open>The client\<close>

definition NewClient :: "sdk_config \<Rightarrow> client res" where
  "NewClient config0 =
     (let config = config0\<lparr>sc_BackendURL := TrimSpace (sc_BackendURL config0), sc_AgentID := TrimSpace (sc_AgentID config0),
                           sc_APISecret := TrimSpace (sc_APISecret config0)\<rparr> in
      if sc_BackendURL config = [] then Fail (Err ''backend_url is required'')
      else if sc_AgentID config = [] then Fail (Err ''agent_id is required'')
      else if sc_APISecret config = [] then Fail (Err ''api_secret is required'')
      else Ok \<lparr>ct_config = config
            \<lparr>sc_HeartbeatInterval := (if sc_HeartbeatInterval config \<le> 0 then defaultHeartbeatInterval else sc_HeartbeatInterval config),
             sc_RequestTimeout := (if sc_RequestTimeout config \<le> 0 then defaultRequestTimeout else sc_RequestTimeout config)\<rparr>,
          ct_handler = None, ct_done = False\<rparr>)"

definition Connect :: "client option \<Rightarrow> unit res" where
  "Connect c = Ok ()"

text \<open>\<open>strings.TrimRight(s, "/")\<close>.\<close>

definition trim_slashes :: "string \<Rightarrow> string" where
  "trim_slashes s = rev (dropWhile (\<lambda>c. c = CHR ''/'') (rev s))"

definition backendEndpoint :: "(string \<Rightarrow> string) \<Rightarrow> string \<Rightarrow> string \<Rightarrow> string res" where
  "backendEndpoint ulower backendURL endpointPath =
     (case url_Parse ulower (TrimSpace backendURL) of
        Inl e \<Rightarrow> Fail (Wrap ''invalid backend url'' e)
      | Inr u \<Rightarrow> Ok (url_String (u\<lparr>url_Path := trim_slashes (url_Path u) @ endpointPath\<rparr>)))"

definition wrap_res :: "string \<Rightarrow> 'a res \<Rightarrow> 'a res" where
  "wrap_res msg r = (case r of Inl e \<Rightarrow> Inl (Wrap msg e) | Inr x \<Rightarrow> Inr x)"

definition auth_headers :: "sdk_config \<Rightarrow> http_request \<Rightarrow> http_request" where
  "auth_headers conf req =
     set_header ''Content-Type'' ''application/json''
       (set_header ''X-Agent-ID'' (sc_AgentID conf) (set_header ''Authorization'' (''Bearer '' @ sc_APISecret conf) req))"

definition sdk_send_body :: "sdk_message \<Rightarrow> string" where
  "sdk_send_body msg =
     json_text (AMap (map_from_list [(''to'', AStr (sm_To msg)), (''tag'', AStr (sm_Tag msg)), (''content'', AStr (sm_Content msg)),
       (''metadata'', case sm_Metadata msg of None \<Rightarrow> ANil | Some m \<Rightarrow> AMap m)]))"

text \<open>The request that \<open>Send\<close> makes.\<close>

definition send_http :: "(string \<Rightarrow> string) \<Rightarrow> sdk_config \<Rightarrow> sdk_message \<Rightarrow> http_request res" where
  "send_http ulower conf msg =
     bind_res (wrap_res ''build send endpoint'' (backendEndpoint ulower (sc_BackendURL conf) ''/v1/messages/send'')) (\<lambda>endpoint.
     bind_res (wrap_res ''create send request'' (NewRequest ulower ''POST'' endpoint (sdk_send_body msg))) (\<lambda>req.
     Ok (set_timeout (sc_RequestTimeout conf) (auth_headers conf req))))"

definition error_body :: "string \<Rightarrow> string option" where
  "error_body raw =
     do { v \<leftarrow> decode_all raw; ms \<leftarrow> struct_members False [''error''] v; string_field ms ''error'' }"

definition Send :: "(string \<Rightarrow> string) \<Rightarrow> transport \<Rightarrow> client option \<Rightarrow> sdk_message \<Rightarrow> unit res" where
  "Send ulower tr c msg =
     (case c of
        None \<Rightarrow> Fail (Err ''client is nil'')
      | Some cl \<Rightarrow>
          bind_res (send_http ulower (ct_config cl) msg) (\<lambda>req.
          bind_res (wrap_res ''execute send request'' (tr req)) (\<lambda>resp.
          bind_res (wrap_res ''read send response'' (ReadAll resp)) (\<lambda>rawResp.
          if hs_StatusCode resp < 200 \<or> 300 \<le> hs_StatusCode resp then
            (case error_body rawResp of
               Some e \<Rightarrow>
                 if TrimSpace e \<noteq> []
                 then Fail (Err (''send failed: status='' @ Itoa (int (hs_StatusCode resp)) @ '' error='' @ TrimSpace e))
                 else Fail (Err (''send failed: status='' @ Itoa (int (hs_StatusCode resp)) @ '' body='' @ TrimSpace rawResp))
             | None \<Rightarrow> Fail (Err (''send failed: status='' @ Itoa (int (hs_StatusCode resp)) @ '' body='' @ TrimSpace rawResp)))
          else Ok ()))))"

definition Subscribe :: "client option \<Rightarrow> message_handler option \<Rightarrow> client option \<times> unit res" where
  "Subscribe c handler =
     (case c of
        None \<Rightarrow> (None, Fail (Err ''client is nil''))
      | Some cl \<Rightarrow>
          (case handler of
             None \<Rightarrow> (Some cl, Fail (Err ''handler is nil''))
           | Some h \<Rightarrow> (Some (cl\<lparr>ct_handler := Some h\<rparr>), Ok ())))"

definition strings_text :: "string \<Rightarrow> string list \<Rightarrow> (string \<times> string) list" where
  "strings_text k ss = omit_if (ss = []) k (json_text (AStrs ss))"

definition marshal_query :: "sdk_query \<Rightarrow> string" where
  "marshal_query q =
     struct_text (strings_text ''supported_tags'' (sd_SupportedTags q) @ strings_text ''status'' (sd_Status q)
       @ omit_if (sd_Limit q = 0) ''limit'' (Itoa (sd_Limit q)))"

definition blank_profile :: agent_profile where
  "blank_profile = \<lparr>pr_ID = [], pr_DisplayName = [], pr_Status = [], pr_LatencyEstimateMS = 0\<rparr>"

definition decode_profile :: "agent_profile option \<Rightarrow> jvalue \<Rightarrow> agent_profile option" where
  "decode_profile old v =
     (let p = (case old of None \<Rightarrow> blank_profile | Some p \<Rightarrow> p) in
      do { ms \<leftarrow> struct_members False [''id'', ''display_name'', ''status'', ''latency_estimate_ms''] v;
           i \<leftarrow> set_string (pr_ID p) (values_of ''id'' ms);
           d \<leftarrow> set_string (pr_DisplayName p) (values_of ''display_name'' ms);
           s \<leftarrow> set_string (pr_Status p) (values_of ''status'' ms);
           l \<leftarrow> set_int (pr_LatencyEstimateMS p) (values_of ''latency_estimate_ms'' ms);
           Some \<lparr>pr_ID = i, pr_DisplayName = d, pr_Status = s, pr_LatencyEstimateMS = l\<rparr> })"

definition unmarshal_profiles :: "string \<Rightarrow> agent_profile list option" where
  "unmarshal_profiles raw = Option.bind (decode_all raw) (\<lambda>v. set_slice decode_profile [] 0 [v])"

definition unmarshal_wrapped :: "string \<Rightarrow> agent_profile list option" where
  "unmarshal_wrapped raw =
     do { v \<leftarrow> decode_all raw; ms \<leftarrow> struct_members False [''agents''] v;
          set_slice decode_profile [] 0 (values_of ''agents'' ms) }"

definition discover_http :: "(string \<Rightarrow> string) \<Rightarrow> sdk_config \<Rightarrow> sdk_query \<Rightarrow> http_request res" where
  "discover_http ulower conf qry =
     bind_res (wrap_res ''build discover endpoint'' (backendEndpoint ulower (sc_BackendURL conf) ''/v1/registry/discover'')) (\<lambda>endpoint.
     bind_res (wrap_res ''create discovery request'' (NewRequest ulower ''POST'' endpoint (marshal_query qry))) (\<lambda>req.
     Ok (set_timeout (sc_RequestTimeout conf) (auth_headers conf req))))"

definition sdk_Discover :: "(string \<Rightarrow> string) \<Rightarrow> transport \<Rightarrow> client option \<Rightarrow> sdk_query \<Rightarrow> agent_profile list res" where
  "sdk_Discover ulower tr c qry =
     (case c of
        None \<Rightarrow> Fail (Err ''client is nil'')
      | Some cl \<Rightarrow>
          bind_res (discover_http ulower (ct_config cl) qry) (\<lambda>req.
          bind_res (wrap_res ''execute discovery request'' (tr req)) (\<lambda>resp.
          bind_res (wrap_res ''read discovery response'' (ReadAll resp)) (\<lambda>rawResp.
          if hs_StatusCode resp < 200 \<or> 300 \<le> hs_StatusCode resp
          then Fail (Err (''discovery failed: status='' @ Itoa (int (hs_StatusCode resp)) @ '' body='' @ TrimSpace rawResp))
          else (case unmarshal_profiles rawResp of
                  Some ps \<Rightarrow> Ok ps
                | None \<Rightarrow> (case unmarshal_wrapped rawResp of
                             None \<Rightarrow> Fail (Wrap ''parse discovery response'' (Err ''decode''))
                           | Some ps \<Rightarrow> Ok ps))))))"

text \<open>\<open>safeClose\<close>: closing a closed channel panics, and the panic is recovered.\<close>

definition sdk_Close :: "client option \<Rightarrow> client option \<times> unit res" where
  "sdk_Close c = (map_option (\<lambda>cl. cl\<lparr>ct_done := True\<rparr>) c, Ok ())"

end
