(* ===== verification/Cli.thy ===== *)
theory Cli
  imports Http
begin

text \<open>
  \<open>cli/cmd/bobber/main.go\<close>: the commands of the command-line client. Cobra has parsed the arguments and
  flags (\<open>command\<close> holds them, with the number of arguments it enforces); Viper, the terminal, the file
  system, the UUIDs and what answers HTTP requests are a parameter.
\<close>

section \<open>The environment and the state\<close>

text \<open>
  \<open>cl_Do\<close> answers a request after the requests that were answered before. A state is Viper's settings,
  the requests sent, what was printed, and the files written with the settings they then held.
\<close>

record 'v cli_lib =
  vp_GetString :: "'v \<Rightarrow> string \<Rightarrow> string"
  vp_Set :: "string \<Rightarrow> string \<Rightarrow> 'v \<Rightarrow> 'v"
  vp_ConfigFileUsed :: "'v \<Rightarrow> string"
  vp_SetConfigFile :: "string \<Rightarrow> 'v \<Rightarrow> 'v"
  vp_WriteConfig :: "'v \<Rightarrow> unit res"
  vp_SafeWriteConfigAs :: "string \<Rightarrow> 'v \<Rightarrow> unit res"
  os_UserConfigDir :: "string res"
  os_MkdirAll :: "string \<Rightarrow> unit res"
  os_Stat :: "string \<Rightarrow> unit res"
  term_IsTerminal :: bool
  term_ReadPassword :: "string res"
  cl_NewString :: string
  cl_Do :: "http_request list \<Rightarrow> http_request \<Rightarrow> http_response res"
  cl_lower :: "string \<Rightarrow> string"

record 'v cli_state =
  cs_viper :: 'v
  cs_sent :: "http_request list"
  cs_printed :: "any list"
  cs_written :: "(string \<times> 'v) list"

type_synonym ('a, 'v) cli = "('a, 'v cli_state) action"

definition get_state :: "('v cli_state \<Rightarrow> 'a) \<Rightarrow> ('a, 'v) cli" where
  "get_state f s = (Ok (f s), s)"

definition cliSet :: "'v cli_lib \<Rightarrow> string \<Rightarrow> string \<Rightarrow> (unit, 'v) cli" where
  "cliSet E k x s = (Ok (), s\<lparr>cs_viper := vp_Set E k x (cs_viper s)\<rparr>)"

definition prettyPrint :: "any \<Rightarrow> (unit, 'v) cli" where
  "prettyPrint v s = (Ok (), s\<lparr>cs_printed := cs_printed s @ [v]\<rparr>)"

definition cliDo :: "'v cli_lib \<Rightarrow> http_request \<Rightarrow> (http_response, 'v) cli" where
  "cliDo E req s = (cl_Do E (cs_sent s) req, s\<lparr>cs_sent := cs_sent s @ [req]\<rparr>)"

section \<open>Paths\<close>

text \<open>\<open>filepath.Clean\<close>, \<open>Join\<close> and \<open>Dir\<close> on Unix.\<close>

fun clean_segs :: "bool \<Rightarrow> string list \<Rightarrow> string list \<Rightarrow> string list" where
  "clean_segs rooted acc [] = rev acc"
| "clean_segs rooted acc (x # xs) =
     (if x = [] \<or> x = ''.'' then clean_segs rooted acc xs
      else if x = ''..''
      then if acc \<noteq> [] \<and> hd acc \<noteq> ''..'' then clean_segs rooted (tl acc) xs
           else clean_segs rooted (if rooted then acc else x # acc) xs
      else clean_segs rooted (x # acc) xs)"

definition filepath_Clean :: "string \<Rightarrow> string" where
  "filepath_Clean p =
     (let rooted = HasPrefix p ''/''; body = Join (clean_segs rooted [] (Split p CHR ''/'')) ''/'' in
      if rooted then ''/'' @ body else if body = [] then ''.'' else body)"

definition filepath_Join :: "string list \<Rightarrow> string" where
  "filepath_Join elems =
     (case dropWhile (\<lambda>e. e = []) elems of [] \<Rightarrow> [] | es \<Rightarrow> filepath_Clean (Join es ''/''))"

definition filepath_Dir :: "string \<Rightarrow> string" where
  "filepath_Dir p = filepath_Clean (case cut_last p CHR ''/'' of None \<Rightarrow> [] | Some (d, b) \<Rightarrow> d @ ''/'')"

section \<open>Helpers\<close>

definition defaultConfigFile :: "'v cli_lib \<Rightarrow> string" where
  "defaultConfigFile E =
     (case os_UserConfigDir E of Inl _ \<Rightarrow> ''.bobber.yaml'' | Inr dir \<Rightarrow> filepath_Join [dir, ''bobber'', ''config.yaml''])"

definition saveConfig :: "'v cli_lib \<Rightarrow> (unit, 'v) cli" where
  "saveConfig E s =
     (let used = vp_ConfigFileUsed E (cs_viper s);
          file = (if used = [] then defaultConfigFile E else used);
          s1 = (if used = [] then s\<lparr>cs_viper := vp_SetConfigFile E file (cs_viper s)\<rparr> else s) in
      case os_MkdirAll E (filepath_Dir file) of
        Inl e \<Rightarrow> (Fail e, s1)
      | Inr _ \<Rightarrow>
          (case (case os_Stat E file of
                   Inr _ \<Rightarrow> vp_WriteConfig E (cs_viper s1)
                 | Inl _ \<Rightarrow> vp_SafeWriteConfigAs E file (cs_viper s1)) of
             Inl e \<Rightarrow> (Fail e, s1)
           | Inr _ \<Rightarrow> (Ok (), s1\<lparr>cs_written := cs_written s1 @ [(file, cs_viper s1)]\<rparr>)))"

definition readSecret :: "'v cli_lib \<Rightarrow> (string, 'v) cli" where
  "readSecret E =
     liftE (if \<not> term_IsTerminal E
            then Fail (Err (''not a terminal '' @ [CHR 0xE2, CHR 0x80, CHR 0x94] @ '' provide the value via flag or environment variable''))
            else term_ReadPassword E)"

definition backendURL :: "'v cli_lib \<Rightarrow> 'v cli_state \<Rightarrow> string" where
  "backendURL E s =
     (let v = TrimSpace (vp_GetString E (cs_viper s) ''backend_url'') in if v = [] then ''http://localhost:8080'' else v)"

definition cli_token :: "'v cli_lib \<Rightarrow> 'v cli_state \<Rightarrow> string" where
  "cli_token E s = TrimSpace (vp_GetString E (cs_viper s) ''token'')"

definition cli_agentID :: "'v cli_lib \<Rightarrow> 'v cli_state \<Rightarrow> string" where
  "cli_agentID E s = TrimSpace (vp_GetString E (cs_viper s) ''agent_id'')"

definition cli_apiSecret :: "'v cli_lib \<Rightarrow> 'v cli_state \<Rightarrow> string" where
  "cli_apiSecret E s = TrimSpace (vp_GetString E (cs_viper s) ''api_secret'')"

text \<open>A nil body has no payload.\<close>

definition payload_text :: "(string \<times> any) list option \<Rightarrow> string" where
  "payload_text body = (case body of None \<Rightarrow> [] | Some kvs \<Rightarrow> json_text (AMap (map_from_list kvs)))"

definition cli_timeout :: int where "cli_timeout = 15 * nanos"

text \<open>The end that \<open>doJSON\<close> and \<open>doJSONAgent\<close> share.\<close>

definition finish_json :: "'v cli_lib \<Rightarrow> http_request \<Rightarrow> (anymap, 'v) cli" where
  "finish_json E req =
     bindE (cliDo E (set_timeout cli_timeout req)) (\<lambda>res.
     bindE (liftE (decode_map res)) (\<lambda>resp.
     if 400 \<le> hs_StatusCode res
     then failE (case Option.bind (index_map resp ''error'') as_string of
                   Some m \<Rightarrow> Err m
                 | None \<Rightarrow> Err (''request failed with status '' @ Itoa (int (hs_StatusCode res))))
     else returnE resp))"

definition doJSON ::
    "'v cli_lib \<Rightarrow> string \<Rightarrow> string \<Rightarrow> string \<Rightarrow> (string \<times> any) list option \<Rightarrow> (anymap, 'v) cli" where
  "doJSON E mth raw token body =
     bindE (liftE (NewRequest (cl_lower E) mth raw (payload_text body))) (\<lambda>req.
     let req1 = set_header ''Content-Type'' ''application/json'' req in
     finish_json E (if token \<noteq> [] then set_header ''Authorization'' (''Bearer '' @ token) req1 else req1))"

definition doJSONAgent ::
    "'v cli_lib \<Rightarrow> string \<Rightarrow> string \<Rightarrow> string \<Rightarrow> string \<Rightarrow> (string \<times> any) list option \<Rightarrow> (anymap, 'v) cli" where
  "doJSONAgent E mth raw agentID apiSecret body =
     bindE (liftE (NewRequest (cl_lower E) mth raw (payload_text body))) (\<lambda>req.
     finish_json E (set_header ''X-API-Secret'' apiSecret (set_header ''X-Agent-ID'' agentID
       (set_header ''Content-Type'' ''application/json'' req))))"

definition print_map :: "anymap \<Rightarrow> (unit, 'v) cli" where
  "print_map m = prettyPrint (case m of None \<Rightarrow> ANil | Some mm \<Rightarrow> AMap mm)"

definition clearAgentCreds :: "'v cli_lib \<Rightarrow> (unit, 'v) cli" where
  "clearAgentCreds E =
     bindE (cliSet E ''agent_id'' []) (\<lambda>_. bindE (cliSet E ''api_secret'' []) (\<lambda>_.
     bindE (cliSet E ''token'' []) (\<lambda>_. saveConfig E)))"

definition splitCSV :: "string \<Rightarrow> string list" where
  "splitCSV s = filter (\<lambda>t. t \<noteq> []) (map TrimSpace (Split s CHR '',''))"

text \<open>The guards on the credentials, and the requests that use them.\<close>

definition with_token :: "'v cli_lib \<Rightarrow> (string \<Rightarrow> string \<Rightarrow> ('a, 'v) cli) \<Rightarrow> ('a, 'v) cli" where
  "with_token E k s =
     (if cli_token E s = [] then (Fail (Err ''token required''), s) else k (backendURL E s) (cli_token E s) s)"

definition needs_login :: go_error where
  "needs_login = Err (''agent credentials required (use '' @ [CHR 0x27] @ ''bobber login'' @ [CHR 0x27] @ '' first)'')"

definition with_agent :: "'v cli_lib \<Rightarrow> go_error \<Rightarrow> (string \<Rightarrow> string \<Rightarrow> string \<Rightarrow> ('a, 'v) cli) \<Rightarrow> ('a, 'v) cli" where
  "with_agent E missing k s =
     (if cli_agentID E s = [] \<or> cli_apiSecret E s = [] then (Fail missing, s)
      else k (backendURL E s) (cli_agentID E s) (cli_apiSecret E s) s)"

section \<open>The commands\<close>

datatype command =
    AccountRegister string string
  | AccountLogin string string
  | AgentCreate string
  | AgentUse string
  | AgentRotateSecret string
  | AgentDelete string
  | Login string string
  | Whoami
  | Logout
  | Ls "string option"
  | ConnectTo string
  | Inbox
  | Accept string
  | Reject string
  | BlacklistAdd string
  | BlacklistRemove string
  | BlacklistList
  | Info string
  | SendMsg string string string
  | Poll string int string string
  | GroupCreate string
  | GroupLeave string
  | GroupInvite string string

definition ask_password :: "'v cli_lib \<Rightarrow> string \<Rightarrow> (string, 'v) cli" where
  "ask_password E password =
     bindE (if password = [] then wrapE ''--password is required'' (readSecret E) else returnE password) (\<lambda>p.
     if p = [] then failE (Err ''password must not be empty'') else returnE p)"

definition accountRegisterCmd :: "'v cli_lib \<Rightarrow> string \<Rightarrow> string \<Rightarrow> (unit, 'v) cli" where
  "accountRegisterCmd E email password =
     (if email = [] then failE (Err ''--email is required'')
      else bindE (ask_password E password) (\<lambda>p.
        bindE (get_state (backendURL E)) (\<lambda>base.
        bindE (doJSON E ''POST'' (base @ ''/v1/auth/register'') [] (Some [(''email'', AStr email), (''password'', AStr p)]))
          print_map)))"

definition accountLoginCmd :: "'v cli_lib \<Rightarrow> string \<Rightarrow> string \<Rightarrow> (unit, 'v) cli" where
  "accountLoginCmd E email password =
     (if email = [] then failE (Err ''--email is required'')
      else bindE (ask_password E password) (\<lambda>p.
        bindE (get_state (backendURL E)) (\<lambda>base.
        bindE (doJSON E ''POST'' (base @ ''/v1/auth/login'') [] (Some [(''email'', AStr email), (''password'', AStr p)])) (\<lambda>resp.
        bindE (case Option.bind (index_map resp ''access_token'') as_string of
                 Some tok \<Rightarrow> if tok \<noteq> [] then bindE (cliSet E ''token'' tok) (\<lambda>_. saveConfig E) else returnE ()
               | None \<Rightarrow> returnE ()) (\<lambda>_.
        print_map resp)))))"

definition agentCreateCmd :: "'v cli_lib \<Rightarrow> string \<Rightarrow> (unit, 'v) cli" where
  "agentCreateCmd E name =
     with_token E (\<lambda>base token.
       let displayName = (if TrimSpace name = [] then cl_NewString E else name) in
       bindE (doJSON E ''POST'' (base @ ''/v1/agents'') token (Some [(''display_name'', AStr displayName)])) print_map)"

definition agentUseCmd :: "'v cli_lib \<Rightarrow> string \<Rightarrow> (unit, 'v) cli" where
  "agentUseCmd E agentID =
     with_token E (\<lambda>base token.
     bindE (wrapE ''failed to get agent info'' (doJSON E ''GET'' (base @ ''/v1/info/'' @ agentID) token None)) (\<lambda>info.
     bindE (wrapE ''failed to rotate agent secret''
              (doJSON E ''POST'' (base @ ''/v1/agents/'' @ agentID @ ''/rotate-secret'') token None)) (\<lambda>rotateResp.
     let secret = (case Option.bind (index_map rotateResp ''api_secret'') as_string of None \<Rightarrow> [] | Some s \<Rightarrow> s) in
     if secret = [] then failE (Err ''rotate-secret response did not contain api_secret'')
     else
       bindE (cliSet E ''agent_id'' agentID) (\<lambda>_.
       bindE (cliSet E ''api_secret'' secret) (\<lambda>_.
       bindE (saveConfig E) (\<lambda>_.
       print_map (Some (map_from_list [(''agent_id'', AStr agentID),
         (''display_name'', case index_map info ''display_name'' of None \<Rightarrow> ANil | Some v \<Rightarrow> v),
         (''active'', ABool True)]))))))))"

definition agentRotateSecretCmd :: "'v cli_lib \<Rightarrow> string \<Rightarrow> (unit, 'v) cli" where
  "agentRotateSecretCmd E i =
     with_token E (\<lambda>base token.
       bindE (doJSON E ''POST'' (base @ ''/v1/agents/'' @ i @ ''/rotate-secret'') token None) print_map)"

definition agentDeleteCmd :: "'v cli_lib \<Rightarrow> string \<Rightarrow> (unit, 'v) cli" where
  "agentDeleteCmd E i =
     with_token E (\<lambda>base token. bindE (doJSON E ''DELETE'' (base @ ''/v1/agents/'' @ i) token None) print_map)"

definition loginCmd :: "'v cli_lib \<Rightarrow> string \<Rightarrow> string \<Rightarrow> (unit, 'v) cli" where
  "loginCmd E agentID secret0 =
     (if TrimSpace agentID = [] then failE (Err ''--agent-id is required'')
      else
        bindE (if TrimSpace secret0 = [] then wrapE ''--secret is required'' (readSecret E) else returnE secret0) (\<lambda>secret.
        if TrimSpace secret = [] then failE (Err ''secret must not be empty'')
        else
          bindE (cliSet E ''agent_id'' agentID) (\<lambda>_.
          bindE (cliSet E ''api_secret'' secret) (\<lambda>_.
          bindE (saveConfig E) (\<lambda>_.
          print_map (Some (map_from_list [(''agent_id'', AStr agentID), (''saved'', ABool True)])))))))"

definition whoamiCmd :: "'v cli_lib \<Rightarrow> (unit, 'v) cli" where
  "whoamiCmd E =
     with_agent E (Err ''not logged in as agent (run bobber login --agent-id <ID> --secret <SECRET>)'') (\<lambda>base aid sec.
       bindE (doJSONAgent E ''GET'' (base @ ''/v1/info/'' @ aid) aid sec None) print_map)"

definition logoutCmd :: "'v cli_lib \<Rightarrow> (unit, 'v) cli" where
  "logoutCmd E = clearAgentCreds E"

definition ls_endpoint :: "string option \<Rightarrow> string res" where
  "ls_endpoint arg =
     (case arg of
        None \<Rightarrow> Ok ''/v1/conversations''
      | Some t \<Rightarrow>
          if t = ''dms'' then Ok ''/v1/conversations?type=direct''
          else if t = ''groups'' then Ok ''/v1/conversations?type=group''
          else Fail (Err ''invalid list target: must be dms or groups''))"

definition lsCmd :: "'v cli_lib \<Rightarrow> string option \<Rightarrow> (unit, 'v) cli" where
  "lsCmd E arg =
     with_token E (\<lambda>base token.
     bindE (liftE (ls_endpoint arg)) (\<lambda>endpoint.
     bindE (doJSON E ''GET'' (base @ endpoint) token None) print_map))"

definition connectCmd :: "'v cli_lib \<Rightarrow> string \<Rightarrow> (unit, 'v) cli" where
  "connectCmd E target =
     with_agent E needs_login (\<lambda>base aid sec.
       bindE (doJSONAgent E ''POST'' (base @ ''/v1/connections/request'') aid sec (Some [(''target_id'', AStr target)])) print_map)"

definition inboxCmd :: "'v cli_lib \<Rightarrow> (unit, 'v) cli" where
  "inboxCmd E =
     with_agent E needs_login (\<lambda>base aid sec.
       bindE (doJSONAgent E ''GET'' (base @ ''/v1/connections/inbox'') aid sec None) print_map)"

definition acceptCmd :: "'v cli_lib \<Rightarrow> string \<Rightarrow> (unit, 'v) cli" where
  "acceptCmd E i =
     with_agent E needs_login (\<lambda>base aid sec.
       bindE (doJSONAgent E ''POST'' (base @ ''/v1/connections/'' @ i @ ''/accept'') aid sec (Some [])) print_map)"

definition rejectCmd :: "'v cli_lib \<Rightarrow> string \<Rightarrow> (unit, 'v) cli" where
  "rejectCmd E i =
     with_agent E needs_login (\<lambda>base aid sec.
       bindE (doJSONAgent E ''POST'' (base @ ''/v1/connections/'' @ i @ ''/reject'') aid sec (Some [])) print_map)"

definition blacklistAddCmd :: "'v cli_lib \<Rightarrow> string \<Rightarrow> (unit, 'v) cli" where
  "blacklistAddCmd E target =
     with_agent E needs_login (\<lambda>base aid sec.
       bindE (doJSONAgent E ''POST'' (base @ ''/v1/blacklist'') aid sec (Some [(''target_id'', AStr target)])) print_map)"

definition blacklistRemoveCmd :: "'v cli_lib \<Rightarrow> string \<Rightarrow> (unit, 'v) cli" where
  "blacklistRemoveCmd E i =
     with_agent E needs_login (\<lambda>base aid sec.
       bindE (doJSONAgent E ''DELETE'' (base @ ''/v1/blacklist/'' @ i) aid sec None) print_map)"

definition blacklistListCmd :: "'v cli_lib \<Rightarrow> (unit, 'v) cli" where
  "blacklistListCmd E =
     with_agent E needs_login (\<lambda>base aid sec. bindE (doJSONAgent E ''GET'' (base @ ''/v1/blacklist'') aid sec None) print_map)"

definition infoCmd :: "'v cli_lib \<Rightarrow> string \<Rightarrow> (unit, 'v) cli" where
  "infoCmd E i =
     with_token E (\<lambda>base token. bindE (doJSON E ''GET'' (base @ ''/v1/info/'' @ i) token None) print_map)"

definition sendCmd :: "'v cli_lib \<Rightarrow> string \<Rightarrow> string \<Rightarrow> string \<Rightarrow> (unit, 'v) cli" where
  "sendCmd E target tag content =
     with_agent E needs_login (\<lambda>base aid sec.
       if tag = [] \<or> content = [] then failE (Err ''--tag and --content are required'')
       else bindE (doJSONAgent E ''POST'' (base @ ''/v1/messages/send'') aid sec
                     (Some [(''to'', AStr target), (''tag'', AStr tag), (''content'', AStr content)])) print_map)"

definition poll_query :: "string \<Rightarrow> int \<Rightarrow> string \<Rightarrow> string \<Rightarrow> string" where
  "poll_query cid limit sinceTS sinceID =
     ''conversation_id='' @ cid @ (if limit > 0 then ''&limit='' @ Itoa limit else [])
     @ (if sinceTS \<noteq> [] then ''&since_ts='' @ sinceTS else []) @ (if sinceID \<noteq> [] then ''&since_id='' @ sinceID else [])"

definition pollCmd :: "'v cli_lib \<Rightarrow> string \<Rightarrow> int \<Rightarrow> string \<Rightarrow> string \<Rightarrow> (unit, 'v) cli" where
  "pollCmd E cid limit sinceTS sinceID =
     with_token E (\<lambda>base token.
       bindE (doJSON E ''GET'' (base @ ''/v1/messages/poll?'' @ poll_query cid limit sinceTS sinceID) token None) print_map)"

definition groupCreateCmd :: "'v cli_lib \<Rightarrow> string \<Rightarrow> (unit, 'v) cli" where
  "groupCreateCmd E name =
     with_token E (\<lambda>base token.
       if TrimSpace name = [] then failE (Err ''--name is required'')
       else bindE (doJSON E ''POST'' (base @ ''/v1/groups'') token (Some [(''name'', AStr name)])) print_map)"

definition groupLeaveCmd :: "'v cli_lib \<Rightarrow> string \<Rightarrow> (unit, 'v) cli" where
  "groupLeaveCmd E i =
     with_token E (\<lambda>base token.
       bindE (doJSON E ''POST'' (base @ ''/v1/groups/'' @ i @ ''/leave'') token
                (Some [(''participant_id'', AStr []), (''participant_kind'', AStr ''user'')])) print_map)"

definition groupInviteCmd :: "'v cli_lib \<Rightarrow> string \<Rightarrow> string \<Rightarrow> (unit, 'v) cli" where
  "groupInviteCmd E groupID agentID =
     with_agent E needs_login (\<lambda>base aid sec.
       bindE (doJSONAgent E ''POST'' (base @ ''/v1/connections/request'') aid sec
                (Some [(''target_id'', AStr agentID), (''from_id'', AStr groupID), (''from_kind'', AStr ''group'')])) print_map)"

fun run_command :: "'v cli_lib \<Rightarrow> command \<Rightarrow> (unit, 'v) cli" where
  "run_command E (AccountRegister email password) = accountRegisterCmd E email password"
| "run_command E (AccountLogin email password) = accountLoginCmd E email password"
| "run_command E (AgentCreate name) = agentCreateCmd E name"
| "run_command E (AgentUse i) = agentUseCmd E i"
| "run_command E (AgentRotateSecret i) = agentRotateSecretCmd E i"
| "run_command E (AgentDelete i) = agentDeleteCmd E i"
| "run_command E (Login i secret) = loginCmd E i secret"
| "run_command E Whoami = whoamiCmd E"
| "run_command E Logout = logoutCmd E"
| "run_command E (Ls arg) = lsCmd E arg"
| "run_command E (ConnectTo target) = connectCmd E target"
| "run_command E Inbox = inboxCmd E"
| "run_command E (Accept i) = acceptCmd E i"
| "run_command E (Reject i) = rejectCmd E i"
| "run_command E (BlacklistAdd target) = blacklistAddCmd E target"
| "run_command E (BlacklistRemove i) = blacklistRemoveCmd E i"
| "run_command E BlacklistList = blacklistListCmd E"
| "run_command E (Info i) = infoCmd E i"
| "run_command E (SendMsg target tag content) = sendCmd E target tag content"
| "run_command E (Poll cid limit sinceTS sinceID) = pollCmd E cid limit sinceTS sinceID"
| "run_command E (GroupCreate name) = groupCreateCmd E name"
| "run_command E (GroupLeave i) = groupLeaveCmd E i"
| "run_command E (GroupInvite groupID agentID) = groupInviteCmd E groupID agentID"

end
