(* ===== verification/CliRuns.thy ===== *)
theory CliRuns
  imports Cli
begin

text \<open>
  What the commands of \<open>cli/cmd/bobber/main.go\<close> send and keep: credentials, routes of the server, and
  the settings after a login and a logout.
\<close>

section \<open>The requests of an operation\<close>

text \<open>An operation only adds requests that satisfy a property, whatever it returns.\<close>

definition sends :: "(http_request \<Rightarrow> bool) \<Rightarrow> ('a, 'v) cli \<Rightarrow> bool" where
  "sends P m \<longleftrightarrow> (\<forall>s. \<exists>new. cs_sent (snd (m s)) = cs_sent s @ new \<and> (\<forall>q \<in> set new. P q))"

named_theorems sends_intros \<open>operations and the requests they send\<close>

lemma sendsD: "sends P m \<Longrightarrow> m s = (r, s') \<Longrightarrow> \<exists>new. cs_sent s' = cs_sent s @ new \<and> (\<forall>q \<in> set new. P q)"
  by (auto simp: sends_def dest: spec [of _ s])

lemma sends_quiet: "(\<And>s. cs_sent (snd (m s)) = cs_sent s) \<Longrightarrow> sends P m"
  by (simp add: sends_def)

lemma sends_bindE [sends_intros]:
  assumes "sends P m" "\<And>x. sends P (f x)"
  shows "sends P (bindE m f)"
  unfolding sends_def
proof
  fix s
  obtain r s1 where m: "m s = (r, s1)" by (cases "m s")
  then obtain n1 where n1: "cs_sent s1 = cs_sent s @ n1" "\<forall>q \<in> set n1. P q" using sendsD [OF assms(1)] by blast
  show "\<exists>new. cs_sent (snd (bindE m f s)) = cs_sent s @ new \<and> (\<forall>q \<in> set new. P q)"
  proof (cases r)
    case (Inr x)
    obtain r2 s2 where f: "f x s1 = (r2, s2)" by (cases "f x s1")
    then obtain n2 where "cs_sent s2 = cs_sent s1 @ n2" "\<forall>q \<in> set n2. P q" using sendsD [OF assms(2)] by blast
    with n1 show ?thesis by (intro exI [of _ "n1 @ n2"]) (auto simp: bindE_def m Inr f)
  qed (use n1 in \<open>auto simp: bindE_def m\<close>)
qed

lemma sends_wrapE [sends_intros]: "sends P m \<Longrightarrow> sends P (wrapE msg m)"
  unfolding sends_def wrapE_def by (auto split: prod.splits sum.splits) (metis snd_conv)+

lemma sends_lift_bind:
  assumes "\<And>x. r = Ok x \<Longrightarrow> sends P (f x)"
  shows "sends P (bindE (liftE r) f)"
proof (cases r)
  case (Inr x)
  then have "bindE (liftE r) f = f x" by (simp add: bindE_def liftE_def fun_eq_iff)
  with assms [OF Inr] show ?thesis by simp
qed (simp add: sends_def bindE_def liftE_def)

lemma sends_pure [sends_intros]:
  "sends P (returnE x)" "sends P (failE e)" "sends P (liftE r)" "sends P (get_state f)" "sends P (cliSet E k v)"
  "sends P (prettyPrint a)" "sends P (print_map m)" "sends P (readSecret E)"
  by (intro sends_quiet, simp add: returnE_def failE_def liftE_def get_state_def cliSet_def prettyPrint_def print_map_def
      readSecret_def)+

lemma sends_saveConfig [sends_intros]: "sends P (saveConfig E)"
  by (intro sends_quiet) (auto simp: saveConfig_def Let_def split: sum.splits)

lemma sends_finish_json [sends_intros]: "P (set_timeout cli_timeout q) \<Longrightarrow> sends P (finish_json E q)"
proof -
  assume "P (set_timeout cli_timeout q)"
  then have "sends P (cliDo E (set_timeout cli_timeout q))" by (auto simp: sends_def cliDo_def)
  then show ?thesis unfolding finish_json_def by (auto intro!: sends_intros)
qed

text \<open>The requests that the two helpers make.\<close>

definition token_request :: "string \<Rightarrow> http_request \<Rightarrow> http_request" where
  "token_request token req =
     (let req1 = set_header ''Content-Type'' ''application/json'' req in
      set_timeout cli_timeout (if token \<noteq> [] then set_header ''Authorization'' (''Bearer '' @ token) req1 else req1))"

definition agent_request :: "string \<Rightarrow> string \<Rightarrow> http_request \<Rightarrow> http_request" where
  "agent_request aid sec req =
     set_timeout cli_timeout (set_header ''X-API-Secret'' sec (set_header ''X-Agent-ID'' aid
       (set_header ''Content-Type'' ''application/json'' req)))"

lemma sends_doJSON:
  assumes "\<And>req. NewRequest (cl_lower E) mth raw (payload_text body) = Ok req \<Longrightarrow> P (token_request token req)"
  shows "sends P (doJSON E mth raw token body)"
proof (cases "NewRequest (cl_lower E) mth raw (payload_text body)")
  case (Inl e)
  then show ?thesis by (intro sends_quiet) (simp add: doJSON_def bindE_def liftE_def)
next
  case (Inr req)
  have "sends P (finish_json E (if token \<noteq> [] then set_header ''Authorization'' (''Bearer '' @ token)
      (set_header ''Content-Type'' ''application/json'' req) else set_header ''Content-Type'' ''application/json'' req))"
    using assms [OF Inr] by (intro sends_intros) (simp add: token_request_def Let_def split: if_splits)
  moreover have "doJSON E mth raw token body = finish_json E (if token \<noteq> [] then set_header ''Authorization'' (''Bearer '' @ token)
      (set_header ''Content-Type'' ''application/json'' req) else set_header ''Content-Type'' ''application/json'' req)"
    by (rule ext) (simp add: doJSON_def bindE_def liftE_def Inr Let_def)
  ultimately show ?thesis by simp
qed

lemma sends_doJSONAgent:
  assumes "\<And>req. NewRequest (cl_lower E) mth raw (payload_text body) = Ok req \<Longrightarrow> P (agent_request aid sec req)"
  shows "sends P (doJSONAgent E mth raw aid sec body)"
proof (cases "NewRequest (cl_lower E) mth raw (payload_text body)")
  case (Inl e)
  then show ?thesis by (intro sends_quiet) (simp add: doJSONAgent_def bindE_def liftE_def)
next
  case (Inr req)
  have "sends P (finish_json E (set_header ''X-API-Secret'' sec (set_header ''X-Agent-ID'' aid
       (set_header ''Content-Type'' ''application/json'' req))))"
    using assms [OF Inr] by (intro sends_intros) (simp add: agent_request_def)
  moreover have "doJSONAgent E mth raw aid sec body = finish_json E (set_header ''X-API-Secret'' sec (set_header ''X-Agent-ID'' aid
       (set_header ''Content-Type'' ''application/json'' req)))"
    by (rule ext) (simp add: doJSONAgent_def bindE_def liftE_def Inr)
  ultimately show ?thesis by simp
qed

section \<open>Credentials\<close>

definition token_ok :: "string \<Rightarrow> bool" where
  "token_ok t \<longleftrightarrow> t \<noteq> [] \<and> TrimSpace t = t"

definition by_token :: "http_request \<Rightarrow> bool" where
  "by_token q \<longleftrightarrow> (\<exists>t. token_ok t \<and> map_get (hr_Header q) ''Authorization'' = Some (''Bearer '' @ t))"

definition by_agent :: "http_request \<Rightarrow> bool" where
  "by_agent q \<longleftrightarrow> (\<exists>i t. token_ok i \<and> token_ok t \<and> map_get (hr_Header q) ''X-Agent-ID'' = Some i
     \<and> map_get (hr_Header q) ''X-API-Secret'' = Some t)"

lemma by_token_request: "token_ok t \<Longrightarrow> by_token (token_request t req)"
  by (auto simp: by_token_def token_request_def Let_def token_ok_def)

lemma by_agent_request: "token_ok i \<Longrightarrow> token_ok t \<Longrightarrow> by_agent (agent_request i t req)"
  by (auto simp: by_agent_def agent_request_def)

text \<open>The guards hand out trimmed, non-empty credentials only.\<close>

lemma sends_with_token [sends_intros]:
  assumes "\<And>base token. token_ok token \<Longrightarrow> sends P (k base token)"
  shows "sends P (with_token E k)"
  unfolding sends_def
proof
  fix s
  have "cli_token E s \<noteq> [] \<Longrightarrow> token_ok (cli_token E s)" by (simp add: token_ok_def cli_token_def TrimSpace_idem)
  then show "\<exists>new. cs_sent (snd (with_token E k s)) = cs_sent s @ new \<and> (\<forall>q \<in> set new. P q)"
    using assms unfolding with_token_def sends_def by (cases "cli_token E s = []") auto
qed

lemma sends_with_agent [sends_intros]:
  assumes "\<And>base i t. token_ok i \<Longrightarrow> token_ok t \<Longrightarrow> sends P (k base i t)"
  shows "sends P (with_agent E missing k)"
  unfolding sends_def
proof
  fix s
  have "cli_agentID E s \<noteq> [] \<Longrightarrow> token_ok (cli_agentID E s)" "cli_apiSecret E s \<noteq> [] \<Longrightarrow> token_ok (cli_apiSecret E s)"
    by (simp_all add: token_ok_def cli_agentID_def cli_apiSecret_def TrimSpace_idem)
  then show "\<exists>new. cs_sent (snd (with_agent E missing k s)) = cs_sent s @ new \<and> (\<forall>q \<in> set new. P q)"
    using assms unfolding with_agent_def sends_def by (cases "cli_agentID E s = [] \<or> cli_apiSecret E s = []") auto
qed

lemmas command_defs = agentCreateCmd_def agentUseCmd_def agentRotateSecretCmd_def agentDeleteCmd_def loginCmd_def whoamiCmd_def
  logoutCmd_def clearAgentCreds_def lsCmd_def connectCmd_def inboxCmd_def acceptCmd_def rejectCmd_def blacklistAddCmd_def
  blacklistRemoveCmd_def blacklistListCmd_def infoCmd_def sendCmd_def pollCmd_def groupCreateCmd_def groupLeaveCmd_def
  groupInviteCmd_def

definition account_command :: "command \<Rightarrow> bool" where
  "account_command c = (case c of AccountRegister _ _ \<Rightarrow> True | AccountLogin _ _ \<Rightarrow> True | _ \<Rightarrow> False)"

lemma sends_doJSON_token [sends_intros]:
  "token_ok t \<Longrightarrow> sends (\<lambda>q. by_token q \<or> by_agent q) (doJSON E mth raw t body)"
  by (rule sends_doJSON) (simp add: by_token_request)

lemma sends_doJSONAgent_creds [sends_intros]:
  "token_ok i \<Longrightarrow> token_ok t \<Longrightarrow> sends (\<lambda>q. by_token q \<or> by_agent q) (doJSONAgent E mth raw i t body)"
  by (rule sends_doJSONAgent) (simp add: by_agent_request)

text \<open>
  C14. No command but those of the account sends a request without credentials: every request carries
  the access token, or the identifier and the secret of the agent, trimmed and not empty.
\<close>

theorem cli_credentials:
  assumes "\<not> account_command c" "run_command E c s = (r, s')"
  shows "\<exists>new. cs_sent s' = cs_sent s @ new \<and> (\<forall>q \<in> set new. by_token q \<or> by_agent q)"
proof -
  have "sends (\<lambda>q. by_token q \<or> by_agent q) (run_command E c)"
    using assms(1) by (cases c) (auto simp: account_command_def command_defs Let_def intro!: sends_intros)
  from sendsD [OF this assms(2)] show ?thesis .
qed

section \<open>Routes\<close>

text \<open>A request the server has a route for, one that takes the credentials the request carries.\<close>

definition routed :: "libs \<Rightarrow> app \<Rightarrow> http_request \<Rightarrow> bool" where
  "routed L a q \<longleftrightarrow>
     (\<exists>b h. route_for (registerRoutes L a) (hr_Method q) (path_segments (url_Path (hr_URL q))) = Some (b, h)
        \<and> (by_token q \<longrightarrow> (\<exists>sec g. h = requireAuth L a True sec g))
        \<and> (by_agent q \<longrightarrow> (\<exists>jwt g. h = requireAuth L a jwt True g)))"

lemmas route_simps = route_for_def registerRoutes_def public_routes_def protected_routes_def protected_table_def map_filter_def

lemma account_routes:
  "route_for (registerRoutes L a) ''POST'' [''v1'', ''auth'', ''register''] = Some ([], handleRegister L a)"
  "route_for (registerRoutes L a) ''POST'' [''v1'', ''auth'', ''login''] = Some ([], handleLogin L a)"
  by (simp_all add: route_simps)

lemma token_routes:
  "route_for (registerRoutes L a) ''POST'' [''v1'', ''agents''] = Some ([], requireAuth L a True False (handleCreateAgent L a))"
  "i \<noteq> [] \<Longrightarrow> route_for (registerRoutes L a) ''DELETE'' [''v1'', ''agents'', i]
     = Some ([(''id'', i)], requireAuth L a True False (handleDeleteAgent L a))"
  "i \<noteq> [] \<Longrightarrow> route_for (registerRoutes L a) ''POST'' [''v1'', ''agents'', i, ''rotate-secret'']
     = Some ([(''id'', i)], requireAuth L a True False (handleRotateSecret L a))"
  "i \<noteq> [] \<Longrightarrow> route_for (registerRoutes L a) ''GET'' [''v1'', ''info'', i]
     = Some ([(''id'', i)], requireAuth L a True True (handleEntityInfo L a))"
  "route_for (registerRoutes L a) ''GET'' [''v1'', ''conversations''] = Some ([], requireAuth L a True False (handleListConversations L a))"
  "route_for (registerRoutes L a) ''GET'' [''v1'', ''messages'', ''poll''] = Some ([], requireAuth L a True False (handlePollMessages L a))"
  "route_for (registerRoutes L a) ''POST'' [''v1'', ''groups''] = Some ([], requireAuth L a True False (handleCreateGroup L a))"
  "i \<noteq> [] \<Longrightarrow> route_for (registerRoutes L a) ''POST'' [''v1'', ''groups'', i, ''leave'']
     = Some ([(''id'', i)], requireAuth L a True True (handleLeaveGroup L a))"
  by (simp_all add: route_simps)

lemma agent_routes:
  "route_for (registerRoutes L a) ''POST'' [''v1'', ''connections'', ''request'']
     = Some ([], requireAuth L a False True (handleConnectionRequest L a))"
  "route_for (registerRoutes L a) ''GET'' [''v1'', ''connections'', ''inbox'']
     = Some ([], requireAuth L a False True (handleConnectionInbox L a))"
  "i \<noteq> [] \<Longrightarrow> route_for (registerRoutes L a) ''POST'' [''v1'', ''connections'', i, ''accept'']
     = Some ([(''id'', i)], requireAuth L a False True (handleConnectionAccept L a))"
  "i \<noteq> [] \<Longrightarrow> route_for (registerRoutes L a) ''POST'' [''v1'', ''connections'', i, ''reject'']
     = Some ([(''id'', i)], requireAuth L a False True (handleConnectionReject L a))"
  "route_for (registerRoutes L a) ''GET'' [''v1'', ''blacklist''] = Some ([], requireAuth L a False True (handleListBlacklist L a))"
  "route_for (registerRoutes L a) ''POST'' [''v1'', ''blacklist''] = Some ([], requireAuth L a False True (handleBlacklist L a))"
  "i \<noteq> [] \<Longrightarrow> route_for (registerRoutes L a) ''DELETE'' [''v1'', ''blacklist'', i]
     = Some ([(''id'', i)], requireAuth L a False True (handleUnblacklist L a))"
  "route_for (registerRoutes L a) ''POST'' [''v1'', ''messages'', ''send'']
     = Some ([], requireAuth L a True True (handleSendMessage L a))"
  by (simp_all add: route_simps)

text \<open>The base URL of a server: its scheme and its host.\<close>

definition base_ok :: "string \<Rightarrow> bool" where
  "base_ok base \<longleftrightarrow> (\<exists>sch h. web_scheme sch \<and> host_ok h \<and> \<not> HasSuffix h '':'' \<and> base = sch @ ''://'' @ h)"

definition segs_ok :: "string list \<Rightarrow> bool" where
  "segs_ok ss \<longleftrightarrow> ss \<noteq> [] \<and> (\<forall>x \<in> set ss. list_all url_char x)"

definition slash_path :: "string list \<Rightarrow> string" where
  "slash_path ss = CHR ''/'' # Join ss ''/''"

lemma slash_path_ok: "segs_ok ss \<Longrightarrow> path_ok (slash_path ss)"
proof -
  assume ss: "segs_ok ss"
  have "list_all (\<lambda>c. url_char c \<or> c = CHR ''/'' \<or> c = CHR '':'') (Join xs ''/'')" if "\<forall>x \<in> set xs. list_all url_char x" for xs
    using that by (induction xs "''/''" rule: Join.induct) (auto simp: list_all_iff)
  with ss show ?thesis by (simp add: path_ok_def slash_path_def segs_ok_def)
qed

lemma path_segments_slash: "segs_ok ss \<Longrightarrow> path_segments (slash_path ss) = ss"
  using url_char_facts(4)
  by (auto simp: path_segments_def slash_path_def segs_ok_def list_all_iff intro!: Split_Join)

text \<open>The request for a path and a query of the server: its method, its segments and no header yet.\<close>

lemma NewRequest_base:
  assumes "base_ok base" "segs_ok ss" "query_ok qy"
    and "NewRequest ulower mth (base @ slash_path ss @ (if qy = [] then [] else CHR ''?'' # qy)) body = Ok req"
  shows "hr_Method req = mth" "path_segments (url_Path (hr_URL req)) = ss" "hr_Header req = map_make" "hr_Body req = body"
    "url_RawQuery (hr_URL req) = qy"
proof -
  obtain sch h where b: "web_scheme sch" "host_ok h" "\<not> HasSuffix h '':''" "base = sch @ ''://'' @ h"
    using assms(1) by (auto simp: base_ok_def)
  have "base @ slash_path ss @ (if qy = [] then [] else CHR ''?'' # qy) = endpoint_text sch h (slash_path ss) qy"
    by (simp add: b(4) endpoint_text_def)
  then have "req = \<lparr>hr_Method = mth, hr_URL = endpoint_url sch h (slash_path ss) qy, hr_Header = map_make, hr_Body = body,
      hr_Timeout = 0\<rparr>"
    using NewRequest_endpoint [OF b(1-3) slash_path_ok [OF assms(2)] assms(3)] assms(4) by simp
  then show "hr_Method req = mth" "path_segments (url_Path (hr_URL req)) = ss" "hr_Header req = map_make" "hr_Body req = body"
    "url_RawQuery (hr_URL req) = qy"
    by (simp_all add: endpoint_url_def path_segments_slash assms(2))
qed

lemma NewRequest_base_ok:
  assumes "base_ok base" "segs_ok ss" "query_ok qy"
  shows "\<exists>req. NewRequest ulower mth (base @ slash_path ss @ (if qy = [] then [] else CHR ''?'' # qy)) body = Ok req"
proof -
  obtain sch h where b: "web_scheme sch" "host_ok h" "\<not> HasSuffix h '':''" "base = sch @ ''://'' @ h"
    using assms(1) by (auto simp: base_ok_def)
  have "base @ slash_path ss @ (if qy = [] then [] else CHR ''?'' # qy) = endpoint_text sch h (slash_path ss) qy"
    by (simp add: b(4) endpoint_text_def)
  then show ?thesis using NewRequest_endpoint [OF b(1-3) slash_path_ok [OF assms(2)] assms(3)] by simp
qed

lemma token_request_routed:
  assumes "base_ok base" "segs_ok ss" "query_ok qy" "raw = base @ slash_path ss @ (if qy = [] then [] else CHR ''?'' # qy)"
    and "NewRequest ulower mth raw body = Ok req"
    and "route_for (registerRoutes L a) mth ss = Some (b, requireAuth L a True sec g)"
  shows "routed L a (token_request t req)"
proof -
  note r = NewRequest_base [OF assms(1-3) assms(5) [unfolded assms(4)]]
  have "\<not> by_agent (token_request t req)" by (simp add: by_agent_def token_request_def Let_def r(3))
  moreover have "hr_Method (token_request t req) = mth" "hr_URL (token_request t req) = hr_URL req"
    by (simp_all add: token_request_def Let_def r(1))
  ultimately show ?thesis using assms(6) r(2) unfolding routed_def by auto
qed

lemma agent_request_routed:
  assumes "base_ok base" "segs_ok ss" "raw = base @ slash_path ss" "NewRequest ulower mth raw body = Ok req"
    and "route_for (registerRoutes L a) mth ss = Some (b, requireAuth L a jwt True g)"
  shows "routed L a (agent_request i t req)"
proof -
  have raw: "NewRequest ulower mth (base @ slash_path ss @ (if [] = ([]::string) then [] else CHR ''?'' # [])) body = Ok req"
    using assms(3,4) by simp
  note r = NewRequest_base [OF assms(1,2) _ raw, simplified query_ok_def list.pred_inject simp_thms]
  have "\<not> by_token (agent_request i t req)" by (simp add: by_token_def agent_request_def r(3))
  moreover have "hr_Method (agent_request i t req) = mth" "hr_URL (agent_request i t req) = hr_URL req"
    by (simp_all add: agent_request_def r(1))
  ultimately show ?thesis using assms(5) r(2) unfolding routed_def by auto
qed

lemma routed_doJSON:
  assumes "route_for (registerRoutes L a) mth ss = Some (b, requireAuth L a True sec g)"
    and "base_ok base" "segs_ok ss" "query_ok qy" "raw = base @ slash_path ss @ (if qy = [] then [] else CHR ''?'' # qy)"
  shows "sends (routed L a) (doJSON E mth raw t body)"
  by (rule sends_doJSON) (rule token_request_routed [OF assms(2-5) _ assms(1)])

lemma routed_doJSONAgent:
  assumes "route_for (registerRoutes L a) mth ss = Some (b, requireAuth L a jwt True g)"
    and "base_ok base" "segs_ok ss" "raw = base @ slash_path ss"
  shows "sends (routed L a) (doJSONAgent E mth raw i t body)"
  by (rule sends_doJSONAgent) (rule agent_request_routed [OF assms(2-4) _ assms(1)])

lemma url_char_letters [simp]:
  "url_char CHR ''a''" "url_char CHR ''b''" "url_char CHR ''c''" "url_char CHR ''d''" "url_char CHR ''e''"
  "url_char CHR ''f''" "url_char CHR ''g''" "url_char CHR ''h''" "url_char CHR ''i''" "url_char CHR ''j''"
  "url_char CHR ''k''" "url_char CHR ''l''" "url_char CHR ''m''" "url_char CHR ''n''" "url_char CHR ''o''"
  "url_char CHR ''p''" "url_char CHR ''q''" "url_char CHR ''r''" "url_char CHR ''s''" "url_char CHR ''t''"
  "url_char CHR ''u''" "url_char CHR ''v''" "url_char CHR ''w''" "url_char CHR ''x''" "url_char CHR ''y''"
  "url_char CHR ''z''" "url_char CHR ''1''" "url_char CHR ''-''"
  by code_simp+

text \<open>An identifier in a path: not empty, unreserved characters only.\<close>

definition path_id :: "string \<Rightarrow> bool" where
  "path_id i \<longleftrightarrow> i \<noteq> [] \<and> list_all url_char i"

lemma no_query: "query_ok []"
  by (simp add: query_ok_def)

lemmas endpoint_simps = segs_ok_def slash_path_def path_id_def no_query

lemma routed_token_endpoints:
  assumes "base_ok base"
  shows "sends (routed L a) (doJSON E ''POST'' (base @ ''/v1/agents'') t body)"
    and "path_id i \<Longrightarrow> sends (routed L a) (doJSON E ''DELETE'' (base @ ''/v1/agents/'' @ i) t body)"
    and "path_id i \<Longrightarrow> sends (routed L a) (doJSON E ''POST'' (base @ ''/v1/agents/'' @ i @ ''/rotate-secret'') t body)"
    and "path_id i \<Longrightarrow> sends (routed L a) (doJSON E ''GET'' (base @ ''/v1/info/'' @ i) t body)"
    and "query_ok q \<Longrightarrow> q \<noteq> [] \<Longrightarrow> sends (routed L a) (doJSON E ''GET'' (base @ ''/v1/conversations?'' @ q) t body)"
    and "sends (routed L a) (doJSON E ''GET'' (base @ ''/v1/conversations'') t body)"
    and "query_ok q \<Longrightarrow> q \<noteq> [] \<Longrightarrow> sends (routed L a) (doJSON E ''GET'' (base @ ''/v1/messages/poll?'' @ q) t body)"
    and "sends (routed L a) (doJSON E ''POST'' (base @ ''/v1/groups'') t body)"
    and "path_id i \<Longrightarrow> sends (routed L a) (doJSON E ''POST'' (base @ ''/v1/groups/'' @ i @ ''/leave'') t body)"
  subgoal by (rule routed_doJSON [OF token_routes(1) assms _ no_query]) (simp_all add: endpoint_simps)
  subgoal by (rule routed_doJSON [OF token_routes(2) assms _ no_query]) (simp_all add: endpoint_simps)
  subgoal by (rule routed_doJSON [OF token_routes(3) assms _ no_query]) (simp_all add: endpoint_simps)
  subgoal by (rule routed_doJSON [OF token_routes(4) assms _ no_query]) (simp_all add: endpoint_simps)
  subgoal by (rule routed_doJSON [OF token_routes(5) assms, where qy = q]) (simp_all add: endpoint_simps)
  subgoal by (rule routed_doJSON [OF token_routes(5) assms _ no_query]) (simp_all add: endpoint_simps)
  subgoal by (rule routed_doJSON [OF token_routes(6) assms, where qy = q]) (simp_all add: endpoint_simps)
  subgoal by (rule routed_doJSON [OF token_routes(7) assms _ no_query]) (simp_all add: endpoint_simps)
  subgoal by (rule routed_doJSON [OF token_routes(8) assms _ no_query]) (simp_all add: endpoint_simps)
  done

lemma routed_agent_endpoints:
  assumes "base_ok base"
  shows "sends (routed L a) (doJSONAgent E ''POST'' (base @ ''/v1/connections/request'') u t body)"
    and "sends (routed L a) (doJSONAgent E ''GET'' (base @ ''/v1/connections/inbox'') u t body)"
    and "path_id i \<Longrightarrow> sends (routed L a) (doJSONAgent E ''POST'' (base @ ''/v1/connections/'' @ i @ ''/accept'') u t body)"
    and "path_id i \<Longrightarrow> sends (routed L a) (doJSONAgent E ''POST'' (base @ ''/v1/connections/'' @ i @ ''/reject'') u t body)"
    and "sends (routed L a) (doJSONAgent E ''GET'' (base @ ''/v1/blacklist'') u t body)"
    and "sends (routed L a) (doJSONAgent E ''POST'' (base @ ''/v1/blacklist'') u t body)"
    and "path_id i \<Longrightarrow> sends (routed L a) (doJSONAgent E ''DELETE'' (base @ ''/v1/blacklist/'' @ i) u t body)"
    and "sends (routed L a) (doJSONAgent E ''POST'' (base @ ''/v1/messages/send'') u t body)"
    and "path_id i \<Longrightarrow> sends (routed L a) (doJSONAgent E ''GET'' (base @ ''/v1/info/'' @ i) u t body)"
  subgoal by (rule routed_doJSONAgent [OF agent_routes(1) assms]) (simp_all add: endpoint_simps)
  subgoal by (rule routed_doJSONAgent [OF agent_routes(2) assms]) (simp_all add: endpoint_simps)
  subgoal by (rule routed_doJSONAgent [OF agent_routes(3) assms]) (simp_all add: endpoint_simps)
  subgoal by (rule routed_doJSONAgent [OF agent_routes(4) assms]) (simp_all add: endpoint_simps)
  subgoal by (rule routed_doJSONAgent [OF agent_routes(5) assms]) (simp_all add: endpoint_simps)
  subgoal by (rule routed_doJSONAgent [OF agent_routes(6) assms]) (simp_all add: endpoint_simps)
  subgoal by (rule routed_doJSONAgent [OF agent_routes(7) assms]) (simp_all add: endpoint_simps)
  subgoal by (rule routed_doJSONAgent [OF agent_routes(8) assms]) (simp_all add: endpoint_simps)
  subgoal by (rule routed_doJSONAgent [OF token_routes(4) assms]) (simp_all add: endpoint_simps)
  done

lemma ask_password_state: "ask_password E p s = (r, s') \<Longrightarrow> s' = s"
  by (auto simp: ask_password_def readSecret_def bindE_def wrapE_def liftE_def returnE_def failE_def split: if_splits sum.splits)

lemma routed_account_endpoints:
  assumes "base_ok base"
  shows "sends (routed L a) (doJSON E ''POST'' (base @ ''/v1/auth/register'') [] body)"
    and "sends (routed L a) (doJSON E ''POST'' (base @ ''/v1/auth/login'') [] body)"
proof -
  have pub: "sends (routed L a) (doJSON E mth raw [] body)"
    if "route_for (registerRoutes L a) mth ss = Some (b, h)" "segs_ok ss" "raw = base @ slash_path ss" for mth raw ss b h
  proof (rule sends_doJSON)
    fix req assume "NewRequest (cl_lower E) mth raw (payload_text body) = Ok req"
    then have raw: "NewRequest (cl_lower E) mth (base @ slash_path ss @ (if [] = ([]::string) then [] else CHR ''?'' # [])) (payload_text body) = Ok req"
      using that(3) by simp
    note r = NewRequest_base [OF assms that(2) no_query raw]
    have "\<not> by_agent (token_request [] req)" "\<not> by_token (token_request [] req)"
      by (simp_all add: by_agent_def by_token_def token_request_def Let_def r(3))
    moreover have "hr_Method (token_request [] req) = mth" "hr_URL (token_request [] req) = hr_URL req"
      by (simp_all add: token_request_def Let_def r(1))
    ultimately show "routed L a (token_request [] req)" using that(1) r(2) unfolding routed_def by auto
  qed
  show "sends (routed L a) (doJSON E ''POST'' (base @ ''/v1/auth/register'') [] body)"
    by (rule pub [OF account_routes(1)]) (simp_all add: endpoint_simps)
  show "sends (routed L a) (doJSON E ''POST'' (base @ ''/v1/auth/login'') [] body)"
    by (rule pub [OF account_routes(2)]) (simp_all add: endpoint_simps)
qed

text \<open>The arguments that become part of a URL: identifiers in a path, values in a query.\<close>

fun args_ok :: "command \<Rightarrow> bool" where
  "args_ok (AgentUse i) = path_id i"
| "args_ok (AgentRotateSecret i) = path_id i"
| "args_ok (AgentDelete i) = path_id i"
| "args_ok (Accept i) = path_id i"
| "args_ok (Reject i) = path_id i"
| "args_ok (BlacklistRemove i) = path_id i"
| "args_ok (Info i) = path_id i"
| "args_ok (Poll i n ts si) = (query_ok i \<and> query_ok ts \<and> query_ok si)"
| "args_ok (GroupLeave i) = path_id i"
| "args_ok _ = True"

text \<open>Where the guards let a command through, its requests go to the configured server.\<close>

definition sent_by :: "(http_request \<Rightarrow> bool) \<Rightarrow> ('a, 'v) cli \<Rightarrow> 'v cli_state \<Rightarrow> bool" where
  "sent_by P m s \<longleftrightarrow> (\<exists>new. cs_sent (snd (m s)) = cs_sent s @ new \<and> (\<forall>q \<in> set new. P q))"

lemma sent_by_sends: "sends P m \<Longrightarrow> sent_by P m s"
  by (simp add: sends_def sent_by_def)

lemma sent_by_with_token: "sends P (k (backendURL E s) (cli_token E s)) \<Longrightarrow> sent_by P (with_token E k) s"
  unfolding sent_by_def sends_def with_token_def by auto

lemma sent_by_with_agent:
  "sends P (k (backendURL E s) (cli_agentID E s) (cli_apiSecret E s)) \<Longrightarrow> sent_by P (with_agent E missing k) s"
  unfolding sent_by_def sends_def with_agent_def by auto

lemma sent_by_password:
  assumes "\<And>p. sends P (k p (backendURL E s))"
  shows "sent_by P (bindE (ask_password E pw) (\<lambda>p. bindE (get_state (backendURL E)) (k p))) s"
proof (cases "ask_password E pw s")
  case (Pair r s1)
  then have "s1 = s" by (rule ask_password_state)
  with Pair assms show ?thesis
    by (cases r) (auto simp: sent_by_def sends_def bindE_def get_state_def)
qed

lemma poll_query_ok: "args_ok (Poll i n ts si) \<Longrightarrow> query_ok (poll_query i n ts si) \<and> poll_query i n ts si \<noteq> []"
proof -
  assume a: "args_ok (Poll i n ts si)"
  have d: "query_ok (dec_digits k)" for k
  proof -
    have "list_all is_digit (dec_digits k)" using dec_digits_all_digits [of k] by (simp add: all_digits_def)
    then show ?thesis by (auto simp: query_ok_def list_all_iff is_digit_def less_eq_char_def)
  qed
  have lits: "query_ok ''conversation_id=''" "query_ok ''&limit=''" "query_ok ''&since_ts=''" "query_ok ''&since_id=''" by code_simp+
  have app: "query_ok (x @ y) \<longleftrightarrow> query_ok x \<and> query_ok y" for x y by (simp add: query_ok_def)
  have opt: "query_ok (if c then x else [])" if "c \<Longrightarrow> query_ok x" for c x using that no_query by simp
  have "query_ok (poll_query i n ts si)"
    unfolding poll_query_def app using a d lits by (intro conjI opt) (simp_all only: app Itoa_def args_ok.simps if_False split: if_splits, auto)
  moreover have "poll_query i n ts si \<noteq> []" by (simp add: poll_query_def)
  ultimately show ?thesis ..
qed


section \<open>Witnesses\<close>

text \<open>Settings as a function, a terminal at which \<open>s3\<close> is typed, and a server that answers \<open>{}\<close>.\<close>

definition sample_cli :: "(string \<Rightarrow> string) cli_lib" where
  "sample_cli = \<lparr>vp_GetString = (\<lambda>v. v), vp_Set = (\<lambda>k x v. v(k := x)), vp_ConfigFileUsed = (\<lambda>_. ''/home/u/.config/bobber/config.yaml''),
     vp_SetConfigFile = (\<lambda>_ v. v), vp_WriteConfig = (\<lambda>_. Ok ()), vp_SafeWriteConfigAs = (\<lambda>_ _. Ok ()),
     os_UserConfigDir = Ok ''/home/u/.config'', os_MkdirAll = (\<lambda>_. Ok ()), os_Stat = (\<lambda>_. Ok ()),
     term_IsTerminal = True, term_ReadPassword = Ok ''s3'', cl_NewString = ''n1'',
     cl_Do = (\<lambda>_ _. Ok \<lparr>hs_StatusCode = 200, hs_Body = ''{}'', hs_ReadErr = None\<rparr>), cl_lower = id\<rparr>"

definition sample_settings :: "string \<Rightarrow> string" where
  "sample_settings = (\<lambda>_. [])(''backend_url'' := ''http://localhost:8080'', ''token'' := ''t1'', ''agent_id'' := ''a1'', ''api_secret'' := ''s1'')"

definition sample_cli_state :: "(string \<Rightarrow> string) cli_state" where
  "sample_cli_state = \<lparr>cs_viper = sample_settings, cs_sent = [], cs_printed = [], cs_written = []\<rparr>"

lemma trim_samples: "TrimSpace ''a1'' = ''a1''" "TrimSpace ''s1'' = ''s1''" "TrimSpace ''t1'' = ''t1''" "TrimSpace ''s3'' = ''s3''"
  "TrimSpace ''http://localhost:8080'' = ''http://localhost:8080''" "TrimSpace [] = []"
  by code_simp+

text \<open>A message of the sample agent, sent.\<close>

lemma sample_credentials:
  "backendURL sample_cli sample_cli_state = ''http://localhost:8080''" "cli_agentID sample_cli sample_cli_state = ''a1''"
  "cli_apiSecret sample_cli sample_cli_state = ''s1''" "cli_token sample_cli sample_cli_state = ''t1''"
  by (simp_all add: backendURL_def cli_agentID_def cli_apiSecret_def cli_token_def sample_cli_def sample_cli_state_def
      sample_settings_def trim_samples)

lemma sample_base: "base_ok ''http://localhost:8080''"
proof -
  have "host_ok ''localhost:8080''" "\<not> HasSuffix ''localhost:8080'' '':''" by code_simp+
  then show ?thesis unfolding base_ok_def
    by (intro exI [of _ "''http''"] exI [of _ "''localhost:8080''"]) (simp add: web_scheme_def)
qed

lemma sample_sends:
  "\<exists>s' q. run_command sample_cli (SendMsg ''b2'' ''data'' ''hi'') sample_cli_state = (Ok (), s')
     \<and> cs_sent s' = [q] \<and> hr_Method q = ''POST''"
proof -
  have "host_ok ''localhost:8080''" "\<not> HasSuffix ''localhost:8080'' '':''" "path_ok ''/v1/messages/send''" by code_simp+
  from NewRequest_endpoint [OF _ this no_query, of "''http''" id "''POST''"]
  have req: "NewRequest id ''POST'' ''http://localhost:8080/v1/messages/send'' b
      = Ok \<lparr>hr_Method = ''POST'', hr_URL = endpoint_url ''http'' ''localhost:8080'' ''/v1/messages/send'' [], hr_Header = map_make,
            hr_Body = b, hr_Timeout = 0\<rparr>" for b
    by (simp add: web_scheme_def endpoint_text_def)
  have "decode_map \<lparr>hs_StatusCode = 200, hs_Body = ''{}'', hs_ReadErr = None\<rparr> = Ok (Some [])" by code_simp
  moreover have "cl_lower sample_cli = id" "cl_Do sample_cli = (\<lambda>_ _. Ok \<lparr>hs_StatusCode = 200, hs_Body = ''{}'', hs_ReadErr = None\<rparr>)"
    by (simp_all add: sample_cli_def)
  ultimately show ?thesis
    by (simp add: sendCmd_def with_agent_def sample_credentials doJSONAgent_def bindE_def liftE_def req finish_json_def cliDo_def
        returnE_def print_map_def prettyPrint_def) (simp add: sample_cli_state_def)
qed

theorem cli_credentials_witness:
  "\<exists>s' q. run_command sample_cli (SendMsg ''b2'' ''data'' ''hi'') sample_cli_state = (Ok (), s') \<and> cs_sent s' = [q]
     \<and> (by_token q \<or> by_agent q)"
proof -
  obtain s' q where run: "run_command sample_cli (SendMsg ''b2'' ''data'' ''hi'') sample_cli_state = (Ok (), s')" "cs_sent s' = [q]"
    using sample_sends by blast
  have "\<not> account_command (SendMsg ''b2'' ''data'' ''hi'')" by (simp add: account_command_def)
  from cli_credentials [OF this run(1)] run show ?thesis by (auto simp: sample_cli_state_def)
qed


end
