(* ===== verification/CliSession.thy ===== *)
theory CliSession
  imports CliRuns
begin

text \<open>
  Logging in and out with the command-line client. Every run of the client is a process of its own that
  starts from the settings in the file, so a login or logout is about what was written.
\<close>

text \<open>
  What the client relies on of Viper: an explicit value is what is read back, other settings keep
  their values, and naming the file changes no setting.
\<close>

definition viper_laws :: "'v cli_lib \<Rightarrow> bool" where
  "viper_laws E \<longleftrightarrow>
     (\<forall>v k x k'. vp_GetString E (vp_Set E k x v) k' = (if k' = k then x else vp_GetString E v k'))
     \<and> (\<forall>v f k. vp_GetString E (vp_SetConfigFile E f v) k = vp_GetString E v k)"

text \<open>A later run that finds the settings of the file, with no flag or variable in their place.\<close>

definition starts_from :: "'v cli_lib \<Rightarrow> 'v \<Rightarrow> 'v cli_state \<Rightarrow> bool" where
  "starts_from E v t \<longleftrightarrow>
     list_all (\<lambda>k. vp_GetString E (cs_viper t) k = vp_GetString E v k) [''agent_id'', ''api_secret'', ''token'']"

lemma saveConfig_Ok:
  assumes "saveConfig E s = (Ok (), s')" "viper_laws E"
  shows "\<exists>path v. cs_written s' = cs_written s @ [(path, v)] \<and> cs_sent s' = cs_sent s
    \<and> (\<forall>k. vp_GetString E v k = vp_GetString E (cs_viper s) k)"
  using assms by (auto simp: saveConfig_def Let_def viper_laws_def split: sum.splits if_splits)

text \<open>
  A successful login writes the settings, and a later run that starts from them has the agent's
  identifier and its secret, the one given or the one typed at the prompt, trimmed and not empty. No
  request is sent.
\<close>

theorem cli_login:
  assumes "viper_laws E" "run_command E (Login i secret) s = (Ok (), s')"
  shows "\<exists>path v sec. cs_written s' = cs_written s @ [(path, v)] \<and> cs_sent s' = cs_sent s
    \<and> (TrimSpace secret \<noteq> [] \<longrightarrow> sec = secret) \<and> (TrimSpace secret = [] \<longrightarrow> term_IsTerminal E \<and> term_ReadPassword E = Ok sec)
    \<and> (\<forall>t. starts_from E v t \<longrightarrow> cli_agentID E t = TrimSpace i \<and> cli_apiSecret E t = TrimSpace sec
          \<and> TrimSpace i \<noteq> [] \<and> TrimSpace sec \<noteq> [])"
proof -
  define entry where "entry = (if TrimSpace secret = [] then wrapE ''--secret is required'' (readSecret E) else returnE secret)"
  have i: "TrimSpace i \<noteq> []" using assms(2) by (auto simp: loginCmd_def failE_def)
  with assms(2) obtain sec s1 where sec: "entry s = (Inr sec, s1)"
    and rest: "(if TrimSpace sec = [] then failE (Err ''secret must not be empty'')
        else bindE (cliSet E ''agent_id'' i) (\<lambda>_. bindE (cliSet E ''api_secret'' sec) (\<lambda>_. bindE (saveConfig E) (\<lambda>_.
          print_map (Some (map_from_list [(''agent_id'', AStr i), (''saved'', ABool True)])))))) s1 = (Ok (), s')"
    by (auto simp: loginCmd_def entry_def [symmetric] bindE_Inr)
  have s1: "s1 = s" "TrimSpace secret \<noteq> [] \<longrightarrow> sec = secret"
    "TrimSpace secret = [] \<longrightarrow> term_IsTerminal E \<and> term_ReadPassword E = Ok sec"
    using sec by (auto simp: entry_def returnE_def wrapE_def readSecret_def liftE_def split: if_splits sum.splits)
  have ne: "TrimSpace sec \<noteq> []" using rest by (auto simp: failE_def split: if_splits)
  define s2 where "s2 = s\<lparr>cs_viper := vp_Set E ''api_secret'' sec (vp_Set E ''agent_id'' i (cs_viper s))\<rparr>"
  obtain s3 where save: "saveConfig E s2 = (Inr (), s3)" and out: "cs_written s' = cs_written s3" "cs_sent s' = cs_sent s3"
    using rest ne by (auto simp: s1(1) s2_def bindE_Inr cliSet_def print_map_def prettyPrint_def)
  obtain path v where v: "cs_written s3 = cs_written s2 @ [(path, v)]" "cs_sent s3 = cs_sent s2"
    "\<forall>k. vp_GetString E v k = vp_GetString E (cs_viper s2) k"
    using saveConfig_Ok [OF save assms(1)] by blast
  have "\<forall>t. starts_from E v t \<longrightarrow> cli_agentID E t = TrimSpace i \<and> cli_apiSecret E t = TrimSpace sec"
    using assms(1) v(3) by (simp add: starts_from_def cli_agentID_def cli_apiSecret_def s2_def viper_laws_def)
  with s1(2,3) i ne v(1,2) out show ?thesis by (intro exI [of _ path] exI [of _ v] exI [of _ sec]) (simp add: s2_def)
qed

text \<open>The commands that need credentials.\<close>

definition needs_credentials :: "command \<Rightarrow> bool" where
  "needs_credentials c = (case c of AccountRegister _ _ \<Rightarrow> False | AccountLogin _ _ \<Rightarrow> False | Login _ _ \<Rightarrow> False
     | Logout \<Rightarrow> False | _ \<Rightarrow> True)"

lemma without_credentials:
  assumes "cli_token E t = []" "cli_agentID E t = []" "needs_credentials c"
  shows "\<exists>e. run_command E c t = (Fail e, t)"
  using assms by (cases c) (auto simp: needs_credentials_def command_defs with_token_def with_agent_def)

text \<open>
  C27. After a successful logout a later run that starts from the written settings refuses every command
  that needs credentials: it fails, sends no request and changes nothing.
\<close>

theorem cli_logout:
  assumes "viper_laws E" "run_command E Logout s = (Ok (), s')"
  shows "\<exists>path v. cs_written s' = cs_written s @ [(path, v)] \<and> cs_sent s' = cs_sent s
    \<and> (\<forall>t c. starts_from E v t \<longrightarrow> needs_credentials c \<longrightarrow> (\<exists>e. run_command E c t = (Fail e, t)))"
proof -
  define s2 where "s2 = s\<lparr>cs_viper := vp_Set E ''token'' [] (vp_Set E ''api_secret'' [] (vp_Set E ''agent_id'' [] (cs_viper s)))\<rparr>"
  have save: "saveConfig E s2 = (Ok (), s')"
    using assms(2) by (simp add: logoutCmd_def clearAgentCreds_def bindE_def cliSet_def s2_def)
  obtain path v where v: "cs_written s' = cs_written s2 @ [(path, v)]" "cs_sent s' = cs_sent s2"
    "\<forall>k. vp_GetString E v k = vp_GetString E (cs_viper s2) k"
    using saveConfig_Ok [OF save assms(1)] by blast
  have "cli_token E t = [] \<and> cli_agentID E t = []" if "starts_from E v t" for t
    using that assms(1) v(3) by (simp add: starts_from_def cli_token_def cli_agentID_def s2_def viper_laws_def)
  then show ?thesis using v(1,2) without_credentials [of E] by (intro exI [of _ path] exI [of _ v]) (auto simp: s2_def)
qed

section \<open>Witnesses\<close>

lemma sample_cli_laws: "viper_laws sample_cli"
  by (simp add: viper_laws_def sample_cli_def)

lemma sample_runs:
  "fst (run_command sample_cli (Login ''a1'' []) sample_cli_state) = Ok ()"
  "fst (run_command sample_cli Logout sample_cli_state) = Ok ()"
  by (simp_all add: run_command.simps loginCmd_def logoutCmd_def clearAgentCreds_def trim_samples bindE_def wrapE_def readSecret_def liftE_def
      cliSet_def saveConfig_def print_map_def prettyPrint_def sample_cli_def)

theorem cli_login_witness:
  "\<exists>s' path v. run_command sample_cli (Login ''a1'' []) sample_cli_state = (Ok (), s') \<and> cs_written s' = [(path, v)]
     \<and> v ''agent_id'' = ''a1'' \<and> v ''api_secret'' = ''s3''"
proof -
  obtain s' where run: "run_command sample_cli (Login ''a1'' []) sample_cli_state = (Ok (), s')"
    using sample_runs(1) by (metis prod.collapse)
  obtain path v sec where w: "cs_written s' = [(path, v)]" "term_ReadPassword sample_cli = Ok sec"
    and t: "\<forall>t. starts_from sample_cli v t \<longrightarrow> cli_agentID sample_cli t = TrimSpace ''a1'' \<and> cli_apiSecret sample_cli t = TrimSpace sec"
    using cli_login [OF sample_cli_laws run] by (auto simp: sample_cli_state_def trim_samples)
  have sec: "sec = ''s3''" using w(2) by (simp add: sample_cli_def)
  have saved: "v = sample_settings(''agent_id'' := ''a1'', ''api_secret'' := ''s3'')"
    using run w(1) by (auto simp: loginCmd_def trim_samples bindE_def wrapE_def readSecret_def liftE_def cliSet_def saveConfig_def
      print_map_def prettyPrint_def sample_cli_def sample_cli_state_def)
  have "starts_from sample_cli v (sample_cli_state\<lparr>cs_viper := v\<rparr>)" by (simp add: starts_from_def)
  with t have "cli_agentID sample_cli (sample_cli_state\<lparr>cs_viper := v\<rparr>) = ''a1''" by (simp add: trim_samples)
  with run w(1) saved show ?thesis by simp
qed

theorem cli_logout_witness:
  "\<exists>s' path v e. run_command sample_cli Logout sample_cli_state = (Ok (), s') \<and> cs_written s' = [(path, v)]
     \<and> run_command sample_cli Inbox (sample_cli_state\<lparr>cs_viper := v\<rparr>) = (Fail e, sample_cli_state\<lparr>cs_viper := v\<rparr>)"
proof -
  obtain s' where run: "run_command sample_cli Logout sample_cli_state = (Ok (), s')"
    using sample_runs(2) by (metis prod.collapse)
  obtain path v where w: "cs_written s' = [(path, v)]"
    and t: "\<forall>t c. starts_from sample_cli v t \<longrightarrow> needs_credentials c \<longrightarrow> (\<exists>e. run_command sample_cli c t = (Fail e, t))"
    using cli_logout [OF sample_cli_laws run] by (auto simp: sample_cli_state_def)
  have "starts_from sample_cli v (sample_cli_state\<lparr>cs_viper := v\<rparr>)" by (simp add: starts_from_def)
  moreover have "needs_credentials Inbox" by (simp add: needs_credentials_def)
  ultimately obtain e where "run_command sample_cli Inbox (sample_cli_state\<lparr>cs_viper := v\<rparr>) = (Fail e, sample_cli_state\<lparr>cs_viper := v\<rparr>)"
    using t by blast
  with run w show ?thesis by blast
qed

end
