(* ===== verification/Delivery.thy ===== *)
theory Delivery
  imports Messaging
begin

text \<open>
  Messages arrive: rules of total correctness for the operations of the server, and the proof that a
  proper message is accepted and stored when the database answers and the limiter admits it.
\<close>

section \<open>Operations that succeed\<close>

definition succeeds :: "('a, 's) action \<Rightarrow> 's \<Rightarrow> ('a \<Rightarrow> 's \<Rightarrow> bool) \<Rightarrow> bool" where
  "succeeds m w Q \<longleftrightarrow> (\<exists>x w'. m w = (Inr x, w') \<and> Q x w')"

named_theorems succeeds_intros \<open>what an operation needs to succeed with a property\<close>

lemma succeeds_mono: "succeeds m w Q \<Longrightarrow> (\<And>x w'. Q x w' \<Longrightarrow> R x w') \<Longrightarrow> succeeds m w R"
  by (auto simp: succeeds_def)

lemma succeeds_returnE [succeeds_intros]: "Q x w \<Longrightarrow> succeeds (returnE x) w Q"
  by (simp add: succeeds_def returnE_def)

lemma succeeds_liftE [succeeds_intros]: "r = Inr x \<Longrightarrow> Q x w \<Longrightarrow> succeeds (liftE r) w Q"
  by (simp add: succeeds_def liftE_def)

lemma succeeds_bindE [succeeds_intros]: "succeeds m w (\<lambda>x w1. succeeds (f x) w1 Q) \<Longrightarrow> succeeds (bindE m f) w Q"
  by (auto simp: succeeds_def bindE_def)

lemma succeeds_wrapE [succeeds_intros]: "succeeds m w Q \<Longrightarrow> succeeds (wrapE msg m) w Q"
  by (auto simp: succeeds_def wrapE_def)

lemma succeeds_scanE [succeeds_intros]: "succeeds m w Q \<Longrightarrow> succeeds (scanE msg m) w Q"
  by (auto simp: succeeds_def scanE_def)

lemma succeeds_tryE: "m w = (r, w1) \<Longrightarrow> succeeds (f r) w1 Q \<Longrightarrow> succeeds (tryE m f) w Q"
  by (simp add: succeeds_def tryE_def)

lemma succeeds_orError [succeeds_intros]: "succeeds m w (\<lambda>x w1. succeeds (k x) w1 Q) \<Longrightarrow> succeeds (orError m f k) w Q"
  by (auto simp: succeeds_def orError_def tryE_def)

lemma succeeds_time_Now [succeeds_intros]:
  "Q (w_clock w (w_clock_reads w)) (w\<lparr>w_clock_reads := Suc (w_clock_reads w)\<rparr>) \<Longrightarrow> succeeds time_Now w Q"
  by (simp add: succeeds_def time_Now_def)

lemma succeeds_uuid_New [succeeds_intros]:
  "Q (w_uuid w (w_uuids_used w)) (w\<lparr>w_uuids_used := Suc (w_uuids_used w)\<rparr>) \<Longrightarrow> succeeds uuid_New w Q"
  by (simp add: succeeds_def uuid_New_def)

text \<open>The database answers every statement from now on.\<close>

definition online :: "world \<Rightarrow> bool" where
  "online w \<longleftrightarrow> (\<forall>n \<ge> w_stmts w. w_fault w n = NoFault)"

lemma online_update [simp]:
  "online (w\<lparr>w_db := d\<rparr>) = online w" "online (w\<lparr>w_clock_reads := n\<rparr>) = online w"
  "online (w\<lparr>w_uuids_used := n\<rparr>) = online w" "online (w\<lparr>w_limiter := l\<rparr>) = online w"
  by (simp_all add: online_def)

lemma online_stmts [simp]: "online w \<Longrightarrow> online (w\<lparr>w_stmts := Suc (w_stmts w)\<rparr>)"
  by (simp add: online_def)

lemma stmt_online:
  "online w \<Longrightarrow> stmt q w = (case q (w_db w) of Inl e \<Rightarrow> (Fail e, w\<lparr>w_stmts := Suc (w_stmts w)\<rparr>)
     | Inr (x, d) \<Rightarrow> (Ok x, w\<lparr>w_stmts := Suc (w_stmts w), w_db := d\<rparr>))"
  by (simp add: stmt_def online_def Let_def split: sum.splits prod.splits)

lemma query_online:
  "online w \<Longrightarrow> query q w = (q (w_db w), w\<lparr>w_stmts := Suc (w_stmts w)\<rparr>)"
  by (simp add: query_def stmt_online split: sum.splits)

lemma succeeds_stmt [succeeds_intros]:
  "online w \<Longrightarrow> q (w_db w) = Inr (x, d) \<Longrightarrow> Q x (w\<lparr>w_stmts := Suc (w_stmts w), w_db := d\<rparr>) \<Longrightarrow> succeeds (stmt q) w Q"
  by (simp add: succeeds_def stmt_online)

lemma succeeds_query [succeeds_intros]:
  "online w \<Longrightarrow> q (w_db w) = Inr x \<Longrightarrow> Q x (w\<lparr>w_stmts := Suc (w_stmts w)\<rparr>) \<Longrightarrow> succeeds (query q) w Q"
  by (simp add: succeeds_def query_online)

section \<open>The conversation\<close>

text \<open>What stays as it was while the conversation of a message is found or made.\<close>

definition same_supply :: "world \<Rightarrow> world \<Rightarrow> bool" where
  "same_supply w w' \<longleftrightarrow> online w' \<and> t_messages (w_db w') = t_messages (w_db w)"

lemma succeeds_Create_direct:
  assumes "online w" "low < high" "w_uuid w (w_uuids_used w) \<notin> c_ID ` set (t_conversations (w_db w))"
    "\<forall>c \<in> set (t_conversations (w_db w)). \<not> pair_row low high c"
  shows "succeeds (Conversations_Create (blank_conversation\<lparr>c_Type := ConversationTypeDirect, c_IDLow := Some low, c_IDHigh := Some high\<rparr>)) w
    (\<lambda>c w'. same_supply w w' \<and> c_ID c \<in> c_ID ` set (t_conversations (w_db w')))"
proof -
  let ?row = "\<lambda>i t. blank_conversation\<lparr>c_ID := i, c_Type := ConversationTypeDirect, c_IDLow := Some low, c_IDHigh := Some high,
    c_CreatedAt := t, c_LastMessageID := None, c_LastMessageAt := Some t\<rparr>"
  have "\<not> list_ex (same_pair (?row i t)) (t_conversations (w_db w))" for i t
    using assms(4) by (auto simp: list_ex_iff same_pair_def pair_row_def dest!: bspec)
  then have "insert_conversation (?row i t) (w_db w) = Ok (?row i t, (w_db w)\<lparr>t_conversations := t_conversations (w_db w) @ [?row i t]\<rparr>)"
    if "i \<notin> c_ID ` set (t_conversations (w_db w))" for i t
    using assms(2) that by (simp add: insert_conversation_def check_direct_ids_def group_ref_ok_def blank_conversation_def)
  then show ?thesis using assms(1,3)
    by (simp add: Conversations_Create_def blank_conversation_def new_id_def new_time_def same_supply_def succeeds_def bindE_def scanE_def
        uuid_New_def time_Now_def stmt_online online_def)
qed

lemma succeeds_Participants_Add:
  assumes "online w" "cp_ParticipantKind p \<in> set participant_kinds" "cp_ConversationID p \<in> c_ID ` set (t_conversations (w_db w))"
  shows "succeeds (Participants_Add p) w (\<lambda>_ w'. same_supply w w' \<and> t_conversations (w_db w') = t_conversations (w_db w))"
  using assms
  by (cases "cp_JoinedAt p = zero_time")
    (auto simp: Participants_Add_def new_time_def same_supply_def succeeds_def bindE_def wrapE_def returnE_def time_Now_def stmt_online
      insert_participant_def online_def)

lemma GetDirectByPair_online:
  assumes "online w"
  shows "\<exists>r. Conversations_GetDirectByPair low high w = (r, w\<lparr>w_stmts := Suc (w_stmts w)\<rparr>)
    \<and> (case r of Inr c \<Rightarrow> c \<in> set (t_conversations (w_db w))
       | Inl e \<Rightarrow> e = ErrNotFound \<and> (\<forall>c \<in> set (t_conversations (w_db w)). \<not> pair_row low high c))"
proof (cases "filter (\<lambda>c. c_IDLow c = Some low \<and> c_IDHigh c = Some high) (t_conversations (w_db w))")
  case Nil
  then show ?thesis using assms
    by (auto simp: Conversations_GetDirectByPair_def scanE_def query_online one_row_def pair_row_def filter_empty_conv)
next
  case (Cons c cs)
  then have "c \<in> set (filter (\<lambda>c. c_IDLow c = Some low \<and> c_IDHigh c = Some high) (t_conversations (w_db w)))" by simp
  then have "c \<in> set (t_conversations (w_db w))" by simp
  with Cons show ?thesis using assms by (auto simp: Conversations_GetDirectByPair_def scanE_def query_online one_row_def)
qed

lemma succeeds_GetOrCreateDirect:
  assumes "online w" "uuid_laws U" "i \<noteq> j" "i \<noteq> uuid_Nil" "j \<noteq> uuid_Nil" "{k, l} \<subseteq> set participant_kinds"
    "w_uuid w (w_uuids_used w) \<notin> c_ID ` set (t_conversations (w_db w))"
  shows "succeeds (GetOrCreateDirect U True i j k l) w (\<lambda>c w'. same_supply w w' \<and> c_ID c \<in> c_ID ` set (t_conversations (w_db w')))"
proof -
  define w1 where "w1 = w\<lparr>w_stmts := Suc (w_stmts w)\<rparr>"
  have w1: "online w1" "w_db w1 = w_db w" "w_uuid w1 (w_uuids_used w1) = w_uuid w (w_uuids_used w)"
    using assms(1) by (simp_all add: w1_def)
  obtain r where r: "Conversations_GetDirectByPair (min i j) (max i j) w = (r, w1)"
    and rc: "case r of Inr c \<Rightarrow> c \<in> set (t_conversations (w_db w))
       | Inl e \<Rightarrow> e = ErrNotFound \<and> (\<forall>c \<in> set (t_conversations (w_db w)). \<not> pair_row (min i j) (max i j) c)"
    using GetDirectByPair_online [OF assms(1)] unfolding w1_def by blast
  have less: "min i j < max i j" using assms(3) by (cases "i < j") (auto simp: min_def max_def)
  have add: "succeeds (bindE (Participants_Add p) (\<lambda>_. bindE (Participants_Add q) (\<lambda>_. returnE c))) v
       (\<lambda>c w'. same_supply w w' \<and> c_ID c \<in> c_ID ` set (t_conversations (w_db w')))"
    if "same_supply w v" "c_ID c \<in> c_ID ` set (t_conversations (w_db v))"
      "cp_ConversationID p = c_ID c" "cp_ConversationID q = c_ID c" "cp_ParticipantKind p \<in> set participant_kinds"
      "cp_ParticipantKind q \<in> set participant_kinds" for p q c v
    using that
    by (intro succeeds_bindE succeeds_mono [OF succeeds_Participants_Add] succeeds_returnE) (auto simp: same_supply_def)
  show ?thesis
  proof (cases r)
    case (Inr c)
    then show ?thesis using r rc w1 assms(4,5)
      by (auto simp: GetOrCreateDirect_def order_pair_min_max [OF assms(2)] succeeds_def tryE_def returnE_def same_supply_def)
  next
    case (Inl e)
    with rc have e: "e = ErrNotFound" and new: "\<forall>c \<in> set (t_conversations (w_db w1)). \<not> pair_row (min i j) (max i j) c"
      by (auto simp: w1)
    have "succeeds (bindE (Conversations_Create (blank_conversation\<lparr>c_Type := ConversationTypeDirect, c_IDLow := Some (min i j),
           c_IDHigh := Some (max i j)\<rparr>)) (\<lambda>conv.
         bindE (Participants_Add (new_participant (c_ID conv) (min i j) (if j < i then l else k))) (\<lambda>_.
         bindE (Participants_Add (new_participant (c_ID conv) (max i j) (if j < i then k else l))) (\<lambda>_.
         returnE conv)))) w1 (\<lambda>c w'. same_supply w w' \<and> c_ID c \<in> c_ID ` set (t_conversations (w_db w')))"
      using assms(6,7) w1
      by (intro succeeds_bindE [of "Conversations_Create _"] succeeds_mono [OF succeeds_Create_direct [OF w1(1) less _ new]] add)
        (auto simp: same_supply_def new_participant_def)
    then show ?thesis using r Inl e assms(4,5)
      by (simp add: GetOrCreateDirect_def order_pair_min_max [OF assms(2)] succeeds_tryE errors_Is.simps)
  qed
qed

lemma same_supply_trans: "same_supply w v \<Longrightarrow> same_supply v u \<Longrightarrow> same_supply w u"
  by (simp add: same_supply_def)

lemma succeeds_participant_kind_of:
  assumes "online w"
  shows "succeeds (participant_kind_of i) w (\<lambda>k w'. w' = w\<lparr>w_stmts := Suc (w_stmts w)\<rparr> \<and> k \<in> set participant_kinds)"
  using assms by (simp add: participant_kind_of_def Agents_GetByID_def scanE_def query_online tryE_def returnE_def succeeds_def
      participant_kinds_def split: sum.splits)

text \<open>
  Two participants can talk: the recipient is a group that has its conversation, or the two are
  different and neither is the nil UUID.
\<close>

definition can_reach :: "db \<Rightarrow> uuid \<Rightarrow> uuid \<Rightarrow> bool" where
  "can_reach d from to \<longleftrightarrow>
     (\<exists>g \<in> set (t_groups d). g_ID g = to \<and> g_ConversationID g \<noteq> None) \<or> from \<noteq> to \<and> from \<noteq> uuid_Nil \<and> to \<noteq> uuid_Nil"

lemma filter_key: "distinct (map f xs) \<Longrightarrow> x \<in> set xs \<Longrightarrow> filter (\<lambda>y. f y = f x) xs = [x]"
  by (induction xs) (auto simp: filter_empty_conv image_iff)

lemma group_rows: "db_inv ulower d \<Longrightarrow> g \<in> set (t_groups d) \<Longrightarrow> filter (\<lambda>x. g_ID x = g_ID g) (t_groups d) = [g]"
  by (rule filter_key) (simp_all add: db_inv_def groups_ok_def)

lemma succeeds_resolve_conversation:
  assumes "online w" "db_inv ulower (w_db w)" "uuid_laws (lib_uuid L)" "ap_convSvc a" "fk \<in> set participant_kinds"
    "can_reach (w_db w) from to" "w_uuid w (w_uuids_used w) \<notin> c_ID ` set (t_conversations (w_db w))"
  shows "succeeds (resolve_conversation L a from fk to) w
    (\<lambda>cid w'. same_supply w w' \<and> cid \<in> c_ID ` set (t_conversations (w_db w')))"
proof -
  define w1 where "w1 = w\<lparr>w_stmts := Suc (w_stmts w)\<rparr>"
  define rg where "rg = (case filter (\<lambda>g. g_ID g = to) (t_groups (w_db w)) of [] \<Rightarrow> Inl ErrNotFound | g # _ \<Rightarrow> Inr g)"
  have w1: "online w1" "w_db w1 = w_db w" "w_uuid w1 = w_uuid w" "w_uuids_used w1 = w_uuids_used w"
    using assms(1) by (simp_all add: w1_def)
  have g: "Groups_GetByID to w = (rg, w1)"
    using assms(1) by (simp add: Groups_GetByID_def scanE_def query_online one_row_def rg_def w1_def split: list.splits)
  show ?thesis
  proof (cases "case rg of Inl _ \<Rightarrow> None | Inr g \<Rightarrow> g_ConversationID g")
    case (Some cid)
    then obtain x where x: "rg = Inr x" "g_ConversationID x = Some cid" by (cases rg) auto
    then have "filter (\<lambda>g. g_ID g = to) (t_groups (w_db w)) = x # tl (filter (\<lambda>g. g_ID g = to) (t_groups (w_db w)))"
      by (auto simp: rg_def split: list.splits)
    then have "x \<in> set (filter (\<lambda>g. g_ID g = to) (t_groups (w_db w)))" by (metis list.set_intros(1))
    then have "conv_ref_ok (g_ConversationID x) (w_db w)" using assms(2) by (auto simp: db_inv_def groups_ok_def)
    then have "cid \<in> c_ID ` set (t_conversations (w_db w))" using x by (simp add: conv_ref_ok_def)
    then show ?thesis using Some g w1 by (simp add: resolve_conversation_def succeeds_def tryE_def returnE_def same_supply_def)
  next
    case None
    have "from \<noteq> to \<and> from \<noteq> uuid_Nil \<and> to \<noteq> uuid_Nil"
    proof (rule ccontr)
      assume "\<not> ?thesis"
      then obtain x where "x \<in> set (t_groups (w_db w))" "g_ID x = to" "g_ConversationID x \<noteq> None"
        using assms(6) by (auto simp: can_reach_def)
      then show False using None group_rows [OF assms(2)] by (auto simp: rg_def)
    qed
    moreover have "same_supply w w1" using w1 by (simp add: same_supply_def)
    ultimately have "succeeds (bindE (participant_kind_of to) (\<lambda>toKind.
           bindE (wrapE ''resolve conversation'' (GetOrCreateDirect (lib_uuid L) True from to fk toKind)) (\<lambda>conv.
           returnE (c_ID conv)))) w1 (\<lambda>cid w'. same_supply w w' \<and> cid \<in> c_ID ` set (t_conversations (w_db w')))"
      using assms(3,4,5,7) w1
      by (intro succeeds_bindE succeeds_wrapE succeeds_returnE succeeds_mono [OF succeeds_participant_kind_of]
          succeeds_mono [OF succeeds_GetOrCreateDirect]) (auto simp: same_supply_def)
    then show ?thesis using None g assms(4) by (simp add: resolve_conversation_def succeeds_tryE)
  qed
qed

lemma succeeds_Messages_Save:
  assumes "online w" "m_ParticipantKind m \<in> set participant_kinds" "m_ID m \<notin> m_ID ` set (t_messages (w_db w))"
    "m_ConversationID m \<in> c_ID ` set (t_conversations (w_db w))"
  shows "succeeds (Messages_Save m) w (\<lambda>_ _. True)"
  using assms
  by (simp add: Messages_Save_def insert_message_def new_time_def succeeds_def bindE_def scanE_def wrapE_def returnE_def time_Now_def
      query_online stmt_online online_def)

lemma succeeds_defaultPersistMessage:
  assumes w: "online w" "db_inv ulower (w_db w)" and L: "uuid_laws (lib_uuid L)" "ap_convSvc a"
    and ids: "uuid_Parse (lib_uuid L) (env_From env) = Ok from" "uuid_Parse (lib_uuid L) (env_To env) = Ok to"
      "uuid_Parse (lib_uuid L) (env_ID env) = Ok i" "i \<notin> m_ID ` set (t_messages (w_db w))"
    and ts: "parse_rfc3339 (env_Timestamp env) = Some t"
    and reach: "can_reach (w_db w) from to" "w_uuid w (w_uuids_used w) \<notin> c_ID ` set (t_conversations (w_db w))"
  shows "succeeds (defaultPersistMessage L a env) w (\<lambda>_ _. True)"
proof -
  define w1 where "w1 = w\<lparr>w_stmts := Suc (w_stmts w)\<rparr>"
  have w1: "online w1" "w_db w1 = w_db w" "w_uuid w1 = w_uuid w" "w_uuids_used w1 = w_uuids_used w"
    using w(1) by (simp_all add: w1_def)
  obtain fk where k: "participant_kind_of from w = (Inr fk, w1)" and fk: "fk \<in> set participant_kinds"
    using succeeds_participant_kind_of [OF w(1), of "from"] by (auto simp: succeeds_def w1_def)
  obtain cid w2 where r: "resolve_conversation L a from fk to w1 = (Inr cid, w2)"
    and w2: "same_supply w1 w2" "cid \<in> c_ID ` set (t_conversations (w_db w2))"
    using succeeds_resolve_conversation [OF w1(1) _ L fk, of ulower "from" to] w reach w1 by (auto simp: succeeds_def)
  have "succeeds (Messages_Save \<lparr>m_ID = i, m_FromID = from, m_ConversationID = cid, m_ParticipantKind = fk,
      m_Tag = env_Tag env, m_Content = env_Content env, m_Metadata = env_Metadata env, m_Timestamp = t\<rparr>) w2 (\<lambda>_ _. True)"
    using w2 fk ids(4) w1(2) by (intro succeeds_Messages_Save) (simp_all add: same_supply_def)
  then show ?thesis
    by (auto simp: succeeds_def defaultPersistMessage_def bindE_def wrapE_def liftE_def returnE_def ids ts k r)
qed

section \<open>The limiter\<close>

text \<open>The limiter admits a message of a sender with a tag, asked at the readings \<open>n\<close> and \<open>n + 1\<close> of the clock.\<close>

definition admits :: "world \<Rightarrow> nat \<Rightarrow> string \<Rightarrow> string \<Rightarrow> bool" where
  "admits w n from tag =
     (case w_limiter w of
        None \<Rightarrow> True
      | Some l \<Rightarrow> (case Allow l (w_clock w n) DimensionAgent (AgentKey from) of (ok, l1) \<Rightarrow>
          ok \<and> fst (Allow l1 (w_clock w (Suc n)) DimensionTag (TagKey tag))))"

lemma publish_admits:
  assumes "admits w (w_clock_reads w) (env_From env) (EffectiveTag (Some env))" "\<not> HasPrefix (env_To env) ''group:''"
  shows "\<exists>n l. publishAndAudit L a env w = defaultPersistMessage L a env (w\<lparr>w_clock_reads := n, w_limiter := l\<rparr>)"
proof (cases "w_limiter w")
  case None
  have "w\<lparr>w_clock_reads := w_clock_reads w, w_limiter := w_limiter w\<rparr> = w" by (cases w) simp
  then have "publishAndAudit L a env w = defaultPersistMessage L a env (w\<lparr>w_clock_reads := w_clock_reads w, w_limiter := w_limiter w\<rparr>)"
    using None by (simp only: publish_unlimited)
  then show ?thesis by blast
next
  case (Some l)
  obtain l1 l2 where "Allow l (w_clock w (w_clock_reads w)) DimensionAgent (AgentKey (env_From env)) = (True, l1)"
      "Allow l1 (w_clock w (Suc (w_clock_reads w))) DimensionTag (TagKey (EffectiveTag (Some env))) = (True, l2)"
    using assms(1) Some by (auto simp: admits_def split: prod.splits) (metis prod.collapse)
  then have "publishAndAudit L a env w
      = defaultPersistMessage L a env (w\<lparr>w_clock_reads := Suc (Suc (w_clock_reads w)), w_limiter := Some l2\<rparr>)"
    using Some assms(2) by (simp add: publishAndAudit_def check_limit_def bindE_def limiter_Allow_def time_Now_def returnE_def)
  then show ?thesis by blast
qed

section \<open>Sending\<close>

text \<open>
  A world in which a message can be delivered: the database answers, the clock is within the years
  that a timestamp can show, the next UUIDs are new, the two can talk and the limiter admits them.
\<close>

definition can_deliver :: "uuid_lib \<Rightarrow> world \<Rightarrow> uuid \<Rightarrow> uuid \<Rightarrow> string \<Rightarrow> bool" where
  "can_deliver U w from to tag \<longleftrightarrow>
     online w \<and> time_ok (w_clock w (w_clock_reads w))
     \<and> w_uuid w (w_uuids_used w) \<notin> m_ID ` set (t_messages (w_db w))
     \<and> w_uuid w (Suc (w_uuids_used w)) \<notin> c_ID ` set (t_conversations (w_db w))
     \<and> can_reach (w_db w) from to \<and> admits w (Suc (w_clock_reads w)) (uuid_String U from) tag"

lemma uuid_not_group: "uuid_laws U \<Longrightarrow> \<not> HasPrefix (uuid_String U u) ''group:''"
  using uuid_lawsD(4) [of U u] by (auto simp: HasPrefix_def prefix_def)

lemma send_valid:
  assumes "uuid_laws (lib_uuid L)" "sender_of cx = uuid_String (lib_uuid L) from" "sr_To req = uuid_String (lib_uuid L) to"
    "tag_lang (TrimSpace (sr_Tag req))" "time_ok now"
  shows "Validate (Some (send_envelope L cx req i now)) = Ok ()"
    "EffectiveTag (Some (send_envelope L cx req i now)) = TrimSpace (sr_Tag req)"
proof -
  show tag: "EffectiveTag (Some (send_envelope L cx req i now)) = TrimSpace (sr_Tag req)"
    using tag_lang_nonempty [OF assms(4)] by (subst EffectiveTag_user) (simp_all add: send_envelope_def)
  show "Validate (Some (send_envelope L cx req i now)) = Ok ()"
    using assms uuid_lawsD(3) [OF assms(1)]
    by (simp add: Validate_Ok_iff tag) (simp add: send_envelope_def TrimSpace_uuid parse_format_rfc3339)
qed

lemma handleSendMessage_delivers:
  assumes inv: "db_inv ulower (w_db w)" and L: "uuid_laws (lib_uuid L)" "ap_convSvc a"
    and req: "Option.bind (decode_first (rq_Body r)) send_fields = Some req"
    and ids: "sender_of cx = uuid_String (lib_uuid L) from" "sr_To req = uuid_String (lib_uuid L) to"
    and tag: "tag_lang (TrimSpace (sr_Tag req))"
    and can: "can_deliver (lib_uuid L) w from to (TrimSpace (sr_Tag req))"
  shows "\<exists>resp w' m. handleSendMessage L a cx r w = (Ok resp, w') \<and> rs_Status resp = 202
    \<and> t_messages (w_db w') = t_messages (w_db w) @ [m] \<and> m_ID m = w_uuid w (w_uuids_used w) \<and> m_FromID m = from
    \<and> belongs from to (w_db w') (m_ConversationID m) \<and> m_Tag m = sr_Tag req \<and> m_Content m = sr_Content req
    \<and> m_Metadata m = norm_map (Some (case sr_Metadata req of None \<Rightarrow> map_make | Some x \<Rightarrow> x))"
proof -
  define i where "i = w_uuid w (w_uuids_used w)"
  define now where "now = w_clock w (w_clock_reads w)"
  define env where "env = send_envelope L cx req i now"
  define w1 where "w1 = w\<lparr>w_uuids_used := Suc (w_uuids_used w), w_clock_reads := Suc (w_clock_reads w)\<rparr>"
  note c = can [unfolded can_deliver_def]
  have ne: "uuid_String (lib_uuid L) x \<noteq> []" for x using uuid_lawsD(3) [OF L(1)] by blast
  have time: "time_ok now" using c by (simp add: now_def)
  note v = send_valid [OF L(1) ids tag time, of i, folded env_def]
  have env: "env_ID env = uuid_String (lib_uuid L) i" "env_From env = uuid_String (lib_uuid L) from"
    "env_To env = uuid_String (lib_uuid L) to" "parse_rfc3339 (env_Timestamp env) \<noteq> None"
    using ids time by (simp_all add: env_def send_envelope_def parse_format_rfc3339)
  then obtain t where t: "parse_rfc3339 (env_Timestamp env) = Some t" by blast
  have adm: "admits w1 (w_clock_reads w1) (env_From env) (EffectiveTag (Some env))"
    using c by (auto simp: w1_def v(2) env admits_def split: option.splits prod.splits)
  obtain n l where pub: "publishAndAudit L a env w1 = defaultPersistMessage L a env (w1\<lparr>w_clock_reads := n, w_limiter := l\<rparr>)"
    using publish_admits [OF adm, of L a] uuid_not_group [OF L(1)] by (auto simp: env)
  define w2 where "w2 = w1\<lparr>w_clock_reads := n, w_limiter := l\<rparr>"
  have w2: "w_db w2 = w_db w" "online w2" "w_uuid w2 (w_uuids_used w2) = w_uuid w (Suc (w_uuids_used w))"
    using c by (simp_all add: w2_def w1_def)
  have "succeeds (defaultPersistMessage L a env) w2 (\<lambda>_ _. True)"
    using c inv w2 uuid_lawsD(1) [OF L(1)] env
    by (intro succeeds_defaultPersistMessage [OF w2(2) _ L, of ulower _ "from" to i t]) (auto simp: i_def t)
  then obtain cid w' where run: "defaultPersistMessage L a env w2 = (Inr cid, w')" by (auto simp: succeeds_def)
  have inv2: "db_inv ulower (w_db w2)" using inv w2 by simp
  obtain m to' where m: "stored_as (lib_uuid L) env cid m" "uuid_Parse (lib_uuid L) (env_To env) = Ok to'"
      "belongs (m_FromID m) to' (w_db w') cid" "t_messages (w_db w') = t_messages (w_db w2) @ [m]"
    using defaultPersistMessage_Inr [OF inv2 L(1) run] by blast
  have "readJSON r send_fields w = (Inr req, w)" by (simp add: readJSON_def req)
  then have "handleSendMessage L a cx r w = (Ok (writeJSON 202 (obj [(''sent'', ABool True), (''message_id'', AStr (env_ID env)),
         (''conversation_id'', uuid_json L cid)])), w')"
    using run pub v(1) tag_lang_nonempty [OF tag] ne ids
    by (simp add: handleSendMessage_def orError_def tryE_def bindE_def uuid_New_def time_Now_def Let_def liftE_def returnE_def
        i_def [symmetric] now_def [symmetric] env_def [symmetric] w1_def [symmetric] w2_def TrimSpace_uuid [OF L(1)])
  moreover have "m_ID m = i" "m_FromID m = from" "to' = to" "m_ConversationID m = cid" "m_Tag m = sr_Tag req" "m_Content m = sr_Content req"
      "m_Metadata m = norm_map (Some (case sr_Metadata req of None \<Rightarrow> map_make | Some x \<Rightarrow> x))"
    using m(1,2) env uuid_lawsD(1) [OF L(1)] by (auto simp: stored_as_def env_def send_envelope_def)
  ultimately show ?thesis using m(3,4) w2(1) by (auto simp: i_def)
qed

text \<open>
  C4. A proper message is delivered: when the database answers, the caller and the recipient can talk,
  the tag is well formed and the limiter admits the message, the server accepts it (status 202) and
  has stored it, with its sender, tag, content and metadata, in the conversation of the two or of the
  group.
\<close>

theorem send_delivered:
  assumes "db_inv ulower (w_db w)" "uuid_laws (lib_uuid L)" "ap_convSvc a"
    "Option.bind (decode_first (rq_Body r)) send_fields = Some req"
    "sender_of cx = uuid_String (lib_uuid L) from" "sr_To req = uuid_String (lib_uuid L) to"
    "tag_lang (TrimSpace (sr_Tag req))" "can_deliver (lib_uuid L) w from to (TrimSpace (sr_Tag req))"
  shows "\<exists>resp w' m. handleSendMessage L a cx r w = (Ok resp, w') \<and> rs_Status resp = 202
    \<and> t_messages (w_db w') = t_messages (w_db w) @ [m] \<and> m_ID m = w_uuid w (w_uuids_used w) \<and> m_FromID m = from
    \<and> belongs from to (w_db w') (m_ConversationID m) \<and> m_Tag m = sr_Tag req \<and> m_Content m = sr_Content req
    \<and> m_Metadata m = norm_map (Some (case sr_Metadata req of None \<Rightarrow> map_make | Some x \<Rightarrow> x))"
  using assms by (rule handleSendMessage_delivers)

section \<open>Witnesses\<close>

text \<open>A server whose limiter has the default configuration; a message of user 1 to user 2.\<close>

definition limited_world :: world where
  "limited_world = (clear_world sample_db)\<lparr>w_limiter := Some (New DefaultConfig)\<rparr>"

lemma limited_world_simps [simp]:
  "w_db limited_world = sample_db" "online limited_world" "w_uuids_used limited_world = 0" "w_clock_reads limited_world = 0"
  "w_uuid limited_world = (\<lambda>n. of_nat n + 1)" "w_clock limited_world = (\<lambda>n. 1700000000 * nanos + int n * nanos)"
  "w_limiter limited_world = Some (New DefaultConfig)"
  by (simp_all add: limited_world_def clear_world_def online_def)

lemma limited_world_admits: "admits limited_world (Suc 0) (uuid_String canonical 1) ''data''"
  by (simp add: admits_def Allow_def New_def DefaultConfig_def rateFor_def Let_def full_key_def AgentKey_def TagKey_def
      map_make_def map_get_def)

lemma limited_world_can_deliver: "can_deliver canonical limited_world 1 2 ''data''"
  using limited_world_admits
  by (simp add: can_deliver_def can_reach_def uuid_Nil_def time_ok_def nanos_def sample_db_def empty_db_def)

definition direct_body :: string where
  "direct_body = json_object [(''to'', ''00000000-0000-0000-0000-000000000002''), (''tag'', ''data''), (''content'', ''hi'')]"

lemma direct_body_decodes:
  "Option.bind (decode_first direct_body) send_fields
     = Some \<lparr>sr_To = uuid_String canonical 2, sr_Tag = ''data'', sr_Content = ''hi'', sr_Metadata = None\<rparr>"
proof -
  have "uuid_String canonical 2 = ''00000000-0000-0000-0000-000000000002''" by code_simp
  moreover have "Option.bind (decode_first direct_body) send_fields
      = Some \<lparr>sr_To = ''00000000-0000-0000-0000-000000000002'', sr_Tag = ''data'', sr_Content = ''hi'', sr_Metadata = None\<rparr>"
    by code_simp
  ultimately show ?thesis by simp
qed

theorem send_delivered_witness:
  "\<exists>resp w' m. handleSendMessage sample_libs sample_app sample_caller (sample_request direct_body) limited_world = (Ok resp, w')
     \<and> rs_Status resp = 202 \<and> t_messages (w_db w') = [m] \<and> m_Content m = ''hi'' \<and> belongs 1 2 (w_db w') (m_ConversationID m)"
proof -
  have tag: "TrimSpace ''data'' = ''data''" "IsValidTag ''data''" by code_simp+
  have "\<exists>resp w' m. handleSendMessage sample_libs sample_app sample_caller (sample_request direct_body) limited_world = (Ok resp, w')
     \<and> rs_Status resp = 202 \<and> t_messages (w_db w') = t_messages (w_db limited_world) @ [m] \<and> m_ID m = w_uuid limited_world (w_uuids_used limited_world)
     \<and> m_FromID m = 1 \<and> belongs 1 2 (w_db w') (m_ConversationID m) \<and> m_Tag m = ''data'' \<and> m_Content m = ''hi''
     \<and> m_Metadata m = norm_map (Some map_make)"
    using send_delivered [of id limited_world sample_libs sample_app "sample_request direct_body"
        "\<lparr>sr_To = uuid_String canonical 2, sr_Tag = ''data'', sr_Content = ''hi'', sr_Metadata = None\<rparr>" sample_caller 1 2]
      direct_body_decodes sample_db_inv canonical_laws limited_world_can_deliver tag
    by (simp add: sample_request_def sample_sender IsValidTag_tag_lang) (simp add: sample_app_def)
  then show ?thesis by (auto simp: sample_db_def empty_db_def)
qed

end
