(* ===== verification/Clients.thy ===== *)
theory Clients
  imports Sdk CliSession Delivery
begin

text \<open>
  The clients and the server together: what the command-line client and the SDK send is what the
  handlers of the server receive.
\<close>

section \<open>The body of a message\<close>

lemma decode_first_all: "decode_all s = Some v \<Longrightarrow> decode_first s = Some v"
  by (auto simp: decode_all_def decode_first_def split: option.splits if_splits)

lemma decode_first_json_text: "any_ok max_depth v \<Longrightarrow> decode_first (json_text v) = Some (jtree v)"
  by (rule decode_first_all) (rule decode_json_text)

lemma send_keys: "sanitize ''to'' = ''to''" "sanitize ''tag'' = ''tag''" "sanitize ''content'' = ''content''" "sanitize ''metadata'' = ''metadata''"
  by code_simp+

text \<open>The body that the command-line client sends is read as it was meant; bytes that are not UTF-8 are replaced.\<close>

lemma cli_send_body_decodes:
  "Option.bind (decode_first (payload_text (Some [(''to'', AStr to), (''tag'', AStr tag), (''content'', AStr content)]))) send_fields
     = Some \<lparr>sr_To = sanitize to, sr_Tag = sanitize tag, sr_Content = sanitize content, sr_Metadata = None\<rparr>"
proof -
  have m: "map_from_list [(''to'', AStr to), (''tag'', AStr tag), (''content'', AStr content)]
      = [(''content'', AStr content), (''tag'', AStr tag), (''to'', AStr to)]"
    by (simp add: map_from_list_def map_make_def)
  have "decode_first (json_text (AMap [(''content'', AStr content), (''tag'', AStr tag), (''to'', AStr to)]))
      = Some (JObj [(''content'', JStr (sanitize content)), (''tag'', JStr (sanitize tag)), (''to'', JStr (sanitize to))])"
    by (subst decode_first_json_text) (simp_all add: max_depth_def send_keys)
  then show ?thesis
    by (simp add: payload_text_def m send_fields_def struct_members_def find_field_def map_filter_def string_field_def
        map_field_def values_of_def del: json_text.simps)
qed

section \<open>Authentication by secret\<close>

definition agent_context :: "libs \<Rightarrow> agent \<Rightarrow> req_context" where
  "agent_context L ag = \<lparr>ctxUserID = Some [], ctxAgentID = Some (uuid_String (lib_uuid L) (a_ID ag))\<rparr>"

text \<open>An agent's credentials: a row of the table whose hash accepts the secret.\<close>

definition valid_secret :: "libs \<Rightarrow> db \<Rightarrow> agent \<Rightarrow> string \<Rightarrow> bool" where
  "valid_secret L d ag sec \<longleftrightarrow>
     ag \<in> set (t_agents d) \<and> token_ok sec \<and> verifySecretArgon2id (lib_crypto L) (a_APISecretHash ag) sec"

lemma agent_rows: "db_inv ulower d \<Longrightarrow> g \<in> set (t_agents d) \<Longrightarrow> filter (\<lambda>x. a_ID x = a_ID g) (t_agents d) = [g]"
  by (rule filter_key) (simp_all add: db_inv_def agents_ok_def)

lemma bearerToken_empty: "bearerToken [] = []"
  by (simp add: bearerToken_def trim_samples)

lemma authenticate_secret:
  assumes "online w" "db_inv ulower (w_db w)" "uuid_laws (lib_uuid L)" "as_db (ap_authSvc a)" "valid_secret L (w_db w) ag sec"
    and hd: "rq_Header r ''Authorization'' = []" "rq_Header r ''X-Agent-ID'' = uuid_String (lib_uuid L) (a_ID ag)"
      "rq_Header r ''X-API-Secret'' = sec"
  shows "authenticate L a r jwt True w = (Ok (agent_context L ag), w\<lparr>w_stmts := Suc (w_stmts w)\<rparr>)"
proof -
  note v = assms(5) [unfolded valid_secret_def token_ok_def]
  have rows: "filter (\<lambda>x. a_ID x = a_ID ag) (t_agents (w_db w)) = [ag]" using agent_rows [OF assms(2)] v by blast
  have "uuid_String (lib_uuid L) (a_ID ag) \<noteq> []" "uuid_Parse (lib_uuid L) (uuid_String (lib_uuid L) (a_ID ag)) = Ok (a_ID ag)"
    using uuid_lawsD [OF assms(3)] by blast+
  then show ?thesis
    using assms(1,4) v rows
    by (simp add: authenticate_def Let_def hd bearerToken_empty TrimSpace_uuid [OF assms(3)] ValidateAPISecret_def getAgentByID_def
        tryE_def bindE_def liftE_def query_online one_row_def returnE_def agent_context_def)
qed

lemma sender_of_agent: "uuid_laws (lib_uuid L) \<Longrightarrow> sender_of (agent_context L ag) = uuid_String (lib_uuid L) (a_ID ag)"
  using uuid_lawsD(3) by (simp add: sender_of_def agent_context_def contextString_def TrimSpace_uuid)

lemma can_deliver_stmts: "can_deliver U w from to tag \<Longrightarrow> can_deliver U (w\<lparr>w_stmts := Suc (w_stmts w)\<rparr>) from to tag"
  by (simp add: can_deliver_def admits_def split: option.splits prod.splits)

section \<open>From the command line to the tables\<close>

lemma finish_json_sent: "finish_json E q s = (r, s') \<Longrightarrow> cs_sent s' = cs_sent s @ [set_timeout cli_timeout q]"
  by (auto simp: finish_json_def bindE_def cliDo_def liftE_def failE_def returnE_def split: sum.splits if_splits)

lemma send_command_request:
  assumes "base_ok (backendURL E s)" "token_ok (cli_agentID E s)" "token_ok (cli_apiSecret E s)" "tag \<noteq> []" "content \<noteq> []"
    and run: "run_command E (SendMsg to tag content) s = (res, s')"
  shows "\<exists>req. cs_sent s' = cs_sent s @ [agent_request (cli_agentID E s) (cli_apiSecret E s) req]
    \<and> hr_Method req = ''POST'' \<and> path_segments (url_Path (hr_URL req)) = [''v1'', ''messages'', ''send''] \<and> hr_Header req = map_make
    \<and> hr_Body req = payload_text (Some [(''to'', AStr to), (''tag'', AStr tag), (''content'', AStr content)])"
proof -
  define body where "body = payload_text (Some [(''to'', AStr to), (''tag'', AStr tag), (''content'', AStr content)])"
  have segs: "segs_ok [''v1'', ''messages'', ''send'']" by (simp add: segs_ok_def)
  have path: "slash_path [''v1'', ''messages'', ''send''] = ''/v1/messages/send''" by (simp add: slash_path_def)
  obtain req where ok: "NewRequest (cl_lower E) ''POST'' (backendURL E s @ slash_path [''v1'', ''messages'', ''send'']
      @ (if [] = ([]::string) then [] else CHR ''?'' # [])) body = Ok req"
    using NewRequest_base_ok [OF assms(1) segs no_query] by blast
  then have req: "NewRequest (cl_lower E) ''POST'' (backendURL E s @ ''/v1/messages/send'') body = Ok req" by (simp add: path)
  note r = NewRequest_base [OF assms(1) segs no_query ok]
  obtain r1 s1 where fin: "finish_json E (set_header ''X-API-Secret'' (cli_apiSecret E s) (set_header ''X-Agent-ID'' (cli_agentID E s)
       (set_header ''Content-Type'' ''application/json'' req))) s = (r1, s1)" by fastforce
  have "cs_sent s' = cs_sent s1"
    using run assms(2-5) fin req
    by (auto simp: sendCmd_def with_agent_def token_ok_def doJSONAgent_def body_def bindE_def liftE_def print_map_def prettyPrint_def
        split: sum.splits)
  then show ?thesis using finish_json_sent [OF fin] r by (intro exI [of _ req]) (simp add: agent_request_def body_def)
qed

lemma handled_send:
  assumes "hr_Method q = ''POST''" "path_segments (url_Path (hr_URL q)) = [''v1'', ''messages'', ''send'']"
  shows "handled L a addr q = requireAuth L a True True (handleSendMessage L a) (received addr q)"
proof -
  have "(received addr q)\<lparr>rq_PathValue := (\<lambda>n. case map_of [] n of None \<Rightarrow> [] | Some x \<Rightarrow> x)\<rparr> = received addr q"
    by (simp add: received_def)
  then show ?thesis by (simp add: handled_def serve_def assms agent_routes)
qed

text \<open>
  C5. What an agent sends with the command-line client arrives: the command sends one request, and a
  server that can deliver the message (the agent's secret is valid, the database answers, the two can
  talk, the limiter admits it) answers it with 202 and has stored the tag and the content as they were
  typed, from the agent, in the conversation with the recipient.
\<close>

theorem cli_send_delivered:
  assumes "base_ok (backendURL E s)" "cli_agentID E s = uuid_String (lib_uuid L) (a_ID ag)" "valid_secret L (w_db w) ag (cli_apiSecret E s)"
    and run: "run_command E (SendMsg (uuid_String (lib_uuid L) to) tag content) s = (res, s')"
    and utf8: "sanitize content = content" "content \<noteq> []" "sanitize tag = tag" "tag_lang (TrimSpace tag)"
    and srv: "db_inv ulower (w_db w)" "uuid_laws (lib_uuid L)" "as_db (ap_authSvc a)" "ap_convSvc a"
      "can_deliver (lib_uuid L) w (a_ID ag) to (TrimSpace tag)"
  shows "\<exists>q resp w' m. cs_sent s' = cs_sent s @ [q] \<and> handled L a addr q w = (Ok resp, w') \<and> rs_Status resp = 202
    \<and> t_messages (w_db w') = t_messages (w_db w) @ [m] \<and> m_FromID m = a_ID ag
    \<and> belongs (a_ID ag) to (w_db w') (m_ConversationID m) \<and> m_Tag m = tag \<and> m_Content m = content"
proof -
  define w1 where "w1 = w\<lparr>w_stmts := Suc (w_stmts w)\<rparr>"
  have sec: "token_ok (cli_apiSecret E s)" using assms(3) by (simp add: valid_secret_def)
  have aid: "token_ok (cli_agentID E s)" using uuid_lawsD(3) [OF srv(2)] by (simp add: token_ok_def assms(2) TrimSpace_uuid [OF srv(2)])
  have tag: "tag \<noteq> []" using tag_lang_nonempty [OF utf8(4)] trim_samples(6) by auto
  obtain req where q: "cs_sent s' = cs_sent s @ [agent_request (cli_agentID E s) (cli_apiSecret E s) req]"
    and req: "hr_Method req = ''POST''" "path_segments (url_Path (hr_URL req)) = [''v1'', ''messages'', ''send'']" "hr_Header req = map_make"
      "hr_Body req = payload_text (Some [(''to'', AStr (uuid_String (lib_uuid L) to)), (''tag'', AStr tag), (''content'', AStr content)])"
    using send_command_request [OF assms(1) aid sec tag utf8(2) run] by blast
  define q where "q = agent_request (cli_agentID E s) (cli_apiSecret E s) req"
  have rq: "rq_Header (received addr q) ''Authorization'' = []" "rq_Header (received addr q) ''X-Agent-ID'' = uuid_String (lib_uuid L) (a_ID ag)"
    "rq_Header (received addr q) ''X-API-Secret'' = cli_apiSecret E s" "rq_Body (received addr q) = hr_Body req"
    by (simp_all add: received_def q_def agent_request_def req(3) assms(2))
  have "sanitize (uuid_String (lib_uuid L) to) = uuid_String (lib_uuid L) to"
    using uuid_lawsD(4) [OF srv(2), of to] by (intro sanitize_is_ascii) (auto simp: is_ascii_def list_all_iff)
  then have body: "Option.bind (decode_first (rq_Body (received addr q))) send_fields
      = Some \<lparr>sr_To = uuid_String (lib_uuid L) to, sr_Tag = tag, sr_Content = content, sr_Metadata = None\<rparr>"
    by (simp add: rq(4) req(4) cli_send_body_decodes utf8)
  have w1: "db_inv ulower (w_db w1)" "can_deliver (lib_uuid L) w1 (a_ID ag) to (TrimSpace tag)" "w_db w1 = w_db w"
    using srv(1) can_deliver_stmts [OF srv(5)] by (simp_all add: w1_def)
  have on: "online w" using srv(5) by (simp add: can_deliver_def)
  obtain resp w' m where h: "handleSendMessage L a (agent_context L ag) (received addr q) w1 = (Ok resp, w')" "rs_Status resp = 202"
      "t_messages (w_db w') = t_messages (w_db w1) @ [m]" "m_FromID m = a_ID ag" "belongs (a_ID ag) to (w_db w') (m_ConversationID m)"
      "m_Tag m = tag" "m_Content m = content"
    using handleSendMessage_delivers [OF w1(1) srv(2,4) body sender_of_agent [OF srv(2), of ag], of to] utf8(4) w1(2) by auto
  have mth: "hr_Method q = ''POST''" "path_segments (url_Path (hr_URL q)) = [''v1'', ''messages'', ''send'']"
    by (simp_all add: q_def agent_request_def req)
  have "handled L a addr q w = (Ok resp, w')"
    using authenticate_secret [OF on srv(1-3) assms(3) rq(1-3), of True] h(1)
    by (simp add: handled_send [of q, OF mth] requireAuth_def orError_def tryE_def w1_def)
  with q h show ?thesis by (auto simp: q_def w1(3))
qed

section \<open>Polling\<close>

text \<open>Characters that a query carries as they are.\<close>

definition query_safe :: "string \<Rightarrow> bool" where
  "query_safe s \<longleftrightarrow> list_all (\<lambda>c. c \<notin> set ''%&+;'') s"

lemma url_unescape_query: "query_safe s \<Longrightarrow> url_unescape EncodeQueryComponent s = Ok s"
  by (induction s) (auto simp: query_safe_def consR_def)

lemma query_pair_safe:
  assumes "query_safe k" "query_safe v" "CHR ''='' \<notin> set k"
  shows "query_pair (k @ CHR ''='' # v) = Some (k, v)"
proof -
  have "CHR '';'' \<notin> set (k @ CHR ''='' # v)" using assms by (auto simp: query_safe_def list_all_iff)
  moreover have "CHR '';'' \<in> set x" if "Contains x '';''" for x using that by (auto simp: Contains_iff)
  ultimately have "\<not> Contains (k @ CHR ''='' # v) '';''" by blast
  then show ?thesis using assms by (simp add: query_pair_def Cut_first url_unescape_query)
qed

lemma query_safe_Itoa: "query_safe (Itoa n)"
proof -
  have "query_safe (dec_digits k)" for k
    using dec_digits_all_digits [of k] by (auto simp: query_safe_def all_digits_def list_all_iff is_digit_def less_eq_char_def)
  then show ?thesis by (simp add: Itoa_def query_safe_def)
qed

lemma TrimSpace_dec_digits: "TrimSpace (dec_digits k) = dec_digits k"
proof (rule TrimSpace_plain)
  have "\<forall>c \<in> set space_bytes. \<not> is_digit c" by (simp add: space_bytes_def space_encodings_def is_digit_def less_eq_char_def)
  moreover have "\<forall>c \<in> set (dec_digits k). is_digit c" using dec_digits_all_digits [of k] by (simp add: all_digits_def list_all_iff)
  ultimately show "dec_digits k = [] \<or> hd (dec_digits k) \<notin> set space_bytes \<and> last (dec_digits k) \<notin> set space_bytes"
    using dec_digits_nonempty [of k] hd_in_set last_in_set by blast
qed

lemma poll_query_Join:
  "poll_query cid n ts si = Join (map (\<lambda>(k, v). k @ CHR ''='' # v) ([(''conversation_id'', cid)] @ (if n > 0 then [(''limit'', Itoa n)] else [])
     @ (if ts \<noteq> [] then [(''since_ts'', ts)] else []) @ (if si \<noteq> [] then [(''since_id'', si)] else []))) ''&''"
  by (cases "n > 0"; cases "ts = []"; cases "si = []") (simp_all add: poll_query_def)

lemma poll_query_Get:
  assumes "query_safe cid" "query_safe ts" "query_safe si"
  shows "query_Get (poll_query cid n ts si) ''conversation_id'' = cid" "query_Get (poll_query cid n ts si) ''since_ts'' = ts"
    "query_Get (poll_query cid n ts si) ''since_id'' = si" "query_Get (poll_query cid n ts si) ''limit'' = (if n > 0 then Itoa n else [])"
proof -
  define kvs where "kvs = [(''conversation_id'', cid)] @ (if n > 0 then [(''limit'', Itoa n)] else [])
     @ (if ts \<noteq> [] then [(''since_ts'', ts)] else []) @ (if si \<noteq> [] then [(''since_id'', si)] else [])"
  have keys: "list_all (\<lambda>k. query_safe k \<and> CHR ''='' \<notin> set k) [''conversation_id'', ''limit'', ''since_ts'', ''since_id'']" by code_simp
  have kv: "set kvs \<subseteq> {(''conversation_id'', cid), (''limit'', Itoa n), (''since_ts'', ts), (''since_id'', si)}"
    unfolding kvs_def by (cases "n > 0"; cases "ts = []"; cases "si = []") simp_all
  have safe: "query_safe k \<and> query_safe v \<and> CHR ''='' \<notin> set k" if "(k, v) \<in> set kvs" for k v
  proof -
    have "k \<in> set [''conversation_id'', ''limit'', ''since_ts'', ''since_id'']" "v \<in> {cid, Itoa n, ts, si}" using subsetD [OF kv that] by auto
    with keys assms query_safe_Itoa show ?thesis unfolding list_all_iff by blast
  qed
  have amp: "CHR ''&'' \<notin> set (k @ CHR ''='' # v)" if "(k, v) \<in> set kvs" for k v
    using safe [OF that] by (auto simp: query_safe_def list_all_iff)
  have "kvs \<noteq> []" by (simp add: kvs_def)
  then have sp: "Split (Join (map (\<lambda>(k, v). k @ CHR ''='' # v) kvs) ''&'') CHR ''&'' = map (\<lambda>(k, v). k @ CHR ''='' # v) kvs"
    using amp by (intro Split_Join) (simp, fastforce)
  have mf: "List.map_filter query_pair (map (\<lambda>(k, v). k @ CHR ''='' # v) kvs) = kvs"
  proof -
    have "List.map_filter query_pair (map (\<lambda>(k, v). k @ CHR ''='' # v) xs) = xs" if "set xs \<subseteq> set kvs" for xs
      using that by (induction xs) (auto simp: map_filter_simps query_pair_safe dest: safe)
    then show ?thesis by blast
  qed
  have get: "query_Get (poll_query cid n ts si) k = (case map_of kvs k of None \<Rightarrow> [] | Some v \<Rightarrow> v)" for k
    by (simp only: query_Get_def poll_query_Join kvs_def [symmetric] sp mf)
  show "query_Get (poll_query cid n ts si) ''conversation_id'' = cid" "query_Get (poll_query cid n ts si) ''since_ts'' = ts"
    "query_Get (poll_query cid n ts si) ''since_id'' = si" "query_Get (poll_query cid n ts si) ''limit'' = (if n > 0 then Itoa n else [])"
    by (simp_all add: get kvs_def)
qed

lemma poll_command_request:
  assumes "base_ok (backendURL E s)" "cli_token E s \<noteq> []" "query_ok (poll_query cid n ts si)" "poll_query cid n ts si \<noteq> []"
    and run: "run_command E (Poll cid n ts si) s = (res, s')"
  shows "\<exists>q. cs_sent s' = cs_sent s @ [q] \<and> hr_Method q = ''GET''
    \<and> path_segments (url_Path (hr_URL q)) = [''v1'', ''messages'', ''poll''] \<and> url_RawQuery (hr_URL q) = poll_query cid n ts si"
proof -
  have segs: "segs_ok [''v1'', ''messages'', ''poll'']" by (simp add: segs_ok_def)
  have path: "slash_path [''v1'', ''messages'', ''poll''] = ''/v1/messages/poll''" by (simp add: slash_path_def)
  obtain req where ok: "NewRequest (cl_lower E) ''GET'' (backendURL E s @ slash_path [''v1'', ''messages'', ''poll'']
      @ (if poll_query cid n ts si = [] then [] else CHR ''?'' # poll_query cid n ts si)) (payload_text None) = Ok req"
    using NewRequest_base_ok [OF assms(1) segs assms(3)] by blast
  then have req: "NewRequest (cl_lower E) ''GET'' (backendURL E s @ ''/v1/messages/poll?'' @ poll_query cid n ts si) (payload_text None) = Ok req"
    using assms(4) by (simp add: path)
  note r = NewRequest_base [OF assms(1) segs assms(3) ok]
  obtain r1 s1 where fin: "finish_json E (set_header ''Authorization'' (''Bearer '' @ cli_token E s)
       (set_header ''Content-Type'' ''application/json'' req)) s = (r1, s1)" by fastforce
  have "cs_sent s' = cs_sent s1"
    using run assms(2) fin req
    by (auto simp: pollCmd_def with_token_def doJSON_def bindE_def liftE_def print_map_def prettyPrint_def Let_def split: sum.splits)
  then show ?thesis using finish_json_sent [OF fin] r by simp
qed


text \<open>A time with an offset does not arrive: the client does not escape the plus sign, which stands for a blank.\<close>

lemma poll_query_plus:
  "query_Get (poll_query ''c1'' 0 ''2024-01-01T00:00:00+02:00'' []) ''since_ts'' = ''2024-01-01T00:00:00 02:00''
   \<and> parse_rfc3339 ''2024-01-01T00:00:00+02:00'' \<noteq> None \<and> parse_rfc3339 ''2024-01-01T00:00:00 02:00'' = None"
  by (intro conjI; code_simp)

section \<open>The SDK\<close>

text \<open>A bearer token arrives as it was set.\<close>

lemma ends_space_token:
  assumes "t \<noteq> []" "\<not> ends_space t"
  shows "\<not> ends_space (xs @ CHR '' '' # t)"
proof
  assume "ends_space (xs @ CHR '' '' # t)"
  then obtain p where p: "p \<in> set space_encodings" "suffix p ((xs @ '' '') @ t)" by (auto simp: ends_space_def)
  have nt: "\<not> suffix p t" using assms(2) p(1) by (auto simp: ends_space_def)
  then obtain q where q: "p = q @ t" "suffix q (xs @ '' '')" using p(2) by (auto simp only: suffix_append)
  with nt have "q \<noteq> []" by auto
  with q(2) obtain q' where "q = q' @ '' ''" by (auto simp: suffix_def append_eq_append_conv2 Cons_eq_append_conv)
  then have "CHR '' '' \<in> set (butlast p)" using q(1) assms(1) by (simp add: butlast_append)
  moreover have "\<forall>p \<in> set space_encodings. CHR '' '' \<notin> set (butlast p)" by (simp add: space_encodings_def)
  ultimately show False using p(1) by blast
qed

lemma bearerToken_token: "token_ok t \<Longrightarrow> bearerToken (''Bearer '' @ t) = t"
proof -
  assume t: "token_ok t"
  then have "t \<noteq> []" "\<not> ends_space t" using TrimSpace_eq_iff [of t] by (simp_all add: token_ok_def)
  then have "\<not> ends_space (''Bearer'' @ CHR '' '' # t)" by (rule ends_space_token)
  moreover have "\<not> starts_space (''Bearer'' @ CHR '' '' # t)" by (simp add: starts_space_def space_encodings_def)
  ultimately have trim: "TrimSpace (''Bearer '' @ t) = ''Bearer'' @ CHR '' '' # t" using TrimSpace_id by simp
  have "Cut (''Bearer'' @ CHR '' '' # t) CHR '' '' = (''Bearer'', t, True)" by (rule Cut_first) simp
  moreover have "EqualFold ''Bearer'' ''bearer''" by code_simp
  ultimately show ?thesis using t by (simp add: bearerToken_def trim token_ok_def del: append.simps)
qed

lemma path_ok_append:
  assumes "path_ok p" "path_ok ep"
  shows "path_ok (trim_slashes p @ ep)"
proof -
  obtain t where t: "t = trim_slashes p" by blast
  have "suffix (rev t) (rev p)" by (simp add: t trim_slashes_def suffix_dropWhile)
  then obtain u where "p = t @ u" by (auto simp: suffix_def) (metis rev_append rev_rev_ident)
  then have "path_ok (t @ ep)" using assms by (cases t) (auto simp: path_ok_def)
  then show ?thesis by (simp add: t)
qed

lemma backendEndpoint_text:
  assumes "web_scheme sch" "host_ok h" "path_ok p" "path_ok ep" "query_ok qy"
    and "TrimSpace raw = endpoint_text sch h p qy"
  shows "backendEndpoint ulower raw ep = Ok (endpoint_text sch h (trim_slashes p @ ep) qy)"
  using url_String_endpoint [OF assms(1,2) path_ok_append [OF assms(3,4)], of qy]
  by (simp add: backendEndpoint_def assms(6) url_Parse_endpoint [OF assms(1-3,5)] endpoint_url_def blank_url_def)

text \<open>Where the SDK finds its server: a base URL without a path of its own.\<close>

definition sdk_base :: "string \<Rightarrow> bool" where
  "sdk_base raw \<longleftrightarrow> (\<exists>sch h p. web_scheme sch \<and> host_ok h \<and> \<not> HasSuffix h '':'' \<and> path_ok p \<and> trim_slashes p = []
     \<and> TrimSpace raw = endpoint_text sch h p [])"

lemma sdk_request:
  assumes "sdk_base raw" "segs_ok ss"
  shows "\<exists>req. bind_res (wrap_res e1 (backendEndpoint ulower raw (slash_path ss))) (\<lambda>endpoint.
      bind_res (wrap_res e2 (NewRequest ulower mth endpoint body)) (\<lambda>req. Ok (set_timeout t (auth_headers conf req)))) = Ok req
    \<and> hr_Method req = mth \<and> path_segments (url_Path (hr_URL req)) = ss \<and> hr_Body req = body
    \<and> (\<forall>addr. rq_Header (received addr req) ''Authorization'' = ''Bearer '' @ sc_APISecret conf
          \<and> rq_Header (received addr req) ''X-API-Secret'' = [])"
proof -
  obtain sch h p where b: "web_scheme sch" "host_ok h" "\<not> HasSuffix h '':''" "path_ok p" "trim_slashes p = []"
      "TrimSpace raw = endpoint_text sch h p []"
    using assms(1) by (auto simp: sdk_base_def)
  note ep = backendEndpoint_text [OF b(1,2,4) slash_path_ok [OF assms(2)] no_query b(6), unfolded b(5) append_Nil]
  show ?thesis
    by (simp add: ep wrap_res_def bind_res_def NewRequest_endpoint [OF b(1-3) slash_path_ok [OF assms(2)] no_query] auth_headers_def
        received_def endpoint_url_def path_segments_slash [OF assms(2)])
qed

text \<open>Every configuration that \<open>LoadConfig\<close> accepts makes a client with that configuration.\<close>

lemma validateConfig_Ok:
  "validateConfig conf = Ok () \<longleftrightarrow> TrimSpace (sc_BackendURL conf) \<noteq> [] \<and> TrimSpace (sc_AgentID conf) \<noteq> []
     \<and> TrimSpace (sc_APISecret conf) \<noteq> [] \<and> 0 < sc_HeartbeatInterval conf \<and> 0 < sc_RequestTimeout conf"
  by (auto simp: validateConfig_def)

lemma NewClient_Ok:
  assumes "NewClient conf = Ok cl"
  shows "validateConfig (ct_config cl) = Ok ()" "token_ok (sc_APISecret (ct_config cl))" "token_ok (sc_AgentID (ct_config cl))"
    "sc_BackendURL (ct_config cl) = TrimSpace (sc_BackendURL conf)" "sc_APISecret (ct_config cl) = TrimSpace (sc_APISecret conf)"
    "ct_handler cl = None" "ct_done cl = False"
  using assms
  by (auto simp: NewClient_def Let_def validateConfig_Ok token_ok_def defaultHeartbeatInterval_def defaultRequestTimeout_def nanos_def
      split: if_splits)

lemma LoadConfig_Ok:
  assumes "LoadConfig v = Ok conf"
  shows "validateConfig conf = Ok ()" "TrimSpace (sc_BackendURL conf) = sc_BackendURL conf"
    "TrimSpace (sc_AgentID conf) = sc_AgentID conf" "TrimSpace (sc_APISecret conf) = sc_APISecret conf"
proof -
  define hb where "hb = (if vv_GetInt v ''heartbeat_interval_ms'' > 0 then milliseconds (vv_GetInt v ''heartbeat_interval_ms'') else defaultHeartbeatInterval)"
  define rt where "rt = (if vv_GetInt v ''request_timeout_ms'' > 0 then milliseconds (vv_GetInt v ''request_timeout_ms'') else defaultRequestTimeout)"
  have "bind_res (validateConfig \<lparr>sc_BackendURL = TrimSpace (vv_GetString v ''backend_url''), sc_AgentID = TrimSpace (vv_GetString v ''agent_id''),
      sc_APISecret = TrimSpace (vv_GetString v ''api_secret''), sc_DisplayName = TrimSpace (vv_GetString v ''display_name''),
      sc_HeartbeatInterval = hb, sc_RequestTimeout = rt\<rparr>) (\<lambda>_. Ok \<lparr>sc_BackendURL = TrimSpace (vv_GetString v ''backend_url''),
      sc_AgentID = TrimSpace (vv_GetString v ''agent_id''), sc_APISecret = TrimSpace (vv_GetString v ''api_secret''),
      sc_DisplayName = TrimSpace (vv_GetString v ''display_name''), sc_HeartbeatInterval = hb, sc_RequestTimeout = rt\<rparr>) = Ok conf"
    using assms unfolding LoadConfig_def Let_def hb_def [symmetric] rt_def [symmetric] by (auto split: sum.splits)
  then show "validateConfig conf = Ok ()" "TrimSpace (sc_BackendURL conf) = sc_BackendURL conf"
    "TrimSpace (sc_AgentID conf) = sc_AgentID conf" "TrimSpace (sc_APISecret conf) = sc_APISecret conf"
    by (auto simp: bind_res_def split: sum.splits)
qed

lemma NewClient_trimmed:
  assumes "validateConfig conf = Ok ()" "TrimSpace (sc_BackendURL conf) = sc_BackendURL conf"
    "TrimSpace (sc_AgentID conf) = sc_AgentID conf" "TrimSpace (sc_APISecret conf) = sc_APISecret conf"
  shows "NewClient conf = Ok \<lparr>ct_config = conf, ct_handler = None, ct_done = False\<rparr>"
proof -
  have "conf\<lparr>sc_BackendURL := sc_BackendURL conf, sc_AgentID := sc_AgentID conf, sc_APISecret := sc_APISecret conf,
      sc_HeartbeatInterval := sc_HeartbeatInterval conf, sc_RequestTimeout := sc_RequestTimeout conf\<rparr> = conf" by simp
  then show ?thesis using assms(1) by (simp add: NewClient_def assms(2-4) validateConfig_Ok)
qed

text \<open>
  The SDK's configuration: whatever \<open>LoadConfig\<close> accepts makes a client with exactly that
  configuration, and every client that \<open>NewClient\<close> makes has a valid one, with trimmed credentials and
  positive intervals.
\<close>

theorem sdk_config_valid:
  "(LoadConfig v = Ok conf \<longrightarrow> NewClient conf = Ok \<lparr>ct_config = conf, ct_handler = None, ct_done = False\<rparr>)
   \<and> (NewClient conf = Ok cl \<longrightarrow> validateConfig (ct_config cl) = Ok () \<and> NewClient (ct_config cl) = Ok cl)"
proof (intro conjI impI)
  assume "LoadConfig v = Ok conf"
  then show "NewClient conf = Ok \<lparr>ct_config = conf, ct_handler = None, ct_done = False\<rparr>"
    by (intro NewClient_trimmed LoadConfig_Ok)
next
  assume "NewClient conf = Ok cl"
  note cl = NewClient_Ok [OF this]
  show "validateConfig (ct_config cl) = Ok ()" by (rule cl)
  have "NewClient (ct_config cl) = Ok \<lparr>ct_config = ct_config cl, ct_handler = None, ct_done = False\<rparr>"
    using cl by (intro NewClient_trimmed) (simp_all add: token_ok_def)
  then show "NewClient (ct_config cl) = Ok cl" using cl(6,7) by (cases cl) simp
qed

lemma authenticate_bearer:
  assumes "token_ok t" "rq_Header r ''Authorization'' = ''Bearer '' @ t" "rq_Header r ''X-API-Secret'' = []"
  shows "authenticate L a r True sec w = (case ValidateJWT (lib_crypto L) (ap_authSvc a) t w of
      (Inr userID, w1) \<Rightarrow> (Ok \<lparr>ctxUserID = Some userID, ctxAgentID = None\<rparr>, w1)
    | (Inl _, w1) \<Rightarrow> (Fail (Err ''invalid credentials''), w1))"
  using assms(1)
  by (simp add: authenticate_def Let_def assms(2,3) bearerToken_token trim_samples tryE_def returnE_def failE_def token_ok_def
      split: prod.splits sum.splits del: append.simps)

lemma ValidateJWT_reads: "ValidateJWT C s t w = (r, w') \<Longrightarrow> w_db w' = w_db w"
  by (auto simp: ValidateJWT_def failE_def bindE_def time_Now_def liftE_def returnE_def split: if_splits sum.splits prod.splits)

text \<open>
  C18. An SDK client is refused: \<open>Send\<close> puts the agent's API secret into the \<open>Authorization\<close> header, where
  the server looks for an access token, and sets no \<open>X-API-Secret\<close> header. Unless the secret happens to be a
  valid token, the server answers 401 and stores nothing, whatever secret the agent has.
\<close>

theorem sdk_send_unauthorized:
  assumes "NewClient conf = Ok cl" "sdk_base (sc_BackendURL conf)"
    "\<not> is_ok (fst (ValidateJWT (lib_crypto L) (ap_authSvc a) (TrimSpace (sc_APISecret conf)) w))"
  shows "\<exists>req w'. send_http ulower (ct_config cl) msg = Ok req
    \<and> handled L a addr req w = (Ok (writeError 401 (Err ''invalid credentials'')), w') \<and> w_db w' = w_db w"
proof -
  note cl = NewClient_Ok [OF assms(1)]
  have base: "sdk_base (sc_BackendURL (ct_config cl))" using assms(2) by (simp add: cl(4) sdk_base_def)
  have segs: "segs_ok [''v1'', ''messages'', ''send'']" by (simp add: segs_ok_def)
  obtain req where req: "send_http ulower (ct_config cl) msg = Ok req" "hr_Method req = ''POST''"
      "path_segments (url_Path (hr_URL req)) = [''v1'', ''messages'', ''send'']"
    and hd: "rq_Header (received addr req) ''Authorization'' = ''Bearer '' @ sc_APISecret (ct_config cl)"
      "rq_Header (received addr req) ''X-API-Secret'' = []"
    using sdk_request [OF base segs, of "''build send endpoint''" ulower "''create send request''" "''POST''" "sdk_send_body msg"
        "sc_RequestTimeout (ct_config cl)" "ct_config cl"]
    by (auto simp: send_http_def slash_path_def)
  obtain v w' where v: "ValidateJWT (lib_crypto L) (ap_authSvc a) (sc_APISecret (ct_config cl)) w = (v, w')" by fastforce
  with assms(3) obtain e where jwt: "ValidateJWT (lib_crypto L) (ap_authSvc a) (sc_APISecret (ct_config cl)) w = (Inl e, w')"
    by (cases v) (auto simp: cl(5))
  have "handled L a addr req w = (Ok (writeError 401 (Err ''invalid credentials'')), w')"
    by (simp add: handled_send [OF req(2,3)] requireAuth_def orError_def tryE_def authenticate_bearer [OF cl(2) hd] jwt returnE_def
        del: append.simps)
  then show ?thesis using req(1) ValidateJWT_reads [OF jwt] by blast
qed

text \<open>The body of a discovery has a member for every field that is set.\<close>

definition strings_tree :: "string \<Rightarrow> string list \<Rightarrow> (string \<times> jvalue) list" where
  "strings_tree k ss = (if ss = [] then [] else [(k, jtree (AStrs ss))])"

lemma renders_strings_text [renders_intros]: "d \<le> 5000 \<Longrightarrow> renders_fields d (strings_text k ss) (strings_tree k ss)"
  by (auto simp: strings_text_def omit_if_def strings_tree_def msg_depth_def simp del: json_text.simps jtree.simps
      intro!: renders_intros)

lemma decode_query:
  "decode_first (marshal_query q) = Some (JObj (map (\<lambda>(k, j). (sanitize k, j))
     (strings_tree ''supported_tags'' (sd_SupportedTags q) @ strings_tree ''status'' (sd_Status q) @ int_tree ''limit'' (sd_Limit q))))"
  unfolding marshal_query_def
  by (intro decode_first_all decode_all_renders renders_struct renders_intros) (simp_all add: max_depth_def)

lemma discover_strict:
  assumes "sd_Status q \<noteq> []"
  shows "Option.bind (decode_first (marshal_query q)) (\<lambda>v. Option.bind (struct_members True [''supported_tags'', ''limit''] v) f) = None"
proof -
  have "sanitize ''status'' = ''status''" "find_field [''supported_tags'', ''limit''] ''status'' = None" by code_simp+
  with assms show ?thesis unfolding decode_query by (simp add: struct_members_def strings_tree_def)
qed

lemma handled_discover:
  assumes "hr_Method q = ''POST''" "path_segments (url_Path (hr_URL q)) = [''v1'', ''registry'', ''discover'']"
  shows "handled L a addr q = requireAuth L a True True (handleDiscover L a) (received addr q)"
proof -
  have "(received addr q)\<lparr>rq_PathValue := (\<lambda>n. case map_of [] n of None \<Rightarrow> [] | Some x \<Rightarrow> x)\<rparr> = received addr q"
    by (simp add: received_def)
  moreover have "route_for (registerRoutes L a) ''POST'' [''v1'', ''registry'', ''discover'']
      = Some ([], requireAuth L a True True (handleDiscover L a))" by (simp add: route_simps)
  ultimately show ?thesis by (simp add: handled_def serve_def assms)
qed

text \<open>
  C34. A discovery of the SDK that filters by status never succeeds: the server does not know the field
  and refuses unknown fields, so it answers 400, or 401 when the API secret is not an access token; in
  neither case does anything change in the tables.
\<close>

theorem sdk_discover_status_refused:
  assumes "NewClient conf = Ok cl" "sdk_base (sc_BackendURL conf)" "sd_Status q \<noteq> []"
  shows "\<exists>req resp w'. discover_http ulower (ct_config cl) q = Ok req \<and> handled L a addr req w = (Ok resp, w') \<and> w_db w' = w_db w
    \<and> rs_Status resp = (if is_ok (fst (ValidateJWT (lib_crypto L) (ap_authSvc a) (TrimSpace (sc_APISecret conf)) w)) then 400 else 401)"
proof -
  note cl = NewClient_Ok [OF assms(1)]
  have base: "sdk_base (sc_BackendURL (ct_config cl))" using assms(2) by (simp add: cl(4) sdk_base_def)
  have segs: "segs_ok [''v1'', ''registry'', ''discover'']" by (simp add: segs_ok_def)
  obtain req where req: "discover_http ulower (ct_config cl) q = Ok req" "hr_Method req = ''POST''"
      "path_segments (url_Path (hr_URL req)) = [''v1'', ''registry'', ''discover'']" "hr_Body req = marshal_query q"
    and hd: "rq_Header (received addr req) ''Authorization'' = ''Bearer '' @ sc_APISecret (ct_config cl)"
      "rq_Header (received addr req) ''X-API-Secret'' = []"
    using sdk_request [OF base segs, of "''build discover endpoint''" ulower "''create discovery request''" "''POST''" "marshal_query q"
        "sc_RequestTimeout (ct_config cl)" "ct_config cl"]
    by (auto simp: discover_http_def slash_path_def)
  have body: "rq_Body (received addr req) = marshal_query q" by (simp add: received_def req(4))
  obtain v w' where v: "ValidateJWT (lib_crypto L) (ap_authSvc a) (sc_APISecret (ct_config cl)) w = (v, w')" by fastforce
  have "\<exists>resp. handled L a addr req w = (Ok resp, w') \<and> rs_Status resp = (if is_ok v then 400 else 401)"
    by (cases v) (simp_all add: handled_discover [OF req(2,3)] requireAuth_def orError_def tryE_def authenticate_bearer [OF cl(2) hd] v returnE_def
        handleDiscover_def readJSON_def body discover_strict [OF assms(3)] liftE_def del: append.simps)
  then show ?thesis using req(1) ValidateJWT_reads [OF v] v by (auto simp: cl(5))
qed

section \<open>Witnesses\<close>

definition secret_agent :: agent where
  "secret_agent = \<lparr>a_ID = 5, a_DisplayName = ''bot'', a_OwnerUserID = 1,
     a_APISecretHash = argon2_encoded ''salt'' (argon2_IDKey plain_crypto ''s1'' ''salt'' timeCost memoryCost parallelism hashLen),
     a_CreatedAt = 0\<rparr>"

definition agent_world :: world where
  "agent_world = limited_world\<lparr>w_db := sample_db\<lparr>t_agents := [secret_agent]\<rparr>\<rparr>"

lemma agent_world_inv: "db_inv id (w_db agent_world)"
  using sample_db_inv
  by (simp add: agent_world_def secret_agent_def db_inv_def table_defs) (simp add: sample_db_def sample_user_def empty_db_def)

lemma agent_world_can_deliver: "can_deliver canonical agent_world 5 2 ''data''"
proof -
  have "admits agent_world (Suc 0) (uuid_String canonical 5) ''data''"
    by (simp add: agent_world_def admits_def Allow_def New_def DefaultConfig_def rateFor_def Let_def full_key_def AgentKey_def TagKey_def
        map_make_def map_get_def)
  then show ?thesis
    by (simp add: can_deliver_def can_reach_def agent_world_def uuid_Nil_def time_ok_def nanos_def sample_db_def empty_db_def)
qed

definition agent_cli_state :: "(string \<Rightarrow> string) cli_state" where
  "agent_cli_state = sample_cli_state\<lparr>cs_viper := sample_settings(''agent_id'' := uuid_String canonical 5)\<rparr>"

lemma agent_cli_credentials:
  "backendURL sample_cli agent_cli_state = ''http://localhost:8080''" "cli_agentID sample_cli agent_cli_state = uuid_String canonical 5"
  "cli_apiSecret sample_cli agent_cli_state = ''s1''"
  by (simp_all add: agent_cli_state_def backendURL_def cli_agentID_def cli_apiSecret_def sample_cli_def
      sample_settings_def trim_samples TrimSpace_uuid [OF canonical_laws])

theorem cli_send_delivered_witness:
  "\<exists>s' q resp w' m. snd (run_command sample_cli (SendMsg (uuid_String canonical 2) ''data'' ''hi'') agent_cli_state) = s'
     \<and> cs_sent s' = [q] \<and> handled sample_libs sample_app [] q agent_world = (Ok resp, w') \<and> rs_Status resp = 202
     \<and> t_messages (w_db w') = [m] \<and> m_FromID m = 5 \<and> m_Content m = ''hi''"
proof -
  obtain res s' where run: "run_command sample_cli (SendMsg (uuid_String (lib_uuid sample_libs) 2) ''data'' ''hi'') agent_cli_state = (res, s')"
    by fastforce
  have str: "sanitize ''hi'' = ''hi''" "sanitize ''data'' = ''data''" "TrimSpace ''data'' = ''data''" "IsValidTag ''data''" by code_simp+
  have base: "base_ok (backendURL sample_cli agent_cli_state)" by (simp add: agent_cli_credentials sample_base)
  have aid: "cli_agentID sample_cli agent_cli_state = uuid_String (lib_uuid sample_libs) (a_ID secret_agent)"
    by (simp add: agent_cli_credentials secret_agent_def)
  have sec: "valid_secret sample_libs (w_db agent_world) secret_agent (cli_apiSecret sample_cli agent_cli_state)"
    using verify_encoded [OF plain_crypto_laws, of "''salt''" "''s1''" "''s1''"]
    by (simp add: valid_secret_def agent_cli_credentials agent_world_def token_ok_def trim_samples) (simp add: secret_agent_def)
  have "\<exists>q resp w' m. cs_sent s' = cs_sent agent_cli_state @ [q] \<and> handled sample_libs sample_app [] q agent_world = (Ok resp, w')
      \<and> rs_Status resp = 202 \<and> t_messages (w_db w') = t_messages (w_db agent_world) @ [m] \<and> m_FromID m = a_ID secret_agent
      \<and> belongs (a_ID secret_agent) 2 (w_db w') (m_ConversationID m) \<and> m_Tag m = ''data'' \<and> m_Content m = ''hi''"
    using str agent_world_can_deliver
    by (intro cli_send_delivered [OF base aid sec run _ _ _ _ agent_world_inv]) (simp_all add: IsValidTag_tag_lang canonical_laws
        sample_app_def sample_service_def NewService_def secret_agent_def)
  then show ?thesis using run by (auto simp: agent_cli_state_def sample_cli_state_def agent_world_def sample_db_def empty_db_def secret_agent_def)
qed

lemma sample_polls: "\<exists>s' q. run_command sample_cli (Poll ''c1'' 0 [] []) sample_cli_state = (Ok (), s') \<and> cs_sent s' = [q]"
proof -
  have "host_ok ''localhost:8080''" "\<not> HasSuffix ''localhost:8080'' '':''" "path_ok ''/v1/messages/poll''" "query_ok ''conversation_id=c1''" by code_simp+
  from NewRequest_endpoint [OF _ this, of "''http''" id "''GET''"]
  have req: "\<exists>req. NewRequest id ''GET'' ''http://localhost:8080/v1/messages/poll?conversation_id=c1'' b = Ok req" for b
    by (simp add: web_scheme_def endpoint_text_def)
  have "decode_map \<lparr>hs_StatusCode = 200, hs_Body = ''{}'', hs_ReadErr = None\<rparr> = Ok (Some [])" by code_simp
  moreover have "cl_lower sample_cli = id" "cl_Do sample_cli = (\<lambda>_ _. Ok \<lparr>hs_StatusCode = 200, hs_Body = ''{}'', hs_ReadErr = None\<rparr>)"
    by (simp_all add: sample_cli_def)
  moreover obtain req where "NewRequest id ''GET'' ''http://localhost:8080/v1/messages/poll?conversation_id=c1'' (payload_text None) = Ok req"
    using req by blast
  ultimately show ?thesis
    by (simp add: pollCmd_def poll_query_def with_token_def sample_credentials doJSON_def bindE_def liftE_def finish_json_def cliDo_def
        returnE_def print_map_def prettyPrint_def Let_def) (simp add: sample_cli_state_def)
qed


definition sample_viper :: viper_values where
  "sample_viper = \<lparr>vv_ReadInConfig = Ok (), vv_GetString = (\<lambda>k. if k = ''backend_url'' then ''http://localhost:8080'' else ''s1''), vv_GetInt = (\<lambda>_. 0)\<rparr>"

definition sample_conf :: sdk_config where
  "sample_conf = \<lparr>sc_BackendURL = ''http://localhost:8080'', sc_AgentID = ''s1'', sc_APISecret = ''s1'', sc_DisplayName = ''s1'',
     sc_HeartbeatInterval = defaultHeartbeatInterval, sc_RequestTimeout = defaultRequestTimeout\<rparr>"

lemma sample_conf_loads: "LoadConfig sample_viper = Ok sample_conf"
  by (simp add: LoadConfig_def sample_viper_def trim_samples validateConfig_def bind_res_def sample_conf_def defaultHeartbeatInterval_def
      defaultRequestTimeout_def nanos_def)

lemma sample_client: "NewClient sample_conf = Ok \<lparr>ct_config = sample_conf, ct_handler = None, ct_done = False\<rparr>"
  by (intro NewClient_trimmed LoadConfig_Ok [OF sample_conf_loads])

theorem sdk_config_valid_witness:
  "LoadConfig sample_viper = Ok sample_conf \<and> NewClient sample_conf = Ok \<lparr>ct_config = sample_conf, ct_handler = None, ct_done = False\<rparr>
   \<and> validateConfig sample_conf = Ok ()"
  using sdk_config_valid [of sample_viper sample_conf "\<lparr>ct_config = sample_conf, ct_handler = None, ct_done = False\<rparr>"] sample_conf_loads by simp

lemma sample_sdk_base: "sdk_base (sc_BackendURL sample_conf)"
proof -
  have "host_ok ''localhost:8080''" "\<not> HasSuffix ''localhost:8080'' '':''" "path_ok []" by code_simp+
  then show ?thesis unfolding sdk_base_def
    by (intro exI [of _ "''http''"] exI [of _ "''localhost:8080''"] exI [of _ "[]"])
      (simp add: web_scheme_def trim_slashes_def sample_conf_def trim_samples endpoint_text_def)
qed

definition sample_sdk_message :: sdk_message where
  "sample_sdk_message = \<lparr>sm_ID = [], sm_From = ''s1'', sm_To = ''b2'', sm_ParticipantKind = [], sm_Tag = ''data'', sm_Content = ''hi'',
     sm_Metadata = None, sm_Timestamp = []\<rparr>"

theorem sdk_send_unauthorized_witness:
  "\<exists>cl req w'. NewClient sample_conf = Ok cl \<and> send_http id (ct_config cl) sample_sdk_message = Ok req
    \<and> handled sample_libs sample_app [] req (clear_world sample_db) = (Ok (writeError 401 (Err ''invalid credentials'')), w')"
proof -
  have "Split ''s1'' CHR ''.'' = [''s1'']" by code_simp
  then have "\<not> is_ok (fst (ValidateJWT (lib_crypto sample_libs) (ap_authSvc sample_app) (TrimSpace (sc_APISecret sample_conf)) (clear_world sample_db)))"
    by (simp add: ValidateJWT_def sample_app_def sample_service_def NewService_def bindE_def time_Now_def liftE_def plain_crypto_def
        plain_Parse_def sample_conf_def trim_samples)
  from sdk_send_unauthorized [OF sample_client sample_sdk_base this, of id sample_sdk_message "[]"] sample_client show ?thesis by auto
qed

theorem sdk_discover_status_refused_witness:
  "\<exists>cl req resp w'. NewClient sample_conf = Ok cl
    \<and> discover_http id (ct_config cl) \<lparr>sd_SupportedTags = [], sd_Status = [''online''], sd_Limit = 5\<rparr> = Ok req
    \<and> handled sample_libs sample_app [] req (clear_world sample_db) = (Ok resp, w') \<and> rs_Status resp \<in> {400, 401}"
  using sdk_discover_status_refused [OF sample_client sample_sdk_base,
      of "\<lparr>sd_SupportedTags = [], sd_Status = [''online''], sd_Limit = 5\<rparr>" id sample_libs sample_app "[]" "clear_world sample_db"] sample_client
  by (auto split: if_splits)

end
