(* ===== verification/JsonFuel.thy ===== *)
theory JsonFuel
  imports Server
begin

text \<open>
  The JSON parser recurses on fuel. Every text has enough of it: more fuel never changes the result, so
  a refusal is about the text.
\<close>

section \<open>What is left is shorter\<close>

lemma skip_ws_length: "length (skip_ws s) \<le> length s"
  by (simp add: skip_ws_def length_dropWhile_le)

lemma skip_ws_Cons_length: "skip_ws s = c # r \<Longrightarrow> length r < length s"
  using skip_ws_length [of s] by simp

lemma prepend_Some: "prepend p x = Some (y, r) \<Longrightarrow> \<exists>z. x = Some (z, r)"
  by (auto simp: prepend_def)

lemma parse_chars_length: "parse_chars hi s = Some (x, r) \<Longrightarrow> length r < length s"
proof (induction s arbitrary: hi x rule: length_induct)
  case (1 s)
  have IH: "length ys < length s \<Longrightarrow> length r < length s" if "parse_chars hi' ys = Some (z, r)" for hi' ys z
    using 1(1) that by fastforce
  obtain c t where s: "s = c # t" using 1(2) by (cases s) auto
  from 1(2) [unfolded s parse_chars.simps] show ?case
    by (auto simp: s split: if_splits list.splits option.splits dest!: prepend_Some dest!: IH [unfolded s])
qed

lemma parse_string_length: "parse_string s = Some (x, r) \<Longrightarrow> length r < length s"
  by (auto simp: parse_string_def dest: parse_chars_length)

lemma parse_number_length:
  assumes "parse_number s = Some (x, r)"
  shows "length r < length s"
proof -
  obtain sg i f e where i: "scan_int (drop (length sg) s) = Some i" and x: "x = sg @ i @ f @ e" and r: "r = drop (length x) s"
    using assms by (auto simp: parse_number_def Let_def bind_eq_Some_conv)
  have "i \<noteq> []" "s \<noteq> []" using i by (auto simp: scan_int_def digits_of_def split: list.splits if_splits)
  then show ?thesis by (simp add: r x)
qed

lemma literal_length: "literal w v s = Some (x, r) \<Longrightarrow> w \<noteq> [] \<Longrightarrow> length r < length s"
  by (auto simp: literal_def prefix_def split: if_splits)

lemma parse_length:
  "parse_value n d s = Some (v, r) \<Longrightarrow> length r < length s"
  "parse_elems n d s = Some (vs, r) \<Longrightarrow> length r < length s"
  "parse_members n d s = Some (ms, r) \<Longrightarrow> length r < length s"
proof (induction n arbitrary: d s v vs ms r)
  case (Suc n)
  {
    case 1
    then obtain c t where c: "skip_ws s = c # t" by (auto split: list.splits)
    have "length r < length (skip_ws s)"
      using 1 Suc.IH(2,3) [of "Suc d" t]
      by (auto simp: c split: if_splits list.splits dest!: parse_string_length parse_number_length literal_length
          skip_ws_Cons_length)
    then show ?case using skip_ws_length [of s] by simp
  next
    case 2
    then show ?case
      by (force split: option.splits list.splits if_splits dest!: Suc.IH(1,2) skip_ws_Cons_length)
  next
    case 3
    then show ?case
      by (force split: option.splits list.splits if_splits dest!: Suc.IH(1,3) skip_ws_Cons_length parse_string_length)
  }
qed simp_all

section \<open>Enough fuel\<close>

lemma parse_fuel:
  "2 * length s + 1 \<le> n \<Longrightarrow> n \<le> m \<Longrightarrow> parse_value m d s = parse_value n d s"
  "2 * length s + 2 \<le> n \<Longrightarrow> n \<le> m \<Longrightarrow> parse_elems m d s = parse_elems n d s"
  "2 * length s + 2 \<le> n \<Longrightarrow> n \<le> m \<Longrightarrow> parse_members m d s = parse_members n d s"
proof (induction n arbitrary: d s m)
  case (Suc n)
  {
    case 1
    then obtain m' where m: "m = Suc m'" "n \<le> m'" by (cases m) auto
    have r: "parse_elems m' (Suc d) r = parse_elems n (Suc d) r \<and> parse_members m' (Suc d) r = parse_members n (Suc d) r"
      if "skip_ws s = c # r" for c r
      using Suc.IH(2,3) [of r m' "Suc d"] skip_ws_Cons_length [OF that] 1(1) m(2) by simp
    show ?case unfolding m(1) parse_value.simps using r by (auto split: list.split)
  next
    case 2
    then obtain m' where m: "m = Suc m'" "n \<le> m'" by (cases m) auto
    have v: "parse_value m' d s = parse_value n d s" using 2(1) m(2) by (intro Suc.IH(1)) simp_all
    have e: "parse_elems m' d t = parse_elems n d t" if "parse_value n d s = Some (x, r)" "skip_ws r = c # t" for x r c t
      using Suc.IH(2) [of t m' d] parse_length(1) [OF that(1)] skip_ws_Cons_length [OF that(2)] 2(1) m(2) by simp
    show ?case unfolding m(1) parse_elems.simps v using e by (auto split: option.split list.split)
  next
    case 3
    then obtain m' where m: "m = Suc m'" "n \<le> m'" by (cases m) auto
    have v: "parse_value m' d t = parse_value n d t" if "length t + 1 < length s" for t
      using Suc.IH(1) [of t m' d] that 3(1) m(2) by simp
    have e: "parse_members m' d t = parse_members n d t" if "length u + 1 < length s" "parse_value n d u = Some (x, r)" "skip_ws r = c # t" for u x r c t
      using Suc.IH(3) [of t m' d] that(1) parse_length(1) [OF that(2)] skip_ws_Cons_length [OF that(3)] 3(1) m(2) by simp
    have rest: "(case parse_value m' d u of None \<Rightarrow> None | Some (x, r) \<Rightarrow> (case skip_ws r of [] \<Rightarrow> None | c # t \<Rightarrow>
            if c = CHR ''}'' then Some ([(k, x)], t) else if c = CHR '','' then map_option (\<lambda>(ms, u). ((k, x) # ms, u)) (parse_members m' d t) else None))
        = (case parse_value n d u of None \<Rightarrow> None | Some (x, r) \<Rightarrow> (case skip_ws r of [] \<Rightarrow> None | c # t \<Rightarrow>
            if c = CHR ''}'' then Some ([(k, x)], t) else if c = CHR '','' then map_option (\<lambda>(ms, u). ((k, x) # ms, u)) (parse_members n d t) else None))"
      if "length u + 1 < length s" for u k
    proof (cases "parse_value n d u")
      case (Some xr)
      obtain x r where xr: "xr = (x, r)" by (cases xr)
      show ?thesis using e [OF that Some [unfolded xr]] by (cases "skip_ws r") (simp_all add: v [OF that] Some xr)
    qed (simp add: v [OF that])
    show ?case
    proof (cases "skip_ws s")
      case (Cons q r)
      show ?thesis
      proof (cases "parse_string r")
        case (Some kr)
        obtain k r1 where kr: "kr = (k, r1)" by (cases kr)
        have "length t + 1 < length s" if "skip_ws r1 = c # t" for c t
          using skip_ws_Cons_length [OF Cons] parse_string_length [OF Some [unfolded kr]] skip_ws_Cons_length [OF that] by simp
        then show ?thesis unfolding m(1) parse_members.simps Cons list.case Some kr option.case prod.case
          using rest by (cases "skip_ws r1") simp_all
      qed (simp add: m(1) Cons)
    qed (simp add: m(1))
  }
qed simp_all

lemma json_first_fuel: "2 * length s + 1 \<le> n \<Longrightarrow> parse_value n 0 s = json_first s"
  unfolding json_first_def by (rule parse_fuel) simp_all



end
