(* ===== verification/Sha256.thy ===== *)
theory Sha256
  imports Encoding "HOL-Library.Word"
begin

text \<open>
  What \<open>internal/email/azurecs\<close> uses of Go's \<open>crypto/sha256\<close>, \<open>crypto/hmac\<close> and the padded
  \<open>encoding/base64\<close>: SHA-256 (FIPS 180-4) on 32-bit words, HMAC (RFC 2104), and base64 with padding.
\<close>

unbundle bit_operations_syntax

section \<open>SHA-256\<close>

type_synonym w32 = "32 word"

type_synonym sha_state = "w32 \<times> w32 \<times> w32 \<times> w32 \<times> w32 \<times> w32 \<times> w32 \<times> w32"

text \<open>
  The constants of the standard: the first 32 bits of the fractional parts of the square roots of the
  first 8 primes, and of the cube roots of the first 64. A root is found bit by bit, from the
  bit \<open>b\<close> downwards.
\<close>

fun root_bits :: "nat \<Rightarrow> int \<Rightarrow> nat \<Rightarrow> int \<Rightarrow> int \<Rightarrow> int" where
  "root_bits 0 b k x r = r"
| "root_bits (Suc n) b k x r = root_bits n (b div 2) k x (if (r + b) ^ k \<le> x then r + b else r)"

definition sha_primes :: "int list" where
  "sha_primes = filter (\<lambda>p. list_all (\<lambda>d. p \<le> d \<or> p mod d \<noteq> 0) [2..17]) [2..311]"

definition root_fraction :: "nat \<Rightarrow> int \<Rightarrow> w32" where
  "root_fraction k p = word_of_int (root_bits 35 0x400000000 k (p * 0x100000000 ^ k) 0)"

definition sha_init :: sha_state where
  "sha_init =
     (root_fraction 2 2, root_fraction 2 3, root_fraction 2 5, root_fraction 2 7,
      root_fraction 2 11, root_fraction 2 13, root_fraction 2 17, root_fraction 2 19)"

definition sha_constants :: "w32 list" where
  "sha_constants = map (root_fraction 3) sha_primes"

definition small_sigma0 :: "w32 \<Rightarrow> w32" where
  "small_sigma0 x = (word_rotr 7 x XOR word_rotr 18 x) XOR drop_bit 3 x"

definition small_sigma1 :: "w32 \<Rightarrow> w32" where
  "small_sigma1 x = (word_rotr 17 x XOR word_rotr 19 x) XOR drop_bit 10 x"

definition big_sigma0 :: "w32 \<Rightarrow> w32" where
  "big_sigma0 x = (word_rotr 2 x XOR word_rotr 13 x) XOR word_rotr 22 x"

definition big_sigma1 :: "w32 \<Rightarrow> w32" where
  "big_sigma1 x = (word_rotr 6 x XOR word_rotr 11 x) XOR word_rotr 25 x"

definition sha_ch :: "w32 \<Rightarrow> w32 \<Rightarrow> w32 \<Rightarrow> w32" where
  "sha_ch x y z = (x AND y) XOR (NOT x AND z)"

definition sha_maj :: "w32 \<Rightarrow> w32 \<Rightarrow> w32 \<Rightarrow> w32" where
  "sha_maj x y z = ((x AND y) XOR (x AND z)) XOR (y AND z)"

text \<open>The message schedule: the last sixteen words give the next one.\<close>

fun sha_schedule :: "nat \<Rightarrow> w32 list \<Rightarrow> w32 list" where
  "sha_schedule 0 ws = ws"
| "sha_schedule (Suc n) ws =
     ws ! 0 # sha_schedule n (tl ws @ [small_sigma1 (ws ! 14) + ws ! 9 + small_sigma0 (ws ! 1) + ws ! 0])"

fun sha_round :: "w32 \<times> w32 \<Rightarrow> sha_state \<Rightarrow> sha_state" where
  "sha_round (k, w) (a, b, c, d, e, f, g, h) =
     (let t1 = h + big_sigma1 e + sha_ch e f g + k + w; t2 = big_sigma0 a + sha_maj a b c in
      (t1 + t2, a, b, c, d + t1, e, f, g))"

definition sha_add :: "sha_state \<Rightarrow> sha_state \<Rightarrow> sha_state" where
  "sha_add x y =
     (case (x, y) of ((a, b, c, d, e, f, g, h), (a', b', c', d', e', f', g', h')) \<Rightarrow>
        (a + a', b + b', c + c', d + d', e + e', f + f', g + g', h + h'))"

text \<open>Words are read and written most significant byte first.\<close>

fun be_words :: "string \<Rightarrow> w32 list" where
  "be_words (a # b # c # d # s) =
     word_of_int (((int (byte a) * 256 + int (byte b)) * 256 + int (byte c)) * 256 + int (byte d)) # be_words s"
| "be_words _ = []"

definition be_bytes :: "nat \<Rightarrow> int \<Rightarrow> string" where
  "be_bytes n x = map (\<lambda>i. of_byte (nat (x div 256 ^ i mod 256))) (rev [0..<n])"

definition sha_block :: "sha_state \<Rightarrow> string \<Rightarrow> sha_state" where
  "sha_block st b = sha_add st (fold sha_round (zip sha_constants (sha_schedule 48 (be_words b))) st)"

function sha_blocks :: "sha_state \<Rightarrow> string \<Rightarrow> sha_state" where
  "sha_blocks st s = (if length s < 64 then st else sha_blocks (sha_block st (take 64 s)) (drop 64 s))"
  by pat_completeness auto
termination by (relation "measure (\<lambda>(st, s). length s)") auto

declare sha_blocks.simps [simp del]

definition sha_pad :: "string \<Rightarrow> string" where
  "sha_pad m =
     m @ [CHR 0x80] @ replicate ((119 - length m mod 64) mod 64) (CHR 0x00)
     @ be_bytes 8 (8 * int (length m) mod 2 ^ 64)"

definition sha_bytes :: "sha_state \<Rightarrow> string" where
  "sha_bytes st =
     (case st of (a, b, c, d, e, f, g, h) \<Rightarrow> concat (map (\<lambda>x. be_bytes 4 (uint x)) [a, b, c, d, e, f, g, h]))"

definition sha256 :: "string \<Rightarrow> string" where
  "sha256 m = sha_bytes (sha_blocks sha_init (sha_pad m))"

section \<open>HMAC\<close>

definition xor_byte :: "nat \<Rightarrow> char \<Rightarrow> char" where
  "xor_byte k c = of_byte (byte c XOR k)"

definition hmac_sha256 :: "string \<Rightarrow> string \<Rightarrow> string" where
  "hmac_sha256 key m =
     (let k = (if length key > 64 then sha256 key else key);
          block = k @ replicate (64 - length k) (CHR 0x00) in
      sha256 (map (xor_byte 0x5C) block @ sha256 (map (xor_byte 0x36) block @ m)))"

lemma length_be_bytes [simp]: "length (be_bytes n x) = n"
  by (simp add: be_bytes_def)

lemma length_sha256 [simp]: "length (sha256 m) = 32"
  by (simp add: sha256_def sha_bytes_def split: prod.split)

lemma length_hmac [simp]: "length (hmac_sha256 key m) = 32"
  by (simp add: hmac_sha256_def Let_def)

lemma sha_pad_blocks: "length (sha_pad m) mod 64 = 0"
proof -
  define k where "k = length m mod 64"
  have k: "k < 64" "length m = 64 * (length m div 64) + k" by (simp_all add: k_def)
  have z: "(119 - k) mod 64 = (if k < 56 then 55 - k else 119 - k)"
  proof (cases "k < 56")
    case True
    then have "119 - k = 64 + (55 - k)" "55 - k < 64" by simp_all
    then show ?thesis using True by (metis mod_add_self1 mod_less)
  qed (use k(1) in simp)
  have "length (sha_pad m) = length m + 9 + (119 - k) mod 64" by (simp add: sha_pad_def k_def)
  also have "\<dots> = 64 * (length m div 64) + (k + 9 + (119 - k) mod 64)" using k(2) by linarith
  also have "k + 9 + (119 - k) mod 64 = (if k < 56 then 64 else 128)" using k(1) by (simp add: z)
  finally show ?thesis by (simp split: if_splits)
qed

text \<open>The one-block example of FIPS 180-4.\<close>

lemma sha256_abc:
  "hex_EncodeToString (sha256 ''abc'') = ''ba7816bf8f01cfea414140de5dae2223b00361a396177a9cb410ff61f20015ad''"
  by code_simp

section \<open>Padded base64\<close>

definition base64_std_encode :: "string \<Rightarrow> string" where
  "base64_std_encode s = base64_encode std_alphabet s @ replicate ((3 - length s mod 3) mod 3) (CHR ''='')"

text \<open>Line breaks are skipped, and the padding completes the last group of four.\<close>

definition base64_std_decode :: "string \<Rightarrow> string option" where
  "base64_std_decode s =
     (let t = filter (\<lambda>c. c \<noteq> CHR 0x0A \<and> c \<noteq> CHR 0x0D) s;
          body = takeWhile (\<lambda>c. c \<noteq> CHR ''='') t;
          pad = drop (length body) t in
      if (length body mod 4 = 0 \<and> pad = []) \<or> (length body mod 4 = 2 \<and> pad = ''=='') \<or> (length body mod 4 = 3 \<and> pad = ''='')
      then base64_decode std_alphabet body else None)"

lemma base64_body:
  "length (base64_encode al s) mod 4 = (if length s mod 3 = 0 then 0 else length s mod 3 + 1)"
proof (induction al s rule: base64_encode.induct)
  case (4 al a b c s)
  have "length (base64_encode al (a # b # c # s)) mod 4 = length (base64_encode al s) mod 4" by simp
  moreover have "length (a # b # c # s) mod 3 = length s mod 3" by simp
  ultimately show ?case using 4 by simp
qed simp_all

lemma base64_std_roundtrip: "base64_std_decode (base64_std_encode s) = Some s"
proof -
  define b where "b = base64_encode std_alphabet s"
  have al: "\<forall>c \<in> set std_alphabet. c \<noteq> CHR ''='' \<and> c \<noteq> CHR 0x0A \<and> c \<noteq> CHR 0x0D" by (simp add: std_alphabet_def)
  then have b: "\<forall>c \<in> set b. c \<noteq> CHR ''='' \<and> c \<noteq> CHR 0x0A \<and> c \<noteq> CHR 0x0D" using base64_chars [OF std_alphabet_ok] by (auto simp: b_def)
  define pad where "pad = replicate ((3 - length s mod 3) mod 3) (CHR ''='')"
  have "filter (\<lambda>c. c \<noteq> CHR 0x0A \<and> c \<noteq> CHR 0x0D) (b @ pad) = b @ pad" using b by (auto simp: pad_def intro!: filter_True)
  moreover have "takeWhile (\<lambda>c. c \<noteq> CHR ''='') (b @ pad) = b"
    using b by (cases "(3 - length s mod 3) mod 3") (auto simp: pad_def takeWhile_eq_all_conv)
  moreover have "(length b mod 4 = 0 \<and> pad = []) \<or> (length b mod 4 = 2 \<and> pad = ''=='') \<or> (length b mod 4 = 3 \<and> pad = ''='')"
  proof -
    have "length s mod 3 = 0 \<or> length s mod 3 = 1 \<or> length s mod 3 = 2" by presburger
    then show ?thesis using base64_body [of std_alphabet s] by (auto simp: b_def pad_def numeral_2_eq_2)
  qed
  moreover have "base64_decode std_alphabet b = Some s" by (simp add: b_def base64_roundtrip [OF std_alphabet_ok])
  ultimately show ?thesis
    by (simp only: base64_std_decode_def base64_std_encode_def b_def [symmetric] pad_def [symmetric] Let_def append_eq_conv_conj) simp
qed

end
