(* ===== verification/Azurecs.thy ===== *)
theory Azurecs
  imports Http Sha256
begin

text \<open>
  \<open>backend/internal/email\<close>: the e-mail senders. \<open>azurecs/azurecs.go\<close> posts a message to Azure
  Communication Services, signed with the access key of the connection string; \<open>console/console.go\<close>
  writes it to the log. What answers HTTP requests and the current time are arguments.
\<close>

section \<open>The connection string\<close>

text \<open>The client's timeout is part of every request it sends.\<close>

record azure_sender =
  az_endpoint :: string
  az_accessKey :: string
  az_from :: string
  az_timeout :: int

definition conn_part :: "(string \<Rightarrow> string) \<Rightarrow> string \<Rightarrow> string \<times> string \<Rightarrow> string \<times> string" where
  "conn_part ulower part0 acc =
     (let part = TrimSpace part0 in
      if HasPrefix (ToLower ulower part) ''endpoint='' then (TrimSpace (drop 9 part), snd acc)
      else if HasPrefix (ToLower ulower part) ''accesskey='' then (fst acc, TrimSpace (drop 10 part))
      else acc)"

definition parseConnectionString :: "(string \<Rightarrow> string) \<Rightarrow> string \<Rightarrow> string \<times> string" where
  "parseConnectionString ulower cs = fold (conn_part ulower) (Split cs CHR '';'') ([], [])"

definition azure_New :: "(string \<Rightarrow> string) \<Rightarrow> string \<Rightarrow> string \<Rightarrow> azure_sender" where
  "azure_New ulower connectionString fromAddress =
     (case parseConnectionString ulower connectionString of (endpoint, accessKey) \<Rightarrow>
        \<lparr>az_endpoint = endpoint, az_accessKey = accessKey, az_from = fromAddress, az_timeout = 30 * nanos\<rparr>)"

section \<open>Signing\<close>

text \<open>\<open>Format(http.TimeFormat)\<close> in UTC.\<close>

definition day_names :: "string list" where
  "day_names = [''Sun'', ''Mon'', ''Tue'', ''Wed'', ''Thu'', ''Fri'', ''Sat'']"

definition month_names :: "string list" where
  "month_names = [''Jan'', ''Feb'', ''Mar'', ''Apr'', ''May'', ''Jun'', ''Jul'', ''Aug'', ''Sep'', ''Oct'', ''Nov'', ''Dec'']"

definition http_time :: "time \<Rightarrow> string" where
  "http_time t =
     (case civil_date (day_number t) of (y, m, d) \<Rightarrow>
        day_names ! ((day_number t + 6) mod 7) @ '', '' @ fixed_digits 2 d @ '' '' @ month_names ! (m - 1) @ '' ''
        @ (if y < 10000 then fixed_digits 4 y else dec_digits y) @ '' '' @ format_clock (second_of_day t) @ '' GMT'')"

definition computeContentHash :: "string \<Rightarrow> string" where
  "computeContentHash data = base64_std_encode (sha256 data)"

definition computeHMAC :: "string \<Rightarrow> string \<Rightarrow> string" where
  "computeHMAC data key = base64_std_encode (hmac_sha256 key data)"

definition newline :: string where "newline = [CHR 0x0A]"

definition signRequest :: "string \<Rightarrow> time \<Rightarrow> http_request \<Rightarrow> string \<Rightarrow> http_request res" where
  "signRequest accessKey now req body =
     (case base64_std_decode accessKey of
        None \<Rightarrow> Fail (Wrap ''decode access key'' (Err ''illegal base64 data''))
      | Some key \<Rightarrow>
          let timestamp = http_time now; contentHash = computeContentHash body;
              pathAndQuery = url_Path (hr_URL req) @ (if url_RawQuery (hr_URL req) \<noteq> [] then ''?'' @ url_RawQuery (hr_URL req) else []);
              stringToSign = ''POST'' @ newline @ pathAndQuery @ newline @ timestamp @ '';'' @ url_Host (hr_URL req) @ '';'' @ contentHash;
              signature = computeHMAC stringToSign key in
          Ok (set_header ''Authorization'' (''HMAC-SHA256 SignedHeaders=x-ms-date;host;x-ms-content-sha256&Signature='' @ signature)
               (set_header ''x-ms-content-sha256'' contentHash (set_header ''x-ms-date'' timestamp req))))"

section \<open>Sending\<close>

definition apiVersion :: string where "apiVersion = ''2023-03-31''"

definition TrimSuffix :: "string \<Rightarrow> string \<Rightarrow> string" where
  "TrimSuffix s p = (if HasSuffix s p then take (length s - length p) s else s)"

text \<open>\<open>json.Marshal\<close> of \<open>sendRequest\<close>; the address has no display name.\<close>

definition azure_payload :: "azure_sender \<Rightarrow> email_message \<Rightarrow> string" where
  "azure_payload s msg =
     struct_text
       [(''senderAddress'', quote (az_from s)),
        (''recipients'', struct_text [(''to'', bracket CHR ''['' [struct_text [(''address'', quote (em_To msg))]] CHR '']'')]),
        (''content'', struct_text ([(''subject'', quote (em_Subject msg))] @ string_text ''html'' (em_HTML msg)
          @ string_text ''plainText'' (em_Text msg)))]"

text \<open>The request of \<open>SendEmail\<close>, or the error before one is sent.\<close>

definition azure_request :: "(string \<Rightarrow> string) \<Rightarrow> azure_sender option \<Rightarrow> time \<Rightarrow> email_message \<Rightarrow> http_request res" where
  "azure_request ulower sender now msg =
     (case sender of
        None \<Rightarrow> Fail (Err ''azurecs: sender not configured (missing endpoint or access key)'')
      | Some s \<Rightarrow>
          if az_endpoint s = [] \<or> az_accessKey s = []
          then Fail (Err ''azurecs: sender not configured (missing endpoint or access key)'')
          else
            let payload = azure_payload s msg; endpoint = TrimSuffix (az_endpoint s) ''/'' in
            case url_Parse ulower (endpoint @ ''/emails:send?api-version='' @ apiVersion) of
              Inl e \<Rightarrow> Fail (Wrap ''azurecs: parse url'' e)
            | Inr reqURL \<Rightarrow>
                (case NewRequest ulower ''POST'' (url_String reqURL) payload of
                   Inl e \<Rightarrow> Fail (Wrap ''azurecs: create request'' e)
                 | Inr req \<Rightarrow>
                     (case signRequest (az_accessKey s) now req payload of
                        Inl e \<Rightarrow> Fail (Wrap ''azurecs: sign request'' e)
                      | Inr req1 \<Rightarrow>
                          Ok (set_timeout (az_timeout s) (set_header ''Content-Type'' ''application/json'' req1)))))"

text \<open>The code and message of an \<open>errorResponse\<close>; members that are repeated are merged.\<close>

definition error_fields :: "string \<times> string \<Rightarrow> jvalue \<Rightarrow> (string \<times> string) option" where
  "error_fields acc v =
     do { ms \<leftarrow> struct_members False [''code'', ''message''] v;
          c \<leftarrow> set_string (fst acc) (values_of ''code'' ms);
          m \<leftarrow> set_string (snd acc) (values_of ''message'' ms);
          Some (c, m) }"

definition unmarshal_errorResponse :: "string \<Rightarrow> (string \<times> string) option" where
  "unmarshal_errorResponse raw =
     do { v \<leftarrow> decode_all raw; ms \<leftarrow> struct_members False [''error''] v;
          fold (\<lambda>x acc. Option.bind acc (\<lambda>a. error_fields a x)) (values_of ''error'' ms) (Some ([], [])) }"

definition azure_failure :: "nat \<Rightarrow> string \<Rightarrow> go_error" where
  "azure_failure status respBody =
     (case unmarshal_errorResponse respBody of
        Some (code, message) \<Rightarrow>
          if message \<noteq> [] then Err (''azurecs: status '' @ Itoa (int status) @ '': '' @ message @ '' (code='' @ code @ '')'')
          else Err (''azurecs: unexpected status '' @ Itoa (int status) @ '': '' @ respBody)
      | None \<Rightarrow> Err (''azurecs: unexpected status '' @ Itoa (int status) @ '': '' @ respBody))"

definition azure_SendEmail :: "(string \<Rightarrow> string) \<Rightarrow> transport \<Rightarrow> azure_sender option \<Rightarrow> time \<Rightarrow> email_message \<Rightarrow> unit res" where
  "azure_SendEmail ulower tr sender now msg =
     (case azure_request ulower sender now msg of
        Inl e \<Rightarrow> Fail e
      | Inr req \<Rightarrow>
          (case tr req of
             Inl e \<Rightarrow> Fail (Wrap ''azurecs: send request'' e)
           | Inr resp \<Rightarrow>
               if hs_StatusCode resp = 202 then Ok ()
               else Fail (azure_failure (hs_StatusCode resp) (take 4096 (hs_Body resp)))))"

section \<open>The console\<close>

text \<open>The console's sender writes the message to the log, here a list of the messages written.\<close>

definition console_SendEmail :: "email_message \<Rightarrow> (unit, email_message list) action" where
  "console_SendEmail msg written = (Ok (), written @ [msg])"

section \<open>The documented connection string\<close>

definition visible :: "char \<Rightarrow> bool" where
  "visible c \<longleftrightarrow> CHR ''!'' \<le> c \<and> c < CHR 0x7F"

lemma visible_plain:
  assumes "list_all visible s"
  shows "TrimSpace s = s" "ToLower ulower s = map char_lower s"
proof -
  have "\<forall>c \<in> set space_bytes. \<not> visible c" by (simp add: space_bytes_def space_encodings_def visible_def less_eq_char_def less_char_def)
  then have "s = [] \<or> hd s \<notin> set space_bytes \<and> last s \<notin> set space_bytes"
    using assms by (cases "s = []") (auto simp: list_all_iff)
  then show "TrimSpace s = s" by (rule TrimSpace_plain)
  have "is_ascii s" using assms by (auto simp: is_ascii_def list_all_iff visible_def less_eq_char_def less_char_def)
  then show "ToLower ulower s = map char_lower s" by (simp add: ToLower_def)
qed

lemma visible_words: "list_all visible ''endpoint=''" "list_all visible ''accesskey=''"
  "map char_lower ''endpoint='' = ''endpoint=''" "map char_lower ''accesskey='' = ''accesskey=''"
  by code_simp+

lemma parseConnectionString_text:
  assumes "list_all visible E" "CHR '';'' \<notin> set E" "list_all visible K" "CHR '';'' \<notin> set K"
  shows "parseConnectionString ulower (''endpoint='' @ E @ '';accesskey='' @ K) = (E, K)"
proof -
  have split: "Split (''endpoint='' @ E @ '';accesskey='' @ K) CHR '';'' = [''endpoint='' @ E, ''accesskey='' @ K]"
    using Split_append_sep [of "CHR '';''" "''endpoint='' @ E" "''accesskey='' @ K"] Split_no_sep [of "CHR '';''" "''accesskey='' @ K"] assms(2,4)
    by simp
  have "list_all visible (''endpoint='' @ E)" "list_all visible (''accesskey='' @ K)"
    using assms(1,3) visible_words(1,2) by (simp_all only: list_all_append)
  note v = visible_plain [OF this(1)] visible_plain [OF this(2)] visible_plain [OF assms(1)] visible_plain [OF assms(3)]
  have p: "HasPrefix (map char_lower (''endpoint='' @ E)) ''endpoint=''" "HasPrefix (map char_lower (''accesskey='' @ K)) ''accesskey=''"
      "\<not> HasPrefix (map char_lower (''accesskey='' @ K)) ''endpoint=''"
    by (simp_all only: map_append visible_words HasPrefix_def prefixI) simp_all
  have d: "drop 9 (''endpoint='' @ E) = E" "drop 10 (''accesskey='' @ K) = K" by simp_all
  show ?thesis
    unfolding parseConnectionString_def split by (simp only: fold_simps o_apply conn_part_def Let_def v p d if_True if_False fst_conv snd_conv id_apply)
qed

section \<open>What the service accepts\<close>

text \<open>
  The authentication that the service documents: the hash of the body and the date are headers, and
  the signature is made with the key over the method, the target of the request, the date, the host
  and the hash.
\<close>

definition request_target :: "http_request \<Rightarrow> string" where
  "request_target q =
     EscapedPath (hr_URL q) @ (if url_RawQuery (hr_URL q) = [] then [] else CHR ''?'' # url_RawQuery (hr_URL q))"

definition acs_accepts :: "string \<Rightarrow> http_request \<Rightarrow> bool" where
  "acs_accepts key q =
     (case (map_get (hr_Header q) ''x-ms-date'', map_get (hr_Header q) ''x-ms-content-sha256'', map_get (hr_Header q) ''Authorization'') of
        (Some date, Some hash, Some auth) \<Rightarrow>
          hash = base64_std_encode (sha256 (hr_Body q))
          \<and> auth = ''HMAC-SHA256 SignedHeaders=x-ms-date;host;x-ms-content-sha256&Signature=''
              @ base64_std_encode (hmac_sha256 key (hr_Method q @ newline @ request_target q @ newline @ date @ '';'' @ url_Host (hr_URL q) @ '';'' @ hash))
      | _ \<Rightarrow> False)"

text \<open>The value that the body of a message is read as.\<close>

definition payload_tree :: "azure_sender \<Rightarrow> email_message \<Rightarrow> jvalue" where
  "payload_tree s msg =
     JObj [(''senderAddress'', JStr (sanitize (az_from s))),
           (''recipients'', JObj [(''to'', JArr [JObj [(''address'', JStr (sanitize (em_To msg)))]])]),
           (''content'', JObj ((''subject'', JStr (sanitize (em_Subject msg))) # string_tree ''html'' (em_HTML msg)
              @ string_tree ''plainText'' (em_Text msg)))]"

lemma payload_keys: "sanitize ''senderAddress'' = ''senderAddress''" "sanitize ''recipients'' = ''recipients''" "sanitize ''content'' = ''content''"
  "sanitize ''to'' = ''to''" "sanitize ''address'' = ''address''" "sanitize ''subject'' = ''subject''" "sanitize ''html'' = ''html''"
  "sanitize ''plainText'' = ''plainText''"
  by code_simp+

lemma string_tree_keys: "sanitize k = k \<Longrightarrow> map (\<lambda>(k, j). (sanitize k, j)) (string_tree k s) = string_tree k s"
  by (simp add: string_tree_def)

lemma renders_payload: "renders 0 (azure_payload s msg) (payload_tree s msg)"
proof -
  let ?adr = "JObj (map (\<lambda>(k, j). (sanitize k, j)) [(''address'', JStr (sanitize (em_To msg)))])"
  have "renders 3 (struct_text [(''address'', quote (em_To msg))]) ?adr"
    by (intro renders_struct renders_intros) (simp add: max_depth_def)
  then have "renders 2 (bracket CHR ''['' [struct_text [(''address'', quote (em_To msg))]] CHR '']'') (JArr [?adr])"
    using renders_list [of "[(struct_text [(''address'', quote (em_To msg))], ?adr)]" 2] by (simp add: max_depth_def)
  then have "renders 1 (struct_text [(''to'', bracket CHR ''['' [struct_text [(''address'', quote (em_To msg))]] CHR '']'')])
      (JObj (map (\<lambda>(k, j). (sanitize k, j)) [(''to'', JArr [?adr])]))"
    by (intro renders_struct renders_intros) (simp_all add: max_depth_def numeral_2_eq_2)
  moreover have "renders 1 (struct_text ([(''subject'', quote (em_Subject msg))] @ string_text ''html'' (em_HTML msg) @ string_text ''plainText'' (em_Text msg)))
      (JObj (map (\<lambda>(k, j). (sanitize k, j)) ([(''subject'', JStr (sanitize (em_Subject msg)))] @ string_tree ''html'' (em_HTML msg)
        @ string_tree ''plainText'' (em_Text msg))))"
    by (intro renders_struct renders_intros) (simp add: max_depth_def)
  ultimately have "renders 0 (azure_payload s msg) (JObj (map (\<lambda>(k, j). (sanitize k, j))
      [(''senderAddress'', JStr (sanitize (az_from s))), (''recipients'', JObj (map (\<lambda>(k, j). (sanitize k, j)) [(''to'', JArr [?adr])])),
       (''content'', JObj (map (\<lambda>(k, j). (sanitize k, j)) ([(''subject'', JStr (sanitize (em_Subject msg)))] @ string_tree ''html'' (em_HTML msg)
        @ string_tree ''plainText'' (em_Text msg))))]))"
    unfolding azure_payload_def by (intro renders_struct [of 0] renders_fields_Cons renders_fields_Nil renders_quote) (simp_all add: max_depth_def)
  then show ?thesis by (simp add: payload_tree_def payload_keys string_tree_keys)
qed

lemma TrimSuffix_append: "TrimSuffix (a @ p) p = a"
  by (simp add: TrimSuffix_def HasSuffix_def suffix_def)

lemma azure_url:
  assumes "web_scheme sch" "host_ok h" "\<not> HasSuffix h '':''"
  shows "TrimSuffix (sch @ ''://'' @ h @ ''/'') ''/'' @ ''/emails:send?api-version='' @ apiVersion
      = endpoint_text sch h ''/emails:send'' ''api-version=2023-03-31''"
    "url_Parse ulower (endpoint_text sch h ''/emails:send'' ''api-version=2023-03-31'')
      = Ok (endpoint_url sch h ''/emails:send'' ''api-version=2023-03-31'')"
    "NewRequest ulower ''POST'' (url_String (endpoint_url sch h ''/emails:send'' ''api-version=2023-03-31'')) body
      = Ok \<lparr>hr_Method = ''POST'', hr_URL = endpoint_url sch h ''/emails:send'' ''api-version=2023-03-31'', hr_Header = map_make, hr_Body = body,
            hr_Timeout = 0\<rparr>"
    "EscapedPath (endpoint_url sch h ''/emails:send'' ''api-version=2023-03-31'') = ''/emails:send''"
proof -
  have ok: "path_ok ''/emails:send''" "query_ok ''api-version=2023-03-31''" by code_simp+
  have "TrimSuffix (sch @ ''://'' @ h @ ''/'') ''/'' = sch @ ''://'' @ h"
    using TrimSuffix_append [of "sch @ ''://'' @ h" "''/''"] by (simp only: append_assoc)
  then show "TrimSuffix (sch @ ''://'' @ h @ ''/'') ''/'' @ ''/emails:send?api-version='' @ apiVersion
      = endpoint_text sch h ''/emails:send'' ''api-version=2023-03-31''"
    by (simp only: endpoint_text_def apiVersion_def append_assoc) simp
  show "url_Parse ulower (endpoint_text sch h ''/emails:send'' ''api-version=2023-03-31'')
      = Ok (endpoint_url sch h ''/emails:send'' ''api-version=2023-03-31'')"
    by (rule url_Parse_endpoint [OF assms(1,2) ok])
  show "NewRequest ulower ''POST'' (url_String (endpoint_url sch h ''/emails:send'' ''api-version=2023-03-31'')) body
      = Ok \<lparr>hr_Method = ''POST'', hr_URL = endpoint_url sch h ''/emails:send'' ''api-version=2023-03-31'', hr_Header = map_make, hr_Body = body,
            hr_Timeout = 0\<rparr>"
    unfolding url_String_endpoint [OF assms(1,2) ok(1)] by (rule NewRequest_endpoint [OF assms ok])
  show "EscapedPath (endpoint_url sch h ''/emails:send'' ''api-version=2023-03-31'') = ''/emails:send''"
    using path_escapes(2) [OF ok(1)] by (simp add: EscapedPath_def endpoint_url_def blank_url_def keep_raw_def)
qed

text \<open>
  C19. A sender made from the documented connection string sends authentic requests: for every message
  there is one \<open>POST\<close> to the service, signed over the target, date, host and body that it has, so that
  the service accepts it under the key; its body is read as the message; and \<open>SendEmail\<close> succeeds exactly
  when the service answers 202.
\<close>

theorem azure_request_authentic:
  assumes "web_scheme sch" "host_ok h" "\<not> HasSuffix h '':''" "k \<noteq> []"
    and s: "s = azure_New ulower (''endpoint='' @ (sch @ ''://'' @ h @ ''/'') @ '';accesskey='' @ base64_std_encode k) from"
  shows "\<exists>req. azure_request ulower (Some s) now msg = Ok req \<and> acs_accepts k req
    \<and> url_String (hr_URL req) = sch @ ''://'' @ h @ ''/emails:send?api-version=2023-03-31''
    \<and> decode_all (hr_Body req) = Some (payload_tree s msg) \<and> az_from s = from
    \<and> (\<forall>tr. azure_SendEmail ulower tr (Some s) now msg = Ok () \<longleftrightarrow> (\<exists>resp. tr req = Ok resp \<and> hs_StatusCode resp = 202))"
proof -
  define E where "E = sch @ ''://'' @ h @ ''/''"
  define K where "K = base64_std_encode k"
  have vis: "visible c \<and> c \<noteq> CHR '';''" if "url_char c" for c
    using that by (auto simp: url_char_def alphanum_def is_digit_def visible_def less_eq_char_def less_char_def)
  have "list_all (\<lambda>c. url_char c \<or> c = CHR '':'' \<or> c = CHR ''/'') E"
    using web_scheme_facts(4) [OF assms(1)] assms(2) by (auto simp: E_def host_ok_def list_all_iff)
  moreover have "visible CHR '':''" "visible CHR ''/''" by code_simp+
  ultimately have "\<forall>c \<in> set E. visible c \<and> c \<noteq> CHR '';''" using vis by (fastforce simp: list_all_iff)
  then have E: "list_all visible E" "CHR '';'' \<notin> set E" by (auto simp: list_all_iff)
  have "list_all (\<lambda>c. visible c \<and> c \<noteq> CHR '';'') (CHR ''='' # std_alphabet)" by code_simp
  moreover have "set K \<subseteq> set (CHR ''='' # std_alphabet)" using base64_chars [OF std_alphabet_ok, of k] by (auto simp: K_def base64_std_encode_def)
  ultimately have "\<forall>c \<in> set K. visible c \<and> c \<noteq> CHR '';''" unfolding list_all_iff by blast
  then have K: "list_all visible K" "CHR '';'' \<notin> set K" by (auto simp: list_all_iff)
  have "sextets k \<noteq> []" using assms(4) by (cases k rule: sextets.cases) simp_all
  then have ne: "E \<noteq> []" "K \<noteq> []" by (simp_all add: E_def K_def base64_std_encode_def base64_encode_sextets)
  have s': "s = \<lparr>az_endpoint = E, az_accessKey = K, az_from = from, az_timeout = 30 * nanos\<rparr>"
    unfolding s azure_New_def E_def [symmetric] K_def [symmetric] parseConnectionString_text [OF E K] by simp
  note u = azure_url [OF assms(1-3), folded E_def]
  have key: "base64_std_decode K = Some k" by (simp add: K_def base64_std_roundtrip)
  obtain req where req: "azure_request ulower (Some s) now msg = Ok req"
    and acc: "acs_accepts k req" "hr_URL req = endpoint_url sch h ''/emails:send'' ''api-version=2023-03-31''" "hr_Body req = azure_payload s msg"
    using ne
    by (simp add: azure_request_def s' u(1-3) signRequest_def key Let_def acs_accepts_def request_target_def u(4) computeHMAC_def
        computeContentHash_def del: append.simps) (simp add: endpoint_url_def blank_url_def)
  have path: "path_ok ''/emails:send''" by code_simp
  have "url_String (hr_URL req) = sch @ ''://'' @ h @ ''/emails:send?api-version=2023-03-31''"
    using url_String_endpoint [OF assms(1,2) path, of "''api-version=2023-03-31''"] by (simp add: acc(2) endpoint_text_def)
  moreover have "decode_all (hr_Body req) = Some (payload_tree s msg)"
    unfolding acc(3) by (rule decode_all_renders) (rule renders_payload)
  moreover have "azure_SendEmail ulower tr (Some s) now msg = Ok () \<longleftrightarrow> (\<exists>resp. tr req = Ok resp \<and> hs_StatusCode resp = 202)" for tr
    by (simp add: azure_SendEmail_def req split: sum.splits)
  ultimately show ?thesis using req acc(1) by (auto simp: s')
qed

section \<open>Witnesses\<close>

definition sample_email :: email_message where
  "sample_email = \<lparr>em_To = ''a@b'', em_Subject = ''hi'', em_Text = ''t'', em_HTML = []\<rparr>"

definition sample_azure :: azure_sender where
  "sample_azure = azure_New id (''endpoint='' @ (''https'' @ ''://'' @ ''acs.example'' @ ''/'') @ '';accesskey='' @ base64_std_encode ''key'') ''bot@b''"

theorem azure_request_authentic_witness:
  "\<exists>req. azure_request id (Some sample_azure) 0 sample_email = Ok req \<and> acs_accepts ''key'' req
     \<and> azure_SendEmail id (\<lambda>_. Ok \<lparr>hs_StatusCode = 202, hs_Body = [], hs_ReadErr = None\<rparr>) (Some sample_azure) 0 sample_email = Ok ()"
proof -
  have "web_scheme ''https''" "host_ok ''acs.example''" "\<not> HasSuffix ''acs.example'' '':''" by code_simp+
  from azure_request_authentic [OF this _ sample_azure_def, of 0 sample_email] show ?thesis by auto
qed

end
