(* ===== verification/Startup.thy ===== *)
theory Startup
  imports Routes Azurecs
begin

text \<open>
  How \<open>bobberd\<close> starts and ends: \<open>loadConfig\<close> and \<open>main\<close> of \<open>backend/cmd/bobberd/main.go\<close>, with
  \<open>internal/observability\<close> (metrics and logger) and the connection pool of
  \<open>internal/persistence/postgres.go\<close>. Viper, zerolog, Prometheus' registry and pgx are parameters.
\<close>

section \<open>Configuration\<close>

record backend_config =
  bc_ListenAddress :: string
  bc_ReadTimeoutSeconds :: int
  bc_WriteTimeoutSeconds :: int
  bc_DSN :: string
  bc_JWTSecret :: string
  bc_Provider :: string
  bc_FromAddress :: string
  bc_ConnectionString :: string
  bc_VerificationTokenTTLHours :: int
  bc_LogLevel :: string
  bc_LogFormat :: string
  bc_MetricsPath :: string
  bc_RateLimits :: rl_config

text \<open>The arguments are what \<open>ReadInConfig\<close> and \<open>Unmarshal\<close> answer.\<close>

definition loadConfig :: "unit res \<Rightarrow> backend_config res \<Rightarrow> backend_config res" where
  "loadConfig readIn unmarshal =
     (case readIn of
        Inl e \<Rightarrow> Fail (Wrap ''read config'' e)
      | Inr _ \<Rightarrow>
          (case unmarshal of
             Inl e \<Rightarrow> Fail (Wrap ''decode config'' e)
           | Inr c \<Rightarrow>
               Ok (c\<lparr>bc_ListenAddress := (if bc_ListenAddress c = [] then '':8080'' else bc_ListenAddress c),
                     bc_ReadTimeoutSeconds := (if bc_ReadTimeoutSeconds c \<le> 0 then 15 else bc_ReadTimeoutSeconds c),
                     bc_WriteTimeoutSeconds := (if bc_WriteTimeoutSeconds c \<le> 0 then 15 else bc_WriteTimeoutSeconds c),
                     bc_MetricsPath := (if bc_MetricsPath c = [] then ''/v1/metrics'' else bc_MetricsPath c)\<rparr>)))"

section \<open>Observability\<close>

datatype metric_kind = CounterVec | HistogramVec | Gauge

record metric =
  mt_Kind :: metric_kind
  mt_Name :: string
  mt_Help :: string
  mt_Labels :: "string list"

record metrics =
  MessagesSent :: metric
  MessagesLatency :: metric
  AgentsOnline :: metric
  ErrorsCount :: metric
  RateLimited :: metric

definition all_metrics :: metrics where
  "all_metrics =
     \<lparr>MessagesSent = \<lparr>mt_Kind = CounterVec, mt_Name = ''bobberchat_messages_sent_total'', mt_Help = ''Total messages sent by BobberChat'',
        mt_Labels = [''agent_id'', ''tag'']\<rparr>,
      MessagesLatency = \<lparr>mt_Kind = HistogramVec, mt_Name = ''bobberchat_messages_latency_ms'', mt_Help = ''Message handling latency in milliseconds'',
        mt_Labels = [''agent_id'']\<rparr>,
      AgentsOnline = \<lparr>mt_Kind = Gauge, mt_Name = ''bobberchat_agents_online'', mt_Help = ''Number of online agents'', mt_Labels = []\<rparr>,
      ErrorsCount = \<lparr>mt_Kind = CounterVec, mt_Name = ''bobberchat_errors_count_total'', mt_Help = ''Total number of errors'',
        mt_Labels = [''agent_id'', ''error_type'']\<rparr>,
      RateLimited = \<lparr>mt_Kind = CounterVec, mt_Name = ''bobberchat_rate_limited_total'', mt_Help = ''Total rate-limited requests'',
        mt_Labels = [''dimension'', ''key'']\<rparr>\<rparr>"

text \<open>
  A registry registers a collector or reports an error, on which \<open>MustRegister\<close> panics; collectors
  with different names do not disturb each other.
\<close>

record 'r registry_lib =
  rg_New :: 'r
  rg_Register :: "metric \<Rightarrow> 'r \<Rightarrow> 'r res"
  rg_Names :: "'r \<Rightarrow> string list"

definition registry_laws :: "'r registry_lib \<Rightarrow> bool" where
  "registry_laws R \<longleftrightarrow>
     rg_Names R (rg_New R) = []
     \<and> (\<forall>m r. mt_Name m \<notin> set (rg_Names R r) \<longrightarrow>
          (\<exists>r'. rg_Register R m r = Ok r' \<and> rg_Names R r' = rg_Names R r @ [mt_Name m]))"

fun MustRegister :: "'r registry_lib \<Rightarrow> metric list \<Rightarrow> 'r \<Rightarrow> 'r res" where
  "MustRegister R [] r = Ok r"
| "MustRegister R (m # ms) r =
     (case rg_Register R m r of Inl e \<Rightarrow> Fail (Wrap ''panic'' e) | Inr r' \<Rightarrow> MustRegister R ms r')"

definition NewMetrics :: "'r registry_lib \<Rightarrow> 'r option \<Rightarrow> (metrics \<times> 'r option) res" where
  "NewMetrics R registry =
     (let m = all_metrics in
      case registry of
        None \<Rightarrow> Ok (m, None)
      | Some r \<Rightarrow>
          bind_res (MustRegister R [MessagesSent m, MessagesLatency m, AgentsOnline m, ErrorsCount m, RateLimited m] r) (\<lambda>r'.
          Ok (m, Some r')))"

record 'l logger =
  lg_Level :: 'l
  lg_Console :: bool

record 'l zerolog_lib =
  zl_ParseLevel :: "string \<Rightarrow> 'l res"
  zl_InfoLevel :: 'l

text \<open>\<open>strings.EqualFold\<close> with a word in lower case.\<close>

definition SetupLogger :: "(string \<Rightarrow> string) \<Rightarrow> 'l zerolog_lib \<Rightarrow> string \<Rightarrow> string \<Rightarrow> 'l logger" where
  "SetupLogger ulower Z level fmt =
     \<lparr>lg_Level = (case zl_ParseLevel Z (ToLower ulower level) of Inl _ \<Rightarrow> zl_InfoLevel Z | Inr l \<Rightarrow> l),
      lg_Console = (fold_name fmt = ''console'' \<or> fold_name fmt = ''text'')\<rparr>"

section \<open>The pool\<close>

text \<open>What pgx answers; the state is the pools that are open.\<close>

record 'p pool_lib =
  pg_New :: "string \<Rightarrow> 'p res"
  pg_Ping :: "'p \<Rightarrow> unit res"

definition pool_close :: "'p \<Rightarrow> (unit, 'p list) action" where
  "pool_close p open_pools = (Ok (), remove1 p open_pools)"

definition NewDB :: "'p pool_lib \<Rightarrow> string \<Rightarrow> ('p, 'p list) action" where
  "NewDB G dsn open_pools =
     (case pg_New G dsn of
        Inl e \<Rightarrow> (Fail (Wrap ''create pgx pool'' e), open_pools)
      | Inr p \<Rightarrow>
          (case pg_Ping G p of
             Inl e \<Rightarrow> bindE (pool_close p) (\<lambda>_. failE (Wrap ''ping postgres'' e)) (p # open_pools)
           | Inr _ \<Rightarrow> (Ok p, p # open_pools)))"

text \<open>The argument is the pool of the \<open>DB\<close>, which may be nil like the \<open>DB\<close> itself.\<close>

definition DB_Pool :: "'p option option \<Rightarrow> 'p option" where
  "DB_Pool db = (case db of None \<Rightarrow> None | Some pool \<Rightarrow> pool)"

definition DB_Close :: "'p option option \<Rightarrow> (unit, 'p list) action" where
  "DB_Close db = (case DB_Pool db of None \<Rightarrow> returnE () | Some p \<Rightarrow> pool_close p)"

section \<open>The main program\<close>

datatype email_provider = Azure azure_sender | Console

definition choose_sender :: "(string \<Rightarrow> string) \<Rightarrow> backend_config \<Rightarrow> email_provider" where
  "choose_sender ulower c =
     (if bc_Provider c = ''azure'' then Azure (azure_New ulower (bc_ConnectionString c) (bc_FromAddress c)) else Console)"

definition verification_ttl :: "backend_config \<Rightarrow> int" where
  "verification_ttl c =
     (let ttl = int64_wrap (bc_VerificationTokenTTLHours c * hour) in if ttl = 0 then 24 * hour else ttl)"

definition choose_limits :: "backend_config \<Rightarrow> rl_config" where
  "choose_limits c =
     (let rl = bc_RateLimits c in if BurstFactor rl = 0 \<and> PerAgentMPS rl = 0 then DefaultConfig else rl)"

definition make_app :: "libs \<Rightarrow> backend_config \<Rightarrow> app" where
  "make_app L c =
     \<lparr>ap_authSvc = NewService True (bc_JWTSecret c) True (verification_ttl c), ap_registrySvc = True, ap_convSvc = True,
      ap_adapters = server_adapters (lib_lower L) (lib_uuid L), ap_metrics = True\<rparr>"

text \<open>The server that \<open>main\<close> listens with, and what its handlers work on.\<close>

record ('l, 'p) started =
  su_App :: app
  su_Limiter :: limiter
  su_Sender :: email_provider
  su_Addr :: string
  su_ReadTimeout :: int
  su_WriteTimeout :: int
  su_Logger :: "'l logger"
  su_Pool :: 'p

definition startup ::
    "libs \<Rightarrow> unit res \<Rightarrow> backend_config res \<Rightarrow> 'l zerolog_lib \<Rightarrow> 'r registry_lib \<Rightarrow> 'p pool_lib
      \<Rightarrow> (('l, 'p) started, 'p list) action" where
  "startup L readIn unmarshal Z R G =
     bindE (wrapE ''panic'' (liftE (loadConfig readIn unmarshal))) (\<lambda>c.
     let logger = SetupLogger (lib_lower L) Z (bc_LogLevel c) (bc_LogFormat c) in
     bindE (liftE (NewMetrics R (Some (rg_New R)))) (\<lambda>_.
     bindE (wrapE ''failed to connect postgres'' (NewDB G (bc_DSN c))) (\<lambda>pool.
     returnE \<lparr>su_App = make_app L c, su_Limiter = New (choose_limits c), su_Sender = choose_sender (lib_lower L) c,
        su_Addr = bc_ListenAddress c,
        su_ReadTimeout = int64_wrap (bc_ReadTimeoutSeconds c * nanos), su_WriteTimeout = int64_wrap (bc_WriteTimeoutSeconds c * nanos),
        su_Logger = logger, su_Pool = pool\<rparr>)))"

text \<open>
  After the start: either the listener fails, which ends the process, or a signal arrives and the
  server is shut down, which may fail; then \<open>main\<close> returns and its deferred call closes the database.
  The result is what is logged. The error with which a listener reports that it was shut down is not a
  failure and does not occur here: the shutdown comes last.
\<close>

datatype serving = ListenFails go_error | Signalled "unit res"

definition serve_until :: "serving \<Rightarrow> ('l, 'p) started \<Rightarrow> (string list, 'p list) action" where
  "serve_until ev st =
     (let listening = [''bobberd listening''];
          drain = (\<lambda>r. listening @ ''shutdown signal received, draining connections''
                     # (case r of Inl _ \<Rightarrow> [''graceful shutdown failed''] | Inr _ \<Rightarrow> [])) in
      case ev of
        ListenFails e \<Rightarrow> failE (Wrap ''server stopped unexpectedly'' e)
      | Signalled r \<Rightarrow> bindE (DB_Close (Some (Some (su_Pool st)))) (\<lambda>_. returnE (drain r)))"

definition bobberd_main ::
    "libs \<Rightarrow> unit res \<Rightarrow> backend_config res \<Rightarrow> 'l zerolog_lib \<Rightarrow> 'r registry_lib \<Rightarrow> 'p pool_lib \<Rightarrow> serving
      \<Rightarrow> (string list, 'p list) action" where
  "bobberd_main L readIn unmarshal Z R G ev = bindE (startup L readIn unmarshal Z R G) (serve_until ev)"

section \<open>What a start leads to\<close>

lemma MustRegister_fresh:
  assumes "registry_laws R" "distinct (rg_Names R r @ map mt_Name ms)"
  shows "\<exists>r'. MustRegister R ms r = Ok r' \<and> rg_Names R r' = rg_Names R r @ map mt_Name ms"
  using assms(2)
proof (induction ms arbitrary: r)
  case (Cons m ms)
  then have "mt_Name m \<notin> set (rg_Names R r)" by auto
  then obtain r1 where r1: "rg_Register R m r = Ok r1" "rg_Names R r1 = rg_Names R r @ [mt_Name m]"
    using assms(1) by (auto simp: registry_laws_def)
  have "distinct (rg_Names R r1 @ map mt_Name ms)" using Cons.prems r1(2) by auto
  from Cons.IH [OF this] show ?case by (auto simp: r1)
qed simp

lemma metric_names_distinct:
  "distinct (map mt_Name [MessagesSent all_metrics, MessagesLatency all_metrics, AgentsOnline all_metrics, ErrorsCount all_metrics, RateLimited all_metrics])"
  by (simp add: all_metrics_def)

lemma NewMetrics_registers: "registry_laws R \<Longrightarrow> \<exists>r. NewMetrics R (Some (rg_New R)) = Ok (all_metrics, Some r)"
  using MustRegister_fresh [of R "rg_New R" "[MessagesSent all_metrics, MessagesLatency all_metrics, AgentsOnline all_metrics,
      ErrorsCount all_metrics, RateLimited all_metrics]"] metric_names_distinct
  by (auto simp: NewMetrics_def bind_res_def registry_laws_def simp del: MustRegister.simps)

lemma int64_wrap_small: "int64_min \<le> x \<Longrightarrow> x \<le> int64_max \<Longrightarrow> int64_wrap x = x"
  by (simp add: int64_wrap_def int64_min_def int64_max_def)

text \<open>A duration of whole seconds that an \<open>int64\<close> can hold in nanoseconds.\<close>

definition fits_seconds :: "int \<Rightarrow> bool" where
  "fits_seconds x \<longleftrightarrow> x \<le> 9223372036"

lemma seconds_positive: "0 < x \<Longrightarrow> fits_seconds x \<Longrightarrow> 0 < int64_wrap (x * nanos) \<and> int64_wrap (x * nanos) = x * nanos"
  by (simp add: int64_wrap_small fits_seconds_def nanos_def int64_min_def int64_max_def)

lemma NewDB_pools:
  "NewDB G dsn pools = (Inr p, pools') \<Longrightarrow> pools' = p # pools" "NewDB G dsn pools = (Inl e, pools') \<Longrightarrow> pools' = pools"
  by (auto simp: NewDB_def bindE_def pool_close_def failE_def split: sum.splits)

text \<open>
  C20. A start leaks no connection and makes a complete server: with a readable configuration and a
  registry that keeps its contract, registering the metrics never panics; the start fails exactly when
  the pool cannot be opened or does not answer, and then no pool stays open; otherwise one pool is
  open, every service has its database, the three adapters are installed, the address is not empty and
  the timeouts are positive; and once a signal arrives the pool is closed again, whether or not the
  shutdown succeeds.
\<close>

theorem startup_complete:
  assumes "registry_laws R" "fits_seconds (bc_ReadTimeoutSeconds c)" "fits_seconds (bc_WriteTimeoutSeconds c)"
  shows "case startup L (Ok ()) (Ok c) Z R G pools of
      (Inl e, pools') \<Rightarrow> pools' = pools \<and> (\<forall>p. pg_New G (bc_DSN c) = Ok p \<longrightarrow> \<not> is_ok (pg_Ping G p))
    | (Inr st, pools') \<Rightarrow> pg_New G (bc_DSN c) = Ok (su_Pool st) \<and> is_ok (pg_Ping G (su_Pool st)) \<and> pools' = su_Pool st # pools
        \<and> (\<forall>r. \<exists>logged. bobberd_main L (Ok ()) (Ok c) Z R G (Signalled r) pools = (Ok logged, pools))
        \<and> as_db (ap_authSvc (su_App st)) \<and> ap_convSvc (su_App st) \<and> ap_registrySvc (su_App st) \<and> as_verificationTTL (ap_authSvc (su_App st)) \<noteq> 0
        \<and> ap_adapters (su_App st) = server_adapters (lib_lower L) (lib_uuid L)
        \<and> su_Addr st \<noteq> [] \<and> 0 < su_ReadTimeout st \<and> 0 < su_WriteTimeout st"
proof -
  obtain c' where c': "loadConfig (Ok ()) (Ok c) = Ok c'" and dsn: "bc_DSN c' = bc_DSN c" "bc_ListenAddress c' \<noteq> []"
      "0 < bc_ReadTimeoutSeconds c'" "fits_seconds (bc_ReadTimeoutSeconds c')" "0 < bc_WriteTimeoutSeconds c'" "fits_seconds (bc_WriteTimeoutSeconds c')"
    using assms(2,3) by (simp add: loadConfig_def) (simp add: fits_seconds_def)
  obtain r where m: "NewMetrics R (Some (rg_New R)) = Ok (all_metrics, Some r)" using NewMetrics_registers [OF assms(1)] by blast
  have ttl: "as_verificationTTL (ap_authSvc (make_app L c')) \<noteq> 0"
    by (simp add: make_app_def NewService_def verification_ttl_def Let_def hour_def nanos_def)
  show ?thesis
    using ttl dsn(2) seconds_positive [OF dsn(3,4)] seconds_positive [OF dsn(5,6)]
    by (simp add: startup_def bindE_def wrapE_def liftE_def c' m dsn(1) NewDB_def pool_close_def failE_def returnE_def DB_Close_def DB_Pool_def
        make_app_def bobberd_main_def serve_until_def split: sum.splits) (simp add: NewService_def)
qed

text \<open>
  C25. A configuration that only switches the rate limits off switches them on: when it sets neither
  the burst factor nor the rate per agent, \<open>main\<close> takes the defaults, which are enabled, whatever the
  configuration says; a configuration that sets one of the two is used as it is.
\<close>

theorem startup_limits:
  assumes "startup L (Ok ()) (Ok c) Z R G pools = (Ok st, pools')"
  shows "if BurstFactor (bc_RateLimits c) = 0 \<and> PerAgentMPS (bc_RateLimits c) = 0
    then cfg (su_Limiter st) = DefaultConfig \<and> Enabled (cfg (su_Limiter st))
    else Enabled (cfg (su_Limiter st)) = Enabled (bc_RateLimits c) \<and> PerAgentMPS (cfg (su_Limiter st)) = PerAgentMPS (bc_RateLimits c)"
proof -
  obtain c' where c': "loadConfig (Ok ()) (Ok c) = Ok c'" "bc_RateLimits c' = bc_RateLimits c" by (simp add: loadConfig_def)
  have "su_Limiter st = New (choose_limits c')"
    using assms by (auto simp: startup_def bindE_Inr wrapE_def liftE_def c'(1) returnE_def split: prod.splits sum.splits)
  then show ?thesis
    by (simp add: choose_limits_def c'(2) Let_def New_def DefaultConfig_def)
qed

section \<open>Witnesses\<close>

definition sample_registry :: "string list registry_lib" where
  "sample_registry = \<lparr>rg_New = [], rg_Register = (\<lambda>m r. if mt_Name m \<in> set r then Fail (Err ''duplicate'') else Ok (r @ [mt_Name m])), rg_Names = (\<lambda>r. r)\<rparr>"

lemma sample_registry_laws: "registry_laws sample_registry"
  by (simp add: registry_laws_def sample_registry_def)

definition sample_pg :: "nat pool_lib" where
  "sample_pg = \<lparr>pg_New = (\<lambda>_. Ok 7), pg_Ping = (\<lambda>_. Ok ())\<rparr>"

definition sample_zerolog :: "nat zerolog_lib" where
  "sample_zerolog = \<lparr>zl_ParseLevel = (\<lambda>_. Fail (Err ''unknown level'')), zl_InfoLevel = 1\<rparr>"

text \<open>A configuration file that says only that the rate limits are off.\<close>

definition sample_backend_config :: backend_config where
  "sample_backend_config = \<lparr>bc_ListenAddress = [], bc_ReadTimeoutSeconds = 0, bc_WriteTimeoutSeconds = 30, bc_DSN = ''dsn'', bc_JWTSecret = ''key'',
     bc_Provider = [], bc_FromAddress = [], bc_ConnectionString = [], bc_VerificationTokenTTLHours = 0, bc_LogLevel = [], bc_LogFormat = [],
     bc_MetricsPath = [], bc_RateLimits = \<lparr>PerAgentMPS = 0, PerGroupMPS = 0, PerTagMPS = 0, BurstFactor = 0, CleanupSecs = 0, Enabled = False\<rparr>\<rparr>"

lemma sample_start: "\<exists>st. startup sample_libs (Ok ()) (Ok sample_backend_config) sample_zerolog sample_registry sample_pg [] = (Ok st, [7])"
proof -
  obtain c' where c': "loadConfig (Ok ()) (Ok sample_backend_config) = Ok c'" by (simp add: loadConfig_def)
  obtain r where "NewMetrics sample_registry (Some (rg_New sample_registry)) = Ok (all_metrics, Some r)"
    using NewMetrics_registers [OF sample_registry_laws] by blast
  then show ?thesis
    by (simp add: startup_def bindE_def wrapE_def liftE_def c' NewDB_def sample_pg_def returnE_def)
qed

theorem startup_complete_witness:
  "\<exists>st. startup sample_libs (Ok ()) (Ok sample_backend_config) sample_zerolog sample_registry sample_pg [] = (Ok st, [7])
     \<and> su_Addr st \<noteq> []
     \<and> (\<exists>logged. bobberd_main sample_libs (Ok ()) (Ok sample_backend_config) sample_zerolog sample_registry sample_pg (Signalled (Ok ())) [] = (Ok logged, []))"
proof -
  obtain st where st: "startup sample_libs (Ok ()) (Ok sample_backend_config) sample_zerolog sample_registry sample_pg [] = (Ok st, [7])"
    using sample_start by blast
  have "fits_seconds (bc_ReadTimeoutSeconds sample_backend_config)" "fits_seconds (bc_WriteTimeoutSeconds sample_backend_config)"
    by (simp_all add: fits_seconds_def sample_backend_config_def)
  from startup_complete [OF sample_registry_laws this, where L = sample_libs and Z = sample_zerolog and G = sample_pg and pools = "[]"] st show ?thesis by auto
qed

theorem startup_limits_witness:
  "\<exists>st. startup sample_libs (Ok ()) (Ok sample_backend_config) sample_zerolog sample_registry sample_pg [] = (Ok st, [7])
     \<and> \<not> Enabled (bc_RateLimits sample_backend_config) \<and> Enabled (cfg (su_Limiter st))"
proof -
  obtain st where st: "startup sample_libs (Ok ()) (Ok sample_backend_config) sample_zerolog sample_registry sample_pg [] = (Ok st, [7])"
    using sample_start by blast
  from startup_limits [OF st] st show ?thesis by (auto simp: sample_backend_config_def)
qed

end
